(* ===== verification/Prelude.thy ===== *)
theory Prelude
  imports Complex_Main
begin

text \<open>
  Shared vocabulary of the development: the collections of simplification facts that the
  component theories extend, generic facts on lists, the runner that folds a step function
  over a list of events, and the two interface locales every stateful component of the
  front end is proved against (an invariant kept by every step, and a step system whose
  states stay inside a set of good states only while the events are good).
\<close>

named_theorems js_simps \<open>equations of the modelled JavaScript built-ins\<close>
named_theorems step_simps \<open>one-step equations of the modelled handlers\<close>

subsection \<open>Lists\<close>

lemma last_in_snoc [simp]: "last (xs @ [x]) = x"
  by simp

lemma butlast_snoc_last: "xs \<noteq> [] \<Longrightarrow> butlast xs @ [last xs] = xs"
  by simp

lemma hd_take_pos: "0 < n \<Longrightarrow> xs \<noteq> [] \<Longrightarrow> hd (take n xs) = hd xs"
  by (cases xs; cases n) auto

lemma filter_all_in:
  "\<forall>x \<in> set ys. \<not> P x \<Longrightarrow> \<forall>x \<in> set xs. P x \<Longrightarrow> filter P (xs @ ys) = xs"
  by simp

subsection \<open>Running a step function over events\<close>

fun run :: "('s \<Rightarrow> 'e \<Rightarrow> 's) \<Rightarrow> 's \<Rightarrow> 'e list \<Rightarrow> 's" where
  "run step s [] = s"
| "run step s (e # es) = run step (step s e) es"

lemma run_append [simp]: "run step s (es @ fs) = run step (run step s es) fs"
  by (induction es arbitrary: s) auto

lemma run_snoc: "run step s (es @ [e]) = step (run step s es) e"
  by simp

text \<open>Where something that holds after a run began to hold.\<close>

lemma run_origin:
  "P (run step s es) \<Longrightarrow> \<not> P s \<Longrightarrow>
    \<exists>pre e post. es = pre @ e # post \<and> \<not> P (run step s pre) \<and> P (step (run step s pre) e)"
proof (induction es rule: rev_induct)
  case (snoc e es)
  show ?case
  proof (cases "P (run step s es)")
    case True
    then obtain pre f post where "es = pre @ f # post" "\<not> P (run step s pre)" "P (step (run step s pre) f)"
      using snoc by blast
    then show ?thesis by (intro exI [of _ pre] exI [of _ f] exI [of _ "post @ [e]"]) simp
  next
    case False
    then show ?thesis using snoc.prems by (intro exI [of _ es] exI [of _ e] exI [of _ "[]"]) simp
  qed
qed simp

text \<open>The contract of a component whose every operation keeps an invariant.\<close>

locale invariant_steps =
  fixes step :: "'s \<Rightarrow> 'e \<Rightarrow> 's"
    and inv :: "'s \<Rightarrow> bool"
  assumes step_inv: "inv s \<Longrightarrow> inv (step s e)"
begin

lemma run_inv: "inv s \<Longrightarrow> inv (run step s es)"
  by (induction es arbitrary: s) (auto intro: step_inv)

lemma prefix_inv: "inv s \<Longrightarrow> n \<le> length es \<Longrightarrow> inv (run step s (take n es))"
  by (rule run_inv)

end

text \<open>The same contract when only events that satisfy a condition keep the invariant.\<close>

locale guarded_steps =
  fixes step :: "'s \<Rightarrow> 'e \<Rightarrow> 's"
    and inv :: "'s \<Rightarrow> bool"
    and ok :: "'e \<Rightarrow> bool"
  assumes guarded_inv: "inv s \<Longrightarrow> ok e \<Longrightarrow> inv (step s e)"
begin

lemma run_guarded: "inv s \<Longrightarrow> list_all ok es \<Longrightarrow> inv (run step s es)"
  by (induction es arbitrary: s) (auto intro: guarded_inv)

end

sublocale invariant_steps \<subseteq> guarded_steps step inv "\<lambda>_. True"
  by unfold_locales (rule step_inv)

end
