(* ===== verification/JsString.thy ===== *)
theory JsString
  imports Prelude
begin

text \<open>
  The string built-ins the front end calls, with the library's conventions written out:
  \<open>indexOf\<close> answers \<open>-1\<close> when nothing is found, \<open>substring\<close> clamps and swaps its
  bounds, \<open>replace\<close> with a string pattern replaces the first occurrence only and expands
  \<open>$$\<close> in the replacement, \<open>split\<close> keeps empty pieces. A \<open>char\<close> is a UTF-16 code
  unit of the Latin-1 range (0 to 255); the white space and the case mapping are the ones
  ECMAScript gives for that range.
\<close>

subsection \<open>Trimming and case\<close>

definition js_ws :: "char \<Rightarrow> bool" where
  "js_ws c \<longleftrightarrow> c \<in> set [CHR 0x09, CHR 0x0A, CHR 0x0B, CHR 0x0C, CHR 0x0D, CHR 0x20, CHR 0xA0]"

definition trim_start :: "string \<Rightarrow> string" where
  "trim_start s = dropWhile js_ws s"

definition trim_end :: "string \<Rightarrow> string" where
  "trim_end s = rev (dropWhile js_ws (rev s))"

definition trim :: "string \<Rightarrow> string" where
  "trim s = trim_end (trim_start s)"

definition lower_char :: "char \<Rightarrow> char" where
  "lower_char c = (let n = of_char c :: nat in
     if (65 \<le> n \<and> n \<le> 90) \<or> (192 \<le> n \<and> n \<le> 222 \<and> n \<noteq> 215) then char_of (n + 32) else c)"

definition to_lower :: "string \<Rightarrow> string" where
  "to_lower s = map lower_char s"

subsection \<open>Searching\<close>

fun starts_with :: "string \<Rightarrow> string \<Rightarrow> bool" where
  "starts_with [] s = True"
| "starts_with (p # ps) [] = False"
| "starts_with (p # ps) (c # s) = (p = c \<and> starts_with ps s)"

fun find_at :: "string \<Rightarrow> string \<Rightarrow> nat option" where
  "find_at p [] = (if p = [] then Some 0 else None)"
| "find_at p (c # s) = (if starts_with p (c # s) then Some 0 else map_option Suc (find_at p s))"

definition index_of :: "string \<Rightarrow> string \<Rightarrow> int" where
  "index_of p s = (case find_at p s of None \<Rightarrow> - 1 | Some n \<Rightarrow> int n)"

definition js_includes :: "string \<Rightarrow> string \<Rightarrow> bool" where
  "js_includes p s \<longleftrightarrow> find_at p s \<noteq> None"

definition substring :: "string \<Rightarrow> int \<Rightarrow> int \<Rightarrow> string" where
  "substring s a b = (let n = int (length s);
       a' = max 0 (min a n); b' = max 0 (min b n);
       lo = min a' b'; hi = max a' b'
     in take (nat (hi - lo)) (drop (nat lo) s))"

subsection \<open>Replacing and splitting\<close>

fun expand_dollar :: "string \<Rightarrow> string" where
  "expand_dollar [] = []"
| "expand_dollar [c] = [c]"
| "expand_dollar (c # d # s) =
     (if c = CHR ''$'' \<and> d = CHR ''$'' then CHR ''$'' # expand_dollar s
      else c # expand_dollar (d # s))"

definition replace_first :: "string \<Rightarrow> string \<Rightarrow> string \<Rightarrow> string" where
  "replace_first p r s = (case find_at p s of None \<Rightarrow> s
     | Some n \<Rightarrow> take n s @ expand_dollar r @ drop (n + length p) s)"

fun replace_all_from :: "nat \<Rightarrow> string \<Rightarrow> string \<Rightarrow> string \<Rightarrow> string" where
  "replace_all_from k p r [] = []"
| "replace_all_from (Suc k) p r (c # s) = replace_all_from k p r s"
| "replace_all_from 0 p r (c # s) =
     (if starts_with p (c # s) then expand_dollar r @ replace_all_from (length p - 1) p r s
      else c # replace_all_from 0 p r s)"

definition replace_all :: "string \<Rightarrow> string \<Rightarrow> string \<Rightarrow> string" where
  "replace_all p r s = replace_all_from 0 p r s"

fun split_on :: "char \<Rightarrow> string \<Rightarrow> string list" where
  "split_on d [] = [[]]"
| "split_on d (c # s) =
     (if c = d then [] # split_on d s
      else (case split_on d s of [] \<Rightarrow> [[c]] | l # ls \<Rightarrow> (c # l) # ls))"

fun join_with :: "string \<Rightarrow> string list \<Rightarrow> string" where
  "join_with d [] = []"
| "join_with d [x] = x"
| "join_with d (x # y # zs) = x @ d @ join_with d (y # zs)"

subsection \<open>Facts\<close>

lemma starts_with_iff: "starts_with p s \<longleftrightarrow> (\<exists>t. s = p @ t)"
  by (induction p s rule: starts_with.induct) auto

lemma starts_with_append [simp]: "starts_with p (p @ s)"
  by (auto simp: starts_with_iff)

lemma starts_with_length: "starts_with p s \<Longrightarrow> length p \<le> length s"
  by (auto simp: starts_with_iff)

lemma find_at_Some_split:
  "find_at p s = Some n \<Longrightarrow> s = take n s @ p @ drop (n + length p) s \<and> n + length p \<le> length s"
proof (induction s arbitrary: n)
  case Nil
  then show ?case by (auto split: if_splits)
next
  case (Cons c s)
  then show ?case
    by (auto split: if_splits simp: starts_with_iff dest: arg_cong [where f = length])
qed

lemma find_at_None_iff: "find_at p s = None \<longleftrightarrow> (\<nexists>u v. s = u @ p @ v)"
proof (induction s)
  case Nil
  then show ?case by auto
next
  case (Cons c s)
  have "(\<exists>u v. c # s = u @ p @ v) \<longleftrightarrow> starts_with p (c # s) \<or> (\<exists>u v. s = u @ p @ v)"
    by (auto simp: starts_with_iff Cons_eq_append_conv)
  with Cons show ?case by auto
qed

lemma starts_with_appendD: "starts_with p (u @ v) \<Longrightarrow> length p \<le> length u \<Longrightarrow> starts_with p u"
  by (auto simp: starts_with_iff append_eq_append_conv2)

text \<open>
  A tag whose first character does not occur again in it cannot overlap itself, so the
  first occurrence after a text without the tag is the tag that follows the text.
\<close>

lemma starts_with_overlap:
  assumes "p \<noteq> []" and "hd p \<notin> set (tl p)" and "u \<noteq> []" and "length u < length p"
    and "s \<noteq> []" and "hd s = hd p"
  shows "\<not> starts_with p (u @ s)"
proof
  assume "starts_with p (u @ s)"
  then obtain t where t: "u @ s = p @ t" by (auto simp: starts_with_iff)
  have "(u @ s) ! length u = hd p" using assms(5,6) by (simp add: nth_append hd_conv_nth)
  moreover have "(p @ t) ! length u = p ! length u" using assms(4) by (simp add: nth_append)
  moreover have "p ! length u = tl p ! (length u - 1)"
    using assms(1,3) by (cases p; cases u) auto
  moreover have "tl p ! (length u - 1) \<in> set (tl p)"
    using assms(3,4) by (intro nth_mem) (cases u; auto)
  ultimately show False using t assms(2) by simp
qed

lemma find_at_append:
  assumes "p \<noteq> []" and "hd p \<notin> set (tl p)" and "s \<noteq> []" and "hd s = hd p"
  shows "find_at p u = None \<Longrightarrow> find_at p (u @ s) = map_option ((+) (length u)) (find_at p s)"
proof (induction u)
  case Nil
  then show ?case by (simp add: option.map_ident)
next
  case (Cons c u)
  from Cons.prems have no: "\<not> starts_with p (c # u)" and "find_at p u = None"
    by (auto split: if_splits)
  moreover have "\<not> starts_with p ((c # u) @ s)"
  proof (cases "length (c # u) < length p")
    case True
    then show ?thesis by (intro starts_with_overlap assms) simp
  next
    case False
    with no show ?thesis using starts_with_appendD [of p "c # u" s] by auto
  qed
  ultimately show ?case using Cons.IH by (cases "find_at p s") auto
qed

lemma find_at_left: "find_at p u = Some n \<Longrightarrow> find_at p (u @ x) = Some n"
proof (induction u arbitrary: n)
  case Nil
  then show ?case by (cases x) (auto split: if_splits)
next
  case (Cons c u)
  show ?case
  proof (cases "starts_with p (c # u)")
    case True
    then have "starts_with p ((c # u) @ x)" by (auto simp: starts_with_iff simp flip: append_Cons)
    with True Cons.prems show ?thesis by simp
  next
    case False
    with Cons.prems obtain m where m: "find_at p u = Some m" "n = Suc m" by auto
    have "m + length p \<le> length u" using m(1) find_at_Some_split by blast
    then have "\<not> starts_with p ((c # u) @ x)"
      using False starts_with_appendD [of p "c # u" x] by auto
    with m Cons.IH show ?thesis by simp
  qed
qed

lemma find_at_None_left: "find_at p (u @ x) = None \<Longrightarrow> find_at p u = None"
  using find_at_left [of p u _ x] by (cases "find_at p u") auto

text \<open>The first occurrence cuts a text into a part without the pattern, the pattern, the rest.\<close>

lemma find_at_cut:
  assumes "find_at p s = Some n" and "p \<noteq> []"
  obtains u v where "s = u @ p @ v" and "length u = n" and "find_at p u = None"
proof
  show "s = take n s @ p @ drop (n + length p) s" and "length (take n s) = n"
    using find_at_Some_split [OF assms(1)] by auto
  show "find_at p (take n s) = None"
  proof (rule ccontr)
    assume "find_at p (take n s) \<noteq> None"
    then obtain m where m: "find_at p (take n s) = Some m" by auto
    then have "m + length p \<le> n" using find_at_Some_split by force
    moreover have "m = n"
      using find_at_left [OF m, of "drop n s"] assms(1) by simp
    ultimately show False using assms(2) by simp
  qed
qed

lemma find_at_here: "p \<noteq> [] \<Longrightarrow> find_at p (p @ v) = Some 0"
  using starts_with_append [of p v] by (cases p) auto

lemma find_at_after:
  assumes "p \<noteq> []" and "hd p \<notin> set (tl p)" and "find_at p u = None"
  shows "find_at p (u @ p @ v) = Some (length u)"
  using find_at_append [OF assms(1,2) _ _ assms(3), of "p @ v"] assms(1)
  by (simp add: find_at_here)

lemma find_at_extend:
  "find_at q s = Some n \<Longrightarrow> starts_with (q @ x) (drop n s) \<Longrightarrow> find_at (q @ x) s = Some n"
proof (induction s arbitrary: n)
  case Nil
  then show ?case by (auto split: if_splits simp: starts_with_iff)
next
  case (Cons c s)
  show ?case
  proof (cases "starts_with q (c # s)")
    case True
    with Cons.prems show ?thesis by simp
  next
    case False
    with Cons.prems obtain m where m: "find_at q s = Some m" "n = Suc m" by auto
    from False have "\<not> starts_with (q @ x) (c # s)" by (auto simp: starts_with_iff)
    with m Cons show ?thesis by simp
  qed
qed

lemma replace_first_here:
  "find_at p s = Some n \<Longrightarrow> replace_first p [] s = take n s @ drop (n + length p) s"
  by (simp add: replace_first_def)

lemma js_includes_iff: "js_includes p s \<longleftrightarrow> (\<exists>u v. s = u @ p @ v)"
  using find_at_None_iff [of p s] by (auto simp: js_includes_def)

lemma js_includes_index: "js_includes p s \<longleftrightarrow> 0 \<le> index_of p s"
  by (auto simp: js_includes_def index_of_def split: option.splits)

lemma js_includes_length: "js_includes p s \<Longrightarrow> length p \<le> length s"
  by (auto simp: js_includes_iff)

lemma js_includes_sub: "js_includes p t \<Longrightarrow> js_includes p (u @ t @ v)"
proof -
  assume "js_includes p t"
  then obtain a b where "t = a @ p @ b" by (auto simp: js_includes_iff)
  then have "u @ t @ v = (u @ a) @ p @ (b @ v)" by simp
  then show ?thesis unfolding js_includes_iff by blast
qed

lemma trim_start_suffix: "\<exists>u. s = u @ trim_start s"
  unfolding trim_start_def by (metis takeWhile_dropWhile_id)

lemma trim_end_prefix: "\<exists>v. s = trim_end s @ v"
  unfolding trim_end_def
  by (metis rev_append rev_rev_ident takeWhile_dropWhile_id)

lemma trim_sub: "\<exists>u v. s = u @ trim s @ v"
  using trim_start_suffix [of s] trim_end_prefix [of "trim_start s"] unfolding trim_def
  by metis

lemma not_includes_trim: "\<not> js_includes p s \<Longrightarrow> \<not> js_includes p (trim s)"
  using trim_sub [of s] js_includes_sub by metis

lemma length_trim: "length (trim s) \<le> length s"
proof -
  obtain u v where "s = u @ trim s @ v" using trim_sub by blast
  then have "length s = length u + length (trim s) + length v"
    by (metis add.assoc length_append)
  then show ?thesis by simp
qed

lemma dropWhile_hd_id: "xs = [] \<or> \<not> P (hd xs) \<Longrightarrow> dropWhile P xs = xs"
  by (cases xs) auto

lemma trim_id: "s = [] \<or> \<not> js_ws (hd s) \<and> \<not> js_ws (last s) \<Longrightarrow> trim s = s"
  by (auto simp: trim_def trim_start_def trim_end_def dropWhile_hd_id hd_rev)

lemma trim_Nil [simp]: "trim [] = []"
  by (simp add: trim_id)

lemma trim_ends: "trim s \<noteq> [] \<Longrightarrow> \<not> js_ws (hd (trim s)) \<and> \<not> js_ws (last (trim s))"
proof
  let ?t = "trim_start s"
  assume ne: "trim s \<noteq> []"
  show "\<not> js_ws (last (trim s))"
    using ne hd_dropWhile [of js_ws "rev ?t"]
    by (auto simp: trim_def trim_end_def last_rev)
  obtain v where v: "?t = trim s @ v"
    using trim_end_prefix [of ?t] by (auto simp: trim_def)
  then have "hd ?t = hd (trim s)" using ne by (simp add: hd_append)
  moreover from v ne have "?t \<noteq> []" by auto
  ultimately show "\<not> js_ws (hd (trim s))"
    using hd_dropWhile [of js_ws s] by (auto simp: trim_start_def)
qed

lemma trim_idem [simp]: "trim (trim s) = trim s"
  using trim_ends [of s] by (intro trim_id) auto

lemma length_replace_first:
  "js_includes p s \<Longrightarrow> length (replace_first p [] s) = length s - length p"
  using find_at_Some_split [of p s]
  by (auto simp: js_includes_def replace_first_def)

lemma split_on_nonempty [simp]: "split_on d s \<noteq> []"
  by (induction s) (auto split: list.splits)

lemma split_on_append_sep:
  "d \<notin> set l \<Longrightarrow> split_on d (l @ d # s) = l # split_on d s"
  by (induction l) auto

lemma split_on_no_sep: "d \<notin> set l \<Longrightarrow> split_on d l = [l]"
  by (induction l) auto

lemma split_on_no_sep_in: "l \<in> set (split_on d s) \<Longrightarrow> d \<notin> set l"
  by (induction s arbitrary: l) (auto split: list.splits if_splits)

lemma join_split_on: "join_with [d] (split_on d s) = s"
proof (induction s)
  case Nil
  then show ?case by simp
next
  case (Cons c s)
  obtain l ls where "split_on d s = l # ls" using split_on_nonempty by (metis list.exhaust)
  with Cons show ?case by (cases ls) auto
qed

end
