(* ===== verification/JsValue.thy ===== *)
theory JsValue
  imports JsString
begin

text \<open>
  JavaScript values as the services handle them: whatever \<open>JSON.parse\<close> can return, and
  \<open>undefined\<close>. Numbers are rationals (finite doubles are; JSON has no others). Property
  reads on \<open>undefined\<close> and \<open>null\<close> raise, reads of a missing property are
  \<open>undefined\<close>, prototype methods are not values here. \<open>===\<close> on arrays and objects is
  identity, which two values parsed apart never have.
\<close>

datatype jval =
    JUndef
  | JNull
  | JBool bool
  | JNum rat
  | JStr string
  | JArr "jval list"
  | JObj "(string \<times> jval) list"

datatype js_error = JsErr string string | JsThrow jval

abbreviation type_error :: js_error where
  "type_error \<equiv> JsErr ''TypeError'' []"

type_synonym 'a js_result = "js_error + 'a"

definition js_bind :: "'a js_result \<Rightarrow> ('a \<Rightarrow> 'b js_result) \<Rightarrow> 'b js_result" where
  "js_bind x f = (case x of Inl e \<Rightarrow> Inl e | Inr v \<Rightarrow> f v)"

lemma js_bind_simps [simp]: "js_bind (Inl e) f = Inl e" "js_bind (Inr v) f = f v"
  by (simp_all add: js_bind_def)

lemma js_bind_Inr_iff: "js_bind x f = Inr w \<longleftrightarrow> (\<exists>v. x = Inr v \<and> f v = Inr w)"
  by (cases x) auto

fun truthy :: "jval \<Rightarrow> bool" where
  "truthy JUndef = False"
| "truthy JNull = False"
| "truthy (JBool b) = b"
| "truthy (JNum n) = (n \<noteq> 0)"
| "truthy (JStr s) = (s \<noteq> [])"
| "truthy (JArr xs) = True"
| "truthy (JObj kvs) = True"

definition js_or :: "jval \<Rightarrow> jval \<Rightarrow> jval" where
  "js_or a b = (if truthy a then a else b)"

definition js_and :: "jval \<Rightarrow> jval \<Rightarrow> jval" where
  "js_and a b = (if truthy a then b else a)"

fun strict_eq :: "jval \<Rightarrow> jval \<Rightarrow> bool" where
  "strict_eq (JArr xs) b = False"
| "strict_eq (JObj kvs) b = False"
| "strict_eq a b = (a = b)"

definition obj_get :: "(string \<times> jval) list \<Rightarrow> string \<Rightarrow> jval" where
  "obj_get kvs k = (case map_of kvs k of None \<Rightarrow> JUndef | Some v \<Rightarrow> v)"

fun get_prop :: "jval \<Rightarrow> string \<Rightarrow> jval js_result" where
  "get_prop JUndef k = Inl type_error"
| "get_prop JNull k = Inl type_error"
| "get_prop (JStr s) k = Inr (if k = ''length'' then JNum (of_nat (length s)) else JUndef)"
| "get_prop (JArr xs) k = Inr (if k = ''length'' then JNum (of_nat (length xs)) else JUndef)"
| "get_prop (JObj kvs) k = Inr (obj_get kvs k)"
| "get_prop (JBool b) k = Inr JUndef"
| "get_prop (JNum n) k = Inr JUndef"

text \<open>A property read where \<open>v\<close> is known to be neither \<open>undefined\<close> nor \<open>null\<close>.\<close>

definition prop_of :: "jval \<Rightarrow> string \<Rightarrow> jval" where
  "prop_of v k = (case get_prop v k of Inl e \<Rightarrow> JUndef | Inr w \<Rightarrow> w)"

text \<open>\<open>v[0]\<close>.\<close>

fun get_first :: "jval \<Rightarrow> jval js_result" where
  "get_first JUndef = Inl type_error"
| "get_first JNull = Inl type_error"
| "get_first (JStr s) = Inr (case s of [] \<Rightarrow> JUndef | c # _ \<Rightarrow> JStr [c])"
| "get_first (JArr xs) = Inr (case xs of [] \<Rightarrow> JUndef | x # _ \<Rightarrow> x)"
| "get_first (JObj kvs) = Inr (obj_get kvs ''0'')"
| "get_first (JBool b) = Inr JUndef"
| "get_first (JNum n) = Inr JUndef"

text \<open>The elements a \<open>forEach\<close>, \<open>map\<close> or \<open>find\<close> visits; other values have no such method.\<close>

fun js_elems :: "jval \<Rightarrow> jval list js_result" where
  "js_elems (JArr xs) = Inr xs"
| "js_elems v = Inl type_error"

fun is_str :: "jval \<Rightarrow> bool" where
  "is_str (JStr s) = True"
| "is_str v = False"

subsection \<open>What JSON keeps of a value\<close>

text \<open>
  \<open>JSON.stringify\<close> drops \<open>undefined\<close> properties and writes \<open>null\<close> for \<open>undefined\<close> array
  elements; apart from that the text determines the value. The front end only compares two
  such texts, so the value after this normalisation stands for the text.
\<close>

fun json_tree :: "jval \<Rightarrow> jval" and json_elem :: "jval \<Rightarrow> jval"
  and json_elems :: "jval list \<Rightarrow> jval list"
  and json_fields :: "(string \<times> jval) list \<Rightarrow> (string \<times> jval) list" where
  "json_tree (JArr xs) = JArr (json_elems xs)"
| "json_tree (JObj kvs) = JObj (json_fields kvs)"
| "json_tree v = v"
| "json_elem v = (if v = JUndef then JNull else json_tree v)"
| "json_elems [] = []"
| "json_elems (x # xs) = json_elem x # json_elems xs"
| "json_fields [] = []"
| "json_fields ((k, v) # kvs) =
     (if v = JUndef then json_fields kvs else (k, json_tree v) # json_fields kvs)"

lemma json_elems_map: "json_elems xs = map json_elem xs"
  by (induction xs) auto

subsection \<open>Facts\<close>

lemmas js_value_simps [js_simps] = truthy.simps js_or_def js_and_def strict_eq.simps obj_get_def
  get_prop.simps get_first.simps js_elems.simps is_str.simps js_bind_simps

lemma truthy_js_or: "truthy (js_or a b) \<longleftrightarrow> truthy a \<or> truthy b"
  by (simp add: js_or_def)

lemma truthy_js_and: "truthy (js_and a b) \<longleftrightarrow> truthy a \<and> truthy b"
  by (simp add: js_and_def)

lemma get_prop_Inr: "v \<noteq> JUndef \<Longrightarrow> v \<noteq> JNull \<Longrightarrow> get_prop v k = Inr (prop_of v k)"
  by (cases v) (auto simp: prop_of_def)

lemma prop_of_JObj: "prop_of (JObj kvs) = obj_get kvs"
  by (simp add: prop_of_def fun_eq_iff)

lemma prop_of_Inr: "get_prop v k = Inr w \<Longrightarrow> prop_of v k = w"
  by (simp add: prop_of_def)

lemma strict_eq_sym: "strict_eq a b = strict_eq b a"
  by (cases a; cases b) auto

lemma strict_eq_eq: "strict_eq a b \<Longrightarrow> a = b"
  by (cases a) auto

lemma strict_eq_JStr [simp]: "strict_eq a (JStr s) \<longleftrightarrow> a = JStr s"
  by (cases a) auto

lemma strict_eq_trans: "strict_eq a b \<Longrightarrow> strict_eq b c \<Longrightarrow> strict_eq a c"
  by (metis strict_eq_eq)

text \<open>A value that \<open>===\<close> can find again: anything but an array or an object.\<close>

definition primitive :: "jval \<Rightarrow> bool" where
  "primitive v \<longleftrightarrow> strict_eq v v"

lemma strict_eq_primitive: "primitive a \<Longrightarrow> strict_eq a b \<longleftrightarrow> a = b"
  by (cases a) (auto simp: primitive_def)

end
