(* ===== verification/Framing.thy ===== *)
theory Framing
  imports JsString
begin

text \<open>
  Both network clients of the front end cut a byte stream into lines the same way: append the
  decoded chunk to a buffer, split at newlines, keep the last piece for the next chunk. The
  locale states what a client relies on; the theories of the two clients interpret it on
  their own framing step. What follows from it is that the lines a client sees do not depend
  on where the network cut the stream into chunks.
\<close>

abbreviation NL :: char where "NL \<equiv> CHR 0x0A"

definition unlines :: "string list \<Rightarrow> string" where
  "unlines ls = concat (map (\<lambda>l. l @ [NL]) ls)"

definition complete_lines :: "string \<Rightarrow> string list" where
  "complete_lines s = butlast (split_on NL s)"

definition rest_line :: "string \<Rightarrow> string" where
  "rest_line s = last (split_on NL s)"

fun feed_all :: "(string \<Rightarrow> string \<Rightarrow> string list \<times> string) \<Rightarrow> string \<Rightarrow> string list
    \<Rightarrow> string list \<times> string" where
  "feed_all frame b [] = ([], b)"
| "feed_all frame b (c # cs) =
     (case frame b c of (ls, b1) \<Rightarrow>
       (case feed_all frame b1 cs of (ls', b2) \<Rightarrow> (ls @ ls', b2)))"

lemma unlines_Nil [simp]: "unlines [] = []"
  by (simp add: unlines_def)

lemma unlines_Cons [simp]: "unlines (l # ls) = l @ NL # unlines ls"
  by (simp add: unlines_def)

lemma unlines_append [simp]: "unlines (ls @ ks) = unlines ls @ unlines ks"
  by (simp add: unlines_def)

lemma split_on_unlines:
  "\<forall>l \<in> set ls. NL \<notin> set l \<Longrightarrow> NL \<notin> set b \<Longrightarrow> split_on NL (unlines ls @ b) = ls @ [b]"
  by (induction ls) (auto simp: split_on_append_sep split_on_no_sep)

lemma unlines_split_on: "unlines (complete_lines s) @ rest_line s = s"
proof (induction s)
  case Nil
  then show ?case by (simp add: complete_lines_def rest_line_def)
next
  case (Cons c s)
  obtain l ls where l: "split_on NL s = l # ls" using split_on_nonempty by (metis list.exhaust)
  with Cons show ?case
    by (cases ls) (auto simp: complete_lines_def rest_line_def)
qed

lemma complete_lines_no_NL: "l \<in> set (complete_lines s) \<Longrightarrow> NL \<notin> set l"
  unfolding complete_lines_def by (meson in_set_butlastD split_on_no_sep_in)

lemma rest_line_no_NL: "NL \<notin> set (rest_line s)"
  unfolding rest_line_def by (metis last_in_set split_on_nonempty split_on_no_sep_in)

lemma rest_line_id: "NL \<notin> set b \<Longrightarrow> rest_line b = b"
  by (simp add: rest_line_def split_on_no_sep)

lemma complete_lines_none: "NL \<notin> set b \<Longrightarrow> complete_lines b = []"
  by (simp add: complete_lines_def split_on_no_sep)

locale line_framer =
  fixes frame :: "string \<Rightarrow> string \<Rightarrow> string list \<times> string"
  assumes frame_text: "frame b c = (ls, b') \<Longrightarrow> unlines ls @ b' = b @ c"
    and frame_lines: "frame b c = (ls, b') \<Longrightarrow> l \<in> set ls \<Longrightarrow> NL \<notin> set l"
    and frame_rest: "frame b c = (ls, b') \<Longrightarrow> NL \<notin> set b'"
begin

lemma feed_text: "feed_all frame b cs = (ls, b') \<Longrightarrow> unlines ls @ b' = b @ concat cs"
proof (induction cs arbitrary: b ls b')
  case Nil
  then show ?case by simp
next
  case (Cons c cs)
  obtain l1 b1 where 1: "frame b c = (l1, b1)" by (cases "frame b c")
  obtain l2 b2 where 2: "feed_all frame b1 cs = (l2, b2)" by (cases "feed_all frame b1 cs")
  from Cons.prems 1 2 have "ls = l1 @ l2" "b' = b2" by auto
  with Cons.IH [OF 2] frame_text [OF 1] show ?case by (metis append.assoc concat.simps(2) unlines_append)
qed

lemma feed_clean:
  "NL \<notin> set b \<Longrightarrow> feed_all frame b cs = (ls, b') \<Longrightarrow>
   (\<forall>l \<in> set ls. NL \<notin> set l) \<and> NL \<notin> set b'"
proof (induction cs arbitrary: b ls b')
  case Nil
  then show ?case by simp
next
  case (Cons c cs)
  obtain l1 b1 where 1: "frame b c = (l1, b1)" by (cases "frame b c")
  obtain l2 b2 where 2: "feed_all frame b1 cs = (l2, b2)" by (cases "feed_all frame b1 cs")
  from Cons.prems 1 2 have "ls = l1 @ l2" "b' = b2" by auto
  with Cons.IH [OF frame_rest [OF 1] 2] frame_lines [OF 1] show ?case by auto
qed

lemma feed_all_eq:
  assumes "NL \<notin> set b"
  shows "feed_all frame b cs = (complete_lines (b @ concat cs), rest_line (b @ concat cs))"
proof -
  obtain ls b' where f: "feed_all frame b cs = (ls, b')" by fastforce
  have "split_on NL (unlines ls @ b') = ls @ [b']"
    using feed_clean [OF assms f] by (intro split_on_unlines) auto
  then show ?thesis
    using feed_text [OF f] f by (simp add: complete_lines_def rest_line_def)
qed

lemma chunking_irrelevant:
  "NL \<notin> set b \<Longrightarrow> concat cs = concat ds \<Longrightarrow> feed_all frame b cs = feed_all frame b ds"
  by (simp add: feed_all_eq)

end

end
