(* ===== verification/HttpStream.thy ===== *)
theory HttpStream
  imports JsValue Framing
begin

text \<open>
  \<^verbatim>\<open>services/http-stream.ts\<close>: the client of a newline-delimited JSON stream, with a
  connection timeout and automatic reconnection. The closures of one client share the variables
  \<open>abortController\<close>, \<open>reader\<close> and \<open>previousSendOptions\<close>, while every \<open>send\<close> starts a
  promise chain of its own, so the state below holds the shared variables once and the
  progress of each request in a list; a request is named by its position. Awaiting
  \<open>reader.cancel()\<close> is taken as immediate and successful. \<open>decode\<close> stands for the text decoder, \<open>parse\<close>
  for \<open>JSON.parse\<close>, \<open>after\<close> for the \<open>afterFetch\<close> option; \<open>None\<close> is an exception.
\<close>

datatype http_status = H_connecting | H_connected | H_disconnected | H_error

record 's http_options =
  auto_reconnect :: bool
  on_status :: "http_status \<Rightarrow> 's \<Rightarrow> 's"
  on_msg :: "jval \<Rightarrow> 's \<Rightarrow> 's"
  on_err :: "js_error \<Rightarrow> 's \<Rightarrow> 's"

text \<open>The options as a user of the client gives them, and what the client makes of those left out.
  The interval of reconnections has no part here: a timer fires at any time after it is armed.\<close>

record 's stream_given =
  sg_reconnect :: "bool option"
  sg_status :: "(http_status \<Rightarrow> 's \<Rightarrow> 's) option"
  sg_msg :: "(jval \<Rightarrow> 's \<Rightarrow> 's) option"
  sg_err :: "(js_error \<Rightarrow> 's \<Rightarrow> 's) option"

definition create_stream :: "'s stream_given \<Rightarrow> 's http_options" where
  "create_stream g =
     \<lparr>auto_reconnect = (case sg_reconnect g of None \<Rightarrow> False | Some b \<Rightarrow> b),
      on_status = (case sg_status g of None \<Rightarrow> (\<lambda>st s. s) | Some f \<Rightarrow> f),
      on_msg = (case sg_msg g of None \<Rightarrow> (\<lambda>m s. s) | Some f \<Rightarrow> f),
      on_err = (case sg_err g of None \<Rightarrow> (\<lambda>e s. s) | Some f \<Rightarrow> f)\<rparr>"

record send_options =
  so_headers :: "(string \<times> string) list"
  so_data :: jval
  so_body :: "string option"

datatype fetch_body = Json jval | Raw "string option"

record fetch_request =
  f_headers :: "string \<rightharpoonup> string"
  f_body :: fetch_body

datatype http_phase =
    P_fetching bool \<comment> \<open>waiting for the response; is the timeout armed\<close>
  | P_reading nat string \<comment> \<open>waiting for a read of that request's body, with the text buffer\<close>
  | P_done

record 's http =
  h_controller :: "nat option"
  h_reader :: "nat option"
  h_prev :: "send_options option"
  h_conns :: "http_phase list"
  h_fetched :: "fetch_request list"
  h_timers :: nat
  h_cb :: 's

definition h_phase :: "'s http \<Rightarrow> nat \<Rightarrow> http_phase" where
  "h_phase x i = (if i < length (h_conns x) then h_conns x ! i else P_done)"

definition set_phase :: "nat \<Rightarrow> http_phase \<Rightarrow> 's http \<Rightarrow> 's http" where
  "set_phase i p x = x\<lparr>h_conns := (h_conns x)[i := p]\<rparr>"

subsection \<open>The closures\<close>

definition on_status_change :: "'s http_options \<Rightarrow> http_status \<Rightarrow> 's http \<Rightarrow> 's http" where
  "on_status_change opts status x =
     x\<lparr>h_timers := h_timers x +
         (if auto_reconnect opts \<and> (status = H_disconnected \<or> status = H_error) then 1 else 0),
       h_cb := on_status opts status (h_cb x)\<rparr>"

definition call_on_err :: "'s http_options \<Rightarrow> js_error \<Rightarrow> 's http \<Rightarrow> 's http" where
  "call_on_err opts e x = x\<lparr>h_cb := on_err opts e (h_cb x)\<rparr>"

definition cleanup_reader :: "'s http \<Rightarrow> 's http" where
  "cleanup_reader x = x\<lparr>h_reader := None\<rparr>"

definition default_send :: send_options where
  "default_send = \<lparr>so_headers = [], so_data = JUndef, so_body = None\<rparr>"

definition timeout_ms :: "jval \<Rightarrow> nat" where
  "timeout_ms data =
     (let isQueueInfo = (case get_prop data ''type'' of Inl e \<Rightarrow> False | Inr t \<Rightarrow> t = JStr ''queue_info'')
      in if isQueueInfo then 0 else 5000)"

definition http_send :: "'s http_options \<Rightarrow> send_options option \<Rightarrow> 's http \<Rightarrow> 's http" where
  "http_send opts options x =
     (let o' = (case options of None \<Rightarrow> default_send | Some v \<Rightarrow> v);
          y = on_status_change opts H_connecting (x\<lparr>h_prev := options\<rparr>);
          req = \<lparr>f_headers = [''Content-Type'' \<mapsto> ''application/json''] ++ map_of (so_headers o'),
                 f_body = (if truthy (so_data o') then Json (so_data o') else Raw (so_body o'))\<rparr>
      in y\<lparr>h_controller := Some (length (h_conns x)),
           h_conns := h_conns x @ [P_fetching (timeout_ms (so_data o') > 0)],
           h_fetched := h_fetched x @ [req]\<rparr>)"

text \<open>\<open>finally\<close>: the chain of request \<open>i\<close> is over.\<close>

definition http_finally :: "nat \<Rightarrow> 's http \<Rightarrow> 's http" where
  "http_finally i x = (cleanup_reader (set_phase i P_done x))\<lparr>h_controller := None\<rparr>"

definition http_catch :: "'s http_options \<Rightarrow> nat \<Rightarrow> js_error \<Rightarrow> 's http \<Rightarrow> 's http" where
  "http_catch opts i e x =
     http_finally i (call_on_err opts e (on_status_change opts H_error (cleanup_reader x)))"

definition http_response :: "'s http_options \<Rightarrow> nat \<Rightarrow> nat \<Rightarrow> string option \<Rightarrow> bool \<Rightarrow> 's http \<Rightarrow> 's http" where
  "http_response opts i status ctype hasBody x =
     (if status \<noteq> 200 \<or> ctype \<noteq> Some ''application/x-ndjson''
      then http_finally i (on_status_change opts H_error x)
      else let y = x\<lparr>h_reader := (if hasBody then Some i else None)\<rparr> in
        if \<not> hasBody then http_finally i (on_status_change opts H_error y)
        else set_phase i (P_reading i []) (on_status_change opts H_connected y))"

definition ndjson_frame :: "string \<Rightarrow> string \<Rightarrow> string list \<times> string" where
  "ndjson_frame buffer chunk =
     (let lines = split_on NL (buffer @ chunk) in (butlast lines, last lines))"

definition line_message :: "(string \<Rightarrow> jval option) \<Rightarrow> (jval \<Rightarrow> jval option) \<Rightarrow> string \<Rightarrow> jval option" where
  "line_message parse after line = (case parse line of None \<Rightarrow> None | Some v \<Rightarrow> after v)"

fun on_lines :: "(string \<Rightarrow> jval option) \<Rightarrow> (jval \<Rightarrow> jval option) \<Rightarrow> 's http_options \<Rightarrow> string list
    \<Rightarrow> 's \<Rightarrow> 's" where
  "on_lines parse after opts [] s = s"
| "on_lines parse after opts (l # ls) s =
     on_lines parse after opts ls
       (case line_message parse after l of None \<Rightarrow> s | Some m \<Rightarrow> on_msg opts m s)"

text \<open>After the lines of a chunk the loop reads again, from whatever the shared variable holds.\<close>

definition http_chunk :: "(string \<Rightarrow> jval option) \<Rightarrow> (jval \<Rightarrow> jval option) \<Rightarrow> 's http_options
    \<Rightarrow> nat \<Rightarrow> string \<Rightarrow> string \<Rightarrow> 's http \<Rightarrow> 's http" where
  "http_chunk parse after opts i buffer chunk x =
     (case ndjson_frame buffer chunk of (lines, buffer') \<Rightarrow>
        let y = x\<lparr>h_cb := on_lines parse after opts lines (h_cb x)\<rparr> in
        (case h_reader y of
           None \<Rightarrow> http_catch opts i type_error y
         | Some r \<Rightarrow> set_phase i (P_reading r buffer') y))"

definition http_stream_end :: "'s http_options \<Rightarrow> nat \<Rightarrow> 's http \<Rightarrow> 's http" where
  "http_stream_end opts i x =
     http_finally i (on_status_change opts H_disconnected (cleanup_reader x))"

definition abort_error :: js_error where
  "abort_error = JsErr ''AbortError'' []"

text \<open>Aborting a controller rejects the pending \<open>fetch\<close> or read of its request, if there is one.\<close>

definition settle_abort :: "'s http_options \<Rightarrow> nat option \<Rightarrow> 's http \<Rightarrow> 's http" where
  "settle_abort opts c x =
     (case c of None \<Rightarrow> x
      | Some k \<Rightarrow> if h_phase x k = P_done then x else http_catch opts k abort_error x)"

definition http_timeout :: "'s http_options \<Rightarrow> nat \<Rightarrow> 's http \<Rightarrow> 's http" where
  "http_timeout opts i x =
     settle_abort opts (h_controller x)
       (call_on_err opts (JsErr ''Error'' ''The request timed out. Please try again later.'')
         (on_status_change opts H_error (set_phase i (P_fetching False) x)))"

definition http_abort :: "'s http_options \<Rightarrow> 's http \<Rightarrow> 's http" where
  "http_abort opts x =
     settle_abort opts (h_controller x)
       (on_status_change opts H_disconnected (x\<lparr>h_controller := None, h_reader := None\<rparr>))"

datatype 'b http_event =
    Send "send_options option"
  | Abort
  | TimeoutFires nat
  | ReconnectFires
  | HResponse nat nat "string option" bool
  | HFetchFail nat js_error
  | HChunk nat 'b
  | HDone nat
  | HReadFail nat js_error

definition http_step :: "('b \<Rightarrow> string) \<Rightarrow> (string \<Rightarrow> jval option) \<Rightarrow> (jval \<Rightarrow> jval option)
    \<Rightarrow> 's http_options \<Rightarrow> 's http \<Rightarrow> 'b http_event \<Rightarrow> 's http" where
  "http_step decode parse after opts x ev =
     (case ev of
        Send options \<Rightarrow> http_send opts options x
      | Abort \<Rightarrow> http_abort opts x
      | TimeoutFires i \<Rightarrow>
          (case h_phase x i of P_fetching armed \<Rightarrow> if armed then http_timeout opts i x else x | _ \<Rightarrow> x)
      | ReconnectFires \<Rightarrow>
          (if h_timers x = 0 then x
           else http_send opts (h_prev x) (x\<lparr>h_timers := h_timers x - 1\<rparr>))
      | HResponse i status ctype hasBody \<Rightarrow>
          (case h_phase x i of P_fetching armed \<Rightarrow> http_response opts i status ctype hasBody x | _ \<Rightarrow> x)
      | HFetchFail i e \<Rightarrow>
          (case h_phase x i of P_fetching armed \<Rightarrow> http_catch opts i e x | _ \<Rightarrow> x)
      | HChunk i b \<Rightarrow>
          (case h_phase x i of
             P_reading r buffer \<Rightarrow> http_chunk parse after opts i buffer (decode b) x | _ \<Rightarrow> x)
      | HDone i \<Rightarrow>
          (case h_phase x i of P_reading r buffer \<Rightarrow> http_stream_end opts i x | _ \<Rightarrow> x)
      | HReadFail i e \<Rightarrow>
          (case h_phase x i of P_reading r buffer \<Rightarrow> http_catch opts i e x | _ \<Rightarrow> x))"

definition http_init :: "'s \<Rightarrow> 's http" where
  "http_init s = \<lparr>h_controller = None, h_reader = None, h_prev = None, h_conns = [], h_fetched = [],
     h_timers = 0, h_cb = s\<rparr>"

lemmas http_defs = on_status_change_def call_on_err_def cleanup_reader_def http_send_def
  http_finally_def http_catch_def http_response_def http_chunk_def http_stream_end_def
  settle_abort_def http_timeout_def http_abort_def set_phase_def Let_def

subsection \<open>Framing\<close>

interpretation ndjson_framer: line_framer ndjson_frame
proof
  fix b c ls b' l
  assume "ndjson_frame b c = (ls, b')"
  then have e: "ls = complete_lines (b @ c)" "b' = rest_line (b @ c)"
    by (auto simp: ndjson_frame_def complete_lines_def rest_line_def Let_def)
  then show "unlines ls @ b' = b @ c" by (simp add: unlines_split_on)
  from e show "NL \<notin> set b'" by (simp add: rest_line_no_NL)
  assume "l \<in> set ls"
  with e show "NL \<notin> set l" by (simp add: complete_lines_no_NL)
qed

lemma on_lines_append: "on_lines parse after opts (ls @ ks) s =
    on_lines parse after opts ks (on_lines parse after opts ls s)"
  by (induction ls arbitrary: s) auto

lemma run_http_chunks:
  "h_phase x i = P_reading i b \<Longrightarrow> i < length (h_conns x) \<Longrightarrow> h_reader x = Some i \<Longrightarrow>
   run (http_step decode parse after opts) x (map (HChunk i) cs) =
     (case feed_all ndjson_frame b (map decode cs) of (ls, b') \<Rightarrow>
        set_phase i (P_reading i b') (x\<lparr>h_cb := on_lines parse after opts ls (h_cb x)\<rparr>))"
proof (induction cs arbitrary: x b)
  case Nil
  then have "(h_conns x)[i := P_reading i b] = h_conns x"
    by (metis h_phase_def list_update_id)
  then show ?case by (simp add: set_phase_def)
next
  case (Cons c cs)
  obtain l1 b1 where 1: "ndjson_frame b (decode c) = (l1, b1)" by fastforce
  obtain l2 b2 where 2: "feed_all ndjson_frame b1 (map decode cs) = (l2, b2)" by fastforce
  let ?y = "set_phase i (P_reading i b1) (x\<lparr>h_cb := on_lines parse after opts l1 (h_cb x)\<rparr>)"
  have "http_step decode parse after opts x (HChunk i c) = ?y"
    using Cons.prems 1 by (simp add: http_step_def http_chunk_def Let_def)
  moreover have "h_phase ?y i = P_reading i b1" "i < length (h_conns ?y)" "h_reader ?y = Some i"
    using Cons.prems by (simp_all add: set_phase_def h_phase_def)
  from Cons.IH [OF this] 2
  have "run (http_step decode parse after opts) ?y (map (HChunk i) cs) =
    set_phase i (P_reading i b2) (?y\<lparr>h_cb := on_lines parse after opts l2 (h_cb ?y)\<rparr>)"
    by simp
  ultimately show ?case using 1 2 by (simp add: on_lines_append set_phase_def)
qed

subsection \<open>What a user of the client can rely on\<close>

text \<open>Every message the client hands on satisfies \<open>ok\<close>.\<close>

definition lines_ok :: "(jval \<Rightarrow> bool) \<Rightarrow> (string \<Rightarrow> jval option) \<Rightarrow> (jval \<Rightarrow> jval option) \<Rightarrow> bool" where
  "lines_ok ok parse after \<longleftrightarrow> (\<forall>l m. line_message parse after l = Some m \<longrightarrow> ok m)"

lemma lines_ok_True [simp]: "lines_ok (\<lambda>m. True) parse after"
  by (simp add: lines_ok_def)

locale http_keeps =
  fixes opts :: "'s http_options"
    and P :: "'s \<Rightarrow> bool"
    and ok :: "jval \<Rightarrow> bool"
  assumes status_keeps: "P s \<Longrightarrow> P (on_status opts st s)"
    and msg_keeps: "P s \<Longrightarrow> ok m \<Longrightarrow> P (on_msg opts m s)"
    and err_keeps: "P s \<Longrightarrow> P (on_err opts e s)"
begin

lemma lines_keep: "lines_ok ok parse after \<Longrightarrow> P s \<Longrightarrow> P (on_lines parse after opts ls s)"
  by (induction ls arbitrary: s) (auto simp: msg_keeps lines_ok_def split: option.splits)

lemma catch_keeps: "P (h_cb x) \<Longrightarrow> P (h_cb (http_catch opts i e x))"
  by (simp add: http_defs err_keeps status_keeps)

lemma settle_keeps: "P (h_cb x) \<Longrightarrow> P (h_cb (settle_abort opts c x))"
  by (simp add: settle_abort_def catch_keeps split: option.splits)

lemma chunk_keeps:
  "lines_ok ok parse after \<Longrightarrow> P (h_cb x) \<Longrightarrow> P (h_cb (http_chunk parse after opts i b c x))"
  by (auto simp: http_chunk_def Let_def set_phase_def lines_keep catch_keeps
      split: prod.splits option.splits)

lemma send_keeps: "P (h_cb x) \<Longrightarrow> P (h_cb (http_send opts o' x))"
  by (simp add: http_send_def on_status_change_def Let_def status_keeps)

lemma step_keeps:
  "lines_ok ok parse after \<Longrightarrow> P (h_cb x) \<Longrightarrow> P (h_cb (http_step decode parse after opts x ev))"
  by (cases ev)
     (auto simp: http_step_def http_send_def http_abort_def http_timeout_def http_response_def
      http_stream_end_def http_finally_def cleanup_reader_def set_phase_def on_status_change_def
      call_on_err_def Let_def catch_keeps chunk_keeps status_keeps err_keeps
      intro!: settle_keeps split: http_phase.splits)

end

sublocale http_keeps \<subseteq> kept: invariant_steps "http_step decode parse after opts"
  "\<lambda>x. lines_ok ok parse after \<longrightarrow> P (h_cb x)"
  for decode parse after
  by unfold_locales (blast intro: step_keeps)

subsection \<open>Reconnection\<close>

definition alive :: "'s http \<Rightarrow> bool" where
  "alive x \<longleftrightarrow> 0 < h_timers x \<or> (\<exists>p \<in> set (h_conns x). p \<noteq> P_done)"

lemma timers_catch: "auto_reconnect opts \<Longrightarrow> h_timers (http_catch opts i e x) = Suc (h_timers x)"
  by (simp add: http_defs)

lemma phase_catch: "h_phase (http_catch opts i e x) i = P_done"
  by (simp add: h_phase_def http_catch_def http_finally_def cleanup_reader_def set_phase_def
      call_on_err_def on_status_change_def)

lemma timers_settle: "auto_reconnect opts \<Longrightarrow> h_timers x \<le> h_timers (settle_abort opts c x)"
  by (simp add: settle_abort_def timers_catch split: option.splits)

lemma timers_timeout: "auto_reconnect opts \<Longrightarrow> 0 < h_timers (http_timeout opts i x)"
  unfolding http_timeout_def
  by (rule less_le_trans [OF _ timers_settle]) (simp_all add: http_defs)

lemma timers_abort: "auto_reconnect opts \<Longrightarrow> 0 < h_timers (http_abort opts x)"
  unfolding http_abort_def
  by (rule less_le_trans [OF _ timers_settle]) (simp_all add: http_defs)

lemma alive_timers: "0 < h_timers x \<Longrightarrow> alive x"
  by (simp add: alive_def)

lemma alive_send: "alive (http_send opts o' x)"
  by (simp add: alive_def http_send_def on_status_change_def Let_def)

lemma phase_in_range: "h_phase x i \<noteq> P_done \<Longrightarrow> i < length (h_conns x)"
  by (auto simp: h_phase_def split: if_splits)

lemma alive_set_phase: "p \<noteq> P_done \<Longrightarrow> i < length (h_conns x) \<Longrightarrow> alive (set_phase i p x)"
  using set_update_memI [of i "h_conns x" p] by (auto simp: alive_def set_phase_def)

lemma timers_finally [simp]: "h_timers (http_finally i x) = h_timers x"
  by (simp add: http_defs)

lemma alive_response:
  "auto_reconnect opts \<Longrightarrow> i < length (h_conns x) \<Longrightarrow> alive (http_response opts i st ct hb x)"
  by (simp add: http_response_def Let_def alive_set_phase alive_timers on_status_change_def)

lemma alive_chunk:
  "auto_reconnect opts \<Longrightarrow> i < length (h_conns x) \<Longrightarrow> alive (http_chunk parse after opts i b c x)"
  by (simp add: http_chunk_def Let_def timers_catch alive_set_phase alive_timers
      split: prod.splits option.splits)

lemma alive_stream_end: "auto_reconnect opts \<Longrightarrow> alive (http_stream_end opts i x)"
  by (rule alive_timers) (simp add: http_defs)

lemma alive_step: "auto_reconnect opts \<Longrightarrow> alive x \<Longrightarrow> alive (http_step decode parse after opts x ev)"
  by (cases ev)
     (auto simp: http_step_def alive_send alive_response alive_chunk alive_stream_end phase_in_range
       timers_timeout timers_abort timers_catch intro: alive_timers split: http_phase.splits)

interpretation http_alive: invariant_steps "http_step decode parse after opts"
  "\<lambda>x. auto_reconnect opts \<longrightarrow> alive x" for decode parse after opts
  by unfold_locales (auto intro: alive_step)

subsection \<open>One request without reconnection\<close>

text \<open>
  The statuses one request reports, and where it is when it has reported them. The callback
  state records the statuses. \<open>terminal_logs\<close> are the logs of a request that is over; a timeout
  reports its error twice.
\<close>

definition log_options :: "http_status list http_options" where
  "log_options = \<lparr>auto_reconnect = False, on_status = (\<lambda>st s. s @ [st]), on_msg = (\<lambda>m s. s),
                  on_err = (\<lambda>e s. s)\<rparr>"

definition terminal_logs :: "http_status list list" where
  "terminal_logs = [[H_connecting, H_error], [H_connecting, H_error, H_error],
     [H_connecting, H_connected, H_disconnected], [H_connecting, H_connected, H_error]]"

definition one_request :: "http_status list http \<Rightarrow> bool" where
  "one_request x \<longleftrightarrow> h_timers x = 0 \<and>
     (case h_conns x of
        [P_fetching armed] \<Rightarrow> h_cb x = [H_connecting] \<and> h_controller x = Some 0
      | [P_reading r buffer] \<Rightarrow>
          r = 0 \<and> h_cb x = [H_connecting, H_connected] \<and> h_reader x = Some 0 \<and> h_controller x = Some 0
      | [P_done] \<Rightarrow> h_cb x \<in> set terminal_logs
      | _ \<Rightarrow> False)"

fun network_event :: "'b http_event \<Rightarrow> bool" where
  "network_event (Send o') = False"
| "network_event Abort = False"
| "network_event _ = True"

lemma one_request_cases:
  assumes "one_request x"
  obtains (fetching) armed where "h_conns x = [P_fetching armed]" "h_cb x = [H_connecting]"
      "h_controller x = Some 0" "h_timers x = 0"
  | (reading) b where "h_conns x = [P_reading 0 b]" "h_cb x = [H_connecting, H_connected]"
      "h_reader x = Some 0" "h_controller x = Some 0" "h_timers x = 0"
  | (finished) "h_conns x = [P_done]" "h_cb x \<in> set terminal_logs" "h_timers x = 0"
  using assms by (auto simp: one_request_def split: list.splits http_phase.splits)

lemma on_lines_log: "on_lines parse after log_options ls s = s"
  by (induction ls) (auto simp: log_options_def split: option.splits)

lemma one_request_step:
  assumes "one_request x" and "network_event ev"
  shows "one_request (http_step decode parse after log_options x ev)"
  using assms(1)
proof (cases rule: one_request_cases)
  case (fetching armed)
  then show ?thesis using assms(2)
    by (cases ev) (auto simp: http_step_def h_phase_def http_defs one_request_def log_options_def
      terminal_logs_def)
next
  case (reading b)
  then show ?thesis using assms(2)
    by (cases ev) (auto simp: http_step_def h_phase_def http_defs one_request_def on_lines_log
      split: prod.splits, simp_all add: log_options_def terminal_logs_def)
next
  case finished
  then show ?thesis using assms
    by (cases ev) (auto simp: http_step_def h_phase_def)
qed

lemma done_stays:
  assumes "h_conns x = [P_done]" and "h_timers x = 0" and "network_event ev"
  shows "http_step decode parse after opts x ev = x"
  using assms by (cases ev) (simp_all add: http_step_def h_phase_def)

lemma run_done:
  "h_conns x = [P_done] \<Longrightarrow> h_timers x = 0 \<Longrightarrow> list_all network_event evs \<Longrightarrow>
     run (http_step decode parse after opts) x evs = x"
  by (induction evs) (simp_all add: done_stays)

text \<open>A second error is reported by a timeout only, and a request that is over reports nothing.\<close>

definition timed_out :: "http_status list http \<Rightarrow> bool" where
  "timed_out x \<longleftrightarrow> h_cb x = [H_connecting, H_error, H_error]"

lemma timed_out_step:
  assumes "one_request x" and "network_event ev" and "timed_out (http_step decode parse after log_options x ev)"
  shows "timed_out x \<or> ev = TimeoutFires 0"
  using assms(1)
proof (cases rule: one_request_cases)
  case (fetching armed)
  then show ?thesis using assms(2,3)
    by (cases ev) (auto simp: http_step_def h_phase_def http_defs timed_out_def log_options_def split: if_splits)
next
  case (reading b)
  then show ?thesis using assms(2,3)
    by (cases ev) (auto simp: http_step_def h_phase_def http_defs timed_out_def on_lines_log
      split: prod.splits if_splits, simp_all add: log_options_def)
next
  case finished
  then show ?thesis using assms done_stays [of x ev decode parse after log_options] by simp
qed

interpretation http_single: guarded_steps "http_step decode parse after log_options" one_request
  network_event for decode parse after
  by unfold_locales (rule one_request_step)

lemma send_one_request: "one_request (http_send log_options o' (http_init []))"
  by (simp add: one_request_def http_send_def http_init_def on_status_change_def log_options_def Let_def)

lemma sent_timed_out:
  "list_all network_event evs \<Longrightarrow>
     timed_out (run (http_step decode parse after log_options) (http_send log_options o' (http_init [])) evs) \<Longrightarrow>
     TimeoutFires 0 \<in> set evs"
proof (induction evs rule: rev_induct)
  case Nil
  then show ?case by (simp add: timed_out_def http_send_def http_init_def on_status_change_def log_options_def Let_def)
next
  case (snoc ev evs)
  from snoc.prems(1) have ok: "list_all network_event evs" "network_event ev" by simp_all
  let ?y = "run (http_step decode parse after log_options) (http_send log_options o' (http_init [])) evs"
  have "timed_out ?y \<or> ev = TimeoutFires 0"
    using snoc.prems(2) by (intro timed_out_step [OF http_single.run_guarded [OF send_one_request ok(1)] ok(2)]) (simp add: run_append)
  then show ?case using snoc.IH ok(1) by auto
qed

subsection \<open>Properties\<close>



text \<open>
  C14 (http_stays_alive): a client that reconnects automatically never goes silent: after the
  first send, whatever timeouts, failures, closed streams and aborts follow, there is always
  an open request or an armed reconnection timer.
\<close>

theorem http_stays_alive:
  assumes "auto_reconnect opts"
  shows "alive (run (http_step decode parse after opts) (http_send opts options x) evs)"
  using http_alive.run_inv [of opts "http_send opts options x" decode parse after evs] assms alive_send
  by blast

theorem http_stays_alive_witness:
  "alive (run (http_step id (\<lambda>t. None) Some (log_options\<lparr>auto_reconnect := True\<rparr>))
     (http_send (log_options\<lparr>auto_reconnect := True\<rparr>) None (http_init []))
     [HFetchFail 0 abort_error, ReconnectFires, TimeoutFires 1])"
proof -
  have "auto_reconnect (log_options\<lparr>auto_reconnect := True\<rparr>)" by simp
  then show ?thesis by (rule http_stays_alive)
qed

text \<open>
  C23 (http_status_protocol): without automatic reconnection and without an abort, one request
  reports \<open>connecting\<close> first and \<open>connected\<close> at most once and only next: \<open>connecting\<close> alone while it waits for
  the response, both while its body is read. Its chain is over in four ways only: \<open>error\<close> after
  \<open>connecting\<close>, \<open>disconnected\<close> or \<open>error\<close> after \<open>connected\<close>, each reported once, or \<open>error\<close> after
  \<open>connecting\<close> reported twice, which takes its timeout to have fired. Whatever events come when
  the chain is over, nothing changes and nothing more is reported.
\<close>

theorem http_status_protocol:
  assumes "y = run (http_step decode parse after log_options) (http_send log_options options (http_init [])) evs"
    and "list_all network_event evs" and "list_all network_event later"
  shows "(case h_conns y of
      [P_fetching armed] \<Rightarrow> h_cb y = [H_connecting]
    | [P_reading r buffer] \<Rightarrow> h_cb y = [H_connecting, H_connected]
    | [P_done] \<Rightarrow>
        (h_cb y \<in> {[H_connecting, H_error], [H_connecting, H_connected, H_disconnected], [H_connecting, H_connected, H_error]} \<or>
         h_cb y = [H_connecting, H_error, H_error] \<and> TimeoutFires 0 \<in> set evs) \<and>
        run (http_step decode parse after log_options) y later = y
    | _ \<Rightarrow> False)"
proof -
  have y: "one_request y" unfolding assms(1) by (rule http_single.run_guarded [OF send_one_request assms(2)])
  then show ?thesis
  proof (cases rule: one_request_cases)
    case finished
    then show ?thesis
      using sent_timed_out [OF assms(2), of decode parse after options] run_done [OF finished(1,3) assms(3)]
      unfolding assms(1) [symmetric] by (auto simp: terminal_logs_def timed_out_def)
  qed simp_all
qed

theorem http_status_protocol_witness:
  "let y = run (http_step id (\<lambda>t. None) Some log_options) (http_send log_options None (http_init []))
       [HResponse 0 200 (Some ''application/x-ndjson'') True, HChunk 0 ''x'', HDone 0]
   in h_conns y = [P_done] \<and> (h_cb y \<in> {[H_connecting, H_error], [H_connecting, H_connected, H_disconnected],
     [H_connecting, H_connected, H_error]})"
proof -
  let ?evs = "[HResponse 0 200 (Some ''application/x-ndjson'') True, HChunk 0 ''x'', HDone 0]"
  let ?y = "run (http_step id (\<lambda>t. None) Some log_options) (http_send log_options None (http_init [])) ?evs"
  have e: "list_all network_event ?evs" "list_all network_event [HDone 0 :: string http_event]" by simp_all
  have d: "h_conns ?y = [P_done]"
    by (simp add: http_step_def http_init_def http_defs h_phase_def ndjson_frame_def)
  from http_status_protocol [OF refl e, of id "\<lambda>t. None" Some None] d show ?thesis
    unfolding Let_def by simp
qed

text \<open>
  C38 (http_timeout_two_timers): a connection timeout arms two reconnections instead of one:
  the timer's handler reports an error, and the request it aborts reports another.
\<close>

theorem http_timeout_two_timers:
  assumes "auto_reconnect opts" and "h_controller x = Some i" and "h_phase x i = P_fetching True"
  shows "h_timers (http_step decode parse after opts x (TimeoutFires i)) = h_timers x + 2
    \<and> h_phase (http_step decode parse after opts x (TimeoutFires i)) i = P_done"
proof -
  have i: "i < length (h_conns x)" using assms(3) by (intro phase_in_range) simp
  let ?y = "call_on_err opts (JsErr ''Error'' ''The request timed out. Please try again later.'')
         (on_status_change opts H_error (set_phase i (P_fetching False) x))"
  have "h_phase ?y i = P_fetching False"
    using i by (simp add: h_phase_def call_on_err_def on_status_change_def set_phase_def)
  then have "http_timeout opts i x = http_catch opts i abort_error ?y"
    using assms(2) by (simp add: http_timeout_def settle_abort_def)
  moreover have "h_timers ?y = Suc (h_timers x)"
    using assms(1) by (simp add: call_on_err_def on_status_change_def set_phase_def)
  moreover have "h_phase (http_catch opts i abort_error ?y) i = P_done"
    by (rule phase_catch)
  ultimately show ?thesis using assms(1,3) by (simp add: http_step_def timers_catch)
qed

theorem http_timeout_two_timers_witness:
  "let opts = log_options\<lparr>auto_reconnect := True\<rparr>; x = http_send opts None (http_init [])
   in h_timers (http_step id (\<lambda>t. None) Some opts x (TimeoutFires 0)) = 2"
proof -
  let ?opts = "log_options\<lparr>auto_reconnect := True\<rparr>"
  let ?x = "http_send ?opts None (http_init [])"
  have 1: "auto_reconnect ?opts" by simp
  have 2: "h_controller ?x = Some 0" and 3: "h_phase ?x 0 = P_fetching True" and 4: "h_timers ?x = 0"
    by (simp_all add: http_send_def http_init_def on_status_change_def default_send_def
        timeout_ms_def h_phase_def Let_def)
  show ?thesis using http_timeout_two_timers [OF 1 2 3, of id "\<lambda>t. None" Some] 4 by simp
qed

text \<open>
  Against a server that does not answer, the two timers open two
  requests at once; the first of them to time out aborts the other one, because the variable
  that holds the abort controller is shared, and itself stays open without a timeout.
\<close>

lemma http_timeout_overlap:
  assumes "auto_reconnect opts" and "timeout_ms (so_data o') \<noteq> 0"
  shows "h_conns (run (http_step decode parse after opts) (http_init s)
           [Send (Some o'), TimeoutFires 0, ReconnectFires, ReconnectFires])
         = [P_done, P_fetching True, P_fetching True] \<and>
       h_conns (run (http_step decode parse after opts) (http_init s)
           [Send (Some o'), TimeoutFires 0, ReconnectFires, ReconnectFires, TimeoutFires 1])
         = [P_done, P_fetching False, P_done] \<and>
       h_timers (run (http_step decode parse after opts) (http_init s)
           [Send (Some o'), TimeoutFires 0, ReconnectFires, ReconnectFires, TimeoutFires 1]) = 2"
  using assms by (simp add: http_step_def http_init_def http_defs h_phase_def)

text \<open>
  Aborting an open request of an automatically reconnecting client
  does not stop it: the abort reports \<open>disconnected\<close> and the aborted request an error, and each
  of the two arms a reconnection.
\<close>

lemma http_abort_reconnects:
  assumes "auto_reconnect opts" and "h_controller x = Some i" and "h_phase x i \<noteq> P_done"
  shows "h_timers (http_step decode parse after opts x Abort) = h_timers x + 2"
proof -
  let ?y = "on_status_change opts H_disconnected (x\<lparr>h_controller := None, h_reader := None\<rparr>)"
  have "h_phase ?y i = h_phase x i" by (simp add: h_phase_def on_status_change_def)
  then have "http_abort opts x = http_catch opts i abort_error ?y"
    using assms(2,3) by (simp add: http_abort_def settle_abort_def)
  moreover have "h_timers ?y = Suc (h_timers x)"
    using assms(1) by (simp add: on_status_change_def)
  ultimately show ?thesis using assms(1) by (simp add: http_step_def timers_catch)
qed

end
