(* ===== verification/JsNumber.thy ===== *)
theory JsNumber
  imports JsValue
begin

text \<open>
  Decimal text and numbers: \<open>String(n)\<close> of a natural number, \<open>parseInt\<close> without a radix
  (white space, a sign, \<open>0x\<close>, then the longest run of digits; \<open>None\<close> is NaN), \<open>Number\<close>
  of decimal text (no exponents, \<open>Infinity\<close> or prefixed literals, which are NaN here), and
  the conversion that \<open><\<close> and \<open>>\<close> apply to their operands.
\<close>

definition digit_char :: "nat \<Rightarrow> char" where
  "digit_char d = char_of (48 + d)"

definition is_digit :: "char \<Rightarrow> bool" where
  "is_digit c \<longleftrightarrow> 48 \<le> (of_char c :: nat) \<and> (of_char c :: nat) \<le> 57"

definition digit_val :: "char \<Rightarrow> nat" where
  "digit_val c = of_char c - 48"

fun show_nat :: "nat \<Rightarrow> string" where
  "show_nat n = (if n < 10 then [digit_char n] else show_nat (n div 10) @ [digit_char (n mod 10)])"

declare show_nat.simps [simp del]

definition read_digits :: "string \<Rightarrow> nat" where
  "read_digits s = foldl (\<lambda>n c. 10 * n + digit_val c) 0 s"

definition hex_val :: "char \<Rightarrow> nat option" where
  "hex_val c = (let n = of_char c :: nat in
     if 48 \<le> n \<and> n \<le> 57 then Some (n - 48)
     else if 97 \<le> n \<and> n \<le> 102 then Some (n - 87)
     else if 65 \<le> n \<and> n \<le> 70 then Some (n - 55) else None)"

definition read_hex :: "string \<Rightarrow> nat" where
  "read_hex s = foldl (\<lambda>n c. 16 * n + (case hex_val c of None \<Rightarrow> 0 | Some d \<Rightarrow> d)) 0 s"

definition split_sign :: "string \<Rightarrow> bool \<times> string" where
  "split_sign s = (case s of [] \<Rightarrow> (False, [])
     | c # r \<Rightarrow> if c = CHR ''-'' then (True, r) else if c = CHR ''+'' then (False, r) else (False, s))"

definition parse_int :: "string \<Rightarrow> int option" where
  "parse_int s =
     (case split_sign (trim_start s) of (neg, u) \<Rightarrow>
        let sg = (if neg then - 1 else 1) in
        if starts_with ''0x'' u \<or> starts_with ''0X'' u then
          (let h = takeWhile (\<lambda>c. hex_val c \<noteq> None) (drop 2 u)
           in if h = [] then None else Some (sg * int (read_hex h)))
        else
          (let d = takeWhile is_digit u
           in if d = [] then None else Some (sg * int (read_digits d))))"

definition js_number :: "string \<Rightarrow> rat option" where
  "js_number s =
     (let t = trim s in
      if t = [] then Some 0
      else (case split_sign t of (neg, u) \<Rightarrow>
        let sg = (if neg then - 1 else 1);
            ip = takeWhile is_digit u;
            r = dropWhile is_digit u
        in (case r of
              [] \<Rightarrow> if ip = [] then None else Some (sg * of_nat (read_digits ip))
            | c # fr \<Rightarrow>
                if c = CHR ''.'' \<and> list_all is_digit fr \<and> (ip \<noteq> [] \<or> fr \<noteq> [])
                then Some (sg * (of_nat (read_digits ip) + of_nat (read_digits fr) / 10 ^ length fr))
                else None)))"

fun to_number :: "jval \<Rightarrow> rat option" where
  "to_number JUndef = None"
| "to_number JNull = Some 0"
| "to_number (JBool b) = Some (if b then 1 else 0)"
| "to_number (JNum n) = Some n"
| "to_number (JStr s) = js_number s"
| "to_number (JArr xs) = None"
| "to_number (JObj kvs) = None"

text \<open>\<open>a > b\<close> with a number on the right: false when the left is not a number.\<close>

definition js_gt :: "jval \<Rightarrow> rat \<Rightarrow> bool" where
  "js_gt a b = (case to_number a of None \<Rightarrow> False | Some x \<Rightarrow> x > b)"

definition js_le_num :: "jval \<Rightarrow> rat \<Rightarrow> bool" where
  "js_le_num a b = (case to_number a of None \<Rightarrow> False | Some x \<Rightarrow> x \<le> b)"

subsection \<open>Facts\<close>

lemma of_char_digit: "d < 10 \<Longrightarrow> of_char (digit_char d) = 48 + d"
  by (simp add: digit_char_def)

lemma is_digit_digit [simp]: "d < 10 \<Longrightarrow> is_digit (digit_char d)"
  by (simp add: is_digit_def of_char_digit)

lemma digit_val_digit [simp]: "d < 10 \<Longrightarrow> digit_val (digit_char d) = d"
  by (simp add: digit_val_def of_char_digit)

lemma show_nat_nonempty [simp]: "show_nat n \<noteq> []"
  by (subst show_nat.simps) simp

lemma show_nat_digits: "list_all is_digit (show_nat n)"
proof (induction n rule: show_nat.induct)
  case (1 n)
  then show ?case by (subst show_nat.simps) auto
qed

lemma read_show_nat [simp]: "read_digits (show_nat n) = n"
proof (induction n rule: show_nat.induct)
  case (1 n)
  then show ?case by (subst show_nat.simps) (auto simp: read_digits_def)
qed

lemma show_nat_inj: "show_nat m = show_nat n \<longleftrightarrow> m = n"
  by (metis read_show_nat)

lemma takeWhile_digits: "list_all is_digit s \<Longrightarrow> takeWhile is_digit s = s"
  by (induction s) auto

lemma dropWhile_digits: "list_all is_digit s \<Longrightarrow> dropWhile is_digit s = []"
  by (induction s) auto

lemma digit_not_ws: "is_digit c \<Longrightarrow> \<not> js_ws c"
  by (auto simp: js_ws_def is_digit_def)

lemma digit_not_sign: "is_digit c \<Longrightarrow> c \<noteq> CHR ''-'' \<and> c \<noteq> CHR ''+'' \<and> c \<noteq> CHR ''.''"
  by (auto simp: is_digit_def)

lemma digits_hd_last: "s \<noteq> [] \<Longrightarrow> list_all is_digit s \<Longrightarrow> is_digit (hd s) \<and> is_digit (last s)"
  by (induction s) auto

lemma trim_digits: "list_all is_digit s \<Longrightarrow> trim s = s"
  using digits_hd_last [of s] digit_not_ws by (intro trim_id) auto

lemma trim_start_digits: "list_all is_digit s \<Longrightarrow> trim_start s = s"
  using digits_hd_last [of s] digit_not_ws
  by (auto simp: trim_start_def intro: dropWhile_hd_id)

lemma split_sign_digits: "list_all is_digit s \<Longrightarrow> split_sign s = (False, s)"
  using digit_not_sign by (cases s) (auto simp: split_sign_def)

lemma not_hex_digits: "list_all is_digit s \<Longrightarrow> \<not> starts_with ''0x'' s \<and> \<not> starts_with ''0X'' s"
  by (auto simp: starts_with_iff is_digit_def)

lemma parse_int_digits:
  "s \<noteq> [] \<Longrightarrow> list_all is_digit s \<Longrightarrow> parse_int s = Some (int (read_digits s))"
  by (simp add: parse_int_def trim_start_digits split_sign_digits not_hex_digits takeWhile_digits Let_def)

lemma js_number_digits:
  "s \<noteq> [] \<Longrightarrow> list_all is_digit s \<Longrightarrow> js_number s = Some (of_nat (read_digits s))"
  by (simp add: js_number_def trim_digits split_sign_digits takeWhile_digits dropWhile_digits Let_def)

lemma parse_show_nat [simp]: "parse_int (show_nat n) = Some (int n)"
  by (simp add: parse_int_digits show_nat_digits)

lemma js_number_show_nat [simp]: "js_number (show_nat n) = Some (of_nat n)"
  by (simp add: js_number_digits show_nat_digits)

end
