(* ===== verification/Api.thy ===== *)
theory Api
  imports JsNumber HttpStream
begin

text \<open>
  \<^verbatim>\<open>services/api.ts\<close> and \<^verbatim>\<open>services/host.tsx\<close>: the two requests to the
  scheduler, as the request sent and what the call makes of the reply (a rejected \<open>fetch\<close> or
  \<open>json()\<close> is an error, anything else the parsed body), and the URL of the status stream.
  \<open>dev\<close> is the build's \<open>import.meta.env.DEV\<close>; \<open>shown\<close> is the text of a number that is
  not an integer.
\<close>

subsection \<open>Text of a value\<close>

definition show_int :: "int \<Rightarrow> string" where
  "show_int i = (if i < 0 then CHR ''-'' # show_nat (nat (- i)) else show_nat (nat i))"

definition show_rat :: "(rat \<Rightarrow> string) \<Rightarrow> rat \<Rightarrow> string" where
  "show_rat shown q = (if of_int \<lfloor>q\<rfloor> = q then show_int \<lfloor>q\<rfloor> else shown q)"

fun js_text :: "(rat \<Rightarrow> string) \<Rightarrow> jval \<Rightarrow> string" and js_texts :: "(rat \<Rightarrow> string) \<Rightarrow> jval list \<Rightarrow> string list" where
  "js_text shown JUndef = ''undefined''"
| "js_text shown JNull = ''null''"
| "js_text shown (JBool b) = (if b then ''true'' else ''false'')"
| "js_text shown (JNum q) = show_rat shown q"
| "js_text shown (JStr s) = s"
| "js_text shown (JArr xs) = join_with '','' (js_texts shown xs)"
| "js_text shown (JObj kvs) = ''[object Object]''"
| "js_texts shown [] = []"
| "js_texts shown (x # xs) =
     (if x = JUndef \<or> x = JNull then [] else js_text shown x) # js_texts shown xs"

subsection \<open>Requests\<close>

datatype http_method = GET | POST

record api_request =
  r_url :: string
  r_method :: http_method
  r_body :: jval

definition API_BASE_URL :: "bool \<Rightarrow> string" where
  "API_BASE_URL dev = (if dev then ''/proxy-api'' else [])"

definition expect_type :: "(rat \<Rightarrow> string) \<Rightarrow> string \<Rightarrow> jval js_result \<Rightarrow> jval js_result" where
  "expect_type shown t reply =
     js_bind reply (\<lambda>message. js_bind (get_prop message ''type'') (\<lambda>type'.
       if type' \<noteq> JStr t
       then Inl (JsErr ''Error'' (''Invalid message type: '' @ js_text shown type' @ ''.''))
       else get_prop message ''data''))"

definition model_list_request :: "bool \<Rightarrow> api_request" where
  "model_list_request dev =
     \<lparr>r_url = API_BASE_URL dev @ ''/model/list'', r_method = GET, r_body = JUndef\<rparr>"

definition get_model_list :: "(rat \<Rightarrow> string) \<Rightarrow> jval js_result \<Rightarrow> jval js_result" where
  "get_model_list shown reply = expect_type shown ''model_list'' reply"

definition init_scheduler_request :: "bool \<Rightarrow> jval \<Rightarrow> api_request" where
  "init_scheduler_request dev params =
     \<lparr>r_url = API_BASE_URL dev @ ''/scheduler/init'', r_method = POST, r_body = json_tree params\<rparr>"

definition init_scheduler :: "(rat \<Rightarrow> string) \<Rightarrow> jval js_result \<Rightarrow> jval js_result" where
  "init_scheduler shown reply = expect_type shown ''scheduler_init'' reply"

definition cluster_status_request :: "bool \<Rightarrow> api_request" where
  "cluster_status_request dev =
     \<lparr>r_url = API_BASE_URL dev @ ''/cluster/status'', r_method = GET, r_body = JUndef\<rparr>"

datatype host_type = Host_cluster | Host_node

lemma expect_type_Inr:
  "expect_type shown t reply = Inr d \<longleftrightarrow>
    (\<exists>m. reply = Inr m \<and> get_prop m ''type'' = Inr (JStr t) \<and> get_prop m ''data'' = Inr d)"
  by (auto simp: expect_type_def js_bind_def split: sum.splits)

text \<open>Whatever else it says, a message of the type is taken as the answer.\<close>

lemma expect_type_is_Inr:
  "(\<exists>d. expect_type shown t reply = Inr d) \<longleftrightarrow> (\<exists>m. reply = Inr m \<and> get_prop m ''type'' = Inr (JStr t))"
proof -
  have "\<exists>d. get_prop m ''data'' = Inr d" if "get_prop m ''type'' = Inr (JStr t)" for m
    using that by (cases m) simp_all
  then show ?thesis by (auto simp: expect_type_Inr)
qed

subsection \<open>What the repository's server replies\<close>

text \<open>
  The two bodies of \<^verbatim>\<open>scheduler_init\<close> in \<^verbatim>\<open>backend/main.py\<close>: a configuration that is accepted, and
  a refusal (a missing parameter, or the scheduler's failure to start), whose status is 400 or 500.
\<close>

definition scheduler_accepts :: "jval \<Rightarrow> jval \<Rightarrow> jval \<Rightarrow> jval" where
  "scheduler_accepts model_name init_nodes_num is_local_network = JObj [(''type'', JStr ''scheduler_init''),
     (''data'', JObj [(''model_name'', model_name), (''init_nodes_num'', init_nodes_num),
        (''is_local_network'', is_local_network)])]"

definition scheduler_refuses :: "string \<Rightarrow> jval" where
  "scheduler_refuses error = JObj [(''type'', JStr ''scheduler_init''), (''error'', JStr error)]"

end
