(* ===== verification/Cluster.thy ===== *)
theory Cluster
  imports Api
begin

text \<open>
  \<^verbatim>\<open>services/cluster.tsx\<close>: the provider that keeps the configuration the user edits, the
  model list it polls until it gets one, and the cluster and node state it receives over the
  status stream. Fields that come from the server unchecked are values. An exception in a state
  updater crashes the page (\<open>cl_crashed\<close>), one in a handler of the stream is caught by the
  client and drops the message. \<open>cl_dirty\<close> says that a dependency of the model-name effect has
  changed since the last render; \<open>render\<close> runs the effect then. \<open>asset\<close> gives the URL the
  bundler makes of an imported image.
\<close>

subsection \<open>Models\<close>

definition logo_url_map :: "(string \<Rightarrow> string) \<Rightarrow> (string \<times> string) list" where
  "logo_url_map asset =
     [(''openai'', asset ''../assets/models/OpenAI-black-monoblossom.svg''),
      (''qwen'', asset ''../assets/models/Qwen3.png''),
      (''nvidia'', asset ''../assets/models/NVIDIA.png''),
      (''moonshotai'', asset ''../assets/models/MoonshotAI.png''),
      (''deepseek'', asset ''../assets/models/DeepSeek.png''),
      (''zai'', asset ''../assets/models/Zai.png''),
      (''minimaxai'', asset ''../assets/models/MiniMax.png'')]"

definition get_logo_url :: "(string \<Rightarrow> string) \<Rightarrow> string \<Rightarrow> string" where
  "get_logo_url asset name =
     (let part0 = takeWhile (\<lambda>c. c \<noteq> CHR ''-'' \<and> c \<noteq> CHR ''/'') (to_lower name)
      in case map_of (logo_url_map asset) part0 of None \<Rightarrow> [] | Some u \<Rightarrow> u)"

record model_info =
  mi_name :: string
  mi_display :: string
  mi_logo :: string
  mi_vram :: jval

definition model_of :: "(string \<Rightarrow> string) \<Rightarrow> jval \<Rightarrow> model_info js_result" where
  "model_of asset raw =
     js_bind (get_prop raw ''name'') (\<lambda>name. js_bind (get_prop raw ''vram_gb'') (\<lambda>vram.
       (case js_or name (JStr []) of
          JStr n \<Rightarrow> Inr \<lparr>mi_name = n, mi_display = n, mi_logo = get_logo_url asset n,
                        mi_vram = js_or vram (JNum 0)\<rparr>
        | _ \<Rightarrow> Inl type_error)))"

fun js_map :: "('a \<Rightarrow> 'b js_result) \<Rightarrow> 'a list \<Rightarrow> 'b list js_result" where
  "js_map f [] = Inr []"
| "js_map f (x # xs) = js_bind (f x) (\<lambda>y. js_bind (js_map f xs) (\<lambda>ys. Inr (y # ys)))"

definition find_model :: "model_info list \<Rightarrow> jval \<Rightarrow> model_info option" where
  "find_model models name = List.find (\<lambda>m. strict_eq (JStr (mi_name m)) name) models"

subsection \<open>Cluster and nodes\<close>

record cluster_info =
  ci_id :: string
  ci_status :: jval
  ci_model_name :: jval
  ci_model_info :: "model_info option"
  ci_join :: jval
  ci_init_nodes :: jval
  ci_more :: jval

definition INITIAL_CLUSTER_INFO :: cluster_info where
  "INITIAL_CLUSTER_INFO = \<lparr>ci_id = [], ci_status = JStr ''offline'', ci_model_name = JStr [],
     ci_model_info = None, ci_join = JObj [], ci_init_nodes = JNum 4, ci_more = JBool False\<rparr>"

record node_info =
  n_id :: jval
  n_status :: jval
  n_gpu_number :: jval
  n_gpu_name :: jval
  n_gpu_memory :: jval

definition model_val :: "model_info option \<Rightarrow> jval" where
  "model_val m = (case m of None \<Rightarrow> JUndef
     | Some i \<Rightarrow> JObj [(''name'', JStr (mi_name i)), (''displayName'', JStr (mi_display i)),
                      (''logoUrl'', JStr (mi_logo i)), (''vram'', mi_vram i)])"

definition cluster_json :: "cluster_info \<Rightarrow> jval" where
  "cluster_json c = json_tree (JObj [(''id'', JStr (ci_id c)), (''status'', ci_status c),
     (''modelName'', ci_model_name c), (''modelInfo'', model_val (ci_model_info c)),
     (''nodeJoinCommand'', ci_join c), (''initNodesNumber'', ci_init_nodes c),
     (''needMoreNodes'', ci_more c)])"

definition node_val :: "node_info \<Rightarrow> jval" where
  "node_val n = JObj [(''id'', n_id n), (''status'', n_status n), (''gpuNumber'', n_gpu_number n),
     (''gpuName'', n_gpu_name n), (''gpuMemory'', n_gpu_memory n)]"

definition nodes_json :: "node_info list \<Rightarrow> jval" where
  "nodes_json ns = json_tree (JArr (map node_val ns))"

definition node_of :: "jval \<Rightarrow> node_info js_result" where
  "node_of raw =
     js_bind (get_prop raw ''node_id'') (\<lambda>i. js_bind (get_prop raw ''status'') (\<lambda>st.
       js_bind (get_prop raw ''gpu_num'') (\<lambda>num. js_bind (get_prop raw ''gpu_name'') (\<lambda>nm.
         js_bind (get_prop raw ''gpu_memory'') (\<lambda>mem.
           Inr \<lparr>n_id = i, n_status = st, n_gpu_number = js_or num (JNum 1),
                n_gpu_name = js_or nm (JStr []), n_gpu_memory = js_or mem (JNum 0)\<rparr>)))))"

definition same_node :: "node_info list \<Rightarrow> node_info \<Rightarrow> bool" where
  "same_node next p \<longleftrightarrow> (\<exists>n \<in> set next. strict_eq (n_id n) (n_id p))"

definition failed_node :: "node_info \<Rightarrow> node_info" where
  "failed_node n = n\<lparr>n_status := JStr ''failed''\<rparr>"

definition merge_nodes :: "node_info list \<Rightarrow> node_info list \<Rightarrow> node_info list" where
  "merge_nodes next prev =
     (let prevOnlineNodes = filter (same_node next) prev;
          prevOfflineNodes = map failed_node (filter (\<lambda>p. \<not> same_node next p) prev);
          next' = (if nodes_json next = nodes_json prevOnlineNodes
                   then next @ prevOfflineNodes else next)
      in if nodes_json next' \<noteq> nodes_json prev then next' else prev)"

definition nodes_updater :: "jval \<Rightarrow> node_info list \<Rightarrow> node_info list js_result" where
  "nodes_updater node_list prev =
     js_bind (js_elems node_list) (\<lambda>raw. js_bind (js_map node_of raw)
       (\<lambda>next. Inr (merge_nodes next prev)))"

definition info_updater :: "model_info list \<Rightarrow> (string \<Rightarrow> jval) \<Rightarrow> cluster_info \<Rightarrow> cluster_info" where
  "info_updater modelInfoList field prev =
     (let model_name = field ''model_name'';
          next = prev\<lparr>ci_status := js_or (js_and model_name (field ''status'')) (JStr ''idle''),
                      ci_init_nodes := js_or (field ''init_nodes_num'') (JNum 0),
                      ci_model_name := js_or model_name (JStr []),
                      ci_model_info := find_model modelInfoList model_name,
                      ci_join := js_or (field ''node_join_command'') (JObj []),
                      ci_more := js_or (field ''need_more_nodes'') (JBool False)\<rparr>
      in if cluster_json next \<noteq> cluster_json prev then next else prev)"

subsection \<open>The provider\<close>

datatype network_type = Local | Remote

datatype loader = Not_started | Loading | Sleeping | Loaded

record cluster =
  cl_network :: network_type
  cl_init_nodes :: "rat option"
  cl_model_name :: jval
  cl_models :: "model_info list"
  cl_loader :: loader
  cl_info :: cluster_info
  cl_nodes :: "node_info list"
  cl_dirty :: bool
  cl_crashed :: bool

definition set_info :: "cluster_info \<Rightarrow> cluster \<Rightarrow> cluster" where
  "set_info next s = s\<lparr>cl_info := next, cl_dirty := (cl_dirty s \<or> next \<noteq> cl_info s)\<rparr>"

definition cluster_reset :: "cluster \<Rightarrow> cluster" where
  "cluster_reset s = (set_info INITIAL_CLUSTER_INFO s)\<lparr>cl_nodes := []\<rparr>"

text \<open>
  \<open>onMessage\<close>, with the \<open>modelInfoList\<close> of the render that created it; the flag of the result
  is false when the handler itself raised. The destructuring reads all the fields first.
\<close>

definition cluster_on_message :: "model_info list \<Rightarrow> jval \<Rightarrow> cluster \<Rightarrow> cluster" where
  "cluster_on_message modelInfoList message s =
     (case get_prop message ''type'' of
        Inl e \<Rightarrow> s
      | Inr t \<Rightarrow>
          if t \<noteq> JStr ''cluster_status'' then s
          else (case get_prop message ''data'' of
              Inl e \<Rightarrow> s
            | Inr data \<Rightarrow>
                if data = JUndef \<or> data = JNull then s
                else let field = prop_of data in
                  (case nodes_updater (field ''node_list'') (cl_nodes s) of
                     Inl e \<Rightarrow> s\<lparr>cl_crashed := True\<rparr>
                   | Inr nodes \<Rightarrow>
                       (set_info (info_updater modelInfoList field (cl_info s)) s)
                         \<lparr>cl_nodes := nodes\<rparr>)))"

text \<open>
  The stream is created by \<open>useMemo\<close> with no dependencies, so the list its handler closes over
  is the one of the first render: the empty one.
\<close>

definition first_models :: "model_info list" where
  "first_models = []"

definition unless_crashed :: "(cluster \<Rightarrow> cluster) \<Rightarrow> cluster \<Rightarrow> cluster" where
  "unless_crashed f s = (if cl_crashed s then s else f s)"

definition cluster_stream_options :: "cluster http_options" where
  "cluster_stream_options =
     create_stream \<lparr>sg_reconnect = Some True, sg_status = None,
       sg_msg = Some (\<lambda>m. unless_crashed (cluster_on_message first_models m)),
       sg_err = Some (\<lambda>e. unless_crashed cluster_reset)\<rparr>"

subsection \<open>The model list\<close>

definition start_model_list :: "host_type \<Rightarrow> cluster \<Rightarrow> cluster" where
  "start_model_list host s =
     (if host = Host_node then s else s\<lparr>cl_loader := Loading\<rparr>)"

definition model_list_reply :: "(rat \<Rightarrow> string) \<Rightarrow> (string \<Rightarrow> string) \<Rightarrow> jval js_result
    \<Rightarrow> cluster \<Rightarrow> cluster" where
  "model_list_reply shown asset reply s =
     (if cl_loader s \<noteq> Loading then s
      else (case js_bind (get_model_list shown reply)
                   (\<lambda>rawList. js_bind (js_elems rawList) (js_map (model_of asset))) of
              Inl e \<Rightarrow> s\<lparr>cl_loader := Sleeping\<rparr>
            | Inr next \<Rightarrow> s\<lparr>cl_models := next, cl_dirty := True, cl_loader := Loaded\<rparr>))"

definition model_list_retry :: "cluster \<Rightarrow> cluster" where
  "model_list_retry s = (if cl_loader s = Sleeping then s\<lparr>cl_loader := Loading\<rparr> else s)"

subsection \<open>The model name and the start of the scheduler\<close>

definition first_model_name :: "cluster \<Rightarrow> jval" where
  "first_model_name s = (case cl_models s of [] \<Rightarrow> JStr [] | m # ms \<Rightarrow> JStr (mi_name m))"

definition model_name_effect :: "cluster \<Rightarrow> cluster" where
  "model_name_effect s =
     (let first = first_model_name s; running = ci_model_name (cl_info s);
          prev = cl_model_name s
      in if ci_status (cl_info s) = JStr ''waiting''
         then s\<lparr>cl_model_name := js_or (js_or running prev) first\<rparr>
         else if ci_status (cl_info s) \<noteq> JStr ''offline''
         then s\<lparr>cl_model_name := js_or (js_or prev running) first\<rparr>
         else s)"

definition render :: "cluster \<Rightarrow> cluster" where
  "render s = (if cl_dirty s \<and> \<not> cl_crashed s then (model_name_effect s)\<lparr>cl_dirty := False\<rparr> else s)"

definition json_number :: "rat option \<Rightarrow> jval" where
  "json_number n = (case n of None \<Rightarrow> JNull | Some q \<Rightarrow> JNum q)"

definition cluster_init :: "bool \<Rightarrow> cluster \<Rightarrow> api_request js_result" where
  "cluster_init dev s =
     (if (case cl_init_nodes s of None \<Rightarrow> False | Some n \<Rightarrow> n < 1)
      then Inl (JsErr ''Error'' ''initNodesNumber must be greater than 0'')
      else if \<not> truthy (cl_model_name s)
      then Inl (JsErr ''Error'' ''modelName is required'')
      else Inr (init_scheduler_request dev
             (JObj [(''model_name'', cl_model_name s),
                    (''init_nodes_num'', json_number (cl_init_nodes s)),
                    (''is_local_network'', JBool (cl_network s = Local))])))"

definition config_model_info :: "cluster \<Rightarrow> model_info option" where
  "config_model_info s = find_model (cl_models s) (cl_model_name s)"

datatype 'b cluster_event =
    Mount host_type
  | SetNetworkType network_type
  | SetInitNodesNumber "rat option"
  | SetModelName string
  | ModelListReply "jval js_result"
  | RetryTimer
  | Stream "'b http_event"

definition cluster_start :: cluster where
  "cluster_start = \<lparr>cl_network = Local, cl_init_nodes = Some 1, cl_model_name = JStr [],
     cl_models = [], cl_loader = Not_started, cl_info = INITIAL_CLUSTER_INFO, cl_nodes = [],
     cl_dirty = False, cl_crashed = False\<rparr>"

definition on_cb :: "(cluster \<Rightarrow> cluster) \<Rightarrow> cluster http \<Rightarrow> cluster http" where
  "on_cb f x = x\<lparr>h_cb := render (unless_crashed f (h_cb x))\<rparr>"

text \<open>What an event does to the provider's own state, before React renders.\<close>

definition cluster_handler :: "(rat \<Rightarrow> string) \<Rightarrow> (string \<Rightarrow> string) \<Rightarrow> 'b cluster_event \<Rightarrow> cluster \<Rightarrow> cluster" where
  "cluster_handler shown asset ev s =
     (case ev of
        Mount host \<Rightarrow> start_model_list host s
      | SetNetworkType t \<Rightarrow> s\<lparr>cl_network := t\<rparr>
      | SetInitNodesNumber n \<Rightarrow> s\<lparr>cl_init_nodes := n\<rparr>
      | SetModelName n \<Rightarrow> s\<lparr>cl_model_name := JStr n\<rparr>
      | ModelListReply r \<Rightarrow> model_list_reply shown asset r s
      | RetryTimer \<Rightarrow> model_list_retry s
      | Stream e \<Rightarrow> s)"

text \<open>The stream's requests start with the mount; its events go through the client.\<close>

definition cluster_step :: "('b \<Rightarrow> string) \<Rightarrow> (string \<Rightarrow> jval option) \<Rightarrow> (rat \<Rightarrow> string)
    \<Rightarrow> (string \<Rightarrow> string) \<Rightarrow> cluster http \<Rightarrow> 'b cluster_event \<Rightarrow> cluster http" where
  "cluster_step decode parse shown asset x ev =
     (let y = (case ev of
           Mount host \<Rightarrow> http_send cluster_stream_options None x
         | Stream e \<Rightarrow> http_step decode parse Some cluster_stream_options x e
         | _ \<Rightarrow> x)
      in on_cb (cluster_handler shown asset ev) y)"

lemmas cluster_set_defs = set_info_def cluster_reset_def unless_crashed_def

subsection \<open>Node lists\<close>

text \<open>Node data a server may send: readable records with usable, distinct identifiers.\<close>

definition nodes_ok :: "jval list \<Rightarrow> bool" where
  "nodes_ok raw \<longleftrightarrow> (\<exists>next. js_map node_of raw = Inr next \<and> distinct (map n_id next) \<and>
     list_all (\<lambda>n. primitive (n_id n)) next)"

definition status_message :: "(string \<times> jval) list \<Rightarrow> jval" where
  "status_message kvs = JObj [(''type'', JStr ''cluster_status''), (''data'', JObj kvs)]"

lemma same_node_iff:
  "list_all (\<lambda>n. primitive (n_id n)) next \<Longrightarrow> same_node next p \<longleftrightarrow> n_id p \<in> n_id ` set next"
  unfolding same_node_def list_all_iff by (metis image_iff strict_eq_primitive)

lemma same_node_self:
  "list_all (\<lambda>n. primitive (n_id n)) next \<Longrightarrow> n \<in> set next \<Longrightarrow> same_node next n"
  by (simp add: same_node_iff)

lemma failed_node_simps [simp]: "n_id (failed_node n) = n_id n" "failed_node (failed_node n) = failed_node n"
  "n_status (failed_node n) = JStr ''failed''"
  by (simp_all add: failed_node_def)

lemma same_node_failed [simp]: "same_node next (failed_node p) = same_node next p"
  by (simp add: same_node_def)

lemma merge_nodes_cases:
  assumes "list_all (\<lambda>n. primitive (n_id n)) next"
  obtains (offline) "merge_nodes next prev = next @ map failed_node (filter (\<lambda>p. \<not> same_node next p) prev)"
  | (changed) "merge_nodes next prev = next"
  | (same) "merge_nodes next prev = prev"
  by (cases "nodes_json next = nodes_json (filter (same_node next) prev)";
      cases "merge_nodes next prev = prev") (auto simp: merge_nodes_def Let_def split: if_splits)

lemma merge_nodes_fixed:
  assumes "list_all (\<lambda>n. primitive (n_id n)) next" and "\<forall>p \<in> set off. \<not> same_node next p \<and> failed_node p = p"
  shows "merge_nodes next (next @ off) = next @ off"
proof -
  have "filter (same_node next) (next @ off) = next"
    using assms by (simp add: same_node_self)
  moreover have "filter (\<lambda>p. \<not> same_node next p) (next @ off) = off"
    using assms by (simp add: same_node_self filter_empty_conv)
  moreover have "map failed_node off = off" using assms(2) by (simp add: map_idI)
  ultimately show ?thesis by (simp add: merge_nodes_def Let_def)
qed

lemma merge_nodes_idem:
  assumes "list_all (\<lambda>n. primitive (n_id n)) next"
  shows "merge_nodes next (merge_nodes next prev) = merge_nodes next prev"
  using assms
proof (cases rule: merge_nodes_cases [of _ prev])
  case offline
  then show ?thesis using merge_nodes_fixed [OF assms] by (simp del: map_map)
next
  case changed
  then show ?thesis using merge_nodes_fixed [OF assms, of "[]"] by simp
next
  case same
  then show ?thesis by simp
qed

lemma merge_nodes_distinct:
  assumes "list_all (\<lambda>n. primitive (n_id n)) next" and "distinct (map n_id next)"
    and "distinct (map n_id prev)"
  shows "distinct (map n_id (merge_nodes next prev))"
  using assms(1)
proof (cases rule: merge_nodes_cases [of _ prev])
  case offline
  have "distinct (map n_id (filter (\<lambda>p. \<not> same_node next p) prev))"
    using assms(3) by (simp add: distinct_map_filter)
  then show ?thesis unfolding offline using assms(1,2)
    by (auto simp: same_node_iff comp_def) (metis image_eqI)
next
  case changed
  then show ?thesis using assms by simp
next
  case same
  then show ?thesis using assms by simp
qed

lemma info_updater_idem: "info_updater ms f (info_updater ms f c) = info_updater ms f c"
  by (cases c) (simp add: info_updater_def Let_def)

subsection \<open>Invariants of the provider\<close>

locale cluster_keeps = http_keeps cluster_stream_options P ok for P ok +
  fixes ev_ok :: "'b cluster_event \<Rightarrow> bool"
    and shown :: "rat \<Rightarrow> string"
    and asset :: "string \<Rightarrow> string"
  assumes local_keeps: "P s \<Longrightarrow> ev_ok ev \<Longrightarrow> P (render (unless_crashed (cluster_handler shown asset ev) s))"
begin

lemma cluster_step_keeps:
  "lines_ok ok parse Some \<Longrightarrow> ev_ok ev \<Longrightarrow> P (h_cb x) \<Longrightarrow>
   P (h_cb (cluster_step decode parse shown asset x ev))"
  by (cases ev) (auto simp: cluster_step_def on_cb_def Let_def intro!: local_keeps send_keeps step_keeps)

end

sublocale cluster_keeps \<subseteq> cluster_kept: guarded_steps "cluster_step decode parse shown asset"
  "\<lambda>x. lines_ok ok parse Some \<longrightarrow> P (h_cb x)" ev_ok for decode parse
  by unfold_locales (blast intro: cluster_step_keeps)

lemma cluster_options_simps [simp]:
  "auto_reconnect cluster_stream_options"
  "on_status cluster_stream_options st s = s"
  "on_msg cluster_stream_options m = unless_crashed (cluster_on_message first_models m)"
  "on_err cluster_stream_options e = unless_crashed cluster_reset"
  by (simp_all add: cluster_stream_options_def create_stream_def)

lemma handler_info [simp]: "cl_info (cluster_handler shown asset ev s) = cl_info s"
  "cl_nodes (cluster_handler shown asset ev s) = cl_nodes s"
  "cl_crashed (cluster_handler shown asset ev s) = cl_crashed s"
  by (auto simp: cluster_handler_def start_model_list_def model_list_reply_def model_list_retry_def
      split: cluster_event.splits sum.splits)

lemma render_simps [simp]: "cl_info (render s) = cl_info s" "cl_nodes (render s) = cl_nodes s"
  "cl_crashed (render s) = cl_crashed s" "cl_models (render s) = cl_models s"
  "cl_init_nodes (render s) = cl_init_nodes s" "cl_network (render s) = cl_network s"
  "cl_loader (render s) = cl_loader s"
  by (auto simp: render_def model_name_effect_def Let_def)

lemma unless_crashed_proj:
  "f (unless_crashed (cluster_handler shown asset ev) s) =
    (if cl_crashed s then f s else f (cluster_handler shown asset ev s))"
  by (simp add: unless_crashed_def)

definition status_ok :: "jval \<Rightarrow> bool" where
  "status_ok m \<longleftrightarrow> prop_of m ''type'' = JStr ''cluster_status'' \<longrightarrow>
     prop_of m ''data'' \<noteq> JUndef \<longrightarrow> prop_of m ''data'' \<noteq> JNull \<longrightarrow>
     (\<exists>raw. prop_of (prop_of m ''data'') ''node_list'' = JArr raw \<and> nodes_ok raw)"

definition cluster_good :: "cluster \<Rightarrow> bool" where
  "cluster_good s \<longleftrightarrow> \<not> cl_crashed s \<and> distinct (map n_id (cl_nodes s))"

lemma nodes_updater_ok:
  "nodes_ok raw \<Longrightarrow> distinct (map n_id prev) \<Longrightarrow>
   \<exists>ns. nodes_updater (JArr raw) prev = Inr ns \<and> distinct (map n_id ns)"
  by (auto simp: nodes_ok_def nodes_updater_def merge_nodes_distinct)

lemma message_good:
  assumes "cluster_good s" and "status_ok m"
  shows "cluster_good (cluster_on_message ms m s)"
proof -
  consider "m = JUndef" | "m = JNull" | "get_prop m ''type'' = Inr (prop_of m ''type'')"
    "get_prop m ''data'' = Inr (prop_of m ''data'')"
    using get_prop_Inr by blast
  then show ?thesis
  proof cases
    case 3
    show ?thesis
    proof (cases "prop_of m ''type'' = JStr ''cluster_status'' \<and> prop_of m ''data'' \<noteq> JUndef \<and>
        prop_of m ''data'' \<noteq> JNull")
      case True
      then obtain raw where "prop_of (prop_of m ''data'') ''node_list'' = JArr raw" "nodes_ok raw"
        using assms(2) by (auto simp: status_ok_def)
      then show ?thesis using nodes_updater_ok [of raw "cl_nodes s"] assms(1) 3 True
        by (auto simp: cluster_on_message_def cluster_good_def set_info_def Let_def)
    next
      case False
      then show ?thesis using 3 assms(1) by (auto simp: cluster_on_message_def)
    qed
  qed (use assms(1) in \<open>simp_all add: cluster_on_message_def\<close>)
qed

interpretation good: cluster_keeps cluster_good status_ok "\<lambda>_. True" shown asset for shown asset
proof
  show "cluster_good s \<Longrightarrow> cluster_good (on_status cluster_stream_options st s)" for s st by simp
  show "cluster_good s \<Longrightarrow> status_ok m \<Longrightarrow> cluster_good (on_msg cluster_stream_options m s)" for s m
    by (simp add: unless_crashed_def message_good)
  show "cluster_good s \<Longrightarrow> cluster_good (on_err cluster_stream_options e s)" for s e
    by (simp add: cluster_set_defs cluster_good_def)
  show "cluster_good s \<Longrightarrow> True \<Longrightarrow>
      cluster_good (render (unless_crashed (cluster_handler shown asset ev) s))"
    for s and ev :: "'b cluster_event"
    by (simp add: cluster_good_def unless_crashed_proj)
qed

text \<open>The model that is never there.\<close>

definition no_model :: "cluster \<Rightarrow> bool" where
  "no_model s \<longleftrightarrow> ci_model_info (cl_info s) = None"

lemma no_model_updater: "ci_model_info c = None \<Longrightarrow> ci_model_info (info_updater first_models f c) = None"
  by (simp add: info_updater_def first_models_def find_model_def Let_def)

lemma message_no_model: "no_model s \<Longrightarrow> no_model (cluster_on_message first_models m s)"
  by (auto simp: no_model_def cluster_on_message_def set_info_def no_model_updater Let_def
      split: sum.splits)

interpretation modelless: cluster_keeps no_model "\<lambda>_. True" "\<lambda>_. True" shown asset for shown asset
proof
  show "no_model s \<Longrightarrow> no_model (on_status cluster_stream_options st s)" for s st by simp
  show "no_model s \<Longrightarrow> True \<Longrightarrow> no_model (on_msg cluster_stream_options m s)" for s m
    by (simp add: unless_crashed_def message_no_model)
  show "no_model s \<Longrightarrow> no_model (on_err cluster_stream_options e s)" for s e
    by (simp add: cluster_set_defs no_model_def INITIAL_CLUSTER_INFO_def)
  show "no_model s \<Longrightarrow> True \<Longrightarrow>
      no_model (render (unless_crashed (cluster_handler shown asset ev) s))"
    for s and ev :: "'b cluster_event"
    by (simp add: no_model_def unless_crashed_proj)
qed

text \<open>The user's choice of a model.\<close>

definition chosen :: "string \<Rightarrow> cluster \<Rightarrow> bool" where
  "chosen name s \<longleftrightarrow> cl_model_name s = JStr name \<and> ci_status (cl_info s) \<noteq> JStr ''waiting''"

definition not_waiting :: "jval \<Rightarrow> bool" where
  "not_waiting m \<longleftrightarrow> prop_of (prop_of m ''data'') ''status'' \<noteq> JStr ''waiting''"

definition no_choice :: "'b cluster_event \<Rightarrow> bool" where
  "no_choice ev \<longleftrightarrow> (\<forall>n. ev \<noteq> SetModelName n)"

lemma updater_waiting:
  "ci_status (info_updater ms f c) = JStr ''waiting'' \<Longrightarrow>
   ci_status c = JStr ''waiting'' \<or> f ''status'' = JStr ''waiting''"
  by (auto simp: info_updater_def Let_def js_or_def js_and_def split: if_splits)

lemma message_chosen: "chosen name s \<Longrightarrow> not_waiting m \<Longrightarrow> chosen name (cluster_on_message ms m s)"
  by (auto simp: chosen_def cluster_on_message_def set_info_def Let_def not_waiting_def prop_of_Inr
      dest: updater_waiting split: sum.splits)

lemma render_chosen: "name \<noteq> [] \<Longrightarrow> chosen name s \<Longrightarrow> chosen name (render s)"
  by (auto simp: chosen_def render_def model_name_effect_def Let_def js_or_def)

lemma handler_chosen: "no_choice ev \<Longrightarrow> chosen name s \<Longrightarrow> chosen name (cluster_handler shown asset ev s)"
  by (auto simp: chosen_def no_choice_def cluster_handler_def start_model_list_def model_list_reply_def
      model_list_retry_def split: cluster_event.splits sum.splits)

interpretation choice: cluster_keeps "\<lambda>s. name \<noteq> [] \<longrightarrow> chosen name s" not_waiting no_choice shown asset
  for name shown asset
proof
  show "name \<noteq> [] \<longrightarrow> chosen name s \<Longrightarrow> name \<noteq> [] \<longrightarrow> chosen name (on_status cluster_stream_options st s)"
    for s st by simp
  show "name \<noteq> [] \<longrightarrow> chosen name s \<Longrightarrow> not_waiting m \<Longrightarrow>
      name \<noteq> [] \<longrightarrow> chosen name (on_msg cluster_stream_options m s)" for s m
    by (simp add: unless_crashed_def message_chosen)
  show "name \<noteq> [] \<longrightarrow> chosen name s \<Longrightarrow> name \<noteq> [] \<longrightarrow> chosen name (on_err cluster_stream_options e s)"
    for s e by (auto simp: cluster_set_defs chosen_def INITIAL_CLUSTER_INFO_def)
  show "name \<noteq> [] \<longrightarrow> chosen name s \<Longrightarrow> no_choice ev \<Longrightarrow>
      name \<noteq> [] \<longrightarrow> chosen name (render (unless_crashed (cluster_handler shown asset ev) s))"
    for s and ev :: "'b cluster_event"
    by (auto simp: unless_crashed_def render_chosen handler_chosen)
qed

text \<open>A model name is there once there is a model list and a cluster.\<close>

definition named :: "cluster \<Rightarrow> bool" where
  "named s \<longleftrightarrow> ci_status (cl_info s) \<noteq> JStr ''offline'' \<longrightarrow> truthy (first_model_name s) \<longrightarrow>
     truthy (cl_model_name s)"

definition named_or_dirty :: "cluster \<Rightarrow> bool" where
  "named_or_dirty s \<longleftrightarrow> cl_dirty s \<or> named s"

definition names_given :: "'b cluster_event \<Rightarrow> bool" where
  "names_given ev \<longleftrightarrow> ev \<noteq> SetModelName []"

lemma effect_named: "named (model_name_effect s)"
  by (auto simp: named_def model_name_effect_def first_model_name_def Let_def truthy_js_or)

lemma named_dirty_irrelevant [simp]: "named (s\<lparr>cl_dirty := b\<rparr>) = named s"
  by (simp add: named_def first_model_name_def)

lemma render_named: "named_or_dirty s \<Longrightarrow> \<not> cl_crashed s \<Longrightarrow> named (render s)"
  by (auto simp: render_def named_or_dirty_def effect_named)

lemma render_named_or_dirty: "named_or_dirty s \<Longrightarrow> named_or_dirty (render s)"
  by (auto simp: render_def named_or_dirty_def effect_named)

lemma set_info_named: "named_or_dirty s \<Longrightarrow> named_or_dirty (set_info c s)"
  by (auto simp: set_info_def named_or_dirty_def named_def first_model_name_def)

lemma named_nodes [simp]: "named_or_dirty (s\<lparr>cl_nodes := ns\<rparr>) = named_or_dirty s"
  "named_or_dirty (s\<lparr>cl_crashed := b\<rparr>) = named_or_dirty s"
  by (simp_all add: named_or_dirty_def named_def first_model_name_def)

lemma message_named: "named_or_dirty s \<Longrightarrow> named_or_dirty (cluster_on_message ms m s)"
  by (auto simp: cluster_on_message_def set_info_named Let_def split: sum.splits)

lemma handler_named: "names_given ev \<Longrightarrow> named_or_dirty s \<Longrightarrow> named_or_dirty (cluster_handler shown asset ev s)"
  by (auto simp: names_given_def cluster_handler_def start_model_list_def model_list_reply_def
      model_list_retry_def named_or_dirty_def named_def first_model_name_def
      split: cluster_event.splits sum.splits)

interpretation naming: cluster_keeps named_or_dirty "\<lambda>_. True" names_given shown asset for shown asset
proof
  show "named_or_dirty s \<Longrightarrow> named_or_dirty (on_status cluster_stream_options st s)" for s st by simp
  show "named_or_dirty s \<Longrightarrow> True \<Longrightarrow> named_or_dirty (on_msg cluster_stream_options m s)" for s m
    by (simp add: unless_crashed_def message_named)
  show "named_or_dirty s \<Longrightarrow> named_or_dirty (on_err cluster_stream_options e s)" for s e
    by (simp add: cluster_reset_def unless_crashed_def set_info_named)
  show "named_or_dirty s \<Longrightarrow> names_given ev \<Longrightarrow>
      named_or_dirty (render (unless_crashed (cluster_handler shown asset ev) s))"
    for s and ev :: "'b cluster_event"
    by (simp add: unless_crashed_def render_named_or_dirty handler_named)
qed

text \<open>Every step ends with a render, after which no effect is pending.\<close>

definition rendered :: "cluster \<Rightarrow> bool" where
  "rendered s \<longleftrightarrow> cl_crashed s \<or> \<not> cl_dirty s"

lemma rendered_step: "rendered (h_cb (cluster_step decode parse shown asset x ev))"
  by (auto simp: cluster_step_def on_cb_def rendered_def render_def Let_def)

interpretation rendering: invariant_steps "cluster_step decode parse shown asset"
  "\<lambda>x. rendered (h_cb x)" for decode parse shown asset
  by unfold_locales (rule rendered_step)

subsection \<open>Properties\<close>

text \<open>
  C13 (cluster_never_crashes): as long as the server's node lists are readable and name every
  node once, the page never crashes and the node list shown names every node once, whatever
  the network, the timers and the user do.
\<close>

theorem cluster_never_crashes:
  assumes "\<forall>line m. parse line = Some m \<longrightarrow> status_ok m"
  shows "\<not> cl_crashed (h_cb (run (cluster_step decode parse shown asset) (http_init cluster_start) evs)) \<and>
    distinct (map n_id (cl_nodes (h_cb (run (cluster_step decode parse shown asset) (http_init cluster_start) evs))))"
proof -
  have "lines_ok status_ok parse Some"
    using assms by (simp add: lines_ok_def line_message_def split: option.splits)
  moreover have "cluster_good (h_cb (http_init cluster_start))"
    by (simp add: cluster_good_def http_init_def cluster_start_def)
  moreover have "list_all (\<lambda>_. True) evs" by (simp add: list_all_iff)
  ultimately show ?thesis
    using good.cluster_kept.run_guarded [of parse "http_init cluster_start" evs decode shown asset]
    unfolding cluster_good_def by blast
qed

text \<open>A server whose nodes come and go, for the examples.\<close>

definition node_json :: "string \<Rightarrow> jval" where
  "node_json i = JObj [(''node_id'', JStr i), (''status'', JStr ''available'')]"

definition nodes_message :: "string list \<Rightarrow> jval" where
  "nodes_message is = status_message [(''status'', JStr ''available''), (''model_name'', JStr ''m''),
     (''node_list'', JArr (map node_json is))]"

theorem cluster_never_crashes_witness:
  "\<not> cl_crashed (h_cb (run (cluster_step id (\<lambda>l. Some (nodes_message [''a'', ''b''])) (\<lambda>q. []) id)
     (http_init cluster_start) [Mount Host_cluster, Stream (HResponse 0 200 (Some ''application/x-ndjson'') True),
       Stream (HChunk 0 [NL])]))"
proof -
  have ok: "status_ok (nodes_message [''a'', ''b''])"
    by (simp add: status_ok_def nodes_message_def status_message_def node_json_def prop_of_def
        obj_get_def nodes_ok_def node_of_def js_or_def primitive_def)
  then have "\<forall>line m. Some (nodes_message [''a'', ''b'']) = Some m \<longrightarrow> status_ok m" by simp
  then show ?thesis by (rule conjunct1 [OF cluster_never_crashes])
qed

text \<open>
  After a status message the node list shows the server's nodes first, in
  the server's order, and after them only nodes it showed before that the server no longer
  lists, marked \<open>failed\<close>. (The list is compared as its JSON text, as the code does.)
\<close>

lemma cluster_node_list:
  assumes "obj_get kvs ''node_list'' = JArr raw" and "js_map node_of raw = Inr next"
  shows "\<exists>off. nodes_json (cl_nodes (cluster_on_message ms (status_message kvs) s)) = nodes_json (next @ off) \<and>
    (\<forall>n \<in> set off. n_status n = JStr ''failed'' \<and> \<not> same_node next n \<and>
       (\<exists>p \<in> set (cl_nodes s). n = failed_node p))"
proof -
  let ?prev = "cl_nodes s"
  let ?off = "map failed_node (filter (\<lambda>p. \<not> same_node next p) ?prev)"
  have "cl_nodes (cluster_on_message ms (status_message kvs) s) = merge_nodes next ?prev"
    using assms by (simp add: cluster_on_message_def status_message_def obj_get_def prop_of_def
        nodes_updater_def set_info_def Let_def)
  moreover have "nodes_json (merge_nodes next ?prev) = nodes_json (next @ ?off) \<or>
      nodes_json (merge_nodes next ?prev) = nodes_json (next @ [])"
    by (auto simp: merge_nodes_def Let_def)
  ultimately show ?thesis
  proof (elim disjE)
    assume "cl_nodes (cluster_on_message ms (status_message kvs) s) = merge_nodes next ?prev"
      and "nodes_json (merge_nodes next ?prev) = nodes_json (next @ ?off)"
    then show ?thesis by (intro exI [of _ ?off]) auto
  next
    assume "cl_nodes (cluster_on_message ms (status_message kvs) s) = merge_nodes next ?prev"
      and "nodes_json (merge_nodes next ?prev) = nodes_json (next @ [])"
    then show ?thesis by (intro exI [of _ "[]"]) auto
  qed
qed

text \<open>
  C21 (cluster_message_idempotent): a status message received again changes nothing: neither the
  cluster information nor the node list is replaced, so nothing is rendered anew.
\<close>

theorem cluster_message_idempotent:
  assumes "obj_get kvs ''node_list'' = JArr raw" and "nodes_ok raw"
  shows "cluster_on_message ms (status_message kvs) (cluster_on_message ms (status_message kvs) s) =
    cluster_on_message ms (status_message kvs) s"
proof -
  obtain ns where "js_map node_of raw = Inr ns" "list_all (\<lambda>n. primitive (n_id n)) ns"
    using assms(2) by (auto simp: nodes_ok_def)
  then have "cluster_on_message ms (status_message kvs) t =
      (set_info (info_updater ms (obj_get kvs) (cl_info t)) t)\<lparr>cl_nodes := merge_nodes ns (cl_nodes t)\<rparr>" for t
    using assms(1) by (simp add: cluster_on_message_def status_message_def obj_get_def [of "[_, _]"]
        prop_of_JObj nodes_updater_def Let_def)
  then show ?thesis
    using \<open>list_all _ ns\<close> by (simp add: set_info_def info_updater_idem merge_nodes_idem)
qed

theorem cluster_message_idempotent_witness:
  "cluster_on_message [] (nodes_message [''a'']) (cluster_on_message [] (nodes_message [''a'']) cluster_start) =
    cluster_on_message [] (nodes_message [''a'']) cluster_start"
  using cluster_message_idempotent [of "[(''status'', JStr ''available''), (''model_name'', JStr ''m''),
     (''node_list'', JArr (map node_json [''a'']))]" "[node_json ''a'']" "[]" cluster_start]
  by (simp add: nodes_message_def obj_get_def nodes_ok_def node_of_def node_json_def js_or_def primitive_def)

text \<open>
  C39 (cluster_model_info_undefined): \<open>clusterInfo.modelInfo\<close> is \<open>undefined\<close> in every
  reachable state, also when the running model is in the model list: the handler that should
  find it reads the model list of the first render, which is empty.
\<close>

theorem cluster_model_info_undefined:
  "ci_model_info (cl_info (h_cb (run (cluster_step decode parse shown asset) (http_init cluster_start) evs))) = None"
proof -
  have "no_model (h_cb (http_init cluster_start))"
    by (simp add: no_model_def http_init_def cluster_start_def INITIAL_CLUSTER_INFO_def)
  moreover have "list_all (\<lambda>_. True) evs" by (simp add: list_all_iff)
  ultimately show ?thesis
    using modelless.cluster_kept.run_guarded [of parse "http_init cluster_start" evs decode shown asset]
    by (simp add: no_model_def)
qed

text \<open>
  C25 (cluster_keeps_user_model): a model name the user has set stays until the user sets another
  one, through all status messages, errors and model lists, unless the cluster is \<open>waiting\<close>.
\<close>

theorem cluster_keeps_user_model:
  assumes "name \<noteq> []" and "chosen name (h_cb x)" and "list_all no_choice evs"
    and "\<forall>line m. parse line = Some m \<longrightarrow> not_waiting m"
  shows "cl_model_name (h_cb (run (cluster_step decode parse shown asset) x evs)) = JStr name"
proof -
  have "lines_ok not_waiting parse Some"
    using assms(4) by (simp add: lines_ok_def line_message_def split: option.splits)
  then show ?thesis
    using choice.cluster_kept.run_guarded [of parse name x evs decode shown asset] assms(1-3)
    unfolding chosen_def by blast
qed

theorem cluster_keeps_user_model_witness:
  "cl_model_name (h_cb (run (cluster_step id (\<lambda>l. Some (nodes_message [''a''])) (\<lambda>q. []) id)
     (cluster_step id (\<lambda>l. None) (\<lambda>q. []) id (http_init cluster_start) (SetModelName ''mine''))
     [Mount Host_cluster, Stream (HResponse 0 200 (Some ''application/x-ndjson'') True),
      Stream (HChunk 0 [NL])])) = JStr ''mine''"
proof -
  let ?x = "cluster_step id (\<lambda>l. None) (\<lambda>q. []) id (http_init cluster_start) (SetModelName ''mine'')"
  have 1: "chosen ''mine'' (h_cb ?x)"
    by (simp add: chosen_def cluster_step_def on_cb_def render_def unless_crashed_def
        cluster_handler_def http_init_def cluster_start_def INITIAL_CLUSTER_INFO_def)
  have 2: "list_all no_choice [Mount Host_cluster,
      Stream (HResponse 0 200 (Some ''application/x-ndjson'') True), Stream (HChunk 0 [NL])]"
    by (simp add: no_choice_def)
  have 3: "\<forall>line m. Some (nodes_message [''a'']) = Some m \<longrightarrow> not_waiting m"
    by (simp add: not_waiting_def nodes_message_def status_message_def prop_of_def obj_get_def)
  show ?thesis by (rule cluster_keeps_user_model [OF _ 1 2 3]) simp
qed

text \<open>
  C24 (cluster_ready_to_init): take any history of events in which the page never sets an empty model name. In every state it reaches
  in which the provider has not crashed, the cluster is not \<open>offline\<close>, the first model of the list has a
  name that is not empty, and the number of nodes set is at least one, a model name is configured and starting the scheduler does not fail: it posts
  that name, the number of nodes and the network type.
\<close>

theorem cluster_ready_to_init:
  assumes "s = h_cb (run (cluster_step decode parse shown asset) (http_init cluster_start) evs)"
    and "list_all names_given evs" and "\<not> cl_crashed s"
    and "ci_status (cl_info s) \<noteq> JStr ''offline''" and "truthy (first_model_name s)"
    and "cl_init_nodes s = Some n" and "1 \<le> n"
  shows "truthy (cl_model_name s) \<and> cluster_init dev s = Inr \<lparr>r_url = API_BASE_URL dev @ ''/scheduler/init'',
    r_method = POST, r_body = JObj [(''model_name'', json_tree (cl_model_name s)),
      (''init_nodes_num'', JNum n), (''is_local_network'', JBool (cl_network s = Local))]\<rparr>"
proof -
  have "named_or_dirty (h_cb (http_init cluster_start))"
    by (simp add: named_or_dirty_def named_def http_init_def cluster_start_def INITIAL_CLUSTER_INFO_def)
  then have 1: "named_or_dirty s"
    using naming.cluster_kept.run_guarded [of parse "http_init cluster_start" evs decode shown asset] assms(1,2)
    by simp
  have "rendered (h_cb (http_init cluster_start))"
    by (simp add: rendered_def http_init_def cluster_start_def)
  then have "rendered s"
    using rendering.run_inv [of "http_init cluster_start" decode parse shown asset evs] assms(1) by simp
  then have t: "truthy (cl_model_name s)"
    using 1 assms(3-5) by (simp add: named_or_dirty_def rendered_def named_def)
  then have "cl_model_name s \<noteq> JUndef" by auto
  then show ?thesis
    using t assms(6,7) by (simp add: cluster_init_def init_scheduler_request_def json_number_def)
qed

definition connected_cluster :: cluster where
  "connected_cluster = h_cb (run (cluster_step id (\<lambda>l. Some (nodes_message [''a''])) (\<lambda>q. []) id)
     (http_init cluster_start)
     [Mount Host_cluster, Stream (HResponse 0 200 (Some ''application/x-ndjson'') True),
      Stream (HChunk 0 [NL]),
      ModelListReply (Inr (JObj [(''type'', JStr ''model_list''),
        (''data'', JArr [JObj [(''name'', JStr ''Qwen/Qwen3'')]])]))])"

theorem cluster_ready_to_init_witness:
  "cluster_init False connected_cluster = Inr \<lparr>r_url = ''/scheduler/init'', r_method = POST,
     r_body = JObj [(''model_name'', JStr ''m''), (''init_nodes_num'', JNum 1),
       (''is_local_network'', JBool True)]\<rparr>"
proof -
  have 1: "cl_crashed connected_cluster = False" "ci_status (cl_info connected_cluster) = JStr ''available''"
    "first_model_name connected_cluster = JStr ''Qwen/Qwen3''" "cl_init_nodes connected_cluster = Some 1"
    "cl_model_name connected_cluster = JStr ''m''" "cl_network connected_cluster = Local"
    by code_simp+
  show ?thesis
    using cluster_ready_to_init [OF connected_cluster_def _ _ _ _ 1(4), of False] 1
    by (simp add: names_given_def API_BASE_URL_def)
qed

definition failing_reply :: "(rat \<Rightarrow> string) \<Rightarrow> (string \<Rightarrow> string) \<Rightarrow> jval js_result \<Rightarrow> bool" where
  "failing_reply shown asset reply \<longleftrightarrow> (\<exists>e. js_bind (get_model_list shown reply)
     (\<lambda>rawList. js_bind (js_elems rawList) (js_map (model_of asset))) = Inl e)"

fun attempts :: "jval js_result list \<Rightarrow> 'b cluster_event list" where
  "attempts [] = []"
| "attempts (r # rs) = ModelListReply r # RetryTimer # attempts rs"

definition model_list_message :: "jval list \<Rightarrow> jval" where
  "model_list_message ms = JObj [(''type'', JStr ''model_list''), (''data'', JArr ms)]"

lemma attempts_fail:
  assumes "list_all (failing_reply shown asset) rs" and "cl_loader (h_cb x) = Loading" and "rendered (h_cb x)"
    and "\<not> cl_crashed (h_cb x)"
  shows "run (cluster_step decode parse shown asset) x (attempts rs) = x"
  using assms
proof (induction rs arbitrary: x)
  case Nil
  then show ?case by simp
next
  case (Cons r rs)
  have "cluster_step decode parse shown asset (cluster_step decode parse shown asset x (ModelListReply r))
      RetryTimer = x"
    using Cons.prems by (cases x; cases "h_cb x")
      (auto simp: cluster_step_def on_cb_def unless_crashed_def cluster_handler_def model_list_reply_def
        failing_reply_def model_list_retry_def render_def rendered_def Let_def)
  then show ?case using Cons by simp
qed

text \<open>
  C29 (cluster_model_list_loaded): the model list is fetched again after every failure, however
  many there are, and the first usable reply ends the loop with its list, every model with its
  name, its logo and its memory, missing ones replaced by defaults.
\<close>

theorem cluster_model_list_loaded:
  assumes "cl_loader (h_cb x) = Loading" and "rendered (h_cb x)" and "\<not> cl_crashed (h_cb x)"
    and "list_all (failing_reply shown asset) rs" and "js_map (model_of asset) ms = Inr models"
  shows "cl_models (h_cb (run (cluster_step decode parse shown asset) x
      (attempts rs @ [ModelListReply (Inr (model_list_message ms))]))) = models \<and>
    cl_loader (h_cb (run (cluster_step decode parse shown asset) x
      (attempts rs @ [ModelListReply (Inr (model_list_message ms))]))) = Loaded"
proof -
  have "get_model_list shown (Inr (model_list_message ms)) = Inr (JArr ms)"
    by (simp add: get_model_list_def expect_type_def model_list_message_def obj_get_def)
  then show ?thesis
    using attempts_fail [OF assms(4,1,2,3), of decode parse] assms
    by (simp add: cluster_step_def on_cb_def unless_crashed_def cluster_handler_def
        model_list_reply_def Let_def)
qed

theorem cluster_model_list_loaded_witness:
  "cl_models (h_cb (run (cluster_step id (\<lambda>l. None) (\<lambda>q. []) id)
      (cluster_step id (\<lambda>l. None) (\<lambda>q. []) id (http_init cluster_start) (Mount Host_cluster))
      (attempts [Inl type_error, Inr JNull] @ [ModelListReply (Inr (model_list_message
         [JObj [(''name'', JStr ''Qwen/Q'')], JObj []]))])))
   = [\<lparr>mi_name = ''Qwen/Q'', mi_display = ''Qwen/Q'', mi_logo = ''../assets/models/Qwen3.png'', mi_vram = JNum 0\<rparr>,
      \<lparr>mi_name = [], mi_display = [], mi_logo = [], mi_vram = JNum 0\<rparr>]"
proof -
  let ?x = "cluster_step id (\<lambda>l. None) (\<lambda>q. []) id (http_init cluster_start) (Mount Host_cluster)"
  have h: "h_cb ?x = cluster_start\<lparr>cl_loader := Loading\<rparr>"
    by (simp add: cluster_step_def http_send_def on_status_change_def on_cb_def unless_crashed_def
        cluster_handler_def start_model_list_def render_def http_init_def cluster_start_def Let_def)
  have 1: "cl_loader (h_cb ?x) = Loading" "rendered (h_cb ?x)" "\<not> cl_crashed (h_cb ?x)"
    unfolding h by (simp_all add: rendered_def cluster_start_def)
  have 2: "list_all (failing_reply (\<lambda>q. []) id) [Inl type_error, Inr JNull]"
    by (simp add: failing_reply_def get_model_list_def expect_type_def)
  have 3: "js_map (model_of id) [JObj [(''name'', JStr ''Qwen/Q'')], JObj []] =
    Inr [\<lparr>mi_name = ''Qwen/Q'', mi_display = ''Qwen/Q'', mi_logo = ''../assets/models/Qwen3.png'', mi_vram = JNum 0\<rparr>,
      \<lparr>mi_name = [], mi_display = [], mi_logo = [], mi_vram = JNum 0\<rparr>]"
    by code_simp
  show ?thesis using cluster_model_list_loaded [OF 1 2 3, of id "\<lambda>l. None"] by blast
qed

end
