(* ===== verification/Ui.thy ===== *)
theory Ui
  imports Cluster
begin

text \<open>
  Rendered elements: what the render functions return. An element has the name of its tag or
  component, its properties in the order of the source and its children; a property is a value,
  an event the element dispatches, a function to such an event from the text or from the
  (at most three) numbers the browser hands over, or from a key and whether shift is held, an
  object of properties, or an element. A child that is a plain value is \<open>Val\<close>: React shows strings and
  numbers and nothing for \<open>false\<close>, \<open>null\<close> and \<open>undefined\<close>. Components of the libraries
  are only named; \<open>''Fragment''\<close> is the empty tag.
\<close>

datatype 'e ui =
    Val jval
  | El string "(string \<times> 'e attr) list" "'e ui list"
and 'e attr =
    PV jval
  | PE 'e
  | PF "string \<Rightarrow> 'e"
  | PG "rat \<times> rat \<times> rat \<Rightarrow> 'e"
  | PK "string \<Rightarrow> bool \<Rightarrow> 'e"
  | PR "(string \<times> 'e attr) list"
  | PU "'e ui"

abbreviation Txt :: "string \<Rightarrow> 'e ui" where
  "Txt s \<equiv> Val (JStr s)"

abbreviation PS :: "string \<Rightarrow> 'e attr" where
  "PS s \<equiv> PV (JStr s)"

abbreviation PN :: "rat \<Rightarrow> 'e attr" where
  "PN n \<equiv> PV (JNum n)"

abbreviation PO :: "(string \<times> jval) list \<Rightarrow> 'e attr" where
  "PO kvs \<equiv> PV (JObj kvs)"

text \<open>\<open>a && <X/>\<close> and \<open>cond && <X/>\<close>.\<close>

definition ui_and :: "jval \<Rightarrow> 'e ui \<Rightarrow> 'e ui" where
  "ui_and v u = (if truthy v then u else Val v)"

definition ui_when :: "bool \<Rightarrow> 'e ui \<Rightarrow> 'e ui" where
  "ui_when b u = ui_and (JBool b) u"

text \<open>
  What a style function reads of the theme: a value by its path, and \<open>spacing(n)\<close>. A style
  value of JavaScript's \<open>Infinity\<close> is written as its text.
\<close>

record theme =
  th :: "string list \<Rightarrow> jval"
  spacing :: "rat \<Rightarrow> jval"

text \<open>The properties \<open>...v\<close> spreads.\<close>

definition spread :: "jval \<Rightarrow> (string \<times> jval) list" where
  "spread v = (case v of JObj kvs \<Rightarrow> kvs | _ \<Rightarrow> [])"

definition js_infinity :: jval where
  "js_infinity = JStr ''Infinity''"

definition spinning :: "(string \<times> 'e attr) list" where
  "spinning = [(''animate'', PO [(''rotate'', JNum 360)]),
     (''transition'', PO [(''repeat'', js_infinity), (''ease'', JStr ''linear''), (''duration'', JNum 2)])]"

text \<open>
  Shared texts. The right single quotation mark U+2019 has no \<open>char\<close> and is written as its
  UTF-8 bytes.
\<close>

definition rsquo :: string where
  "rsquo = [CHR 0xE2, CHR 0x80, CHR 0x99]"

definition vram_text :: "(rat \<Rightarrow> string) \<Rightarrow> model_info \<Rightarrow> string" where
  "vram_text shown m = ''minimum of '' @ js_text shown (mi_vram m) @ '' GB of total VRAM''"

subsection \<open>What a tree contains\<close>

fun elems :: "'e ui \<Rightarrow> (string \<times> (string \<times> 'e attr) list) list"
  and prop_elems :: "(string \<times> 'e attr) list \<Rightarrow> (string \<times> (string \<times> 'e attr) list) list"
  and child_elems :: "'e ui list \<Rightarrow> (string \<times> (string \<times> 'e attr) list) list" where
  "elems (Val v) = []"
| "elems (El n ps cs) = (n, ps) # prop_elems ps @ child_elems cs"
| "prop_elems [] = []"
| "prop_elems ((k, p) # ps) = (case p of PU u \<Rightarrow> elems u | PR qs \<Rightarrow> prop_elems qs | _ \<Rightarrow> []) @ prop_elems ps"
| "child_elems [] = []"
| "child_elems (c # cs) = elems c @ child_elems cs"

fun shown_text :: "(rat \<Rightarrow> string) \<Rightarrow> 'e ui \<Rightarrow> string"
  and shown_texts :: "(rat \<Rightarrow> string) \<Rightarrow> 'e ui list \<Rightarrow> string" where
  "shown_text shown (Val v) = (case v of JStr s \<Rightarrow> s | JNum n \<Rightarrow> show_rat shown n | _ \<Rightarrow> [])"
| "shown_text shown (El n ps cs) = shown_texts shown cs"
| "shown_texts shown [] = []"
| "shown_texts shown (c # cs) = shown_text shown c @ shown_texts shown cs"

text \<open>The elements of a name, and the events a property of that name dispatches.\<close>

definition named_elems :: "string \<Rightarrow> 'e ui \<Rightarrow> (string \<times> 'e attr) list list" where
  "named_elems n u = map snd (filter (\<lambda>e. fst e = n) (elems u))"

definition prop_events :: "string \<Rightarrow> (string \<times> 'e attr) list \<Rightarrow> 'e list" where
  "prop_events k ps = (case map_of ps k of Some (PE e) \<Rightarrow> [e] | _ \<Rightarrow> [])"

definition events :: "string \<Rightarrow> 'e ui \<Rightarrow> 'e list" where
  "events k u = concat (map (\<lambda>e. prop_events k (snd e)) (elems u))"

lemma child_elems_map: "child_elems cs = concat (map elems cs)"
  by (induction cs) auto

lemma child_elems_append [simp]: "child_elems (cs @ ds) = child_elems cs @ child_elems ds"
  by (simp add: child_elems_map)

lemma ui_when_simps [simp]: "ui_when True u = u" "ui_when False u = Val (JBool False)"
  by (simp_all add: ui_when_def ui_and_def)

lemma elems_ui_when: "elems (ui_when b u) = (if b then elems u else [])"
  by (simp add: ui_when_def ui_and_def)

lemma elems_ui_and: "elems (ui_and v u) = (if truthy v then elems u else [])"
  by (simp add: ui_and_def)

lemma events_Val [simp]: "events k (Val v) = []"
  by (simp add: events_def)

lemma events_El: "events k (El n ps cs) =
    prop_events k ps @ concat (map (\<lambda>e. prop_events k (snd e)) (prop_elems ps)) @ concat (map (events k) cs)"
  by (induction cs) (auto simp: events_def)

lemma events_when [simp]: "events k (ui_when b u) = (if b then events k u else [])"
  by (simp add: ui_when_def ui_and_def)

lemma events_and [simp]: "events k (ui_and v u) = (if truthy v then events k u else [])"
  by (simp add: ui_and_def)

lemma prop_events_Nil [simp]: "prop_events k [] = []"
  by (simp add: prop_events_def)

lemma prop_events_Cons [simp]:
  "prop_events k ((k', p) # ps) = (if k' = k then (case p of PE e \<Rightarrow> [e] | _ \<Rightarrow> []) else prop_events k ps)"
  by (simp add: prop_events_def)

lemmas ui_simps = elems_ui_when elems_ui_and named_elems_def events_def prop_events_def

end
