(* ===== verification/ModelSelect.thy ===== *)
theory ModelSelect
  imports Ui
begin

text \<open>
  \<^verbatim>\<open>components/inputs/model-select.tsx\<close>: the selection of a model. With \<open>autoCommit\<close> a
  selection is also handed to the scheduler: \<open>onChange\<close> arms a flag, and the effect, which runs
  after a render in which the flag or the configured name is new, starts the scheduler once
  the configured model is not the running one. \<open>ms_seen\<close> are the dependencies of the effect's
  last run, \<open>ms_inits\<close> the results of \<open>init\<close>.
\<close>

datatype select_variant = V_outlined | V_text

record model_select =
  ms_can :: bool
  ms_seen :: "bool \<times> jval"
  ms_inits :: "api_request js_result list"

definition ms_effect :: "bool \<Rightarrow> cluster \<Rightarrow> model_select \<Rightarrow> model_select" where
  "ms_effect dev cl s =
     (if ms_can s \<and> \<not> strict_eq (cl_model_name cl) (ci_model_name (cl_info cl))
      then s\<lparr>ms_can := False, ms_inits := ms_inits s @ [cluster_init dev cl]\<rparr>
      else s)"

definition ms_render :: "bool \<Rightarrow> cluster \<Rightarrow> model_select \<Rightarrow> model_select" where
  "ms_render dev cl s =
     (let deps = (ms_can s, cl_model_name cl) in
      if deps = ms_seen s then s else ms_effect dev cl (s\<lparr>ms_seen := deps\<rparr>))"

text \<open>An effect that sets the flag renders once more.\<close>

definition ms_renders :: "bool \<Rightarrow> cluster \<Rightarrow> model_select \<Rightarrow> model_select" where
  "ms_renders dev cl s = ms_render dev cl (ms_render dev cl s)"

datatype select_event = Choose string | ClusterIs cluster

definition ms_on_change :: "bool \<Rightarrow> string \<Rightarrow> cluster \<Rightarrow> model_select \<Rightarrow> cluster \<times> model_select" where
  "ms_on_change autoCommit v cl s =
     (cl\<lparr>cl_model_name := JStr v\<rparr>, if autoCommit then s\<lparr>ms_can := True\<rparr> else s)"

definition ms_step :: "bool \<Rightarrow> bool \<Rightarrow> cluster \<times> model_select \<Rightarrow> select_event \<Rightarrow> cluster \<times> model_select" where
  "ms_step dev autoCommit x ev =
     (case (case ev of
              Choose v \<Rightarrow> ms_on_change autoCommit v (fst x) (snd x)
            | ClusterIs cl \<Rightarrow> (cl, snd x)) of
        (cl, s) \<Rightarrow> (cl, ms_renders dev cl s))"

definition ms_start :: "cluster \<Rightarrow> cluster \<times> model_select" where
  "ms_start cl = (cl, \<lparr>ms_can = False, ms_seen = (False, cl_model_name cl), ms_inits = []\<rparr>)"

subsection \<open>View\<close>

definition ModelSelectRoot_style :: "string \<Rightarrow> theme \<Rightarrow> select_variant \<Rightarrow> jval" where
  "ModelSelectRoot_style selectClass t variant = JObj (
     [(''height'', JStr (if variant = V_outlined then ''4rem'' else ''1lh'')),
      (''paddingInline'', spacing t (1/2)), (''borderRadius'', JNum 12),
      (''&:hover'', JObj [(''backgroundColor'', JStr ''action.hover'')]),
      (''.'' @ selectClass @ '':hover'', JObj [(''backgroundColor'', JStr ''transparent'')])] @
     (if variant = V_text then spread (th t [''typography'', ''h3'']) @
        [(''fontWeight'', th t [''typography'', ''fontWeightMedium'']),
         (''.'' @ selectClass, JObj [(''fontSize'', JStr ''inherit''), (''fontWeight'', JStr ''inherit''),
            (''lineHeight'', JStr ''inherit''), (''padding'', JNum 0)]),
         (''&:hover'', JObj [(''backgroundColor'', JStr ''transparent'')])]
      else []))"

definition ModelSelectOption_style :: "theme \<Rightarrow> jval" where
  "ModelSelectOption_style t = JObj [(''height'', JStr ''3.25rem''), (''gap'', spacing t 1), (''borderRadius'', JNum 10)]"

definition ValueRow_style :: "theme \<Rightarrow> jval" where
  "ValueRow_style t = JObj [(''flexDirection'', JStr ''row''), (''alignItems'', JStr ''center''),
     (''gap'', spacing t 1), (''padding'', spacing t 1),
     (''&:hover'', JObj [(''backgroundColor'', JStr ''transparent'')]), (''pointerEvents'', JStr ''none'')]"

definition ModelExtraStatus_style :: jval where
  "ModelExtraStatus_style = JObj [(''width'', JStr ''1rem''), (''height'', JStr ''1rem''),
     (''& > .tabler-icon'', JObj [(''width'', JStr ''1rem''), (''height'', JStr ''1rem'')])]"

definition ModelLogo_style :: "(rat \<Rightarrow> string) \<Rightarrow> theme \<Rightarrow> jval" where
  "ModelLogo_style shown t = JObj [(''width'', JStr ''2.25rem''), (''height'', JStr ''2.25rem''),
     (''borderRadius'', JStr ''0.5rem''),
     (''border'', JStr (''1px solid '' @ js_text shown (th t [''palette'', ''divider'']))),
     (''objectFit'', JStr ''cover'')]"

definition ModelDisplayName_style :: "theme \<Rightarrow> jval" where
  "ModelDisplayName_style t = JObj (spread (th t [''typography'', ''subtitle2'']) @
     [(''fontSize'', JStr ''0.875rem''), (''lineHeight'', JStr ''1.125rem''),
      (''fontWeight'', th t [''typography'', ''fontWeightLight'']),
      (''color'', th t [''palette'', ''text'', ''primary''])])"

definition ModelName_style :: "theme \<Rightarrow> jval" where
  "ModelName_style t = JObj (spread (th t [''typography'', ''body2'']) @
     [(''fontSize'', JStr ''0.75rem''), (''lineHeight'', JStr ''1rem''),
      (''fontWeight'', th t [''typography'', ''fontWeightLight'']),
      (''color'', th t [''palette'', ''text'', ''secondary''])])"

definition render_option :: "model_info \<Rightarrow> bool \<Rightarrow> bool \<Rightarrow> select_event ui" where
  "render_option m selected loading =
     El ''ModelSelectOption'' [(''key'', PS (mi_name m)), (''value'', PS (mi_name m))]
      [El ''ModelExtraStatus'' (if loading then spinning else [])
         [(if loading then El ''IconLoader'' [] [] else ui_when selected (El ''IconCheck'' [] []))],
       El ''ModelLogo'' [(''src'', PS (mi_logo m))] [],
       El ''Stack'' [(''gap'', PN (1/4))]
         [El ''ModelDisplayName'' [] [Txt (mi_display m)], El ''ModelName'' [] [Txt (mi_name m)]]]"

definition render_value :: "select_variant \<Rightarrow> model_info list \<Rightarrow> jval \<Rightarrow> select_event ui" where
  "render_value variant models v =
     (case find_model models v of
        None \<Rightarrow> Val v
      | Some m \<Rightarrow>
          (if variant = V_outlined then
             El ''ValueRow'' [] [El ''ModelLogo'' [(''src'', PS (mi_logo m))] [],
               El ''Stack'' [(''gap'', PN (1/4))]
                 [El ''ModelDisplayName'' [] [Txt (mi_display m)], El ''ModelName'' [] [Txt (mi_name m)]]]
           else Txt (mi_name m)))"

definition option_selected :: "cluster \<Rightarrow> model_info \<Rightarrow> bool" where
  "option_selected cl m \<longleftrightarrow> strict_eq (JStr (mi_name m)) (cl_model_name cl) \<or>
     strict_eq (JStr (mi_name m)) (ci_model_name (cl_info cl))"

definition option_loading :: "cluster \<Rightarrow> model_info \<Rightarrow> bool" where
  "option_loading cl m \<longleftrightarrow> ci_status (cl_info cl) \<noteq> JStr ''idle'' \<and>
     strict_eq (JStr (mi_name m)) (cl_model_name cl) \<and>
     \<not> strict_eq (cl_model_name cl) (ci_model_name (cl_info cl))"

text \<open>\<open>renderValue\<close> is the rendering of the current value; the arrow of a node's selection is
  replaced by a component that renders nothing.\<close>

definition model_select_view :: "host_type \<Rightarrow> select_variant \<Rightarrow> cluster \<Rightarrow> select_event ui" where
  "model_select_view host variant cl =
     El ''Fragment'' []
      [El ''ModelSelectRoot''
        [(''ownerState'', PO [(''variant'', JStr (if variant = V_outlined then ''outlined'' else ''text''))]),
         (''readOnly'', PV (JBool (host = Host_node))),
         (''input'', PU (if variant = V_outlined then El ''OutlinedInput'' [] [] else El ''InputBase'' [] [])),
         (''value'', PV (cl_model_name cl)),
         (''onChange'', PF Choose),
         (''renderValue'', PU (render_value variant (cl_models cl) (cl_model_name cl))),
         (''IconComponent'', if host = Host_node then PU (Val JNull) else PV JUndef)]
        (map (\<lambda>m. render_option m (option_selected cl m) (option_loading cl m)) (cl_models cl))]"

subsection \<open>Facts\<close>

text \<open>Effects that have run; only \<open>autoCommit\<close> puts the flag up.\<close>

definition ms_ok :: "bool \<Rightarrow> cluster \<times> model_select \<Rightarrow> bool" where
  "ms_ok ac x \<longleftrightarrow> ms_seen (snd x) = (ms_can (snd x), cl_model_name (fst x)) \<and> (ms_can (snd x) \<longrightarrow> ac)"

lemma ms_renders_cases:
  "ms_renders dev cl s =
    (if (ms_can s, cl_model_name cl) = ms_seen s then s
     else if ms_can s \<and> \<not> strict_eq (cl_model_name cl) (ci_model_name (cl_info cl))
     then s\<lparr>ms_can := False, ms_seen := (False, cl_model_name cl), ms_inits := ms_inits s @ [cluster_init dev cl]\<rparr>
     else s\<lparr>ms_seen := (ms_can s, cl_model_name cl)\<rparr>)"
  by (auto simp: ms_renders_def ms_render_def ms_effect_def Let_def)

lemma ms_ok_step: "ms_ok ac x \<Longrightarrow> ms_ok ac (ms_step dev ac x ev)"
  by (cases ev) (auto simp: ms_ok_def ms_step_def ms_on_change_def ms_renders_cases)

interpretation selecting: invariant_steps "ms_step dev ac" "ms_ok ac" for dev ac
  by unfold_locales (rule ms_ok_step)

lemma ms_ok_run: "ms_ok ac (run (ms_step dev ac) (ms_start cl) evs)"
  by (rule selecting.run_inv) (simp add: ms_ok_def ms_start_def)

text \<open>What a choice and what an update of the cluster hand over.\<close>

lemma choose_inits:
  assumes "ms_ok ac x"
  shows "ms_inits (snd (ms_step dev ac x (Choose v))) = ms_inits (snd x) @
      (if ac \<and> ci_model_name (cl_info (fst x)) \<noteq> JStr v \<and> \<not> (ms_can (snd x) \<and> cl_model_name (fst x) = JStr v)
       then [cluster_init dev ((fst x)\<lparr>cl_model_name := JStr v\<rparr>)] else [])"
    "ms_can (snd (ms_step dev ac x (Choose v))) = (ac \<and> (ci_model_name (cl_info (fst x)) = JStr v \<or>
       ms_can (snd x) \<and> cl_model_name (fst x) = JStr v))"
  using assms by (auto simp: ms_step_def ms_on_change_def ms_renders_cases ms_ok_def)

lemma update_inits:
  assumes "ms_ok ac x"
  shows "ms_inits (snd (ms_step dev ac x (ClusterIs cl))) = ms_inits (snd x) @
      (if ms_can (snd x) \<and> cl_model_name cl \<noteq> cl_model_name (fst x) \<and> \<not> strict_eq (cl_model_name cl) (ci_model_name (cl_info cl))
       then [cluster_init dev cl] else [])"
    "ms_can (snd (ms_step dev ac x (ClusterIs cl))) =
      (ms_can (snd x) \<and> (cl_model_name cl = cl_model_name (fst x) \<or> strict_eq (cl_model_name cl) (ci_model_name (cl_info cl))))"
  using assms by (auto simp: ms_step_def ms_renders_cases ms_ok_def simp del: strict_eq.simps)

text \<open>The choice that put the flag up was of the running model, and nothing has been handed over since.\<close>

definition raised_by :: "bool \<Rightarrow> bool \<Rightarrow> cluster \<Rightarrow> select_event list \<Rightarrow> bool" where
  "raised_by dev ac cl evs \<longleftrightarrow> (\<exists>before v later. evs = before @ Choose v # later \<and>
     ci_model_name (cl_info (fst (run (ms_step dev ac) (ms_start cl) before))) = JStr v \<and>
     ms_inits (snd (run (ms_step dev ac) (ms_start cl) before)) = ms_inits (snd (run (ms_step dev ac) (ms_start cl) evs)))"

lemma raised_later:
  assumes "raised_by dev ac cl evs"
    and "ms_inits (snd (ms_step dev ac (run (ms_step dev ac) (ms_start cl) evs) ev)) = ms_inits (snd (run (ms_step dev ac) (ms_start cl) evs))"
  shows "raised_by dev ac cl (evs @ [ev])"
proof -
  obtain before v later where "evs = before @ Choose v # later"
    "ci_model_name (cl_info (fst (run (ms_step dev ac) (ms_start cl) before))) = JStr v"
    "ms_inits (snd (run (ms_step dev ac) (ms_start cl) before)) = ms_inits (snd (run (ms_step dev ac) (ms_start cl) evs))"
    using assms(1) by (auto simp: raised_by_def)
  then show ?thesis using assms(2) unfolding raised_by_def
    by (intro exI [of _ before] exI [of _ v] exI [of _ "later @ [ev]"]) simp
qed

lemma raised_run: "ms_can (snd (run (ms_step dev ac) (ms_start cl) evs)) \<Longrightarrow> raised_by dev ac cl evs"
proof (induction evs rule: rev_induct)
  case Nil
  then show ?case by (simp add: ms_start_def)
next
  case (snoc ev evs)
  let ?x = "run (ms_step dev ac) (ms_start cl) evs"
  note ok = ms_ok_run [of ac dev cl evs]
  show ?case
  proof (cases ev)
    case (Choose v)
    show ?thesis
    proof (cases "ci_model_name (cl_info (fst ?x)) = JStr v")
      case True
      then show ?thesis unfolding raised_by_def Choose
        by (intro exI [of _ evs] exI [of _ v] exI [of _ "[]"]) (simp add: choose_inits(1) [OF ok])
    next
      case False
      then have "ms_can (snd ?x)" "cl_model_name (fst ?x) = JStr v"
        using snoc.prems unfolding Choose run_append run.simps choose_inits(2) [OF ok] by blast+
      then show ?thesis
        using snoc.IH unfolding Choose by (intro raised_later) (simp_all add: choose_inits(1) [OF ok])
    qed
  next
    case (ClusterIs cl')
    then show ?thesis
      using snoc update_inits [OF ok, of dev cl'] by (intro raised_later) auto
  qed
qed

definition is_choice :: "select_event \<Rightarrow> bool" where
  "is_choice ev = (case ev of Choose v \<Rightarrow> True | ClusterIs cl \<Rightarrow> False)"

lemma inits_step:
  "length (ms_inits (snd (ms_step dev ac x ev))) + (if ms_can (snd (ms_step dev ac x ev)) then 1 else 0) \<le>
   length (ms_inits (snd x)) + (if ms_can (snd x) then 1 else 0) + (if ac \<and> is_choice ev then 1 else 0)"
  by (cases ev) (auto simp: ms_step_def ms_on_change_def ms_renders_cases is_choice_def
      simp del: strict_eq.simps)

lemma inits_run:
  "length (ms_inits (snd (run (ms_step dev ac) x evs))) \<le>
   length (ms_inits (snd x)) + (if ms_can (snd x) then 1 else 0) + (if ac then length (filter is_choice evs) else 0)"
proof (induction evs arbitrary: x)
  case Nil
  then show ?case by simp
next
  case (Cons ev evs)
  show ?case using Cons [of "ms_step dev ac x ev"] inits_step [of dev ac x ev] by (cases ac) (auto split: if_splits)
qed

subsection \<open>Properties\<close>

text \<open>
  C28 (model_select_commits): after any history of choices and updates of the cluster, a choice is
  handed to the scheduler exactly when \<open>autoCommit\<close> is set and the model is not the running
  one, at once and once; but when the selection is still armed, choosing the configured model again hands over
  nothing. An update of the cluster hands over its configured model exactly when the selection is armed and
  that model is a new one and not the running one. The selection is armed only after a choice of the model that was running
  then, with nothing handed over since. In all, at most one request has been made for every choice, and none without \<open>autoCommit\<close>.
\<close>

theorem model_select_commits:
  assumes "x = run (ms_step dev ac) (ms_start cl) evs"
  shows "ms_inits (snd (ms_step dev ac x (Choose v))) = ms_inits (snd x) @
      (if ac \<and> ci_model_name (cl_info (fst x)) \<noteq> JStr v \<and> \<not> (ms_can (snd x) \<and> cl_model_name (fst x) = JStr v)
       then [cluster_init dev ((fst x)\<lparr>cl_model_name := JStr v\<rparr>)] else []) \<and>
    ms_inits (snd (ms_step dev ac x (ClusterIs cl'))) = ms_inits (snd x) @
      (if ms_can (snd x) \<and> cl_model_name cl' \<noteq> cl_model_name (fst x) \<and> \<not> strict_eq (cl_model_name cl') (ci_model_name (cl_info cl'))
       then [cluster_init dev cl'] else []) \<and>
    (ms_can (snd x) \<longrightarrow> (\<exists>before v later. evs = before @ Choose v # later \<and>
       ci_model_name (cl_info (fst (run (ms_step dev ac) (ms_start cl) before))) = JStr v \<and>
       ms_inits (snd (run (ms_step dev ac) (ms_start cl) before)) = ms_inits (snd x))) \<and>
    length (ms_inits (snd x)) \<le> (if ac then length (filter is_choice evs) else 0)"
proof -
  have ok: "ms_ok ac x" unfolding assms by (rule ms_ok_run)
  show ?thesis
    using inits_run [of dev ac "ms_start cl" evs] raised_run [of dev ac cl evs]
    unfolding choose_inits(1) [OF ok] update_inits(1) [OF ok] raised_by_def assms [symmetric]
    by (simp add: ms_start_def [of cl])
qed

text \<open>After a choice of the running model, an update hands over a model that nobody chose.\<close>

lemma unchosen_handed:
  assumes "ci_model_name (cl_info cl) = JStr v" and "cl_model_name cl' \<noteq> JStr v"
    and "\<not> strict_eq (cl_model_name cl') (ci_model_name (cl_info cl'))"
  shows "ms_inits (snd (run (ms_step dev True) (ms_start cl) [Choose v, ClusterIs cl'])) = [cluster_init dev cl']"
  using assms by (simp add: ms_step_def ms_on_change_def ms_renders_cases ms_start_def del: strict_eq.simps)

theorem model_select_commits_witness:
  "ms_inits (snd (ms_step False True (run (ms_step False True) (ms_start cluster_start) [ClusterIs cluster_start])
     (Choose ''Qwen/Q''))) = [cluster_init False (cluster_start\<lparr>cl_model_name := JStr ''Qwen/Q''\<rparr>)]"
proof -
  have r: "run (ms_step False True) (ms_start cluster_start) [ClusterIs cluster_start] = ms_start cluster_start"
    by (simp add: ms_step_def ms_renders_cases ms_start_def)
  show ?thesis
    using model_select_commits [OF refl, of False True cluster_start "[ClusterIs cluster_start]" "''Qwen/Q''"]
    unfolding r by (simp add: ms_start_def cluster_start_def INITIAL_CLUSTER_INFO_def)
qed

end
