(* ===== verification/NumberInput.thy ===== *)
theory NumberInput
  imports Ui
begin

text \<open>
  \<^verbatim>\<open>components/inputs/number-input.tsx\<close>: a text field with two buttons that keeps its
  text a whole number of at least one, and reports every change as text. Numbers are exact, as
  doubles are below \<open>2^53\<close>. \<open>None\<close> for the input element is an element that is not mounted,
  \<open>None\<close> for a number is NaN.
\<close>

definition number_text :: "(rat \<Rightarrow> string) \<Rightarrow> rat option \<Rightarrow> string" where
  "number_text shown n = (case n of None \<Rightarrow> ''NaN'' | Some q \<Rightarrow> show_rat shown q)"

definition js_max1 :: "rat option \<Rightarrow> rat option" where
  "js_max1 n = map_option (max 1) n"

text \<open>The text the field shows, and the texts handed to \<open>onChange\<close>.\<close>

record number_input =
  ni_value :: "string option"
  ni_sent :: "string list"

definition ni_send :: "string \<Rightarrow> number_input \<Rightarrow> number_input" where
  "ni_send t s = s\<lparr>ni_sent := ni_sent s @ [t]\<rparr>"

definition ni_on_change :: "string \<Rightarrow> number_input \<Rightarrow> number_input" where
  "ni_on_change typed s =
     (let n = (case parse_int typed of None \<Rightarrow> 1 | Some i \<Rightarrow> if i = 0 then 1 else i);
          v = show_int (max 1 n)
      in ni_send v (s\<lparr>ni_value := Some v\<rparr>))"

definition trigger_change :: "(rat \<Rightarrow> string) \<Rightarrow> rat option \<Rightarrow> number_input \<Rightarrow> number_input" where
  "trigger_change shown newValue s = ni_send (number_text shown newValue) s"

definition ni_on_minus :: "(rat \<Rightarrow> string) \<Rightarrow> number_input \<Rightarrow> number_input" where
  "ni_on_minus shown s =
     (case ni_value s of None \<Rightarrow> s
      | Some v \<Rightarrow>
          let prev = js_number v; next = js_max1 (map_option (\<lambda>q. q - 1) prev)
          in trigger_change shown next (s\<lparr>ni_value := Some (number_text shown next)\<rparr>))"

definition ni_on_plus :: "(rat \<Rightarrow> string) \<Rightarrow> number_input \<Rightarrow> number_input" where
  "ni_on_plus shown s =
     (case ni_value s of None \<Rightarrow> s
      | Some v \<Rightarrow>
          let prev = js_number v; next = js_max1 (map_option (\<lambda>q. q + 1) prev)
          in trigger_change shown next (s\<lparr>ni_value := Some (number_text shown next)\<rparr>))"

datatype number_event = Typed string | Minus | Plus

definition number_step :: "(rat \<Rightarrow> string) \<Rightarrow> number_input \<Rightarrow> number_event \<Rightarrow> number_input" where
  "number_step shown s ev =
     (case ev of Typed t \<Rightarrow> ni_on_change t s | Minus \<Rightarrow> ni_on_minus shown s | Plus \<Rightarrow> ni_on_plus shown s)"

text \<open>The element: \<open>rest\<close> are the properties handed through, \<open>inputSx\<close> and \<open>inputRest\<close> the
  caller's \<open>slotProps.input\<close>, \<open>slots\<close> its \<open>slotProps\<close>.\<close>

definition number_input_view :: "(string \<times> number_event attr) list \<Rightarrow> (string \<times> jval) list
    \<Rightarrow> (string \<times> jval) list \<Rightarrow> (string \<times> jval) list \<Rightarrow> number_event ui" where
  "number_input_view rest inputSx inputRest slots =
     El ''OutlinedInput'' (rest @
       [(''type'', PS ''number''),
        (''sx'', PO [(''& input'', JObj [(''textAlign'', JStr ''center''), (''width'', JStr ''2.5rem'')])]),
        (''onChange'', PF Typed),
        (''startAdornment'', PU (El ''InputAdornment'' [(''position'', PS ''start'')]
           [El ''IconButton'' [(''onClick'', PE Minus)] [El ''IconMinus'' [] []]])),
        (''endAdornment'', PU (El ''InputAdornment'' [(''position'', PS ''end'')]
           [El ''IconButton'' [(''onClick'', PE Plus)] [El ''IconPlus'' [] []]])),
        (''slotProps'', PO ((''input'', JObj ([(''step'', JNum 1),
            (''sx'', JObj ((''textAlign'', JStr ''center'') # inputSx)), (''min'', JNum 1)] @ inputRest))
          # slots))]) []"

subsection \<open>The field always holds a positive whole number\<close>

lemma show_rat_nat [simp]: "show_rat shown (of_nat n) = show_nat n"
  by (simp add: show_rat_def show_int_def)

definition positive_text :: "string \<Rightarrow> bool" where
  "positive_text v \<longleftrightarrow> (\<exists>n. 1 \<le> n \<and> v = show_nat n)"

definition number_ok :: "number_input \<Rightarrow> bool" where
  "number_ok s \<longleftrightarrow> (case ni_value s of None \<Rightarrow> True | Some v \<Rightarrow> positive_text v) \<and>
     list_all positive_text (ni_sent s)"

lemma positive_show_int: "1 \<le> i \<Longrightarrow> positive_text (show_int i)"
  unfolding positive_text_def show_int_def by (intro exI [of _ "nat i"]) auto

lemma on_change_ok: "number_ok s \<Longrightarrow> number_ok (ni_on_change t s)"
  by (auto simp: number_ok_def ni_on_change_def ni_send_def Let_def intro!: positive_show_int)

lemma max1_minus: "js_max1 (Some (of_nat n - 1)) = Some (of_nat (max 1 (n - 1)))"
  by (cases n) (auto simp: js_max1_def max_def)

lemma max1_plus: "js_max1 (Some (of_nat n + 1)) = Some (of_nat (n + 1))"
  by (simp add: js_max1_def max_def)

lemma on_minus_value:
  "ni_value s = Some (show_nat n) \<Longrightarrow>
   ni_on_minus shown s = \<lparr>ni_value = Some (show_nat (max 1 (n - 1))), ni_sent = ni_sent s @ [show_nat (max 1 (n - 1))]\<rparr>"
  by (cases s) (simp add: ni_on_minus_def trigger_change_def ni_send_def number_text_def max1_minus Let_def
      del: of_nat_diff)

lemma on_plus_value:
  "ni_value s = Some (show_nat n) \<Longrightarrow>
   ni_on_plus shown s = \<lparr>ni_value = Some (show_nat (n + 1)), ni_sent = ni_sent s @ [show_nat (n + 1)]\<rparr>"
  using max1_plus [of n] show_rat_nat [of shown "n + 1"]
  by (cases s) (simp add: ni_on_plus_def trigger_change_def ni_send_def number_text_def Let_def)

lemma number_ok_step: "number_ok s \<Longrightarrow> number_ok (number_step shown s ev)"
proof (cases ev)
  case (Typed t)
  then show "number_ok s \<Longrightarrow> ?thesis" by (simp add: number_step_def on_change_ok)
next
  case Minus
  assume ok: "number_ok s"
  show ?thesis
  proof (cases "ni_value s")
    case None
    then show ?thesis using ok Minus by (simp add: number_step_def ni_on_minus_def)
  next
    case (Some v)
    then obtain n where "ni_value s = Some (show_nat n)" using ok by (auto simp: number_ok_def positive_text_def)
    moreover have "positive_text (show_nat (max 1 (n - 1)))"
      unfolding positive_text_def by (rule exI [of _ "max 1 (n - 1)"]) auto
    ultimately show ?thesis using ok Minus by (simp add: number_step_def on_minus_value number_ok_def)
  qed
next
  case Plus
  assume ok: "number_ok s"
  show ?thesis
  proof (cases "ni_value s")
    case None
    then show ?thesis using ok Plus by (simp add: number_step_def ni_on_plus_def)
  next
    case (Some v)
    then obtain n where "ni_value s = Some (show_nat n)" using ok by (auto simp: number_ok_def positive_text_def)
    moreover have "positive_text (show_nat (n + 1))"
      unfolding positive_text_def by (rule exI [of _ "n + 1"]) auto
    ultimately show ?thesis using ok Plus by (simp add: number_step_def on_plus_value number_ok_def)
  qed
qed

interpretation number_field: invariant_steps "number_step shown" number_ok for shown
  by unfold_locales (rule number_ok_step)

lemma positive_text_number: "positive_text v \<Longrightarrow> \<exists>n. 1 \<le> n \<and> js_number v = Some n"
proof -
  assume "positive_text v"
  then obtain n where "1 \<le> n" "v = show_nat n" by (auto simp: positive_text_def)
  then show ?thesis by (intro exI [of _ "of_nat n"]) simp
qed

text \<open>The minus button undoes the plus button.\<close>

lemma minus_after_plus:
  "ni_value s = Some (show_nat n) \<Longrightarrow> 1 \<le> n \<Longrightarrow>
   ni_value (ni_on_minus shown (ni_on_plus shown s)) = Some (show_nat n)"
  using on_minus_value [of "ni_on_plus shown s" "n + 1" shown] by (simp add: on_plus_value max_def)

subsection \<open>Properties\<close>

text \<open>
  Whatever is typed into the field and however often its buttons are
  pressed, every text it reports converts to a number of at least one, and the text shown is the
  last one reported.
\<close>

lemma number_input_positive:
  assumes "number_ok s" and "ni_value s = Some v"
  shows "(\<forall>t \<in> set (ni_sent (run (number_step shown) s evs)). \<exists>n. 1 \<le> n \<and> js_number t = Some n) \<and>
    ni_value (run (number_step shown) s evs) =
      Some (if length (ni_sent (run (number_step shown) s evs)) = length (ni_sent s) then v
            else last (ni_sent (run (number_step shown) s evs)))"
proof
  have "number_ok (run (number_step shown) s evs)" using number_field.run_inv assms(1) .
  then show "\<forall>t \<in> set (ni_sent (run (number_step shown) s evs)). \<exists>n. 1 \<le> n \<and> js_number t = Some n"
    by (auto simp: number_ok_def list_all_iff intro: positive_text_number)
next
  have step: "ni_value t = Some u \<Longrightarrow> \<exists>w. number_step shown t ev = \<lparr>ni_value = Some w, ni_sent = ni_sent t @ [w]\<rparr>"
    for t u ev
    by (cases ev; cases t) (auto simp: number_step_def ni_on_change_def ni_on_minus_def ni_on_plus_def
        trigger_change_def ni_send_def Let_def)
  have "ni_value s = Some v \<Longrightarrow> length (ni_sent s) \<le> length (ni_sent (run (number_step shown) s evs)) \<and>
    ni_value (run (number_step shown) s evs) =
      Some (if length (ni_sent (run (number_step shown) s evs)) = length (ni_sent s) then v
            else last (ni_sent (run (number_step shown) s evs)))"
  proof (induction evs rule: rev_induct)
    case Nil
    then show ?case by simp
  next
    case (snoc e es)
    then obtain u where "ni_value (run (number_step shown) s es) = Some u" by auto
    from step [OF this, of e] obtain w where
      "number_step shown (run (number_step shown) s es) e =
        \<lparr>ni_value = Some w, ni_sent = ni_sent (run (number_step shown) s es) @ [w]\<rparr>" ..
    then show ?case using snoc by simp
  qed
  then show "ni_value (run (number_step shown) s evs) =
      Some (if length (ni_sent (run (number_step shown) s evs)) = length (ni_sent s) then v
            else last (ni_sent (run (number_step shown) s evs)))" using assms(2) by simp
qed

end
