(* ===== verification/Router.thy ===== *)
theory Router
  imports Ui
begin

text \<open>
  \<^verbatim>\<open>router/main.tsx\<close> and \<^verbatim>\<open>router/chat.tsx\<close>: the redirections. The effect runs after a
  render in which the path or the status changed, clears the timer its previous run set, and
  arms a new one for 300 ms when the page shown does not fit the status of the cluster. A
  state holds the path, the status and the path of the armed timer. Matching a path to a route
  is the router library's: \<open>matches\<close>.
\<close>

definition PATH_SETUP :: string where "PATH_SETUP = ''/setup''"
definition PATH_JOIN :: string where "PATH_JOIN = ''/join''"
definition PATH_CHAT :: string where "PATH_CHAT = ''/chat''"

definition redirect_delay :: nat where "redirect_delay = 300"

definition main_redirect :: "jval \<Rightarrow> string \<Rightarrow> string option" where
  "main_redirect status pathname =
     (if pathname = ''/'' then Some PATH_SETUP
      else if status = JStr ''idle'' \<and> starts_with PATH_CHAT pathname then Some PATH_SETUP
      else if status = JStr ''available'' \<and> \<not> starts_with PATH_CHAT pathname then Some PATH_CHAT
      else None)"

definition chat_redirect :: "string \<Rightarrow> string option" where
  "chat_redirect pathname = (if \<not> starts_with PATH_CHAT pathname then Some PATH_CHAT else None)"

record router =
  rt_path :: string
  rt_status :: jval
  rt_timer :: "string option"

text \<open>React renders with a path and a status; the effect runs if one of them is new.\<close>

definition router_render :: "(jval \<Rightarrow> string \<Rightarrow> string option) \<Rightarrow> string \<Rightarrow> jval \<Rightarrow> router \<Rightarrow> router" where
  "router_render redirect path status s =
     (if path = rt_path s \<and> status = rt_status s then s
      else \<lparr>rt_path = path, rt_status = status, rt_timer = redirect status path\<rparr>)"

datatype router_event = Visit string | StatusIs jval | RedirectTimer

definition router_step :: "(jval \<Rightarrow> string \<Rightarrow> string option) \<Rightarrow> router \<Rightarrow> router_event \<Rightarrow> router" where
  "router_step redirect s ev =
     (case ev of
        Visit p \<Rightarrow> router_render redirect p (rt_status s) s
      | StatusIs st \<Rightarrow> router_render redirect (rt_path s) st s
      | RedirectTimer \<Rightarrow>
          (case rt_timer s of None \<Rightarrow> s
           | Some p \<Rightarrow> router_render redirect p (rt_status s) (s\<lparr>rt_timer := None\<rparr>)))"

definition router_mount :: "(jval \<Rightarrow> string \<Rightarrow> string option) \<Rightarrow> string \<Rightarrow> jval \<Rightarrow> router" where
  "router_mount redirect path status =
     \<lparr>rt_path = path, rt_status = status, rt_timer = redirect status path\<rparr>"

subsection \<open>Routes\<close>

definition lazy_page :: "string \<Rightarrow> 'e ui" where
  "lazy_page page = El ''Suspense'' [(''fallback'', PU (El ''div'' [] [Txt ''Loading...'']))] [El page [] []]"

definition not_found :: "'e ui" where
  "not_found = El ''div'' [] [Txt ''404 - Page Not Found'']"

definition main_routes :: "(string \<times> 'e ui) list" where
  "main_routes = [(PATH_SETUP, lazy_page ''PageSetup''), (PATH_JOIN, lazy_page ''PageJoin''),
     (PATH_CHAT, lazy_page ''PageChat''), (''*'', not_found)]"

definition chat_routes :: "(string \<times> 'e ui) list" where
  "chat_routes = [(PATH_CHAT, lazy_page ''PageChat''), (''*'', not_found)]"

definition route_view :: "(string \<Rightarrow> string \<Rightarrow> bool) \<Rightarrow> (string \<times> 'e ui) list \<Rightarrow> string \<Rightarrow> 'e ui option" where
  "route_view matches routes path = map_option snd (List.find (\<lambda>r. matches (fst r) path) routes)"

subsection \<open>Facts\<close>

text \<open>The armed timer is always the one the current path and status ask for.\<close>

definition timer_ok :: "(jval \<Rightarrow> string \<Rightarrow> string option) \<Rightarrow> router \<Rightarrow> bool" where
  "timer_ok redirect s \<longleftrightarrow> rt_timer s = redirect (rt_status s) (rt_path s)"

text \<open>A rule that never redirects a page to itself.\<close>

locale redirection =
  fixes redirect :: "jval \<Rightarrow> string \<Rightarrow> string option"
  assumes moves: "redirect st p = Some q \<Longrightarrow> q \<noteq> p"
    and two_hops: "redirect st p = Some q \<Longrightarrow> redirect st q = None \<or>
      (\<exists>r. redirect st q = Some r \<and> redirect st r = None)"
begin

lemma timer_ok_step: "timer_ok redirect s \<Longrightarrow> timer_ok redirect (router_step redirect s ev)"
  by (cases ev) (auto simp: timer_ok_def router_step_def router_render_def dest: moves split: option.splits)

lemma fire:
  assumes "timer_ok redirect s" and "rt_timer s = Some q"
  shows "router_step redirect s RedirectTimer =
    \<lparr>rt_path = q, rt_status = rt_status s, rt_timer = redirect (rt_status s) q\<rparr>"
proof -
  have "redirect (rt_status s) (rt_path s) = Some q" using assms by (simp add: timer_ok_def)
  from moves [OF this] show ?thesis using assms(2) by (simp add: router_step_def router_render_def)
qed

lemma idle_timer: "rt_timer s = None \<Longrightarrow> router_step redirect s RedirectTimer = s"
  by (simp add: router_step_def)

lemma settles_in_two:
  assumes "timer_ok redirect s"
  shows "rt_timer (run (router_step redirect) s [RedirectTimer, RedirectTimer]) = None"
proof (cases "rt_timer s")
  case None
  then show ?thesis by (simp add: idle_timer)
next
  case (Some q)
  let ?t = "\<lparr>rt_path = q, rt_status = rt_status s, rt_timer = redirect (rt_status s) q\<rparr>"
  have t: "router_step redirect s RedirectTimer = ?t" "timer_ok redirect ?t"
    using fire [OF assms Some] by (simp_all add: timer_ok_def)
  have "redirect (rt_status s) (rt_path s) = Some q" using assms Some by (simp add: timer_ok_def)
  from two_hops [OF this] show ?thesis
    using t fire [of ?t] by (auto simp: idle_timer)
qed

lemma settled_path:
  assumes "timer_ok redirect s"
  defines "t \<equiv> run (router_step redirect) s [RedirectTimer, RedirectTimer]"
  shows "redirect (rt_status t) (rt_path t) = None"
  using settles_in_two [OF assms(1)] timer_ok_step [OF timer_ok_step [OF assms(1)]]
  unfolding t_def by (simp add: timer_ok_def)

end

sublocale redirection \<subseteq> timers: invariant_steps "router_step redirect" "timer_ok redirect"
  by unfold_locales (rule timer_ok_step)

lemmas path_defs = PATH_SETUP_def PATH_JOIN_def PATH_CHAT_def

interpretation main_router: redirection main_redirect
  by unfold_locales (auto simp: main_redirect_def path_defs split: if_splits)

interpretation chat_router: redirection "\<lambda>st. chat_redirect"
  by unfold_locales (auto simp: chat_redirect_def path_defs split: if_splits)

lemma status_redirect_timer [simp]: "rt_status (router_step redirect s RedirectTimer) = rt_status s"
  by (simp add: router_step_def router_render_def split: option.splits)

lemma timer_ok_mount: "timer_ok redirect (router_mount redirect p st)"
  by (simp add: timer_ok_def router_mount_def)

subsection \<open>Properties\<close>

text \<open>
  After any history of visits, status changes and redirections the router
  comes to rest: two timers later no redirection is pending, and then the page fits the
  cluster: never the root, the chat if the cluster is available, not the chat if it is idle.
\<close>

lemma router_settles:
  "let s = run (router_step main_redirect) (router_mount main_redirect path status) evs;
       t = run (router_step main_redirect) s [RedirectTimer, RedirectTimer]
   in rt_timer t = None \<and> rt_status t = rt_status s \<and> rt_path t \<noteq> ''/'' \<and>
      \<not> (rt_status t = JStr ''available'' \<and> \<not> starts_with PATH_CHAT (rt_path t)) \<and>
      \<not> (rt_status t = JStr ''idle'' \<and> starts_with PATH_CHAT (rt_path t))"
proof -
  let ?s = "run (router_step main_redirect) (router_mount main_redirect path status) evs"
  let ?t = "run (router_step main_redirect) ?s [RedirectTimer, RedirectTimer]"
  have ok: "timer_ok main_redirect ?s" by (rule main_router.timers.run_inv [OF timer_ok_mount])
  have "main_redirect (rt_status ?t) (rt_path ?t) = None" by (rule main_router.settled_path [OF ok])
  then have "rt_path ?t \<noteq> ''/'' \<and>
      \<not> (rt_status ?t = JStr ''available'' \<and> \<not> starts_with PATH_CHAT (rt_path ?t)) \<and>
      \<not> (rt_status ?t = JStr ''idle'' \<and> starts_with PATH_CHAT (rt_path ?t))"
    by (auto simp: main_redirect_def split: if_splits)
  then show ?thesis using main_router.settles_in_two [OF ok] by (simp add: Let_def)
qed

text \<open>
  No redirection, of the main router or of the one of a node, leads to
  the page that says the page was not found.
\<close>

lemma router_targets_exist:
  assumes "\<And>p. matches p p" and "\<And>p q. p \<noteq> ''*'' \<Longrightarrow> q \<in> {PATH_SETUP, PATH_JOIN, PATH_CHAT} \<Longrightarrow> matches p q \<Longrightarrow> p = q"
  shows "(main_redirect st p = Some q \<longrightarrow> (\<exists>page. route_view matches main_routes q = Some (lazy_page page))) \<and>
    (chat_redirect p = Some q \<longrightarrow> route_view matches chat_routes q = Some (lazy_page ''PageChat''))"
proof -
  have "\<not> matches PATH_SETUP PATH_CHAT" "\<not> matches PATH_JOIN PATH_CHAT"
    using assms(2) [of PATH_SETUP PATH_CHAT] assms(2) [of PATH_JOIN PATH_CHAT] by (auto simp: path_defs)
  then have "route_view matches main_routes PATH_SETUP = Some (lazy_page ''PageSetup'')"
    "route_view matches main_routes PATH_CHAT = Some (lazy_page ''PageChat'')"
    "route_view matches chat_routes PATH_CHAT = Some (lazy_page ''PageChat'')"
    using assms(1) by (simp_all add: route_view_def main_routes_def chat_routes_def)
  then show ?thesis by (auto simp: main_redirect_def chat_redirect_def split: if_splits)
qed

end
