(* ===== verification/Pages.thy ===== *)
theory Pages
  imports NumberInput Router
begin

text \<open>
  \<^verbatim>\<open>pages/setup.tsx\<close> and \<^verbatim>\<open>pages/join.tsx\<close>: the page that configures and starts the
  cluster, with the promise chain behind its button, and the page that shows how to join nodes.
\<close>

subsection \<open>Setup\<close>

text \<open>\<open>su_chains\<close> counts the chains that wait for the scheduler's reply, \<open>su_path\<close> is the last
  path the page navigated to.\<close>

record setup_state =
  su_loading :: bool
  su_chains :: nat
  su_posted :: "api_request list"
  su_path :: "string option"

definition setup_start :: setup_state where
  "setup_start = \<lparr>su_loading = False, su_chains = 0, su_posted = [], su_path = None\<rparr>"

text \<open>\<open>init\<close> that fails before it posts rejects at once; the chain ends without navigating.\<close>

definition setup_continue :: "bool \<Rightarrow> cluster \<Rightarrow> setup_state \<Rightarrow> setup_state" where
  "setup_continue dev cl s =
     (if ci_status (cl_info cl) = JStr ''idle'' \<or> ci_status (cl_info cl) = JStr ''failed'' then
        (case cluster_init dev cl of
           Inl e \<Rightarrow> s\<lparr>su_loading := False\<rparr>
         | Inr req \<Rightarrow> s\<lparr>su_loading := True, su_chains := su_chains s + 1, su_posted := su_posted s @ [req]\<rparr>)
      else s\<lparr>su_path := Some PATH_JOIN\<rparr>)"

definition setup_reply :: "(rat \<Rightarrow> string) \<Rightarrow> jval js_result \<Rightarrow> setup_state \<Rightarrow> setup_state" where
  "setup_reply shown reply s =
     (if su_chains s = 0 then s
      else let s' = s\<lparr>su_chains := su_chains s - 1, su_loading := False\<rparr> in
        (case init_scheduler shown reply of
           Inl e \<Rightarrow> s'
         | Inr d \<Rightarrow> s'\<lparr>su_path := Some PATH_JOIN\<rparr>))"

datatype setup_event =
    SetNodes number_event
  | SetNetwork string
  | Continue
  | SchedulerReply "jval js_result"
  | SetupCluster cluster

text \<open>The page with its number field over the provider's configuration.\<close>

record setup_page =
  sp_cluster :: cluster
  sp_field :: number_input
  sp_setup :: setup_state

definition set_nodes_number :: "string \<Rightarrow> cluster \<Rightarrow> cluster" where
  "set_nodes_number t cl = cl\<lparr>cl_init_nodes := js_number t\<rparr>"

definition set_network :: "string \<Rightarrow> cluster \<Rightarrow> cluster" where
  "set_network v cl = (if v = [] then cl
     else cl\<lparr>cl_network := (if v = ''local'' then Local else Remote)\<rparr>)"

text \<open>\<open>SetupCluster\<close> is a change of the provider's state that is not one of this page's own
  (the configured number of nodes is set by this page only).\<close>

definition setup_step :: "(rat \<Rightarrow> string) \<Rightarrow> bool \<Rightarrow> setup_page \<Rightarrow> setup_event \<Rightarrow> setup_page" where
  "setup_step shown dev p ev =
     (case ev of
        SetNodes e \<Rightarrow>
          let f = number_step shown (sp_field p) e in
          p\<lparr>sp_field := f, sp_cluster :=
              fold set_nodes_number (drop (length (ni_sent (sp_field p))) (ni_sent f)) (sp_cluster p)\<rparr>
      | SetNetwork v \<Rightarrow> p\<lparr>sp_cluster := set_network v (sp_cluster p)\<rparr>
      | Continue \<Rightarrow> p\<lparr>sp_setup := setup_continue dev (sp_cluster p) (sp_setup p)\<rparr>
      | SchedulerReply r \<Rightarrow> p\<lparr>sp_setup := setup_reply shown r (sp_setup p)\<rparr>
      | SetupCluster cl \<Rightarrow> p\<lparr>sp_cluster := cl\<lparr>cl_init_nodes := cl_init_nodes (sp_cluster p)\<rparr>\<rparr>)"

definition setup_page_start :: setup_page where
  "setup_page_start = \<lparr>sp_cluster = cluster_start,
     sp_field = \<lparr>ni_value = Some ''1'', ni_sent = []\<rparr>, sp_setup = setup_start\<rparr>"

definition setup_view :: "(rat \<Rightarrow> string) \<Rightarrow> cluster \<Rightarrow> bool \<Rightarrow> setup_event ui" where
  "setup_view shown cl loading =
     El ''MainLayout'' []
      [El ''Typography'' [(''variant'', PS ''h1'')] [Txt ''Build Your Own AI Cluster''],
       El ''Stack'' [(''gap'', PN (5/2))]
        [El ''Stack'' [(''gap'', PN (1/2))]
          [El ''Typography'' [(''variant'', PS ''body1'')] [Txt ''Step 1 - Specify the initial number of nodes''],
           El ''Typography'' [(''variant'', PS ''body2''), (''color'', PS ''text.secondary''), (''fontWeight'', PS ''regular'')]
             [Txt ''Parallax runs and hosts model distributedly on your everyday hardware. Select the number of nodes you would like to add to your cluster with their connection types.'',
              Txt '' '']],
         El ''Stack'' [(''direction'', PS ''row''), (''justifyContent'', PS ''space-between''), (''alignItems'', PS ''center''), (''gap'', PN 2)]
          [El ''Typography'' [(''color'', PS ''text.secondary'')] [Txt ''Node Number''],
           El ''NumberInput''
            [(''sx'', PO [(''width'', JStr ''10rem''), (''boxShadow'', JStr ''none''), (''bgcolor'', JStr ''transparent'')]),
             (''slotProps'', PO
               [(''root'', JObj [(''sx'', JObj [(''bgcolor'', JStr ''transparent''),
                   (''&:hover'', JObj [(''bgcolor'', JStr ''transparent'')]),
                   (''&:focus-within'', JObj [(''bgcolor'', JStr ''transparent'')])])]),
                (''input'', JObj [(''sx'', JObj [(''bgcolor'', JStr ''transparent !important''),
                   (''&:focus'', JObj [(''outline'', JStr ''none'')])])])]),
             (''value'', PV (json_number (cl_init_nodes cl))),
             (''onChange'', PF (\<lambda>t. SetNodes (Typed t)))] []],
         El ''Stack'' [(''direction'', PS ''row''), (''justifyContent'', PS ''space-between''), (''alignItems'', PS ''center''), (''gap'', PN 2)]
          [El ''Typography'' [(''color'', PS ''text.secondary'')] [Txt ''Are you nodes within the same local network?''],
           El ''ToggleButtonGroup''
            [(''sx'', PO [(''width'', JStr ''10rem''), (''textTransform'', JStr ''none'')]),
             (''exclusive'', PV (JBool True)),
             (''value'', PS (case cl_network cl of Local \<Rightarrow> ''local'' | Remote \<Rightarrow> ''remote'')),
             (''onChange'', PF SetNetwork)]
            [El ''ToggleButton'' [(''value'', PS ''local''), (''sx'', PO [(''textTransform'', JStr ''none'')])] [Txt ''Local''],
             El ''ToggleButton'' [(''value'', PS ''remote''), (''sx'', PO [(''textTransform'', JStr ''none'')])] [Txt ''Remote'']]]],
       El ''Stack'' [(''gap'', PN (5/2))]
        [El ''Stack'' [(''gap'', PN (1/2))]
          [El ''Typography'' [(''variant'', PS ''body1'')] [Txt ''Step 2 - Select the model you would like to host''],
           El ''Typography'' [(''variant'', PS ''body2''), (''color'', PS ''text.secondary''), (''fontWeight'', PS ''regular'')]
             [Txt ''Currently we support a handful of state-of-the-art open source models. Do keep in mind that larger models require more nodes to host, so If this is your first time trying Parallax, we suggest you to start with smaller models.'']],
         El ''ModelSelect'' [] [],
         (case config_model_info cl of
            None \<Rightarrow> Val (JBool False)
          | Some m \<Rightarrow> ui_when (js_gt (mi_vram m) 0)
              (El ''Alert'' [(''key'', PS ''vram-warning''), (''severity'', PS ''warning''), (''variant'', PS ''standard'')]
                [El ''Typography'' [(''variant'', PS ''inherit'')]
                  [Txt (''You'' @ rsquo @ ''ll need a ''), El ''strong'' [] [Txt (vram_text shown m)], Txt '' to host this model.'']]))],
       El ''Stack'' [(''direction'', PS ''row''), (''justifyContent'', PS ''flex-end''), (''alignItems'', PS ''center''), (''gap'', PN 2)]
        [El ''Button'' [(''loading'', PV (JBool loading)), (''onClick'', PE Continue)] [Txt ''Continue'']]]"

subsection \<open>Join\<close>

definition join_is_error :: "cluster_info \<Rightarrow> node_info list \<Rightarrow> bool" where
  "join_is_error c nodes \<longleftrightarrow>
     js_gt (ci_init_nodes c) 0 \<and> js_le_num (ci_init_nodes c) (of_nat (length nodes)) \<and>
     list_all (\<lambda>n. n_status n = JStr ''available'') nodes \<and> ci_status c = JStr ''waiting''"

definition JoinStack_style :: jval where
  "JoinStack_style = JObj [(''overflowY'', JStr ''auto'')]"

definition join_view :: "(rat \<Rightarrow> string) \<Rightarrow> cluster \<Rightarrow> 'e ui" where
  "join_view shown cl =
     (let c = cl_info cl in
      El ''MainLayout''
       [(''contentStart'', PU (El ''Button'' [(''component'', PS ''RouterLink''), (''to'', PS ''/setup''),
          (''size'', PS ''medium''), (''color'', PS ''secondary''), (''startIcon'', PU (El ''IconArrowLeft'' [] []))]
          [Txt ''Back'']))]
       [El ''Typography'' [(''variant'', PS ''h1'')] [Txt ''Get Your Nodes Running''],
        El ''Stack'' [(''gap'', PN 6), (''sx'', PO [(''overflow'', JStr ''hidden'')])]
         [El ''Stack'' [(''gap'', PN 2)]
           [El ''Stack'' [(''gap'', PN 1)] [El ''Typography'' [(''variant'', PS ''body1'')] [Txt ''Step 1 - Run join command on all nodes'']],
            El ''JoinCommand'' [] []],
          El ''Stack'' [(''gap'', PN 2), (''flex'', PN 1)]
           [El ''Stack'' [(''gap'', PN 1)]
             [El ''Typography'' [(''variant'', PS ''body1'')] [Txt ''Step 2 - Check your node status''],
              El ''Typography'' [(''variant'', PS ''body2''), (''color'', PS ''text.secondary''), (''fontWeight'', PS ''regular'')]
               [Txt ''After you successfully start your nodes, you should see them start to show up below with their status. Once all nodes are connected, you will automatically be directed to the chat interface.'']],
            (if join_is_error c (cl_nodes cl) then
               El ''Alert'' [(''key'', PS ''error''), (''severity'', PS ''error''), (''variant'', PS ''standard'')]
                [Txt ''Your selected model requires more nodes. Please go back to the previous step to add more nodes, or choose a smaller model.'']
             else
               El ''Alert'' [(''key'', PS ''info''), (''severity'', PS ''info''), (''variant'', PS ''standard'')]
                [Txt ''If your nodes cannot connect properly, retry the above join command to restart the server.'']),
            (case config_model_info cl of
               None \<Rightarrow> Val (JBool False)
             | Some m \<Rightarrow>
                 (if \<not> js_gt (mi_vram m) 0 then Val (JBool False)
                  else ui_and (ci_more c)
                    (El ''Alert'' [(''key'', PS ''vram-warning''), (''severity'', PS ''warning''), (''variant'', PS ''standard'')]
                      [El ''Typography'' [(''variant'', PS ''inherit'')]
                        [Txt ''Your selected model requires more nodes.'', Txt (''You'' @ rsquo @ ''ll need a ''),
                         El ''strong'' [] [Txt (vram_text shown m)], Txt '' to host this model.'']]))),
            El ''NodeList'' [(''key'', PS ''node-list'')] []]]])"

subsection \<open>Facts\<close>

text \<open>The field and the configuration agree on a positive number.\<close>

definition page_ok :: "setup_page \<Rightarrow> bool" where
  "page_ok p \<longleftrightarrow> number_ok (sp_field p) \<and> (\<exists>v. ni_value (sp_field p) = Some v) \<and>
     (\<exists>n. 1 \<le> n \<and> cl_init_nodes (sp_cluster p) = Some n)"

lemma number_step_sent:
  "ni_value s = Some v \<Longrightarrow> \<exists>w. number_step shown s ev = \<lparr>ni_value = Some w, ni_sent = ni_sent s @ [w]\<rparr>"
  by (cases ev; cases s) (auto simp: number_step_def ni_on_change_def ni_on_minus_def ni_on_plus_def
      trigger_change_def ni_send_def Let_def)

lemma set_network_nodes [simp]: "cl_init_nodes (set_network v cl) = cl_init_nodes cl"
  by (simp add: set_network_def)

lemma page_ok_step: "page_ok p \<Longrightarrow> page_ok (setup_step shown dev p ev)"
proof (cases ev)
  case (SetNodes e)
  assume ok: "page_ok p"
  then obtain v where "ni_value (sp_field p) = Some v" by (auto simp: page_ok_def)
  from number_step_sent [OF this, of shown e] obtain w where
    w: "number_step shown (sp_field p) e = \<lparr>ni_value = Some w, ni_sent = ni_sent (sp_field p) @ [w]\<rparr>" ..
  have "number_ok (number_step shown (sp_field p) e)" using ok by (simp add: page_ok_def number_ok_step)
  then have "positive_text w" "number_ok (number_step shown (sp_field p) e)"
    unfolding w by (simp_all add: number_ok_def)
  then show ?thesis using SetNodes positive_text_number [of w] w
    by (simp add: setup_step_def page_ok_def set_nodes_number_def Let_def)
qed (auto simp: setup_step_def page_ok_def)

interpretation setup_pages: invariant_steps "setup_step shown dev" page_ok for shown dev
  by unfold_locales (rule page_ok_step)

definition startable :: "cluster \<Rightarrow> bool" where
  "startable cl \<longleftrightarrow> ci_status (cl_info cl) = JStr ''idle'' \<or> ci_status (cl_info cl) = JStr ''failed''"

definition startable_event :: "setup_event \<Rightarrow> bool" where
  "startable_event ev = (case ev of SetupCluster cl \<Rightarrow> startable cl | _ \<Rightarrow> True)"

lemma set_nodes_info [simp]: "cl_info (fold set_nodes_number ts cl) = cl_info cl"
  by (induction ts arbitrary: cl) (auto simp: set_nodes_number_def)

lemma set_network_info [simp]: "cl_info (set_network v cl) = cl_info cl"
  by (simp add: set_network_def)

definition confirmed :: "(rat \<Rightarrow> string) \<Rightarrow> setup_event list \<Rightarrow> bool" where
  "confirmed shown evs \<longleftrightarrow> (\<exists>r d. SchedulerReply r \<in> set evs \<and> init_scheduler shown r = Inr d)"

lemma confirmed_snoc:
  "confirmed shown (es @ [e]) \<longleftrightarrow> confirmed shown es \<or> (\<exists>r d. e = SchedulerReply r \<and> init_scheduler shown r = Inr d)"
  by (auto simp: confirmed_def)

text \<open>\<open>c\<close> stands for a confirmation so far.\<close>

definition chain_ok :: "bool \<Rightarrow> setup_state \<Rightarrow> bool" where
  "chain_ok c s \<longleftrightarrow> (su_chains s > 0 \<longrightarrow> su_posted s \<noteq> []) \<and> (su_path s \<noteq> None \<longrightarrow> su_posted s \<noteq> [] \<and> c)"

lemma chain_ok_reply:
  "chain_ok c s \<Longrightarrow> chain_ok (c \<or> (\<exists>d. init_scheduler shown r = Inr d)) (setup_reply shown r s)"
  by (cases "su_chains s = 0"; cases "init_scheduler shown r") (auto simp: chain_ok_def setup_reply_def Let_def)

lemma chain_ok_continue: "chain_ok c s \<Longrightarrow> startable cl \<Longrightarrow> chain_ok c (setup_continue dev cl s)"
  by (cases "cluster_init dev cl") (auto simp: chain_ok_def setup_continue_def startable_def)

lemma chain_step:
  assumes "chain_ok (confirmed shown es) (sp_setup p)" and "startable (sp_cluster p)" and "startable_event e"
  shows "chain_ok (confirmed shown (es @ [e])) (sp_setup (setup_step shown dev p e)) \<and>
    startable (sp_cluster (setup_step shown dev p e))"
proof (cases e)
  case (SchedulerReply r)
  then show ?thesis using assms chain_ok_reply [OF assms(1), of shown r]
    by (simp add: setup_step_def confirmed_snoc)
next
  case Continue
  then show ?thesis using assms chain_ok_continue [OF assms(1,2), of dev]
    by (simp add: setup_step_def confirmed_snoc)
qed (use assms in \<open>simp_all add: setup_step_def confirmed_snoc startable_def startable_event_def Let_def\<close>)

lemma chain_run:
  assumes "chain_ok False (sp_setup p)" and "startable (sp_cluster p)" and "list_all startable_event es"
  shows "chain_ok (confirmed shown es) (sp_setup (run (setup_step shown dev) p es)) \<and>
    startable (sp_cluster (run (setup_step shown dev) p es))"
  using assms(3)
proof (induction es rule: rev_induct)
  case Nil
  then show ?case using assms by (simp add: confirmed_def)
next
  case (snoc e es)
  then show ?case
    using chain_step [of shown es "run (setup_step shown dev) p es" e dev] by simp
qed

subsection \<open>Properties\<close>

text \<open>
  Whatever the user does with the number field of the setup page and
  whatever the cluster reports, the number of nodes is left out or at least one, so starting the
  scheduler never fails for it.
\<close>

lemma setup_number_valid:
  "(case cl_init_nodes (sp_cluster (run (setup_step shown dev) setup_page_start evs)) of None \<Rightarrow> True | Some n \<Rightarrow> 1 \<le> n) \<and>
   cluster_init dev (sp_cluster (run (setup_step shown dev) setup_page_start evs)) \<noteq>
     Inl (JsErr ''Error'' ''initNodesNumber must be greater than 0'')"
proof -
  have "show_nat 1 = ''1''" by code_simp
  then have "page_ok setup_page_start"
    by (auto simp: page_ok_def setup_page_start_def number_ok_def positive_text_def cluster_start_def
        intro!: exI [of _ 1])
  then have "page_ok (run (setup_step shown dev) setup_page_start evs)" by (rule setup_pages.run_inv)
  then show ?thesis by (auto simp: page_ok_def cluster_init_def)
qed

text \<open>
  While the cluster is idle or failed, the setup page goes on to the
  join page only after it has posted a configuration and a reply of the scheduler's type has come.
\<close>

lemma setup_join_confirmed:
  assumes "startable (sp_cluster p)" and "list_all startable_event evs"
    and "su_path (sp_setup p) = None" and "su_chains (sp_setup p) = 0"
    and "su_path (sp_setup (run (setup_step shown dev) p evs)) \<noteq> None"
  shows "su_posted (sp_setup (run (setup_step shown dev) p evs)) \<noteq> [] \<and> confirmed shown evs"
proof -
  have "chain_ok False (sp_setup p)" using assms(3,4) by (simp add: chain_ok_def)
  then show ?thesis using chain_run [OF _ assms(1,2), of shown dev] assms(5) by (simp add: chain_ok_def)
qed

end
