(* ===== verification/JoinCommand.thy ===== *)
theory JoinCommand
  imports Ui
begin

text \<open>
  \<^verbatim>\<open>components/inputs/join-command.tsx\<close>: the commands to run on a node, one per platform,
  with a copy button that shows for two seconds that it was used. \<open>Copied k\<close> is the moment the
  clipboard has taken the command of key \<open>k\<close>; a write that is refused changes nothing.
\<close>

definition LABEL_MAP :: "(string \<times> string) list" where
  "LABEL_MAP = [(''linux/mac'', ''Linux/MacOS''), (''windows'', ''Windows'')]"

definition JoinCommandItem_style :: "theme \<Rightarrow> jval" where
  "JoinCommandItem_style t = JObj [(''display'', JStr ''flex''), (''flexFlow'', JStr ''row nowrap''),
     (''justifyContent'', JStr ''space-between''), (''alignItems'', JStr ''center''),
     (''paddingInline'', spacing t 2), (''paddingBlock'', spacing t (3/2)), (''gap'', spacing t 1),
     (''overflow'', JStr ''hidden''), (''borderRadius'', JStr ''0.7rem''),
     (''backgroundColor'', th t [''palette'', ''background'', ''area''])]"

record join_command =
  jc_copied :: "string option"
  jc_timer :: bool

definition jc_start :: join_command where
  "jc_start = \<lparr>jc_copied = None, jc_timer = False\<rparr>"

text \<open>Setting the key renders, and the effect rearms its timer, only if the key is a new one.\<close>

definition set_copied :: "string option \<Rightarrow> join_command \<Rightarrow> join_command" where
  "set_copied k s =
     (if k = jc_copied s then s
      else \<lparr>jc_copied = k, jc_timer = (case k of None \<Rightarrow> False | Some key \<Rightarrow> key \<noteq> [])\<rparr>)"

text \<open>What \<open>copy\<close> hands to the clipboard.\<close>

definition copy_text :: "jval \<Rightarrow> string \<Rightarrow> jval js_result" where
  "copy_text nodeJoinCommand key = get_prop nodeJoinCommand key"

datatype join_event = CopyKey string | Copied string | CopyTimer

definition join_step :: "join_command \<Rightarrow> join_event \<Rightarrow> join_command" where
  "join_step s ev =
     (case ev of
        CopyKey key \<Rightarrow> s
      | Copied key \<Rightarrow> set_copied (Some key) s
      | CopyTimer \<Rightarrow> if jc_timer s then set_copied None s else s)"

definition join_entry_view :: "(string \<times> jval) list \<Rightarrow> join_command \<Rightarrow> string \<times> jval \<Rightarrow> join_event ui" where
  "join_entry_view entries s e =
     (case e of (key, v) \<Rightarrow>
       El ''Stack'' [(''key'', PS key), (''gap'', PN 1)]
        [ui_when (length entries > 1)
           (El ''Typography'' [(''key'', PS ''label''), (''variant'', PS ''subtitle2'')]
             [Txt ''For '', Txt (case map_of LABEL_MAP key of None \<Rightarrow> key | Some l \<Rightarrow> l), Txt '':'']),
         El ''JoinCommandItem'' [(''key'', PS ''command'')]
          [El ''Typography'' [(''sx'', PO [(''flex'', JNum 1), (''lineHeight'', JStr ''1.125rem''),
              (''whiteSpace'', JStr ''wrap'')]), (''variant'', PS ''pre'')] [Val v],
           El ''IconButton'' [(''sx'', PO [(''flex'', JStr ''none''), (''fontSize'', JStr ''1rem'')]),
              (''size'', PS ''em''), (''onClick'', PE (CopyKey key))]
             [(if jc_copied s = Some key then El ''IconCopyCheck'' [] [] else El ''IconCopy'' [] [])]]])"

definition join_command_view :: "jval \<Rightarrow> join_command \<Rightarrow> join_event ui" where
  "join_command_view nodeJoinCommand s =
     (let entries = spread nodeJoinCommand in
      El ''Stack'' [(''gap'', PN 1)] (map (join_entry_view entries s) entries))"

subsection \<open>Facts\<close>

definition join_ok :: "join_command \<Rightarrow> bool" where
  "join_ok s \<longleftrightarrow> (jc_timer s \<longleftrightarrow> jc_copied s \<noteq> None \<and> jc_copied s \<noteq> Some [])"

lemma join_ok_step: "join_ok s \<Longrightarrow> join_ok (join_step s ev)"
  by (cases ev) (auto simp: join_ok_def join_step_def set_copied_def)

interpretation joining: invariant_steps join_step join_ok
  by unfold_locales (rule join_ok_step)

lemma events_click:
  "concat (map (\<lambda>e. prop_events ''onClick'' (snd e)) (elems (join_entry_view es s (k, v)))) = [CopyKey k]"
  by (simp add: join_entry_view_def elems_ui_when prop_events_def)

lemma entries_click:
  "concat (map (\<lambda>e. prop_events ''onClick'' (snd e)) (child_elems (map (join_entry_view es s) fs))) =
   map (\<lambda>e. CopyKey (fst e)) fs"
  by (induction fs) (auto simp: events_click)

lemma checks_entry:
  "filter (\<lambda>e. fst e = ''IconCopyCheck'') (elems (join_entry_view es s (k, v))) =
   (if jc_copied s = Some k then [(''IconCopyCheck'', [])] else [])"
  by (simp add: join_entry_view_def elems_ui_when)

lemma checks_entries:
  "filter (\<lambda>e. fst e = ''IconCopyCheck'') (child_elems (map (join_entry_view es s) fs)) =
   map (\<lambda>e. (''IconCopyCheck'', [])) (filter (\<lambda>e. jc_copied s = Some (fst e)) fs)"
  by (induction fs) (auto simp: checks_entry)

subsection \<open>Properties\<close>

text \<open>
  Every platform has a copy button of its own that copies its
  command; a check mark stands only at the key copied last, and it goes away: as long as it
  stands, the timer that removes it is armed.
\<close>

lemma join_command_copied:
  assumes "distinct (map fst kvs)" and "\<forall>k. Copied k \<in> set evs \<longrightarrow> k \<in> fst ` set kvs \<and> k \<noteq> []"
  shows "let s = run join_step jc_start evs; v = join_command_view (JObj kvs) s in
    events ''onClick'' v = map (\<lambda>e. CopyKey (fst e)) kvs \<and>
    length (named_elems ''IconCopyCheck'' v) = (if jc_timer s then 1 else 0) \<and>
    jc_copied (join_step s CopyTimer) = None"
proof -
  let ?s = "run join_step jc_start evs"
  have ok: "join_ok ?s" by (rule joining.run_inv) (simp add: join_ok_def jc_start_def)
  have keys: "jc_copied ?s = None \<or> (\<exists>k. jc_copied ?s = Some k \<and> k \<in> fst ` set kvs \<and> k \<noteq> [])"
    using assms(2)
  proof (induction evs rule: rev_induct)
    case Nil
    then show ?case by (simp add: jc_start_def)
  next
    case (snoc e es)
    then show ?case by (cases e) (auto simp: join_step_def set_copied_def)
  qed
  have one: "length (filter (\<lambda>e. k = fst e) kvs) = Suc 0" if "(k, v) \<in> set kvs" for k v
    using that assms(1)
    by (induction kvs) (auto simp: filter_empty_conv image_iff)
  have "length (named_elems ''IconCopyCheck'' (join_command_view (JObj kvs) ?s)) = (if jc_timer ?s then 1 else 0)"
    using keys ok one
    by (auto simp: named_elems_def join_command_view_def spread_def checks_entries join_ok_def)
  moreover have "events ''onClick'' (join_command_view (JObj kvs) ?s) = map (\<lambda>e. CopyKey (fst e)) kvs"
    by (simp add: events_def join_command_view_def spread_def entries_click)
  moreover have "jc_copied (join_step ?s CopyTimer) = None"
    using keys ok by (auto simp: join_step_def set_copied_def join_ok_def)
  ultimately show ?thesis by (simp add: Let_def)
qed

end
