(* ===== verification/NodeList.thy ===== *)
theory NodeList
  imports Ui
begin

text \<open>
  \<^verbatim>\<open>components/inputs/node-list.tsx\<close>: the list of the nodes, with a skeleton for every node
  the cluster still waits for, and in the menu variant an animated dash between two entries.
  \<open>node_view\<close> is the component \<open>Node\<close>, whose look-up of a colour fails for a status the
  map does not know.
\<close>

datatype list_variant = V_list | V_menu

definition variant_text :: "list_variant \<Rightarrow> string" where
  "variant_text v = (case v of V_list \<Rightarrow> ''list'' | V_menu \<Rightarrow> ''menu'')"

subsection \<open>Styles\<close>

definition NodeListRoot_style :: "theme \<Rightarrow> jval" where
  "NodeListRoot_style t = JObj [(''position'', JStr ''relative''), (''flex'', JNum 1),
     (''gap'', spacing t (3/2)), (''overflowX'', JStr ''hidden''), (''overflowY'', JStr ''auto'')]"

definition List_style :: "theme \<Rightarrow> list_variant \<Rightarrow> jval" where
  "List_style t variant = JObj [(''gap'', spacing t (if variant = V_list then 3/2 else 0))]"

definition ListItem_style :: "theme \<Rightarrow> jval" where
  "ListItem_style t = JObj [(''flex'', JStr ''none''), (''gap'', spacing t 1),
     (''backgroundColor'', JStr ''transparent''), (''padding'', spacing t 2), (''overflow'', JStr ''visible'')]"

definition ListItemIcon_style :: jval where
  "ListItemIcon_style = JObj [(''color'', JStr ''inherit''), (''fontSize'', JStr ''1.5rem''),
     (''width'', JStr ''1em''), (''height'', JStr ''1em''), (''display'', JStr ''inline-flex''),
     (''alignItems'', JStr ''center''), (''justifyContent'', JStr ''center'')]"

definition ListItemText_style :: jval where
  "ListItemText_style = JObj [(''position'', JStr ''relative''), (''display'', JStr ''block''),
     (''height'', JStr ''100%'')]"

definition ListItemStatus_style :: "list_variant \<Rightarrow> jval" where
  "ListItemStatus_style variant = JObj [(''fontSize'', JStr (if variant = V_list then ''1.5rem'' else ''1em'')),
     (''width'', JStr ''1em''), (''height'', JStr ''1em''), (''display'', JStr ''inline-flex''),
     (''alignItems'', JStr ''center''), (''justifyContent'', JStr ''center''),
     (''transformOrigin'', JStr ''center'')]"

definition DashRoot_style :: jval where
  "DashRoot_style = JObj [(''position'', JStr ''relative''), (''width'', JStr ''1.5rem''),
     (''height'', JStr ''3.25rem''), (''overflow'', JStr ''hidden'')]"

subsection \<open>Dash and Node\<close>

definition dash_height :: nat where "dash_height = 256"

definition dash_view :: "bool \<Rightarrow> 'e ui" where
  "dash_view animate =
     (let h = PN (of_nat dash_height) in
      El ''DashRoot'' []
       [El ''svg'' [(''style'', PO [(''position'', JStr ''absolute''), (''top'', JNum 0), (''left'', JStr ''50%''),
            (''transform'', JStr ''translateX(-50%)'')]), (''width'', PN 2), (''height'', h),
          (''viewBox'', PS (''0 0 2 '' @ show_nat dash_height)), (''fill'', PS ''none'')]
         [El ''line'' [(''x1'', PS ''1''), (''y1'', PS ''0''), (''x2'', PS ''1''), (''y2'', h),
            (''stroke'', PS ''#9B9B9B''), (''strokeWidth'', PS ''2''), (''strokeDasharray'', PS ''4'')]
           [ui_when animate (El ''animate'' [(''attributeName'', PS ''stroke-dashoffset''), (''from'', h),
              (''to'', PS ''0''), (''dur'', PS (show_nat (dash_height div 32) @ ''s'')),
              (''repeatCount'', PS ''indefinite'')] [])]]])"

definition STATUS_COLOR_MAP :: "(string \<times> string) list" where
  "STATUS_COLOR_MAP = [(''waiting'', ''info''), (''available'', ''success''), (''failed'', ''error'')]"

definition STATUS_ICON_MAP :: "(string \<times> string) list" where
  "STATUS_ICON_MAP = [(''waiting'', ''IconLoader''), (''available'', ''IconCheck''), (''failed'', ''IconX'')]"

definition status_entry :: "(string \<times> string) list \<Rightarrow> jval \<Rightarrow> string option" where
  "status_entry m status = (case status of JStr s \<Rightarrow> map_of m s | _ \<Rightarrow> None)"

text \<open>\<open>main\<close> of the colours; \<open>lighter\<close> is not used.\<close>

definition node_color :: "theme \<Rightarrow> jval \<Rightarrow> jval js_result" where
  "node_color t status =
     (if status = JStr ''waiting'' then Inr (th t [''palette'', ''grey'', ''800''])
      else (case status_entry STATUS_COLOR_MAP status of
              None \<Rightarrow> Inl type_error
            | Some c \<Rightarrow> get_prop (th t [''palette'', c]) ''main''))"

text \<open>The text of a node: the number of cards if there are several, their name, their memory.\<close>

definition node_text :: "(rat \<Rightarrow> string) \<Rightarrow> node_info \<Rightarrow> string" where
  "node_text shown n =
     (let num = n_gpu_number n; mem = n_gpu_memory n;
          parts = [(if truthy num \<and> js_gt num 1 then JStr (js_text shown num @ ''x'') else JStr []),
                   n_gpu_name n,
                   (if truthy mem then JStr (js_text shown mem @ ''GB'') else JStr [])]
      in join_with '' '' (js_texts shown (filter truthy parts)))"

definition node_view :: "(rat \<Rightarrow> string) \<Rightarrow> theme \<Rightarrow> list_variant \<Rightarrow> node_info option \<Rightarrow> 'e ui js_result" where
  "node_view shown t variant node =
     (let status = (case node of None \<Rightarrow> JStr ''waiting'' | Some n \<Rightarrow> n_status n);
          menu = (variant = V_menu)
      in js_bind (node_color t status) (\<lambda>main.
       Inr (El ''ListItem''
         [(''component'', PS (if variant = V_list then ''Paper'' else ''Box'')), (''variant'', PS ''outlined''),
          (''sx'', PO [(''opacity'', if status = JStr ''failed'' then JNum (1/5) else JUndef),
             (''padding'', if menu then JNum 0 else JUndef), (''height'', if menu then JStr ''2.5rem'' else JUndef)])]
         [El ''ListItemIcon'' [] [El ''IconDevices2'' [] []],
          El ''ListItemText'' []
           [El ''Stack'' [(''sx'', PV (if menu then JObj [(''position'', JStr ''absolute''), (''top'', JStr ''50%''),
                (''left'', JNum 0), (''right'', JNum 0), (''transform'', JStr ''translateY(-50%)'')] else JUndef))]
             [(case node of
                 Some n \<Rightarrow> El ''Fragment'' [] [El ''Typography'' [(''variant'', PS ''body1''),
                     (''sx'', PO [(''fontWeight'', JNum 500)])] [Txt (node_text shown n)]]
               | None \<Rightarrow> El ''Fragment'' [] [El ''Skeleton'' [(''height'', PS ''1lh'')] []])]],
          (case node of
             None \<Rightarrow> Val JUndef
           | Some n \<Rightarrow> El ''ListItemStatus''
               ((''sx'', PO [(''color'', main)]) # (if status = JStr ''waiting'' then spinning else []) @
                [(''variant'', PS (variant_text variant)), (''data-debug-status'', PV status)])
               [ui_when (variant = V_list) (El (case status_entry STATUS_ICON_MAP status of
                    None \<Rightarrow> ''undefined'' | Some i \<Rightarrow> i) [(''size'', PN 18)] []),
                ui_when menu (El ''IconCircleFilled'' [(''size'', PN 10)] [])])])))"

subsection \<open>The list\<close>

text \<open>\<open>renderDash\<close>: the counter and what it renders.\<close>

definition render_dash :: "list_variant \<Rightarrow> bool \<Rightarrow> string \<Rightarrow> nat \<Rightarrow> nat \<times> 'e ui" where
  "render_dash variant generating key dashIndex =
     (case variant of
        V_menu \<Rightarrow> (dashIndex + 1, ui_when (dashIndex > 0)
           (El ''Dash'' [(''key'', PS key), (''animate'', PV (JBool generating))] []))
      | V_list \<Rightarrow> (dashIndex, Val JUndef))"

text \<open>The entries in order: their dash keys and their elements.\<close>

fun node_rows :: "list_variant \<Rightarrow> bool \<Rightarrow> (string \<times> 'e ui) list \<Rightarrow> nat \<Rightarrow> 'e ui list" where
  "node_rows variant generating [] dashIndex = []"
| "node_rows variant generating ((key, u) # rest) dashIndex =
     (case render_dash variant generating key dashIndex of
        (dashIndex', dash) \<Rightarrow> dash # u # node_rows variant generating rest dashIndex')"

definition missing_nodes :: "cluster_info \<Rightarrow> nat \<Rightarrow> nat" where
  "missing_nodes c nodesNumber =
     (if ci_status c \<noteq> JStr ''idle'' \<and> js_gt (ci_init_nodes c) (of_nat nodesNumber)
      then (case to_number (ci_init_nodes c) of None \<Rightarrow> 0 | Some q \<Rightarrow> nat \<lfloor>q - of_nat nodesNumber\<rfloor>)
      else 0)"

definition node_entries :: "(rat \<Rightarrow> string) \<Rightarrow> list_variant \<Rightarrow> cluster_info \<Rightarrow> node_info list \<Rightarrow> (string \<times> 'e ui) list" where
  "node_entries shown variant c nodes =
     map (\<lambda>n. (js_text shown (n_id n) @ ''-dash'', El ''Node'' [(''key'', PV (n_id n)),
        (''variant'', PS (variant_text variant)), (''node'', PV (node_val n))] [])) nodes @
     map (\<lambda>i. (show_nat i @ ''-dash'', El ''Node'' [(''key'', PN (of_nat i)),
        (''variant'', PS (variant_text variant))] [])) [0..<missing_nodes c (length nodes)]"

definition node_list_view :: "(rat \<Rightarrow> string) \<Rightarrow> list_variant \<Rightarrow> (string \<times> 'e attr) list \<Rightarrow> cluster_info
    \<Rightarrow> node_info list \<Rightarrow> bool \<Rightarrow> 'e ui" where
  "node_list_view shown variant rest c nodes generating =
     El ''NodeListRoot'' rest [El ''List'' [(''variant'', PS (variant_text variant))]
       (node_rows variant generating (node_entries shown variant c nodes) 0)]"

subsection \<open>Facts\<close>

definition count_elems :: "string \<Rightarrow> 'e ui list \<Rightarrow> nat" where
  "count_elems n us = length (filter (\<lambda>e. fst e = n) (child_elems us))"

definition node_entry :: "string \<times> 'e ui \<Rightarrow> bool" where
  "node_entry e \<longleftrightarrow> (\<exists>ps. snd e = El ''Node'' ps [] \<and> prop_elems ps = [])"

lemma node_entries_ok: "list_all node_entry (node_entries shown variant c nodes)"
  by (auto simp: node_entries_def node_entry_def list_all_iff)

lemma count_node_rows:
  "list_all node_entry es \<Longrightarrow> count_elems ''Node'' (node_rows variant g es i) = length es"
  by (induction es arbitrary: i)
     (auto simp: count_elems_def node_entry_def render_dash_def elems_ui_when split: list_variant.splits)

lemma count_dash_rows:
  "list_all node_entry es \<Longrightarrow> count_elems ''Dash'' (node_rows variant g es i) =
    (if variant = V_list then 0 else if i = 0 then length es - 1 else length es)"
  by (induction es arbitrary: i)
     (auto simp: count_elems_def node_entry_def render_dash_def elems_ui_when split: list_variant.splits)

lemma dash_rows_animate:
  "list_all node_entry es \<Longrightarrow> (n, ps) \<in> set (child_elems (node_rows variant g es i)) \<Longrightarrow> n = ''Dash'' \<Longrightarrow>
   map_of ps ''animate'' = Some (PV (JBool g))"
  by (induction es arbitrary: i)
     (auto simp: node_entry_def render_dash_def elems_ui_when split: list_variant.splits if_splits)

lemma node_list_elems:
  "prop_elems rest = [] \<Longrightarrow> elems (node_list_view shown variant rest c nodes g) =
   (''NodeListRoot'', rest) # (''List'', [(''variant'', PS (variant_text variant))]) #
   child_elems (node_rows variant g (node_entries shown variant c nodes) 0)"
  by (simp add: node_list_view_def)

lemma missing_nodes_nat:
  "ci_status c \<noteq> JStr ''idle'' \<Longrightarrow> ci_init_nodes c = JNum (of_nat k) \<Longrightarrow> missing_nodes c n = k - n"
proof -
  assume a: "ci_status c \<noteq> JStr ''idle''" "ci_init_nodes c = JNum (of_nat k)"
  have "(of_nat k :: rat) > of_nat n \<longleftrightarrow> n < k" by simp
  moreover have "n < k \<Longrightarrow> \<lfloor>of_nat k - of_nat n :: rat\<rfloor> = int (k - n)"
    by (metis floor_of_nat less_imp_le of_nat_diff)
  ultimately show ?thesis using a by (simp add: missing_nodes_def js_gt_def) linarith
qed

subsection \<open>Properties\<close>

text \<open>
  While the cluster runs, the list has an entry for every node and one for
  every node still missing to the number the cluster was started with; in the menu a dash stands
  between any two entries and nowhere else, moving exactly while an answer is generated.
\<close>

lemma node_list_rows:
  assumes "prop_elems (rest :: (string \<times> 'e attr) list) = []" and "ci_status c \<noteq> JStr ''idle''" and "ci_init_nodes c = JNum (of_nat k)"
  shows "length (named_elems ''Node'' (node_list_view shown variant rest c nodes g)) = max (length nodes) k \<and>
    length (named_elems ''Dash'' (node_list_view shown variant rest c nodes g)) =
      (if variant = V_menu then max (length nodes) k - 1 else 0) \<and>
    (\<forall>ps \<in> set (named_elems ''Dash'' (node_list_view shown variant rest c nodes g)).
       map_of ps ''animate'' = Some (PV (JBool g)))"
proof -
  let ?es = "node_entries shown variant c nodes :: (string \<times> 'e ui) list"
  have l: "length ?es = max (length nodes) k"
    using missing_nodes_nat [OF assms(2,3), of "length nodes"] by (simp add: node_entries_def)
  have ok: "list_all node_entry ?es" by (rule node_entries_ok)
  let ?v = "node_list_view shown variant rest c nodes g"
  have e: "elems ?v = (''NodeListRoot'', rest) # (''List'', [(''variant'', PS (variant_text variant))]) #
     child_elems (node_rows variant g ?es 0)"
    by (rule node_list_elems [OF assms(1)])
  have "length (named_elems ''Node'' ?v) = max (length nodes) k"
    using count_node_rows [OF ok, of variant g 0] l unfolding named_elems_def e count_elems_def by simp
  moreover have "length (named_elems ''Dash'' ?v) = (if variant = V_menu then max (length nodes) k - 1 else 0)"
    using count_dash_rows [OF ok, of variant g 0] l unfolding named_elems_def e count_elems_def
    by (cases variant) simp_all
  moreover have "map_of ps ''animate'' = Some (PV (JBool g))" if "ps \<in> set (named_elems ''Dash'' ?v)" for ps
  proof -
    from that have "(''Dash'', ps) \<in> set (child_elems (node_rows variant g ?es 0))"
      unfolding named_elems_def e by auto
    from dash_rows_animate [OF ok this refl] show ?thesis .
  qed
  ultimately show ?thesis by blast
qed

text \<open>
  An entry can be rendered exactly for the three statuses of the
  type; any other status the server sends makes the render function fail, and the page with it.
\<close>

lemma node_view_known_status:
  assumes "\<And>p. th t p \<noteq> JUndef \<and> th t p \<noteq> JNull"
  shows "(\<exists>u. node_view shown t variant (Some n) = Inr u) \<longleftrightarrow>
    n_status n \<in> {JStr ''waiting'', JStr ''available'', JStr ''failed''}"
proof -
  have "\<exists>v. get_prop (th t p) ''main'' = Inr v" for p using assms get_prop_Inr by blast
  then have "(\<exists>v. node_color t (n_status n) = Inr v) \<longleftrightarrow>
      n_status n \<in> {JStr ''waiting'', JStr ''available'', JStr ''failed''}"
    by (auto simp: node_color_def status_entry_def STATUS_COLOR_MAP_def split: jval.splits option.splits)
  then show ?thesis by (auto simp: node_view_def js_bind_Inr_iff Let_def)
qed

end
