(* ===== verification/Dialog.thy ===== *)
theory Dialog
  imports Ui
begin

text \<open>
  \<^verbatim>\<open>components/mui/dialog/alert-dialog.tsx\<close> and \<^verbatim>\<open>use-dialog.tsx\<close>: a dialog whose
  buttons run callbacks. A callback returns a value, raises, or returns a promise, for which
  the dialog waits in its loading status. The state holds whether the dialog is open, its
  loading status, the promise it waits for, and how often \<open>onClose\<close> was called and an error
  was logged. \<open>useForm\<close>'s \<open>handleSubmit\<close> calls the valid or the invalid callback.
\<close>

datatype outcome = Returns jval | Throws js_error | Promises

datatype waiting = W_action | W_form

record dialog =
  d_open :: bool
  d_loading :: bool
  d_wait :: "waiting option"
  d_closes :: nat
  d_errors :: nat

definition dialog_start :: dialog where
  "dialog_start = \<lparr>d_open = False, d_loading = False, d_wait = None, d_closes = 0, d_errors = 0\<rparr>"

text \<open>\<open>useAlertDialog\<close>: \<open>open\<close>, \<open>close\<close> and the \<open>onClose\<close> it hands to the dialog.\<close>

definition dialog_open :: "dialog \<Rightarrow> dialog" where
  "dialog_open s = s\<lparr>d_open := True\<rparr>"

definition dialog_close :: "dialog \<Rightarrow> dialog" where
  "dialog_close s = s\<lparr>d_open := False\<rparr>"

definition on_close :: "dialog \<Rightarrow> dialog" where
  "on_close s = s\<lparr>d_open := False, d_closes := d_closes s + 1\<rparr>"

subsection \<open>The callbacks\<close>

definition is_object :: "jval \<Rightarrow> bool" where
  "is_object v = (case v of JNull \<Rightarrow> True | JArr xs \<Rightarrow> True | JObj kvs \<Rightarrow> True | _ \<Rightarrow> False)"

definition handle_action_result :: "jval \<Rightarrow> bool js_result" where
  "handle_action_result result =
     (if result = JBool False then Inr False
      else if is_object result
      then js_bind (get_prop result ''closeDialog'') (\<lambda>c. Inr (c \<noteq> JBool False))
      else Inr True)"

definition log_error :: "dialog \<Rightarrow> dialog" where
  "log_error s = s\<lparr>d_loading := False, d_errors := d_errors s + 1\<rparr>"

text \<open>What follows the result of a callback, inside the \<open>try\<close>.\<close>

definition finish_action :: "jval \<Rightarrow> dialog \<Rightarrow> dialog" where
  "finish_action result s =
     (case handle_action_result result of
        Inl e \<Rightarrow> log_error s
      | Inr closes \<Rightarrow> if closes then on_close s else s)"

definition pipe_handlers :: "outcome \<Rightarrow> dialog \<Rightarrow> dialog" where
  "pipe_handlers result s =
     (if d_loading s then s
      else (case result of
          Promises \<Rightarrow> s\<lparr>d_loading := True, d_wait := Some W_action\<rparr>
        | Returns v \<Rightarrow> finish_action v s
        | Throws e \<Rightarrow> log_error s))"

definition on_submit :: "dialog \<Rightarrow> dialog" where
  "on_submit s = (if d_loading s then s else s\<lparr>d_loading := True, d_wait := Some W_form\<rparr>)"

text \<open>A promise is settled: of an action, of the valid callback, of the invalid one.\<close>

definition settle :: "js_error + jval \<Rightarrow> dialog \<Rightarrow> dialog" where
  "settle r s =
     (let s' = s\<lparr>d_wait := None, d_loading := False\<rparr> in
      (case r of Inl e \<Rightarrow> log_error s' | Inr v \<Rightarrow> finish_action v s'))"

definition settle_invalid :: "bool \<Rightarrow> dialog \<Rightarrow> dialog" where
  "settle_invalid raised s =
     s\<lparr>d_wait := None, d_loading := False, d_errors := d_errors s + (if raised then 1 else 0)\<rparr>"

definition safe_on_close :: "dialog \<Rightarrow> dialog" where
  "safe_on_close s = (if d_loading s then s else on_close s)"

datatype dialog_event =
    Open
  | CloseProgram
  | Action outcome
  | SubmitForm
  | Dismiss
  | ActionSettles "js_error + jval"
  | ValidSettles "js_error + jval"
  | InvalidSettles bool

definition dialog_step :: "dialog \<Rightarrow> dialog_event \<Rightarrow> dialog" where
  "dialog_step s ev =
     (case ev of
        Open \<Rightarrow> dialog_open s
      | CloseProgram \<Rightarrow> dialog_close s
      | Action r \<Rightarrow> pipe_handlers r s
      | SubmitForm \<Rightarrow> on_submit s
      | Dismiss \<Rightarrow> safe_on_close s
      | ActionSettles r \<Rightarrow> if d_wait s = Some W_action then settle r s else s
      | ValidSettles r \<Rightarrow> if d_wait s = Some W_form then settle r s else s
      | InvalidSettles raised \<Rightarrow> if d_wait s = Some W_form then settle_invalid raised s else s)"

subsection \<open>View\<close>

definition COLOR_ICON_MAP :: "(string \<times> string) list" where
  "COLOR_ICON_MAP = [(''primary'', ''IconInfoCircle''), (''secondary'', ''IconInfoCircle''),
     (''info'', ''IconInfoCircle''), (''error'', ''IconAlertCircle''), (''warning'', ''IconAlertCircle''),
     (''success'', ''IconCircleCheck'')]"

datatype dialog_action = A_cancel | A_confirm | A_submit | A_close

datatype title_icon = TI_bool bool | TI_form | TI_node "dialog_action ui"

record dialog_props =
  dp_title_id :: jval
  dp_title :: "dialog_action ui"
  dp_content_id :: jval
  dp_content :: "dialog_action ui"
  dp_color :: string
  dp_icon_color :: string
  dp_icon :: title_icon
  dp_cancel :: "dialog_action ui option"
  dp_confirm :: "dialog_action ui option"
  dp_submit :: "dialog_action ui option"
  dp_handle_submit :: bool
  dp_on_valid :: bool
  dp_secondary :: "dialog_action ui"
  dp_rest :: "(string \<times> dialog_action attr) list"

definition default_props :: "dialog_action ui \<Rightarrow> dialog_action ui \<Rightarrow> dialog_props" where
  "default_props title content = \<lparr>dp_title_id = JUndef, dp_title = title, dp_content_id = JUndef,
     dp_content = content, dp_color = ''primary'', dp_icon_color = ''warning'', dp_icon = TI_bool True,
     dp_cancel = None, dp_confirm = None, dp_submit = None, dp_handle_submit = False, dp_on_valid = False,
     dp_secondary = Val JUndef, dp_rest = []\<rparr>"

definition dialog_props_check :: "bool \<Rightarrow> dialog_props \<Rightarrow> unit js_result" where
  "dialog_props_check dev p =
     (if dev \<and> dp_submit p \<noteq> None \<and> (\<not> dp_handle_submit p \<or> \<not> dp_on_valid p)
      then Inl (JsErr ''Error'' ''handleSubmit and onSubmitValid are required when submitLabel is provided'')
      else Inr ())"

definition action_buttons :: "dialog_props \<Rightarrow> bool \<Rightarrow> (string \<times> dialog_action attr) list list" where
  "action_buttons p loading =
     (case dp_cancel p of None \<Rightarrow> [] | Some l \<Rightarrow>
        [[(''key'', PS ''cancel''), (''children'', PU l), (''color'', PS ''secondary''),
          (''onClick'', PE A_cancel), (''loading'', PV (JBool loading))]]) @
     (case dp_confirm p of None \<Rightarrow> [] | Some l \<Rightarrow>
        [[(''key'', PS ''confirm''), (''children'', PU l), (''color'', PS (dp_color p)),
          (''onClick'', PE A_confirm), (''loading'', PV (JBool loading))]]) @
     (case dp_submit p of None \<Rightarrow> [] | Some l \<Rightarrow>
        [[(''key'', PS ''submit''), (''children'', PU l), (''type'', PS ''submit''), (''loading'', PV (JBool loading))]])"

definition form_props :: "dialog_props \<Rightarrow> (string \<times> dialog_action attr) list" where
  "form_props p = (if dp_submit p \<noteq> None \<and> dp_handle_submit p \<and> dp_on_valid p
     then [(''onSubmit'', PE A_submit)] else [])"

text \<open>\<open>SlotIcon\<close> is a component for every colour of the type, so its negation is false.\<close>

definition slot_icon :: "dialog_props \<Rightarrow> string option" where
  "slot_icon p = map_of COLOR_ICON_MAP (dp_color p)"

definition icon_shown :: "title_icon \<Rightarrow> bool" where
  "icon_shown i = (case i of TI_bool b \<Rightarrow> b | _ \<Rightarrow> True)"

definition title_icon_view :: "dialog_props \<Rightarrow> dialog_action ui" where
  "title_icon_view p =
     (let circle = (\<lambda>c. El ''TitleIcon'' [(''variant'', PS ''circle''), (''color'', PS (dp_icon_color p))] [c]) in
      (case dp_icon p of
         TI_form \<Rightarrow> El ''TitleIconForm'' [] []
       | TI_bool b \<Rightarrow> (if b then circle (El (case slot_icon p of None \<Rightarrow> ''undefined'' | Some i \<Rightarrow> i) [] [])
                       else circle (Val (JBool False)))
       | TI_node u \<Rightarrow> circle u))"

definition alert_dialog_view :: "dialog_props \<Rightarrow> bool \<Rightarrow> bool \<Rightarrow> dialog_action ui" where
  "alert_dialog_view p is_open loading =
     (let buttons = action_buttons p loading in
      El ''Dialog''
       ([(''open'', PV (JBool is_open)), (''onClose'', PE A_close), (''aria-labelledby'', PV (dp_title_id p)),
         (''aria-describedby'', PV (dp_content_id p))] @ dp_rest p @
        [(''component'', PV (if form_props p \<noteq> [] then JStr ''form'' else JUndef))] @ form_props p @
        [(''slotProps'', PO [(''paper'', JObj [(''sx'', JObj [(''p'', JNum (3/2))])])])])
       [El ''DialogTitle'' [(''id'', PV (if slot_icon p = None \<and> truthy (dp_title_id p) then dp_title_id p else JUndef))]
         [title_icon_view p,
          ui_when (\<not> icon_shown (dp_icon p)) (dp_title p),
          El ''IconButton'' [(''size'', PS ''small''), (''onClick'', PE A_close)] [El ''IconX'' [(''size'', PS ''1.25rem'')] []]],
        El ''DialogContent'' []
         [ui_when (icon_shown (dp_icon p))
            (El ''Typography'' [(''variant'', PS ''subtitle1''), (''id'', PV (dp_title_id p)),
               (''sx'', PO [(''fontSize'', JStr ''1.125rem''), (''fontWeight'', JNum 600), (''mr'', JStr ''auto'')])] [dp_title p]),
          El ''DialogContentText'' [(''id'', PV (dp_content_id p))] [dp_content p]],
        ui_when (length buttons > 0)
         (El ''DialogActions'' []
           (dp_secondary p #
            map (\<lambda>b. El ''Button'' (b @ (if length buttons = 1 then [(''fullWidth'', PV (JBool True))] else [])) [])
              buttons))])"

text \<open>The hook: the dialog's node over its own state, and the two actions.\<close>

definition use_alert_dialog ::
    "dialog_props \<Rightarrow> dialog \<Rightarrow> dialog_action ui \<times> (dialog \<Rightarrow> dialog) \<times> (dialog \<Rightarrow> dialog)" where
  "use_alert_dialog p d = (alert_dialog_view p (d_open d) (d_loading d), dialog_open, dialog_close)"

subsection \<open>Facts\<close>

definition dialog_ok :: "dialog \<Rightarrow> bool" where
  "dialog_ok s \<longleftrightarrow> (d_loading s \<longleftrightarrow> d_wait s \<noteq> None)"

lemmas dialog_defs = dialog_step_def dialog_open_def dialog_close_def on_close_def finish_action_def
  log_error_def pipe_handlers_def on_submit_def settle_def settle_invalid_def safe_on_close_def Let_def

lemma dialog_ok_step: "dialog_ok s \<Longrightarrow> dialog_ok (dialog_step s ev)"
  by (cases ev) (auto simp: dialog_defs dialog_ok_def split: outcome.splits sum.splits)

interpretation dialogs: invariant_steps dialog_step dialog_ok
  by unfold_locales (rule dialog_ok_step)

lemma dialog_ok_start: "dialog_ok dialog_start"
  by (simp add: dialog_ok_def dialog_start_def)

definition user_action :: "dialog_event \<Rightarrow> bool" where
  "user_action ev = (case ev of Action r \<Rightarrow> True | SubmitForm \<Rightarrow> True | Dismiss \<Rightarrow> True | _ \<Rightarrow> False)"

text \<open>What the documentation of the callbacks calls preventing the dialog from closing.\<close>

definition prevents_close :: "jval \<Rightarrow> bool" where
  "prevents_close v \<longleftrightarrow> v = JBool False \<or> (\<exists>kvs. v = JObj kvs \<and> obj_get kvs ''closeDialog'' = JBool False)"

lemma handle_action_result_cases:
  "v \<noteq> JNull \<Longrightarrow> handle_action_result v = Inr (\<not> prevents_close v)"
  by (cases v) (auto simp: handle_action_result_def is_object_def prevents_close_def)

subsection \<open>Properties\<close>

text \<open>
  C26 (dialog_loading_locked): after any history the dialog is in its loading status exactly
  while it waits for a promise; as long as it does, no button, form or dismissal changes
  anything, and whatever the promise settles to ends the loading status.
\<close>

theorem dialog_loading_locked:
  "let s = run dialog_step dialog_start evs in
     (d_loading s \<longleftrightarrow> d_wait s \<noteq> None) \<and>
     (d_loading s \<and> user_action ev \<longrightarrow> dialog_step s ev = s) \<and>
     (d_wait s = Some W_action \<longrightarrow> \<not> d_loading (dialog_step s (ActionSettles r))) \<and>
     (d_wait s = Some W_form \<longrightarrow> \<not> d_loading (dialog_step s (ValidSettles r)) \<and>
        \<not> d_loading (dialog_step s (InvalidSettles raised)))"
proof -
  let ?s = "run dialog_step dialog_start evs"
  have "dialog_ok ?s" by (rule dialogs.run_inv [OF dialog_ok_start])
  moreover have "d_loading ?s \<and> user_action ev \<longrightarrow> dialog_step ?s ev = ?s"
    by (cases ev) (auto simp: user_action_def dialog_defs)
  moreover have "\<not> d_loading (settle r ?s)" "\<not> d_loading (settle_invalid raised ?s)"
    by (auto simp: dialog_defs split: sum.splits)
  ultimately show ?thesis by (auto simp: dialog_ok_def dialog_step_def Let_def)
qed

theorem dialog_loading_locked_witness:
  "dialog_step (run dialog_step dialog_start [Open, Action Promises]) Dismiss =
     run dialog_step dialog_start [Open, Action Promises] \<and>
   \<not> d_loading (dialog_step (run dialog_step dialog_start [Open, Action Promises]) (ActionSettles (Inr JUndef)))"
proof -
  have "d_loading (run dialog_step dialog_start [Open, Action Promises])"
    "d_wait (run dialog_step dialog_start [Open, Action Promises]) = Some W_action"
    by (simp_all add: dialog_defs dialog_start_def)
  then show ?thesis
    using dialog_loading_locked [of "[Open, Action Promises]" Dismiss "Inr JUndef" False]
    unfolding Let_def by (simp add: user_action_def del: run.simps)
qed

text \<open>
  A callback's result, returned or promised, closes the dialog exactly
  when it is neither \<open>false\<close> nor \<open>{ closeDialog: false }\<close>; a callback that raises or a
  promise that is rejected leaves it open. (For a result other than \<open>null\<close>.)
\<close>

lemma dialog_close_control:
  assumes "v \<noteq> JNull" and "d_open s" and "\<not> d_loading s"
  shows "(d_open (dialog_step s (Action (Returns v))) \<longleftrightarrow> prevents_close v) \<and>
    (d_open (dialog_step (dialog_step s (Action Promises)) (ActionSettles (Inr v))) \<longleftrightarrow> prevents_close v) \<and>
    (d_open (dialog_step (dialog_step s SubmitForm) (ValidSettles (Inr v))) \<longleftrightarrow> prevents_close v) \<and>
    d_open (dialog_step s (Action (Throws e))) \<and>
    d_open (dialog_step (dialog_step s (Action Promises)) (ActionSettles (Inl e))) \<and>
    d_open (dialog_step (dialog_step s SubmitForm) (ValidSettles (Inl e)))"
  using assms by (simp add: dialog_defs handle_action_result_cases)

text \<open>
  A callback that returns \<open>null\<close>, or promises it, does not close the
  dialog: \<open>null\<close> is an object to \<open>typeof\<close>, the read of its property raises, and the error
  is logged.
\<close>

lemma dialog_null_result:
  assumes "d_open s" and "\<not> d_loading s"
  shows "d_open (dialog_step s (Action (Returns JNull))) \<and>
    d_errors (dialog_step s (Action (Returns JNull))) = d_errors s + 1 \<and>
    d_open (dialog_step (dialog_step s (Action Promises)) (ActionSettles (Inr JNull)))"
  using assms by (simp add: dialog_defs handle_action_result_def is_object_def)

text \<open>
  \<open>titleIcon={false}\<close>, which should hide the title's icon, renders an
  empty one, and then no element of the dialog has the identifier its \<open>aria-labelledby\<close> names.
\<close>

lemma dialog_false_icon:
  assumes "c \<noteq> JStr i" and "p = (default_props (Txt title) (Txt content))\<lparr>dp_title_id := JStr i,
     dp_content_id := c, dp_icon := TI_bool False, dp_confirm := Some (Txt label)\<rparr>"
  shows "named_elems ''TitleIcon'' (alert_dialog_view p is_open loading) \<noteq> [] \<and>
    (\<forall>(n, ps) \<in> set (elems (alert_dialog_view p is_open loading)). map_of ps ''id'' \<noteq> Some (PV (JStr i)))"
  using assms(1) by (simp add: assms(2) default_props_def alert_dialog_view_def title_icon_view_def
      action_buttons_def slot_icon_def COLOR_ICON_MAP_def icon_shown_def form_props_def named_elems_def Let_def)

end
