(* ===== verification/Drawer.thy ===== *)
theory Drawer
  imports Dialog
begin

text \<open>
  \<^verbatim>\<open>components/common/drawer-layout.tsx\<close>: the frame of the chat page, with a sidebar and
  five dialogs. Four of them are opened by effects that follow the status of the cluster; the
  one that reports a lost scheduler waits a second while the status is \<open>idle\<close>, because that is
  what a page starts with. The state holds the dependencies the effects saw last.
\<close>

subsection \<open>Styles\<close>

definition DrawerLayoutRoot_style :: jval where
  "DrawerLayoutRoot_style = JObj [(''width'', JStr ''100%''), (''height'', JStr ''100%''),
     (''justifyContent'', JStr ''flex-start''), (''alignItems'', JStr ''stretch''), (''overflow'', JStr ''hidden'')]"

definition DrawerLayoutSide_style :: "theme \<Rightarrow> jval" where
  "DrawerLayoutSide_style t = JObj [(''height'', JStr ''100%''), (''paddingBlock'', spacing t 2),
     (''paddingInline'', spacing t 2), (''gap'', spacing t 3), (''overflow'', JStr ''hidden''),
     (''transition'', JStr ''width 0.3s ease-in-out''), (''backgroundColor'', th t [''palette'', ''grey'', ''200''])]"

definition DrawerLayoutHeader_style :: "theme \<Rightarrow> jval" where
  "DrawerLayoutHeader_style t = JObj [(''width'', JStr ''100%''), (''height'', JStr ''2.5rem''),
     (''flex'', JStr ''none''), (''marginTop'', spacing t 1), (''paddingBlock'', spacing t 1),
     (''paddingInline'', spacing t 4), (''overflow'', JStr ''hidden'')]"

definition DrawerLayoutContainer_style :: "theme \<Rightarrow> jval" where
  "DrawerLayoutContainer_style t = JObj [(''flex'', JNum 1), (''alignItems'', JStr ''center''),
     (''overflow'', JStr ''hidden''), (''backgroundColor'', th t [''palette'', ''grey'', ''100''])]"

definition DrawerLayoutContent_style :: "theme \<Rightarrow> jval" where
  "DrawerLayoutContent_style t = JObj [(''width'', JStr ''48.75rem''), (''maxWidth'', JStr ''100%''),
     (''height'', JStr ''100%''), (''gap'', spacing t 2), (''paddingBlock'', spacing t 1),
     (''paddingInline'', spacing t 4), (''overflow'', JStr ''hidden'')]"

subsection \<open>State and effects\<close>

record drawer =
  dw_status :: jval
  dw_more :: jval
  dw_timer :: bool
  dw_expanded :: bool
  dw_waiting :: dialog
  dw_rebalancing :: dialog
  dw_need_more :: dialog
  dw_failed :: dialog
  dw_join :: dialog

definition waiting_effect :: "host_type \<Rightarrow> drawer \<Rightarrow> drawer" where
  "waiting_effect host s =
     (if host = Host_cluster \<and> dw_status s = JStr ''waiting''
      then s\<lparr>dw_waiting := dialog_open (dw_waiting s)\<rparr> else s)"

definition rebalancing_effect :: "drawer \<Rightarrow> drawer" where
  "rebalancing_effect s =
     (if dw_status s = JStr ''rebalancing''
      then s\<lparr>dw_rebalancing := dialog_open (dw_rebalancing s)\<rparr> else s)"

definition need_more_effect :: "drawer \<Rightarrow> drawer" where
  "need_more_effect s =
     (if truthy (dw_more s) then s\<lparr>dw_need_more := dialog_open (dw_need_more s)\<rparr> else s)"

text \<open>The clean-up of the previous run clears its timer.\<close>

definition failed_effect :: "drawer \<Rightarrow> drawer" where
  "failed_effect s =
     (if dw_status s = JStr ''failed'' then s\<lparr>dw_timer := False, dw_failed := dialog_open (dw_failed s)\<rparr>
      else if dw_status s = JStr ''idle'' then s\<lparr>dw_timer := True\<rparr>
      else s\<lparr>dw_timer := False\<rparr>)"

definition status_effects :: "host_type \<Rightarrow> drawer \<Rightarrow> drawer" where
  "status_effects host s = failed_effect (rebalancing_effect (waiting_effect host s))"

definition drawer_render :: "host_type \<Rightarrow> jval \<Rightarrow> jval \<Rightarrow> drawer \<Rightarrow> drawer" where
  "drawer_render host status needMore s =
     (let s1 = (if status = dw_status s then s else status_effects host (s\<lparr>dw_status := status\<rparr>))
      in if needMore = dw_more s1 then s1 else need_more_effect (s1\<lparr>dw_more := needMore\<rparr>))"

definition drawer_mount :: "host_type \<Rightarrow> jval \<Rightarrow> jval \<Rightarrow> drawer" where
  "drawer_mount host status needMore =
     need_more_effect (status_effects host
       \<lparr>dw_status = status, dw_more = needMore, dw_timer = False, dw_expanded = True, dw_waiting = dialog_start,
        dw_rebalancing = dialog_start, dw_need_more = dialog_start, dw_failed = dialog_start, dw_join = dialog_start\<rparr>)"

datatype dialog_name = D_join | D_waiting | D_rebalancing | D_failed | D_need_more

definition on_dialog :: "dialog_name \<Rightarrow> (dialog \<Rightarrow> dialog) \<Rightarrow> drawer \<Rightarrow> drawer" where
  "on_dialog n f s =
     (case n of
        D_join \<Rightarrow> s\<lparr>dw_join := f (dw_join s)\<rparr>
      | D_waiting \<Rightarrow> s\<lparr>dw_waiting := f (dw_waiting s)\<rparr>
      | D_rebalancing \<Rightarrow> s\<lparr>dw_rebalancing := f (dw_rebalancing s)\<rparr>
      | D_failed \<Rightarrow> s\<lparr>dw_failed := f (dw_failed s)\<rparr>
      | D_need_more \<Rightarrow> s\<lparr>dw_need_more := f (dw_need_more s)\<rparr>)"

text \<open>\<open>Finish\<close> and \<open>Dismissed\<close> are the ways a user ends a dialog, whose only button is the
  confirmation with its default callback, which returns nothing.\<close>

datatype drawer_event =
    ClusterStatus jval jval
  | IdleTimer
  | ToggleSidebar
  | OpenJoinCommand
  | Finish dialog_name
  | Dismissed dialog_name

definition drawer_step :: "host_type \<Rightarrow> drawer \<Rightarrow> drawer_event \<Rightarrow> drawer" where
  "drawer_step host s ev =
     (case ev of
        ClusterStatus status needMore \<Rightarrow> drawer_render host status needMore s
      | IdleTimer \<Rightarrow> if dw_timer s then s\<lparr>dw_timer := False, dw_failed := dialog_open (dw_failed s)\<rparr> else s
      | ToggleSidebar \<Rightarrow> s\<lparr>dw_expanded := \<not> dw_expanded s\<rparr>
      | OpenJoinCommand \<Rightarrow> on_dialog D_join dialog_open s
      | Finish n \<Rightarrow> on_dialog n (pipe_handlers (Returns JUndef)) s
      | Dismissed n \<Rightarrow> on_dialog n safe_on_close s)"

subsection \<open>View\<close>

definition dialog_waiting_props :: dialog_props where
  "dialog_waiting_props = (default_props (Txt ''Reconnect your nodes'')
     (El ''Stack'' [(''sx'', PO [(''gap'', JNum 7)])]
       [El ''Stack'' [(''sx'', PO [(''gap'', JNum 1)])]
         [El ''Typography'' [(''variant'', PS ''body1'')] [Txt ''Run join command on your new Node''],
          El ''JoinCommand'' [] []],
        El ''Stack'' [(''sx'', PO [(''gap'', JNum 1)])]
         [El ''Typography'' [(''variant'', PS ''body1'')] [Txt ''Check your live node status''],
          El ''Typography'' [(''variant'', PS ''body2''), (''color'', PS ''text.disabled'')]
           [Txt ''After you successfully start the server on the nodes, you should see them show up on the below dashboard.''],
          El ''NodeList'' [] []]]))
     \<lparr>dp_icon := TI_node (El ''IconInfoCircle'' [] []), dp_confirm := Some (Txt ''Finish'')\<rparr>"

definition dialog_rebalancing_props :: dialog_props where
  "dialog_rebalancing_props = (default_props (Txt [])
     (El ''Fragment'' []
       [El ''Typography'' [(''variant'', PS ''body1'')] [Txt ''Cluster rebalancing''],
        El ''Typography'' [(''variant'', PS ''body2''), (''color'', PS ''text.disabled'')]
         [Txt ''We have noticed one of your nodes has been disconnected. We are now rebalancing your inference requests onto working nodes. Please wait a few seconds for the cluster to rebalance itself.''],
        El ''NodeList'' [(''variant'', PS ''menu'')] []]))
     \<lparr>dp_confirm := Some (Txt ''Finish'')\<rparr>"

definition dialog_need_more_props :: "(rat \<Rightarrow> string) \<Rightarrow> model_info option \<Rightarrow> dialog_props" where
  "dialog_need_more_props shown modelInfo = (default_props (Txt [])
     (El ''Fragment'' []
       [El ''Typography'' [(''variant'', PS ''body1'')]
         (Txt ''Your selected model requires more nodes.'' #
          (case modelInfo of
             None \<Rightarrow> [Txt []]
           | Some m \<Rightarrow> if js_gt (mi_vram m) 0 then
               [Txt ('' You'' @ rsquo @ ''ll need a ''),
                El ''strong'' [] [Txt (vram_text shown m)],
                Txt '' to host this model.'']
               else [Txt []]))]))
     \<lparr>dp_confirm := Some (Txt ''Finish'')\<rparr>"

definition dialog_failed_props :: dialog_props where
  "dialog_failed_props = (default_props (Txt [])
     (El ''Fragment'' []
       [El ''Typography'' [(''variant'', PS ''body1'')] [Txt ''Scheduler restart''],
        El ''Typography'' [(''variant'', PS ''body2''), (''color'', PS ''text.disabled'')]
         [Txt ''We have noticed that your scheduler has been disconnected (this would be the computer that ran the '',
          El ''strong'' [] [Txt ''parallax run''],
          Txt '' command). You would need to restart the scheduler, reconfigure the cluster, and your chat will be back up again!'']]))
     \<lparr>dp_confirm := Some (Txt ''Finish'')\<rparr>"

definition dialog_join_props :: dialog_props where
  "dialog_join_props = (default_props (Txt ''Add New Nodes'')
     (El ''Stack'' [(''sx'', PO [(''gap'', JNum 5)])]
       [El ''Stack'' [(''sx'', PO [(''gap'', JNum 1)])]
         [El ''Typography'' [(''variant'', PS ''body1'')] [Txt ''Run join command on all nodes''],
          El ''JoinCommand'' [] []],
        El ''Stack'' [(''sx'', PO [(''gap'', JNum 1)])]
         [El ''Typography'' [(''variant'', PS ''body1'')] [Txt ''Check your live node status''],
          El ''Typography'' [(''variant'', PS ''body2''), (''color'', PS ''text.disabled'')]
           [Txt ''After you successfully start the server on the nodes, you should see them show up on the below dashboard.''],
          El ''NodeList'' [] []]]))
     \<lparr>dp_icon := TI_node (El ''IconCirclePlus'' [] []), dp_confirm := Some (Txt ''Finish'')\<rparr>"

definition icon_cluster_view :: "'e ui" where
  "icon_cluster_view =
     (let box = (\<lambda>x y. El ''rect'' [(''width'', PS ''6''), (''height'', PS ''6''), (''x'', PS x), (''y'', PS y),
                                  (''rx'', PS ''1'')] []) in
      El ''svg'' [(''width'', PS ''1.5rem''), (''height'', PS ''1.5rem''), (''viewBox'', PS ''0 0 27 27''),
          (''fill'', PS ''currentColor'')]
       [El ''g'' [(''fill'', PS ''none''), (''stroke'', PS ''currentColor''), (''stroke-linecap'', PS ''round''),
           (''stroke-linejoin'', PS ''round''), (''stroke-width'', PS ''2'')]
         [box ''16'' ''16'', box ''2'' ''16'', box ''9'' ''2'',
          El ''path'' [(''d'', PS ''M5 16v-3a1 1 0 0 1 1-1h12a1 1 0 0 1 1 1v3m-7-4V8'')] []]])"

datatype drawer_action = DA_toggle | DA_open_join | DA_dialog dialog_name dialog_action

definition tooltip_slots :: "'e attr" where
  "tooltip_slots = PO [(''tooltip'', JObj [(''sx'', JObj [(''bgcolor'', JStr ''primary.main''),
     (''color'', JStr ''common.white'')])])]"

definition sidebar_expanded_view :: "drawer_action ui" where
  "sidebar_expanded_view = El ''Fragment'' []
     [El ''IconBrandGradient'' [] [],
      El ''Box'' [(''sx'', PO [(''flex'', JNum 1)])] [],
      El ''Tooltip'' [(''title'', PS ''Collapse Sidebar''), (''placement'', PS ''right''), (''slotProps'', tooltip_slots)]
       [El ''IconButton'' [(''size'', PS ''em''),
          (''sx'', PO [(''fontSize'', JStr ''1.5rem''), (''borderRadius'', JStr ''8px''), (''color'', JStr ''#808080FF''),
             (''&:hover'', JObj [(''bgcolor'', JStr ''action.hover'')])]),
          (''onClick'', PE DA_toggle)] [El ''IconLayoutSidebarLeftCollapse'' [] []]]]"

definition sidebar_collapsed_view :: "drawer_action ui" where
  "sidebar_collapsed_view = El ''Fragment'' []
     [El ''Box'' [(''sx'', PO [(''position'', JStr ''relative''), (''width'', JNum 28), (''height'', JNum 28),
          (''display'', JStr ''flex''), (''alignItems'', JStr ''center''), (''justifyContent'', JStr ''center''),
          (''&:hover .logo'', JObj [(''opacity'', JNum 0)]),
          (''&:hover .toggle'', JObj [(''opacity'', JNum 1), (''pointerEvents'', JStr ''auto''), (''transform'', JStr ''scale(1)'')])])]
       [El ''Box'' [(''className'', PS ''logo''),
          (''sx'', PO [(''position'', JStr ''absolute''), (''inset'', JNum 0), (''display'', JStr ''flex''),
             (''alignItems'', JStr ''center''), (''justifyContent'', JStr ''center''),
             (''transition'', JStr ''opacity .15s ease''), (''opacity'', JNum 1)])] [El ''IconBrandGradient'' [] []],
        El ''Tooltip'' [(''title'', PS ''Expand Sidebar''), (''placement'', PS ''right''), (''slotProps'', tooltip_slots)]
         [El ''IconButton'' [(''className'', PS ''toggle''), (''size'', PS ''em''),
            (''sx'', PO [(''position'', JStr ''absolute''), (''opacity'', JNum 0), (''pointerEvents'', JStr ''none''),
               (''fontSize'', JStr ''1.5rem''), (''transition'', JStr ''opacity .15s ease, transform .15s ease''),
               (''&:hover'', JObj [(''bgcolor'', JStr ''action.hover'')])]),
            (''aria-label'', PS ''Expand Sidebar''), (''onClick'', PE DA_toggle)]
           [El ''IconLayoutSidebarLeftExpand'' [] []]]]]"

definition dialog_node :: "dialog_name \<Rightarrow> dialog_props \<Rightarrow> dialog \<Rightarrow> drawer_action ui" where
  "dialog_node n p d = map_ui (DA_dialog n) (fst (use_alert_dialog p d))"

definition drawer_view :: "(rat \<Rightarrow> string) \<Rightarrow> model_info option \<Rightarrow> drawer \<Rightarrow> drawer_action ui list \<Rightarrow> drawer_action ui" where
  "drawer_view shown modelInfo s children =
     El ''DrawerLayoutRoot'' [(''direction'', PS ''row'')]
      [El ''DrawerLayoutSide'' [(''sx'', PO [(''width'', JStr (if dw_expanded s then ''16.25rem'' else ''3.5rem'')),
           (''paddingInline'', JNum 2)])]
        [El ''Stack'' [(''direction'', PS ''row''), (''sx'', PO [(''justifyContent'', JStr ''flex-end''),
             (''alignItems'', JStr ''center''), (''gap'', JNum 2)])]
          [(if dw_expanded s then sidebar_expanded_view else sidebar_collapsed_view)],
         ui_when (dw_expanded s)
          (El ''Stack'' []
            [El ''Stack'' [(''direction'', PS ''row''), (''sx'', PO [(''gap'', JNum 1), (''color'', JStr ''text.primary'')])]
              [El ''Typography'' [(''variant'', PS ''body1''), (''sx'', PO [(''mt'', JStr ''1.5px''),
                  (''color'', JStr ''#A7A7A7FF''), (''fontWeight'', JNum 600)])] [Txt ''Cluster topology'']],
             El ''NodeList'' [(''variant'', PS ''menu''), (''sx'', PO [(''py'', JStr ''2rem'')])] [],
             El ''Button'' [(''color'', PS ''info''), (''startIcon'', PU (El ''IconPlus'' [] [])),
                (''onClick'', PE DA_open_join)] [Txt ''Add Nodes'']])],
       El ''DrawerLayoutContainer'' []
        [El ''DrawerLayoutHeader'' [(''direction'', PS ''row'')]
           [El ''ModelSelect'' [(''variant'', PS ''text''), (''autoCommit'', PV (JBool True))] []],
         El ''DrawerLayoutContent'' [] children],
       dialog_node D_join dialog_join_props (dw_join s),
       dialog_node D_waiting dialog_waiting_props (dw_waiting s),
       dialog_node D_rebalancing dialog_rebalancing_props (dw_rebalancing s),
       dialog_node D_failed dialog_failed_props (dw_failed s),
       dialog_node D_need_more (dialog_need_more_props shown modelInfo) (dw_need_more s)]"

subsection \<open>Facts\<close>

definition drawer_ok :: "drawer \<Rightarrow> bool" where
  "drawer_ok s \<longleftrightarrow> (dw_timer s \<longrightarrow> dw_status s = JStr ''idle'')"

lemmas drawer_defs = drawer_step_def drawer_render_def status_effects_def waiting_effect_def
  rebalancing_effect_def failed_effect_def need_more_effect_def on_dialog_def Let_def

lemma drawer_ok_step: "drawer_ok s \<Longrightarrow> drawer_ok (drawer_step host s ev)"
  by (cases ev) (auto simp: drawer_ok_def drawer_defs split: dialog_name.splits)

interpretation drawers: invariant_steps "drawer_step host" drawer_ok for host
  by unfold_locales (rule drawer_ok_step)

lemma drawer_ok_mount: "drawer_ok (drawer_mount host status needMore)"
  by (simp add: drawer_mount_def drawer_ok_def drawer_defs)

text \<open>Events after which the page has been told of a status that is not \<open>idle\<close>.\<close>

definition leaves_idle :: "drawer_event \<Rightarrow> bool" where
  "leaves_idle ev = (case ev of ClusterStatus status needMore \<Rightarrow> status \<noteq> JStr ''idle'' | _ \<Rightarrow> False)"

subsection \<open>Properties\<close>

text \<open>
  C31 (drawer_failed_dialog): in every reachable state, the dialog that reports a lost scheduler
  opens only when the status turns to \<open>failed\<close> or the second-long timer fires while the
  status is still \<open>idle\<close>; a status that leaves \<open>idle\<close> before disarms the timer.
\<close>

theorem drawer_failed_dialog:
  assumes "s = run (drawer_step host) (drawer_mount host status needMore) evs"
    and "\<not> d_open (dw_failed s)"
  shows "(d_open (dw_failed (drawer_step host s ev)) \<longrightarrow>
      (ev = IdleTimer \<and> dw_status s = JStr ''idle'') \<or>
      (\<exists>m. ev = ClusterStatus (JStr ''failed'') m \<and> dw_status s \<noteq> JStr ''failed'')) \<and>
    (leaves_idle ev \<longrightarrow> \<not> dw_timer (drawer_step host s ev) \<and>
      drawer_step host (drawer_step host s ev) IdleTimer = drawer_step host s ev)"
proof -
  have ok: "drawer_ok s" unfolding assms(1) by (rule drawers.run_inv [OF drawer_ok_mount])
  then have "drawer_ok (drawer_step host s ev)" by (rule drawer_ok_step)
  moreover have "leaves_idle ev \<Longrightarrow> dw_status (drawer_step host s ev) \<noteq> JStr ''idle''"
    by (auto simp: leaves_idle_def drawer_defs split: drawer_event.splits)
  ultimately have "leaves_idle ev \<Longrightarrow> \<not> dw_timer (drawer_step host s ev)" by (auto simp: drawer_ok_def)
  moreover have "d_open (dw_failed (drawer_step host s ev)) \<longrightarrow>
      (ev = IdleTimer \<and> dw_status s = JStr ''idle'') \<or>
      (\<exists>m. ev = ClusterStatus (JStr ''failed'') m \<and> dw_status s \<noteq> JStr ''failed'')"
    using assms(2) ok
    by (cases ev) (auto simp: drawer_defs drawer_ok_def pipe_handlers_def finish_action_def
        handle_action_result_def is_object_def safe_on_close_def on_close_def split: dialog_name.splits if_splits)
  ultimately show ?thesis by (simp add: drawer_step_def)
qed

theorem drawer_failed_dialog_witness:
  "\<not> dw_timer (drawer_step Host_cluster (drawer_mount Host_cluster (JStr ''idle'') JUndef)
     (ClusterStatus (JStr ''available'') (JBool False)))"
proof -
  have s: "drawer_mount Host_cluster (JStr ''idle'') JUndef =
      run (drawer_step Host_cluster) (drawer_mount Host_cluster (JStr ''idle'') JUndef) []" by simp
  have o': "\<not> d_open (dw_failed (drawer_mount Host_cluster (JStr ''idle'') JUndef))"
    by (simp add: drawer_mount_def drawer_defs dialog_start_def)
  show ?thesis
    using drawer_failed_dialog [OF s o', of "ClusterStatus (JStr ''available'') (JBool False)"]
    by (simp add: leaves_idle_def)
qed

end
