(* ===== verification/Sse.thy ===== *)
theory Sse
  imports JsNumber Framing
begin

text \<open>
  The server-sent-events client of \<^verbatim>\<open>services/chat.tsx\<close> (\<^verbatim>\<open>createSSE\<close>): one POST per
  conversation turn, whose response is a stream of \<open>field: value\<close> lines. The client is
  written against callbacks, so its model takes them as a record of state transformers over
  any type of callback state; the chat supplies its own. \<open>decode\<close> stands for the platform's
  text decoder and \<open>parse\<close> for \<open>JSON.parse\<close> (\<open>None\<close> where it raises).
\<close>

record sse_message =
  m_event :: string
  m_id :: "string option"
  m_data :: jval

record 's sse_options =
  on_open :: "'s \<Rightarrow> 's"
  on_close :: "'s \<Rightarrow> 's"
  on_error :: "js_error \<Rightarrow> 's \<Rightarrow> 's"
  on_message :: "sse_message \<Rightarrow> 's \<Rightarrow> 's \<times> js_error option"

subsection \<open>Dropping nulls\<close>

text \<open>
  \<open>walk\<close> removes the properties that are \<open>null\<close> and turns \<open>null\<close> array elements into
  \<open>undefined\<close>, at every depth below the value itself.
\<close>

fun walk :: "jval \<Rightarrow> jval" and walk_items :: "jval list \<Rightarrow> jval list"
  and walk_props :: "(string \<times> jval) list \<Rightarrow> (string \<times> jval) list" where
  "walk (JArr xs) = JArr (walk_items xs)"
| "walk (JObj kvs) = JObj (walk_props kvs)"
| "walk v = v"
| "walk_items [] = []"
| "walk_items (x # xs) = (if x = JNull then JUndef else walk x) # walk_items xs"
| "walk_props [] = []"
| "walk_props ((k, v) # kvs) = (if v = JNull then walk_props kvs else (k, walk v) # walk_props kvs)"

subsection \<open>Lines to messages\<close>

definition sse_frame :: "string \<Rightarrow> string \<Rightarrow> string list \<times> string" where
  "sse_frame buffer chunk =
     (let lines = split_on NL (buffer @ chunk) in (butlast lines, last lines))"

interpretation sse_framer: line_framer sse_frame
proof
  fix b c ls b' l
  assume f: "sse_frame b c = (ls, b')"
  then have e: "ls = complete_lines (b @ c)" "b' = rest_line (b @ c)"
    by (auto simp: sse_frame_def complete_lines_def rest_line_def Let_def)
  then show "unlines ls @ b' = b @ c" by (simp add: unlines_split_on)
  from e show "NL \<notin> set b'" by (simp add: rest_line_no_NL)
  assume "l \<in> set ls"
  with e show "NL \<notin> set l" by (simp add: complete_lines_no_NL)
qed

text \<open>One line applied to the message being built; \<open>None\<close> where the loop body returns early.\<close>

definition sse_line :: "(string \<Rightarrow> jval option) \<Rightarrow> string \<Rightarrow> sse_message \<Rightarrow> sse_message option" where
  "sse_line parse line m =
     (let colonIndex = index_of '':'' line in
      if colonIndex \<le> 0 then None
      else let field = trim (take (nat colonIndex) line);
               val = trim (drop (nat colonIndex + 1) line)
           in if starts_with '':'' val then None
              else Some (if field = ''event'' then m\<lparr>m_event := val\<rparr>
                else if field = ''id'' then m\<lparr>m_id := Some val\<rparr>
                else if field = ''data'' then
                  m\<lparr>m_data := (case parse val of Some d \<Rightarrow> walk d | None \<Rightarrow> JStr val)\<rparr>
                else m))"

definition sse_message0 :: sse_message where
  "sse_message0 = \<lparr>m_event = ''message'', m_id = None, m_data = JUndef\<rparr>"

fun process_lines :: "(string \<Rightarrow> jval option) \<Rightarrow> 's sse_options \<Rightarrow> string list \<Rightarrow> sse_message \<Rightarrow> 's
    \<Rightarrow> 's \<times> js_error option" where
  "process_lines parse opts [] m s = (s, None)"
| "process_lines parse opts (l # ls) m s =
     (case sse_line parse l m of
        None \<Rightarrow> process_lines parse opts ls m s
      | Some m' \<Rightarrow>
          if m_data m' \<noteq> JUndef then
            (case on_message opts m' s of
               (s', Some e) \<Rightarrow> (s', Some e)
             | (s', None) \<Rightarrow> process_lines parse opts ls m' s')
          else process_lines parse opts ls m' s)"

subsection \<open>The connection\<close>

datatype sse_conn = Idle | Fetching | Streaming string

record 's sse =
  conn :: sse_conn
  posted :: "jval list"
  cb :: 's

datatype 'b sse_event =
    Response nat "string option" bool
  | FetchFail js_error
  | Chunk 'b
  | StreamEnd
  | StreamFail js_error

definition sse_body :: "jval \<Rightarrow> jval list \<Rightarrow> jval" where
  "sse_body model messages = JObj
     [(''stream'', JBool True), (''model'', model), (''messages'', JArr messages),
      (''max_tokens'', JNum 2048), (''sampling_params'', JObj [(''top_k'', JNum 3)])]"

definition sse_connect :: "'s sse_options \<Rightarrow> jval \<Rightarrow> jval list \<Rightarrow> 's sse \<Rightarrow> 's sse" where
  "sse_connect opts model messages x =
     x\<lparr>conn := Fetching, posted := posted x @ [sse_body model messages], cb := on_open opts (cb x)\<rparr>"

definition is_abort :: "js_error \<Rightarrow> bool" where
  "is_abort e = (case e of JsErr n m \<Rightarrow> n = ''AbortError'' | JsThrow v \<Rightarrow> False)"

definition sse_catch :: "'s sse_options \<Rightarrow> js_error \<Rightarrow> 's \<Rightarrow> 's" where
  "sse_catch opts e s = (if is_abort e then on_close opts s else on_error opts e s)"

definition sse_response :: "'s sse_options \<Rightarrow> nat \<Rightarrow> string option \<Rightarrow> bool \<Rightarrow> 's sse \<Rightarrow> 's sse" where
  "sse_response opts status ctype hasBody x =
     (let fail = (\<lambda>msg. x\<lparr>conn := Idle, cb := on_error opts (JsErr ''Error'' msg) (cb x)\<rparr>) in
      if status \<noteq> 200 then fail (''[SSE] Failed to connect: '' @ show_nat status)
      else if \<not> (case ctype of None \<Rightarrow> False | Some t \<Rightarrow> js_includes ''text/event-stream'' t)
        then fail (''[SSE] Invalid content type: '' @ (case ctype of None \<Rightarrow> ''null'' | Some t \<Rightarrow> t))
      else if \<not> hasBody then fail ''[SSE] Failed to get reader''
      else x\<lparr>conn := Streaming []\<rparr>)"

definition sse_chunk :: "(string \<Rightarrow> jval option) \<Rightarrow> 's sse_options \<Rightarrow> string \<Rightarrow> string \<Rightarrow> 's sse \<Rightarrow> 's sse" where
  "sse_chunk parse opts buffer chunk x =
     (case sse_frame buffer chunk of (lines, buffer') \<Rightarrow>
       (case process_lines parse opts lines sse_message0 (cb x) of
          (s, None) \<Rightarrow> x\<lparr>conn := Streaming buffer', cb := s\<rparr>
        | (s, Some e) \<Rightarrow> x\<lparr>conn := Idle, cb := sse_catch opts e s\<rparr>))"

definition sse_step :: "('b \<Rightarrow> string) \<Rightarrow> (string \<Rightarrow> jval option) \<Rightarrow> 's sse_options
    \<Rightarrow> 's sse \<Rightarrow> 'b sse_event \<Rightarrow> 's sse" where
  "sse_step decode parse opts x ev =
     (case conn x of
        Idle \<Rightarrow> x
      | Fetching \<Rightarrow>
          (case ev of
             Response status ctype hasBody \<Rightarrow> sse_response opts status ctype hasBody x
           | FetchFail e \<Rightarrow> x\<lparr>conn := Idle, cb := sse_catch opts e (cb x)\<rparr>
           | _ \<Rightarrow> x)
      | Streaming buffer \<Rightarrow>
          (case ev of
             Chunk b \<Rightarrow> sse_chunk parse opts buffer (decode b) x
           | StreamEnd \<Rightarrow> x\<lparr>conn := Idle, cb := on_close opts (cb x)\<rparr>
           | StreamFail e \<Rightarrow> x\<lparr>conn := Idle, cb := sse_catch opts e (cb x)\<rparr>
           | _ \<Rightarrow> x))"

text \<open>
  \<open>disconnect\<close> cancels the reader, aborts the request with the reason \<open>'stop'\<close> and calls
  \<open>onClose\<close>. The promise chain of the request settles before any other event: a read that
  was pending resolves as done, which calls \<open>onClose\<close> again; a \<open>fetch\<close> that was pending
  rejects with the abort reason itself, the string \<open>'stop'\<close>, which is not an \<open>AbortError\<close>.
\<close>

definition sse_disconnect :: "'s sse_options \<Rightarrow> 's sse \<Rightarrow> 's sse" where
  "sse_disconnect opts x =
     (let s = on_close opts (cb x) in
      x\<lparr>conn := Idle,
        cb := (case conn x of
                 Idle \<Rightarrow> s
               | Fetching \<Rightarrow> sse_catch opts (JsThrow (JStr ''stop'')) s
               | Streaming buffer \<Rightarrow> on_close opts s)\<rparr>)"

lemmas sse_defs = sse_connect_def sse_catch_def sse_response_def sse_chunk_def sse_step_def
  sse_disconnect_def Let_def

subsection \<open>What a user of the client can rely on\<close>

text \<open>
  First contract: callbacks that mark their state as live on open, keep the mark on messages
  and clear it on close and error. Then the mark tells at any time whether a request is open.
\<close>

locale sse_live =
  fixes opts :: "'s sse_options"
    and live :: "'s \<Rightarrow> bool"
  assumes open_live: "live (on_open opts s)"
    and close_idle: "\<not> live (on_close opts s)"
    and error_idle: "\<not> live (on_error opts e s)"
    and message_live: "live s \<Longrightarrow> live (fst (on_message opts m s))"
begin

lemma catch_idle: "\<not> live (sse_catch opts e s)"
  by (simp add: sse_catch_def close_idle error_idle)

lemma lines_live: "live s \<Longrightarrow> live (fst (process_lines parse opts ls m s))"
  using message_live
  by (induction ls arbitrary: m s) (auto split: option.splits prod.splits, (metis fst_conv)+)

lemma chunk_coherent:
  "live (cb x) \<Longrightarrow> (conn (sse_chunk parse opts b c x) \<noteq> Idle) = live (cb (sse_chunk parse opts b c x))"
  using lines_live [of "cb x" parse "fst (sse_frame b c)" sse_message0] catch_idle
  by (auto simp: sse_chunk_def split: prod.splits option.splits)

lemma step_coherent:
  "(conn x \<noteq> Idle) = live (cb x) \<Longrightarrow>
   (conn (sse_step decode parse opts x ev) \<noteq> Idle) = live (cb (sse_step decode parse opts x ev))"
  using chunk_coherent catch_idle close_idle error_idle
  by (auto simp: sse_step_def sse_response_def Let_def split: sse_conn.splits sse_event.splits)

lemma connect_coherent:
  "(conn (sse_connect opts mdl ms x) \<noteq> Idle) = live (cb (sse_connect opts mdl ms x))"
  by (simp add: sse_connect_def open_live)

lemma disconnect_coherent:
  "(conn (sse_disconnect opts x) \<noteq> Idle) = live (cb (sse_disconnect opts x))"
  using catch_idle close_idle by (simp add: sse_disconnect_def Let_def split: sse_conn.splits)

end

text \<open>Extension: what close and error leave behind holds whenever no request is open.\<close>

locale sse_settles = sse_live opts live
  for opts :: "'s sse_options" and live :: "'s \<Rightarrow> bool" +
  fixes Q :: "'s \<Rightarrow> bool"
  assumes close_settles: "Q (on_close opts s)"
    and error_settles: "Q (on_error opts e s)"
begin

lemma catch_settles: "Q (sse_catch opts e s)"
  by (simp add: sse_catch_def close_settles error_settles)

lemma disconnect_settles: "Q (cb (sse_disconnect opts x))"
  by (simp add: sse_disconnect_def Let_def close_settles catch_settles split: sse_conn.splits)

lemma step_settles:
  assumes "(conn x \<noteq> Idle) = live (cb x)" and "\<not> live (cb x) \<longrightarrow> Q (cb x)"
  shows "\<not> live (cb (sse_step decode parse opts x ev)) \<longrightarrow> Q (cb (sse_step decode parse opts x ev))"
proof (cases "conn x = Idle")
  case True
  with assms(2) show ?thesis by (simp add: sse_step_def)
next
  case False
  with assms(1) have l: "live (cb x)" by simp
  have "\<not> live (cb (sse_chunk parse opts b c x)) \<longrightarrow> Q (cb (sse_chunk parse opts b c x))" for b c
    using lines_live [OF l, of parse "fst (sse_frame b c)" sse_message0] catch_settles
    by (auto simp: sse_chunk_def split: prod.splits option.splits)
  with l show ?thesis
    by (auto simp: sse_step_def sse_response_def Let_def close_settles error_settles catch_settles
        split: sse_conn.splits sse_event.splits)
qed

end

definition parse_ok :: "(jval \<Rightarrow> bool) \<Rightarrow> (string \<Rightarrow> jval option) \<Rightarrow> bool" where
  "parse_ok ok parse \<longleftrightarrow> (\<forall>t v. parse t = Some v \<longrightarrow> ok (walk v)) \<and> (\<forall>t. ok (JStr t))"

text \<open>
  Second contract: \<open>L\<close> holds while a request is open and messages keep it, where messages may be
  restricted to those whose data satisfy \<open>ok\<close>; close and error turn it, or what they have left
  before, into \<open>D\<close>.
\<close>

locale sse_session =
  fixes opts :: "'s sse_options"
    and L D :: "'s \<Rightarrow> bool"
    and ok :: "jval \<Rightarrow> bool"
  assumes message_stays: "L s \<Longrightarrow> ok (m_data m) \<Longrightarrow> L (fst (on_message opts m s))"
    and close_ends: "L s \<or> D s \<Longrightarrow> D (on_close opts s)"
    and error_ends: "L s \<or> D s \<Longrightarrow> D (on_error opts e s)"
begin

lemma catch_ends: "L s \<or> D s \<Longrightarrow> D (sse_catch opts e s)"
  by (simp add: sse_catch_def close_ends error_ends)

lemma line_ok:
  "parse_ok ok parse \<Longrightarrow> sse_line parse l m = Some m' \<Longrightarrow> m_data m = JUndef \<or> ok (m_data m) \<Longrightarrow>
   m_data m' = JUndef \<or> ok (m_data m')"
  by (auto simp: sse_line_def parse_ok_def Let_def split: if_splits option.splits)

lemma lines_stay:
  "parse_ok ok parse \<Longrightarrow> L s \<Longrightarrow> m_data m = JUndef \<or> ok (m_data m) \<Longrightarrow>
   L (fst (process_lines parse opts ls m s))"
proof (induction ls arbitrary: m s)
  case Nil
  then show ?case by simp
next
  case (Cons l ls)
  show ?case
  proof (cases "sse_line parse l m")
    case None
    with Cons show ?thesis by simp
  next
    case (Some m')
    note okm = line_ok [OF Cons.prems(1) Some Cons.prems(3)]
    show ?thesis
    proof (cases "m_data m' = JUndef")
      case True
      with Some Cons okm show ?thesis by simp
    next
      case False
      with okm have "L (fst (on_message opts m' s))" using message_stays Cons.prems(2) by blast
      with Some False Cons okm show ?thesis by (auto split: prod.splits option.splits)
    qed
  qed
qed

lemma step_session:
  assumes "parse_ok ok parse" and "conn x \<noteq> Idle" and "L (cb x)"
  shows "if conn (sse_step decode parse opts x ev) = Idle then D (cb (sse_step decode parse opts x ev))
    else L (cb (sse_step decode parse opts x ev))"
proof -
  have "if conn (sse_chunk parse opts b c x) = Idle then D (cb (sse_chunk parse opts b c x))
      else L (cb (sse_chunk parse opts b c x))" for b c
    using lines_stay [OF assms(1,3), of sse_message0 "fst (sse_frame b c)"] catch_ends
    by (auto simp: sse_chunk_def sse_message0_def split: prod.splits option.splits)
  with assms(2,3) show ?thesis
    by (auto simp: sse_step_def sse_response_def Let_def close_ends error_ends catch_ends
        split: sse_conn.splits sse_event.splits)
qed

lemma disconnect_session: "L (cb x) \<Longrightarrow> D (cb (sse_disconnect opts x))"
  by (simp add: sse_disconnect_def Let_def close_ends catch_ends split: sse_conn.splits)

end

text \<open>The special case of one property that every callback keeps.\<close>

locale sse_keeps =
  fixes opts :: "'s sse_options"
    and P :: "'s \<Rightarrow> bool"
    and ok :: "jval \<Rightarrow> bool"
  assumes close_keeps: "P s \<Longrightarrow> P (on_close opts s)"
    and error_keeps: "P s \<Longrightarrow> P (on_error opts e s)"
    and message_keeps: "P s \<Longrightarrow> ok (m_data m) \<Longrightarrow> P (fst (on_message opts m s))"

sublocale sse_keeps \<subseteq> keeping: sse_session opts P P ok
  by unfold_locales (auto intro: close_keeps error_keeps message_keeps)

context sse_keeps
begin

lemma step_keeps:
  assumes "parse_ok ok parse" and "conn x \<noteq> Idle \<longrightarrow> P (cb x)"
  shows "conn x \<noteq> Idle \<longrightarrow> P (cb (sse_step decode parse opts x ev))"
  using keeping.step_session [OF assms(1), of x decode ev] assms(2) by (auto split: if_splits)

lemma disconnect_keeps: "P (cb x) \<Longrightarrow> P (cb (sse_disconnect opts x))"
  by (rule keeping.disconnect_session)

end

subsection \<open>Streams of data lines\<close>

text \<open>
  A line that the loop either skips or takes as data. On streams of such lines (all the back
  end sends) the message carried from line to line is determined by the current line.
\<close>

definition skip_line :: "string \<Rightarrow> bool" where
  "skip_line l \<longleftrightarrow> index_of '':'' l \<le> 0 \<or> starts_with '':'' (trim (drop (nat (index_of '':'' l) + 1) l))"

definition data_line :: "string \<Rightarrow> bool" where
  "data_line l \<longleftrightarrow> skip_line l \<or> trim (take (nat (index_of '':'' l)) l) = ''data''"

definition line_data :: "(string \<Rightarrow> jval option) \<Rightarrow> string \<Rightarrow> jval" where
  "line_data parse l = (let val = trim (drop (nat (index_of '':'' l) + 1) l)
     in case parse val of Some d \<Rightarrow> walk d | None \<Rightarrow> JStr val)"

text \<open>The messages of a list of data lines, delivered one by one until the callback raises.\<close>

fun deliver :: "'s sse_options \<Rightarrow> jval list \<Rightarrow> 's \<Rightarrow> 's \<times> js_error option" where
  "deliver opts [] s = (s, None)"
| "deliver opts (d # ds) s =
     (case on_message opts (sse_message0\<lparr>m_data := d\<rparr>) s of
        (s', Some e) \<Rightarrow> (s', Some e)
      | (s', None) \<Rightarrow> deliver opts ds s')"

definition stream_data :: "(string \<Rightarrow> jval option) \<Rightarrow> string list \<Rightarrow> jval list" where
  "stream_data parse ls =
     filter (\<lambda>d. d \<noteq> JUndef) (map (line_data parse) (filter (\<lambda>l. \<not> skip_line l) ls))"

lemma sse_line_skip: "skip_line l \<Longrightarrow> sse_line parse l m = None"
  by (auto simp: sse_line_def skip_line_def Let_def)

lemma sse_line_data:
  "data_line l \<Longrightarrow> \<not> skip_line l \<Longrightarrow> sse_line parse l m = Some (m\<lparr>m_data := line_data parse l\<rparr>)"
  by (simp add: sse_line_def skip_line_def data_line_def line_data_def Let_def split: option.splits)

lemma process_data_lines:
  "list_all data_line ls \<Longrightarrow> m = sse_message0\<lparr>m_data := d\<rparr> \<Longrightarrow>
   process_lines parse opts ls m s = deliver opts (stream_data parse ls) s"
proof (induction ls arbitrary: m d s)
  case Nil
  then show ?case by (simp add: stream_data_def)
next
  case (Cons l ls)
  show ?case
  proof (cases "skip_line l")
    case True
    with Cons.IH [OF _ Cons.prems(2)] Cons.prems(1) show ?thesis
      by (simp add: sse_line_skip stream_data_def)
  next
    case False
    let ?m = "sse_message0\<lparr>m_data := line_data parse l\<rparr>"
    have m: "sse_line parse l m = Some ?m"
      using Cons.prems False by (simp add: sse_line_data)
    have IH: "process_lines parse opts ls ?m s' = deliver opts (stream_data parse ls) s'" for s'
      using Cons.IH [OF _ refl] Cons.prems(1) by simp
    from m IH False show ?thesis
      by (cases "line_data parse l = JUndef")
         (auto simp: stream_data_def split: prod.splits option.splits)
  qed
qed

lemma stream_data_append [simp]: "stream_data parse (ls @ ks) = stream_data parse ls @ stream_data parse ks"
  by (simp add: stream_data_def)

lemma deliver_append:
  "deliver opts (ds @ es) s =
     (case deliver opts ds s of (s', Some e) \<Rightarrow> (s', Some e) | (s', None) \<Rightarrow> deliver opts es s')"
  by (induction ds arbitrary: s) (auto split: prod.splits option.splits)

lemma sse_chunk_data_lines:
  assumes "list_all data_line (fst (sse_frame b c))"
  shows "sse_chunk parse opts b c x =
    (case deliver opts (stream_data parse (fst (sse_frame b c))) (cb x) of
       (s, None) \<Rightarrow> x\<lparr>conn := Streaming (snd (sse_frame b c)), cb := s\<rparr>
     | (s, Some e) \<Rightarrow> x\<lparr>conn := Idle, cb := sse_catch opts e s\<rparr>)"
  using process_data_lines [OF assms, of sse_message0 JUndef parse opts "cb x"]
  by (cases "sse_frame b c") (simp add: sse_chunk_def sse_message0_def)

lemma sse_run_idle: "conn x = Idle \<Longrightarrow> run (sse_step decode parse opts) x evs = x"
  by (induction evs) (auto simp: sse_step_def)

definition stream_result :: "'s sse_options \<Rightarrow> 's sse \<Rightarrow> string \<Rightarrow> jval list \<Rightarrow> 's sse" where
  "stream_result opts x buffer ds =
     (case deliver opts ds (cb x) of
        (s, None) \<Rightarrow> x\<lparr>conn := Streaming buffer, cb := s\<rparr>
      | (s, Some e) \<Rightarrow> x\<lparr>conn := Idle, cb := sse_catch opts e s\<rparr>)"

lemma run_chunks:
  "conn x = Streaming b \<Longrightarrow> NL \<notin> set b \<Longrightarrow>
   list_all data_line (fst (feed_all sse_frame b (map decode cs))) \<Longrightarrow>
   run (sse_step decode parse opts) x (map Chunk cs) =
   stream_result opts x (snd (feed_all sse_frame b (map decode cs)))
     (stream_data parse (fst (feed_all sse_frame b (map decode cs))))"
proof (induction cs arbitrary: x b)
  case Nil
  then show ?case by (simp add: stream_result_def stream_data_def)
next
  case (Cons c cs)
  obtain l1 b1 where 1: "sse_frame b (decode c) = (l1, b1)" by fastforce
  obtain l2 b2 where 2: "feed_all sse_frame b1 (map decode cs) = (l2, b2)" by fastforce
  from Cons.prems(3) 1 2 have ok: "list_all data_line l1" "list_all data_line l2" by auto
  have step: "sse_step decode parse opts x (Chunk c) = stream_result opts x b1 (stream_data parse l1)"
    using Cons.prems(1) 1 ok(1) sse_chunk_data_lines [of b "decode c" parse opts x]
    by (simp add: sse_step_def stream_result_def)
  show ?case
  proof (cases "snd (deliver opts (stream_data parse l1) (cb x))")
    case None
    then obtain s where d: "deliver opts (stream_data parse l1) (cb x) = (s, None)"
      by (metis prod.collapse)
    let ?y = "x\<lparr>conn := Streaming b1, cb := s\<rparr>"
    have "run (sse_step decode parse opts) ?y (map Chunk cs)
      = stream_result opts ?y b2 (stream_data parse l2)"
      using Cons.IH [of ?y b1] 2 ok(2) sse_framer.frame_rest [OF 1] by simp
    with step d 1 2 show ?thesis
      by (simp add: stream_result_def deliver_append)
  next
    case (Some e)
    then obtain s where d: "deliver opts (stream_data parse l1) (cb x) = (s, Some e)"
      by (metis prod.collapse)
    with step 1 2 show ?thesis
      by (simp add: stream_result_def deliver_append sse_run_idle)
  qed
qed

lemma stream_chunked:
  assumes "conn x = Streaming []"
    and "list_all data_line (complete_lines (concat (map decode cs)))"
  shows "run (sse_step decode parse opts) x (map Chunk cs) =
    stream_result opts x (rest_line (concat (map decode cs)))
      (stream_data parse (complete_lines (concat (map decode cs))))"
  using run_chunks [OF assms(1), of decode cs parse opts] assms(2)
    sse_framer.feed_all_eq [of "[]" "map decode cs"] by simp

subsection \<open>Fields other than data\<close>

text \<open>A line whose field is not \<open>data\<close> leaves the data of the message as they are.\<close>

lemma other_line:
  assumes "\<not> skip_line l" and "\<not> data_line l"
  shows "\<exists>m'. sse_line parse l m = Some m' \<and> m_data m' = m_data m"
  using assms by (simp add: sse_line_def skip_line_def data_line_def Let_def)

lemma other_lines:
  assumes "\<forall>m s. on_message opts m s = (f (m_data m) s, None)"
  shows "\<forall>k \<in> set ls. skip_line k \<or> \<not> data_line k \<Longrightarrow> m_data m = d \<Longrightarrow> process_lines parse opts ls m s =
    (if d = JUndef then s else (f d ^^ length (filter (\<lambda>k. \<not> skip_line k) ls)) s, None)"
proof (induction ls arbitrary: m s)
  case (Cons k ls)
  show ?case
  proof (cases "skip_line k")
    case True
    with Cons show ?thesis by (simp add: sse_line_skip)
  next
    case False
    with Cons.prems(1) obtain m' where "sse_line parse k m = Some m'" "m_data m' = d"
      using other_line [of k parse m] Cons.prems(2) by auto
    with False Cons assms show ?thesis by (simp add: funpow_swap1)
  qed
qed simp

subsection \<open>Properties\<close>

text \<open>
  C19 (sse_chunking): on a stream each of whose complete lines is either a \<open>data\<close> line or a line
  that the client skips (blank, a comment, without a colon, or a value that starts with a colon),
  the network's chunking does not matter. After any sequence of chunks, the callbacks have seen exactly the data of the complete lines of
  the concatenated decoded text, in order, up to the first one whose callback raised; the incomplete
  last line waits in the buffer. Streams with \<open>id\<close>, \<open>event\<close> or other fields are not covered: on
  them the chunking does matter, as the property of re-delivery below shows.
\<close>

theorem sse_chunking:
  assumes "conn x = Streaming []"
    and "list_all data_line (complete_lines (concat (map decode cs)))"
  shows "run (sse_step decode parse opts) x (map Chunk cs) =
    stream_result opts x (rest_line (concat (map decode cs)))
      (stream_data parse (complete_lines (concat (map decode cs))))"
  by (rule stream_chunked [OF assms])

theorem sse_chunking_witness:
  "let opts = \<lparr>on_open = id, on_close = id, on_error = (\<lambda>e. id),
                on_message = (\<lambda>m s. (s @ [m_data m], None))\<rparr>;
       x = \<lparr>conn = Streaming [], posted = [], cb = []\<rparr>
   in run (sse_step id (\<lambda>t. None) opts) x (map Chunk [''dat'', ''a: hi'' @ [NL], [NL] @ ''da''])
      = \<lparr>conn = Streaming ''da'', posted = [], cb = [JStr ''hi'']\<rparr>"
proof -
  let ?opts = "\<lparr>on_open = id, on_close = id, on_error = (\<lambda>e. id),
                on_message = (\<lambda>m s. (s @ [m_data m], None))\<rparr> :: jval list sse_options"
  let ?x = "\<lparr>conn = Streaming [], posted = [], cb = []\<rparr> :: jval list sse"
  let ?cs = "[''dat'', ''a: hi'' @ [NL], [NL] @ ''da'']"
  have 1: "conn ?x = Streaming []" by simp
  have l: "complete_lines (concat (map id ?cs)) = [''data: hi'', []]" by code_simp
  have r: "rest_line (concat (map id ?cs)) = ''da''" by code_simp
  have 2: "list_all data_line (complete_lines (concat (map id ?cs)))" unfolding l by code_simp
  have d: "stream_data (\<lambda>t. None) [''data: hi'', []] = [JStr ''hi'']" by code_simp
  show ?thesis
    using sse_chunking [OF 1 2, of "\<lambda>t. None" ?opts] unfolding l r d
    by (simp add: stream_result_def)
qed

text \<open>
  C36 (sse_redelivery): the message object lives for a whole batch of lines (those that one chunk
  completes) and its data are never reset. With a callback that reads only the data and does not
  raise, a batch that starts with a \<open>data\<close> line (of data other than \<open>undefined\<close>) and goes on with lines of other fields (\<open>id\<close>,
  \<open>event\<close>, anything but \<open>data\<close>) calls the callback with that data once more for every one of these lines
  that is not skipped. When the chunks are cut so that the \<open>data\<close> line is in one batch and the other
  lines are in the next, the data are delivered once.
\<close>

theorem sse_redelivery:
  assumes "\<forall>m s. on_message opts m s = (f (m_data m) s, None)"
    and "\<not> skip_line l" and "data_line l" and "line_data parse l = d" and "d \<noteq> JUndef"
    and "\<forall>k \<in> set ls. skip_line k \<or> \<not> data_line k"
  shows "process_lines parse opts (l # ls) sse_message0 s =
      ((f d ^^ (1 + length (filter (\<lambda>k. \<not> skip_line k) ls))) s, None) \<and>
    process_lines parse opts [l] sse_message0 s = (f d s, None) \<and>
    process_lines parse opts ls sse_message0 (f d s) = (f d s, None)"
proof -
  let ?m = "sse_message0\<lparr>m_data := d\<rparr>"
  have l: "sse_line parse l sse_message0 = Some ?m" using assms(2-4) by (simp add: sse_line_data)
  have m: "m_data ?m = d" "m_data sse_message0 = JUndef" by (simp_all add: sse_message0_def)
  from l m assms(1,5) show ?thesis
    by (simp add: other_lines [OF assms(1,6)] funpow_swap1)
qed

theorem sse_redelivery_witness:
  "process_lines (\<lambda>t. None) \<lparr>on_open = id, on_close = id, on_error = (\<lambda>e. id),
       on_message = (\<lambda>m s. (s @ [m_data m], None))\<rparr> [''data: hi'', ''id: 7'', [], ''event: x''] sse_message0 []
   = ([JStr ''hi'', JStr ''hi'', JStr ''hi''], None)"
proof -
  let ?opts = "\<lparr>on_open = id, on_close = id, on_error = (\<lambda>e. id),
                on_message = (\<lambda>m s. (s @ [m_data m], None))\<rparr> :: jval list sse_options"
  have 0: "\<forall>m s. on_message ?opts m s = ((\<lambda>d s. s @ [d]) (m_data m) s, None)" by simp
  have 1: "\<not> skip_line ''data: hi''" by code_simp
  have 2: "data_line ''data: hi''" by code_simp
  have d: "line_data (\<lambda>t. None) ''data: hi'' = JStr ''hi''" by code_simp
  have 3: "JStr ''hi'' \<noteq> JUndef" by simp
  have k: "\<not> skip_line ''id: 7''" "skip_line []" "\<not> skip_line ''event: x''"
    "\<not> data_line ''id: 7''" "\<not> data_line ''event: x''" by code_simp+
  then have 4: "\<forall>k \<in> set [''id: 7'', [], ''event: x'']. skip_line k \<or> \<not> data_line k" by simp
  show ?thesis
    unfolding conjunct1 [OF sse_redelivery [OF 0 1 2 d 3 4, of "[]"]] using k by (simp add: numeral_eq_Suc)
qed

end
