(* ===== verification/ChatHelper.thy ===== *)
theory ChatHelper
  imports JsString
begin

text \<open>
  \<^verbatim>\<open>services/chat-helper.tsx\<close>: the two parsers that take the raw text a model has
  generated so far and separate its reasoning from its answer. They run on every streamed
  delta, so they also have to make sense of text that stops in the middle.
\<close>

subsection \<open>Harmony channels (gpt-oss)\<close>

definition TAG_CHANNEL :: string where "TAG_CHANNEL = ''<|channel|>''"
definition TAG_MESSAGE :: string where "TAG_MESSAGE = ''<|message|>''"
definition TAG_END :: string where "TAG_END = ''<|end|>''"

lemmas gpt_tags = TAG_CHANNEL_def TAG_MESSAGE_def TAG_END_def

type_synonym gpt_map = "string \<Rightarrow> string option"

text \<open>An assignment to the key \<open>__proto__\<close> of a plain object with a string is ignored.\<close>

definition set_key :: "gpt_map \<Rightarrow> string \<Rightarrow> string \<Rightarrow> gpt_map" where
  "set_key m k v = (if k = ''__proto__'' then m else m(k \<mapsto> v))"

text \<open>
  The regular expression tried at the head of a text: a channel tag, a run of characters
  other than \<open><\<close>, a message tag, and the shortest text up to an end tag or the end.
\<close>

definition gpt_match_here :: "string \<Rightarrow> (string \<times> string \<times> string) option" where
  "gpt_match_here s =
     (if \<not> starts_with TAG_CHANNEL s then None
      else let s1 = drop (length TAG_CHANNEL) s;
               name = takeWhile (\<lambda>c. c \<noteq> CHR ''<'') s1;
               s2 = dropWhile (\<lambda>c. c \<noteq> CHR ''<'') s1
           in if name = [] \<or> \<not> starts_with TAG_MESSAGE s2 then None
              else let s3 = drop (length TAG_MESSAGE) s2
                   in (case find_at TAG_END s3 of
                         None \<Rightarrow> Some (name, s3, [])
                       | Some n \<Rightarrow> Some (name, take n s3, drop (n + length TAG_END) s3)))"

text \<open>\<open>regex.exec\<close> from the last index: the first position where the expression matches.\<close>

fun gpt_exec :: "string \<Rightarrow> (string \<times> string \<times> string) option" where
  "gpt_exec [] = None"
| "gpt_exec (c # s) =
     (case gpt_match_here (c # s) of None \<Rightarrow> gpt_exec s | Some m \<Rightarrow> Some m)"

lemma length_dropWhile_less: "takeWhile P s \<noteq> [] \<Longrightarrow> length (dropWhile P s) < length s"
  by (cases s) (auto simp: le_imp_less_Suc length_dropWhile_le split: if_splits)

lemma gpt_match_here_shrinks: "gpt_match_here s = Some (n, b, rest) \<Longrightarrow> length rest < length s"
  using length_dropWhile_less [of "\<lambda>c. c \<noteq> CHR ''<''" "drop (length TAG_CHANNEL) s"]
  by (auto simp: gpt_match_here_def Let_def split: if_splits option.splits)

lemma gpt_exec_shrinks: "gpt_exec s = Some (n, b, rest) \<Longrightarrow> length rest < length s"
  by (induction s)
     (auto split: option.splits dest!: gpt_match_here_shrinks)

function gpt_loop :: "string \<Rightarrow> gpt_map \<Rightarrow> gpt_map" where
  "gpt_loop s m = (case gpt_exec s of None \<Rightarrow> m
     | Some (name, body, rest) \<Rightarrow> gpt_loop rest (set_key m name (trim body)))"
  by pat_completeness auto
termination
  by (relation "measure (\<lambda>(s, m). length s)") (auto dest: gpt_exec_shrinks)

declare gpt_loop.simps [simp del]

definition parse_generation_gpt :: "string \<Rightarrow> gpt_map" where
  "parse_generation_gpt buffer =
     gpt_loop (trim buffer) [''analysis'' \<mapsto> [], ''final'' \<mapsto> []]"

subsection \<open>Think tags (qwen)\<close>

definition THINK_TAG_OPEN :: string where "THINK_TAG_OPEN = ''<think>''"
definition THINK_TAG_CLOSE :: string where "THINK_TAG_CLOSE = ''</think>''"

lemmas think_tags = THINK_TAG_OPEN_def THINK_TAG_CLOSE_def

definition NL2 :: string where "NL2 = [CHR 0x0A, CHR 0x0A]"

text \<open>One turn of the loop: the text between the first tags, and the buffer without it.\<close>

definition qwen_turn :: "string \<Rightarrow> string \<times> string" where
  "qwen_turn buffer =
     (let thinkStart = index_of THINK_TAG_OPEN buffer;
          thinkEnd = index_of THINK_TAG_CLOSE buffer;
          think = substring buffer (thinkStart + int (length THINK_TAG_OPEN))
                    (if thinkEnd > thinkStart then thinkEnd else int (length buffer))
      in (think, replace_first
            (THINK_TAG_OPEN @ think @ (if thinkEnd > thinkStart then THINK_TAG_CLOSE else []))
            [] buffer))"

lemma think_start_unique: "hd THINK_TAG_OPEN \<notin> set (tl THINK_TAG_OPEN)"
  "hd THINK_TAG_CLOSE \<notin> set (tl THINK_TAG_CLOSE)" "hd THINK_TAG_CLOSE = hd THINK_TAG_OPEN"
  "THINK_TAG_OPEN \<noteq> []" "THINK_TAG_CLOSE \<noteq> []"
  by (simp_all add: think_tags)

lemma open_length: "0 < int (length THINK_TAG_OPEN) + int (length t)"
  by (simp add: think_tags)

lemma find_close_after_open:
  "find_at THINK_TAG_CLOSE (THINK_TAG_OPEN @ s)
     = map_option ((+) (length THINK_TAG_OPEN)) (find_at THINK_TAG_CLOSE s)"
  by (cases "find_at THINK_TAG_CLOSE s") (simp_all add: think_tags)

lemma find_close_split:
  assumes "find_at THINK_TAG_CLOSE u = None"
  shows "find_at THINK_TAG_CLOSE (u @ THINK_TAG_OPEN @ s)
     = map_option ((+) (length u + length THINK_TAG_OPEN)) (find_at THINK_TAG_CLOSE s)"
  using find_at_append [OF think_start_unique(5,2) _ _ assms, of "THINK_TAG_OPEN @ s"]
    think_start_unique(3,4)
  by (cases "find_at THINK_TAG_CLOSE s") (auto simp: find_close_after_open)

lemma substring_middle:
  "substring (u @ t @ w) (int (length u)) (int (length u + length t)) = t"
proof -
  have "max 0 (min (int (length u)) (int (length (u @ t @ w)))) = int (length u)"
    and "max 0 (min (int (length u + length t)) (int (length (u @ t @ w)))) = int (length u + length t)" by simp_all
  then show ?thesis unfolding substring_def Let_def by simp
qed

lemma substring_tail: "substring (u @ t) (int (length u)) (int (length u + length t)) = t"
  using substring_middle [of u t "[]"] by simp

lemma qwen_turn_closed:
  assumes "find_at THINK_TAG_OPEN u = None" and "find_at THINK_TAG_CLOSE u = None"
    and "find_at THINK_TAG_CLOSE t = None"
  shows "qwen_turn (u @ THINK_TAG_OPEN @ t @ THINK_TAG_CLOSE @ w) = (t, u @ w)"
proof -
  let ?b = "u @ THINK_TAG_OPEN @ t @ THINK_TAG_CLOSE @ w"
  let ?e = "length u + length THINK_TAG_OPEN + length t"
  have o: "find_at THINK_TAG_OPEN ?b = Some (length u)"
    by (rule find_at_after) (use think_start_unique assms in auto)
  have "find_at THINK_TAG_CLOSE (t @ THINK_TAG_CLOSE @ w) = Some (length t)"
    by (rule find_at_after) (use think_start_unique assms in auto)
  then have c: "find_at THINK_TAG_CLOSE ?b = Some ?e"
    using find_close_split [OF assms(2), of "t @ THINK_TAG_CLOSE @ w"] by simp
  have s: "substring ?b (int (length u) + int (length THINK_TAG_OPEN)) (int ?e) = t"
    using substring_middle [of "u @ THINK_TAG_OPEN" t "THINK_TAG_CLOSE @ w"] by simp
  have "find_at (THINK_TAG_OPEN @ t @ THINK_TAG_CLOSE) ?b = Some (length u)"
    using find_at_extend [OF o, of "t @ THINK_TAG_CLOSE"]
      starts_with_append [of "THINK_TAG_OPEN @ t @ THINK_TAG_CLOSE" w] by simp
  then show ?thesis
    using o c s open_length [of t]
    by (simp add: qwen_turn_def index_of_def Let_def replace_first_here)
qed

lemma qwen_turn_tail:
  assumes "find_at THINK_TAG_OPEN u = None"
    and "find_at THINK_TAG_CLOSE u \<noteq> None \<or> find_at THINK_TAG_CLOSE t = None"
  shows "qwen_turn (u @ THINK_TAG_OPEN @ t) = (t, u)"
proof -
  let ?b = "u @ THINK_TAG_OPEN @ t"
  have o: "find_at THINK_TAG_OPEN ?b = Some (length u)"
    by (rule find_at_after) (use think_start_unique assms in auto)
  have c: "\<not> index_of THINK_TAG_CLOSE ?b > int (length u)"
  proof (cases "find_at THINK_TAG_CLOSE u")
    case None
    with assms(2) show ?thesis
      using find_close_split [OF None, of t] by (simp add: index_of_def)
  next
    case (Some m)
    then show ?thesis
      using find_at_left [OF Some, of "THINK_TAG_OPEN @ t"] find_at_Some_split [OF Some]
      by (simp add: index_of_def)
  qed
  have s: "substring ?b (int (length u) + int (length THINK_TAG_OPEN)) (int (length ?b)) = t"
    using substring_tail [of "u @ THINK_TAG_OPEN" t] by (simp add: add.assoc)
  have "find_at (THINK_TAG_OPEN @ t) ?b = Some (length u)"
    using find_at_extend [OF o, of t] starts_with_append [of "THINK_TAG_OPEN @ t" "[]"] by simp
  then show ?thesis
    using o c s by (simp add: qwen_turn_def index_of_def Let_def replace_first_here)
qed

text \<open>Every buffer with an opening tag is in one of the two shapes.\<close>

lemma qwen_shapes:
  assumes "js_includes THINK_TAG_OPEN b"
  obtains (tail) u t where "b = u @ THINK_TAG_OPEN @ t" and "find_at THINK_TAG_OPEN u = None"
      and "find_at THINK_TAG_CLOSE u \<noteq> None \<or> find_at THINK_TAG_CLOSE t = None"
  | (closed) u t w where "b = u @ THINK_TAG_OPEN @ t @ THINK_TAG_CLOSE @ w"
      and "find_at THINK_TAG_OPEN u = None" and "find_at THINK_TAG_CLOSE u = None"
      and "find_at THINK_TAG_CLOSE t = None"
proof -
  obtain n where "find_at THINK_TAG_OPEN b = Some n"
    using assms by (auto simp: js_includes_def)
  then obtain u s where u: "b = u @ THINK_TAG_OPEN @ s" "find_at THINK_TAG_OPEN u = None"
    using think_start_unique(4) by (elim find_at_cut) auto
  show thesis
  proof (cases "find_at THINK_TAG_CLOSE u \<noteq> None \<or> find_at THINK_TAG_CLOSE s = None")
    case True
    with u that(1) show thesis by blast
  next
    case False
    then obtain m where "find_at THINK_TAG_CLOSE s = Some m" by auto
    then obtain t w where "s = t @ THINK_TAG_CLOSE @ w" "find_at THINK_TAG_CLOSE t = None"
      using think_start_unique(5) by (elim find_at_cut) auto
    with False u that(2) show thesis by blast
  qed
qed

lemma qwen_turn_shrinks:
  "js_includes THINK_TAG_OPEN b \<Longrightarrow> length (snd (qwen_turn b)) < length b"
  by (erule qwen_shapes) (auto simp: qwen_turn_tail qwen_turn_closed think_start_unique)

function qwen_loop :: "string \<Rightarrow> string \<Rightarrow> string \<times> string" where
  "qwen_loop buffer think =
     (if js_includes THINK_TAG_OPEN buffer
      then qwen_loop (snd (qwen_turn buffer)) (think @ NL2 @ fst (qwen_turn buffer))
      else (think, buffer))"
  by pat_completeness auto
termination
  by (relation "measure (\<lambda>(b, t). length b)") (auto simp: qwen_turn_shrinks)

declare qwen_loop.simps [simp del]

record qwen_map =
  q_think :: string
  q_content :: string

definition parse_generation_qwen :: "string \<Rightarrow> qwen_map" where
  "parse_generation_qwen buffer =
     (case qwen_loop (trim buffer) [] of
        (think, rest) \<Rightarrow> \<lparr>q_think = trim think, q_content = trim rest\<rparr>)"

subsection \<open>What the think parser computes\<close>

lemma qwen_loop_content: "\<not> js_includes THINK_TAG_OPEN (snd (qwen_loop b th))"
proof (induction b th rule: qwen_loop.induct)
  case (1 b th)
  then show ?case by (subst qwen_loop.simps) simp
qed

text \<open>
  The documents the parser is meant for: text, then any number of closed think sections
  each followed by text, then possibly one section that is still being generated.
\<close>

fun think_doc :: "string \<Rightarrow> (string \<times> string) list \<Rightarrow> string option \<Rightarrow> string" where
  "think_doc u [] None = u"
| "think_doc u [] (Some t) = u @ THINK_TAG_OPEN @ t"
| "think_doc u ((t, w) # segs) tail =
     u @ THINK_TAG_OPEN @ t @ THINK_TAG_CLOSE @ think_doc w segs tail"

definition doc_text :: "string \<Rightarrow> (string \<times> string) list \<Rightarrow> string" where
  "doc_text u segs = u @ concat (map snd segs)"

definition doc_thinking :: "(string \<times> string) list \<Rightarrow> string option \<Rightarrow> string" where
  "doc_thinking segs tail = concat (map (\<lambda>t. NL2 @ t)
     (map fst segs @ (case tail of None \<Rightarrow> [] | Some t \<Rightarrow> [t])))"

definition doc_ok :: "string \<Rightarrow> (string \<times> string) list \<Rightarrow> string option \<Rightarrow> bool" where
  "doc_ok u segs tail \<longleftrightarrow>
     \<not> js_includes THINK_TAG_OPEN (doc_text u segs) \<and>
     \<not> js_includes THINK_TAG_CLOSE (doc_text u segs) \<and>
     list_all (\<lambda>t. \<not> js_includes THINK_TAG_CLOSE t)
       (map fst segs @ (case tail of None \<Rightarrow> [] | Some t \<Rightarrow> [t]))"

lemma think_doc_prepend: "u @ think_doc w segs tail = think_doc (u @ w) segs tail"
  by (cases segs; cases tail) auto

lemma qwen_loop_doc:
  "doc_ok u segs tail \<Longrightarrow>
   qwen_loop (think_doc u segs tail) th = (th @ doc_thinking segs tail, doc_text u segs)"
proof (induction segs arbitrary: u th)
  case Nil
  show ?case
  proof (cases tail)
    case None
    with Nil show ?thesis
      by (subst qwen_loop.simps) (simp add: doc_ok_def doc_text_def doc_thinking_def)
  next
    case (Some t)
    from Nil Some have u: "find_at THINK_TAG_OPEN u = None" "find_at THINK_TAG_CLOSE t = None"
      by (auto simp: doc_ok_def doc_text_def js_includes_def)
    then have "qwen_turn (u @ THINK_TAG_OPEN @ t) = (t, u)" by (simp add: qwen_turn_tail)
    moreover have "js_includes THINK_TAG_OPEN (u @ THINK_TAG_OPEN @ t)"
      by (auto simp: js_includes_iff)
    moreover have "qwen_loop u (th @ NL2 @ t) = (th @ NL2 @ t, u)"
      using u by (subst qwen_loop.simps) (simp add: js_includes_def)
    ultimately show ?thesis
      using Some by (subst qwen_loop.simps) (simp add: doc_text_def doc_thinking_def)
  qed
next
  case (Cons tw segs)
  obtain t w where tw: "tw = (t, w)" by fastforce
  let ?b = "u @ THINK_TAG_OPEN @ t @ THINK_TAG_CLOSE @ think_doc w segs tail"
  from Cons.prems tw have f: "find_at THINK_TAG_OPEN u = None" "find_at THINK_TAG_CLOSE u = None"
    "find_at THINK_TAG_CLOSE t = None" and ok: "doc_ok (u @ w) segs tail"
    by (auto simp: doc_ok_def doc_text_def js_includes_def dest: find_at_None_left)
  have "js_includes THINK_TAG_OPEN ?b" by (auto simp: js_includes_iff)
  moreover have "qwen_turn ?b = (t, think_doc (u @ w) segs tail)"
    using qwen_turn_closed [OF f, of "think_doc w segs tail"] by (simp add: think_doc_prepend)
  ultimately have "qwen_loop ?b th = qwen_loop (think_doc (u @ w) segs tail) (th @ NL2 @ t)"
    by (subst qwen_loop.simps) simp
  with Cons.IH [OF ok] tw show ?case
    by (simp add: doc_text_def doc_thinking_def)
qed

subsection \<open>What the channel parser computes\<close>

lemma tag_starts_unique:
  "TAG_CHANNEL \<noteq> []" "hd TAG_CHANNEL \<notin> set (tl TAG_CHANNEL)"
  "TAG_END \<noteq> []" "hd TAG_END \<notin> set (tl TAG_END)"
  by (simp_all add: gpt_tags)

lemma gpt_exec_skip: "\<not> starts_with TAG_CHANNEL (c # s) \<Longrightarrow> gpt_exec (c # s) = gpt_exec s"
  by (simp add: gpt_match_here_def)

lemma gpt_exec_hit: "gpt_match_here s = Some m \<Longrightarrow> gpt_exec s = Some m"
  using tag_starts_unique(1) by (cases s) (auto simp: gpt_match_here_def split: if_splits)

lemma gpt_exec_none: "find_at TAG_CHANNEL s = None \<Longrightarrow> gpt_exec s = None"
  by (induction s) (auto simp: gpt_match_here_def split: if_splits)

lemma gpt_exec_at:
  assumes "find_at TAG_CHANNEL f = None" and "starts_with TAG_CHANNEL s"
  shows "gpt_exec (f @ s) = gpt_exec s"
proof -
  have s: "s \<noteq> []" "hd s = hd TAG_CHANNEL"
    using assms(2) tag_starts_unique(1) by (auto simp: starts_with_iff)
  have "find_at TAG_CHANNEL f = None \<Longrightarrow> gpt_exec (f @ s) = gpt_exec s"
  proof (induction f)
    case Nil
    then show ?case by simp
  next
    case (Cons c f)
    from Cons.prems have no: "\<not> starts_with TAG_CHANNEL (c # f)" and "find_at TAG_CHANNEL f = None"
      by (auto split: if_splits)
    moreover have "\<not> starts_with TAG_CHANNEL ((c # f) @ s)"
    proof (cases "length (c # f) < length TAG_CHANNEL")
      case True
      then show ?thesis by (intro starts_with_overlap tag_starts_unique s) simp
    next
      case False
      with no show ?thesis using starts_with_appendD [of TAG_CHANNEL "c # f" s] by auto
    qed
    ultimately show ?case using Cons.IH by (simp add: gpt_match_here_def)
  qed
  with assms(1) show ?thesis by blast
qed

definition name_ok :: "string \<Rightarrow> bool" where
  "name_ok n \<longleftrightarrow> n \<noteq> [] \<and> CHR ''<'' \<notin> set n"

lemma gpt_match_section:
  assumes "name_ok n"
  shows "gpt_match_here (TAG_CHANNEL @ n @ TAG_MESSAGE @ s) =
     (case find_at TAG_END s of None \<Rightarrow> Some (n, s, [])
      | Some k \<Rightarrow> Some (n, take k s, drop (k + length TAG_END) s))"
proof -
  let ?lt = "\<lambda>c. c \<noteq> CHR ''<''"
  have "takeWhile ?lt (n @ TAG_MESSAGE @ s) = n"
    and "dropWhile ?lt (n @ TAG_MESSAGE @ s) = TAG_MESSAGE @ s"
    using assms by (auto simp: name_ok_def TAG_MESSAGE_def takeWhile_append dropWhile_append)
  then show ?thesis
    using assms by (simp add: gpt_match_here_def Let_def name_ok_def split: option.splits)
qed

lemma gpt_exec_section:
  assumes "find_at TAG_CHANNEL f = None" and "name_ok n"
  shows "gpt_exec (f @ TAG_CHANNEL @ n @ TAG_MESSAGE @ s) =
     (case find_at TAG_END s of None \<Rightarrow> Some (n, s, [])
      | Some k \<Rightarrow> Some (n, take k s, drop (k + length TAG_END) s))"
proof -
  have "gpt_exec (f @ TAG_CHANNEL @ n @ TAG_MESSAGE @ s)
      = gpt_exec (TAG_CHANNEL @ n @ TAG_MESSAGE @ s)"
    by (rule gpt_exec_at) (use assms in auto)
  also have "\<dots> = gpt_match_here (TAG_CHANNEL @ n @ TAG_MESSAGE @ s)"
    using gpt_match_section [OF assms(2), of s]
    by (cases "find_at TAG_END s") (auto intro: gpt_exec_hit)
  finally show ?thesis by (simp add: gpt_match_section assms(2))
qed

text \<open>
  Harmony output: sections of a header (anything without a channel tag), a channel name and
  a body, each closed by an end tag but for the last, which may still be growing.
\<close>

type_synonym section3 = "string \<times> string \<times> string"

definition harmony_section :: "section3 \<Rightarrow> string" where
  "harmony_section x = (case x of (f, n, b) \<Rightarrow> f @ TAG_CHANNEL @ n @ TAG_MESSAGE @ b)"

definition harmony_doc :: "section3 list \<Rightarrow> section3 option \<Rightarrow> string" where
  "harmony_doc xs last3 = concat (map (\<lambda>x. harmony_section x @ TAG_END) xs) @
     (case last3 of None \<Rightarrow> [] | Some x \<Rightarrow> harmony_section x)"

definition section_ok :: "section3 \<Rightarrow> bool" where
  "section_ok x = (case x of (f, n, b) \<Rightarrow>
     \<not> js_includes TAG_CHANNEL f \<and> name_ok n \<and> \<not> js_includes TAG_END b)"

definition put_section :: "section3 \<Rightarrow> gpt_map \<Rightarrow> gpt_map" where
  "put_section x m = (case x of (f, n, b) \<Rightarrow> set_key m n (trim b))"

lemma gpt_loop_Nil: "gpt_loop [] m = m"
  by (subst gpt_loop.simps) simp

lemma gpt_loop_closed:
  assumes "section_ok x"
  shows "gpt_loop (harmony_section x @ TAG_END @ s) m = gpt_loop s (put_section x m)"
proof -
  obtain f n b where x: "x = (f, n, b)" by (cases x)
  from assms x have ok: "find_at TAG_CHANNEL f = None" "name_ok n" "find_at TAG_END b = None"
    by (auto simp: section_ok_def js_includes_def)
  have "find_at TAG_END (b @ TAG_END @ s) = Some (length b)"
    by (rule find_at_after) (use tag_starts_unique ok in auto)
  then show ?thesis
    using gpt_exec_section [OF ok(1,2), of "b @ TAG_END @ s"]
    by (subst gpt_loop.simps) (simp add: x harmony_section_def put_section_def)
qed

lemma gpt_loop_open:
  assumes "section_ok x"
  shows "gpt_loop (harmony_section x) m = put_section x m"
proof -
  obtain f n b where x: "x = (f, n, b)" by (cases x)
  from assms x have ok: "find_at TAG_CHANNEL f = None" "name_ok n" "find_at TAG_END b = None"
    by (auto simp: section_ok_def js_includes_def)
  then show ?thesis
    using gpt_exec_section [OF ok(1,2), of b]
    by (subst gpt_loop.simps) (simp add: x harmony_section_def put_section_def gpt_loop_Nil)
qed

lemma gpt_loop_doc:
  "list_all section_ok xs \<Longrightarrow> pred_option section_ok l \<Longrightarrow>
   gpt_loop (harmony_doc xs l) m = fold put_section (xs @ (case l of None \<Rightarrow> [] | Some x \<Rightarrow> [x])) m"
proof (induction xs arbitrary: m)
  case Nil
  then show ?case by (cases l) (auto simp: harmony_doc_def gpt_loop_Nil gpt_loop_open)
next
  case (Cons x xs)
  have "harmony_doc (x # xs) l = harmony_section x @ TAG_END @ harmony_doc xs l"
    by (simp add: harmony_doc_def)
  with Cons show ?case by (simp add: gpt_loop_closed)
qed

subsection \<open>Properties\<close>

lemma trim_NL2: "trim (NL2 @ s) = trim s"
  by (simp add: NL2_def trim_def trim_start_def js_ws_def)

text \<open>
  C16 (parse_qwen_document): on a document of text and closed think sections, followed by at
  most one section that is still growing, the parser returns the sections' texts, each
  after a blank line, as the thinking, and the rest of the text as the content. The
  document is given without outer white space, which the parser strips first.
\<close>

theorem parse_qwen_document:
  assumes "doc_ok u segs tail" and "trim (think_doc u segs tail) = think_doc u segs tail"
  shows "parse_generation_qwen (think_doc u segs tail)
    = \<lparr>q_think = trim (doc_thinking segs tail), q_content = trim (doc_text u segs)\<rparr>"
  using assms by (simp add: parse_generation_qwen_def qwen_loop_doc)

theorem parse_qwen_document_witness:
  "parse_generation_qwen ''Hi <think>a</think>there <think>b''
    = \<lparr>q_think = trim (doc_thinking [(''a'', ''there '')] (Some ''b'')),
       q_content = trim (doc_text ''Hi '' [(''a'', ''there '')])\<rparr>"
proof -
  have "doc_ok ''Hi '' [(''a'', ''there '')] (Some ''b'')" by code_simp
  moreover have "trim (think_doc ''Hi '' [(''a'', ''there '')] (Some ''b''))
     = think_doc ''Hi '' [(''a'', ''there '')] (Some ''b'')" by code_simp
  ultimately show ?thesis
    using parse_qwen_document [of "''Hi ''" "[(''a'', ''there '')]" "Some ''b''"]
    by (simp add: think_tags)
qed

text \<open>
  Whatever the model has generated, the content the chat shows
  never contains an opening think tag.
\<close>

lemma parse_qwen_no_open_tag:
  "\<not> js_includes THINK_TAG_OPEN (q_content (parse_generation_qwen b))"
  using qwen_loop_content [of "trim b" "[]"] not_includes_trim
  by (cases "qwen_loop (trim b) []") (simp add: parse_generation_qwen_def)

text \<open>
  C37 (parse_qwen_stray_close): when a closing think tag precedes the first opening one, the
  section that opens after it is never closed: its own closing tag and every character of
  the answer behind it are reported as thinking, and the answer is lost from the content.
\<close>

theorem parse_qwen_stray_close:
  assumes "\<not> js_includes THINK_TAG_OPEN u" and "js_includes THINK_TAG_CLOSE u"
    and "trim (u @ THINK_TAG_OPEN @ t @ THINK_TAG_CLOSE @ answer)
      = u @ THINK_TAG_OPEN @ t @ THINK_TAG_CLOSE @ answer"
  shows "parse_generation_qwen (u @ THINK_TAG_OPEN @ t @ THINK_TAG_CLOSE @ answer)
    = \<lparr>q_think = trim (t @ THINK_TAG_CLOSE @ answer), q_content = trim u\<rparr>"
proof -
  let ?b = "u @ THINK_TAG_OPEN @ (t @ THINK_TAG_CLOSE @ answer)"
  have "qwen_turn ?b = (t @ THINK_TAG_CLOSE @ answer, u)"
    using assms(1,2) by (intro qwen_turn_tail) (auto simp: js_includes_def)
  moreover have "js_includes THINK_TAG_OPEN ?b" by (auto simp: js_includes_iff)
  moreover have "qwen_loop u th = (th, u)" for th
    using assms(1) by (subst qwen_loop.simps) simp
  ultimately have "qwen_loop ?b [] = (NL2 @ t @ THINK_TAG_CLOSE @ answer, u)"
    by (subst qwen_loop.simps) simp
  then show ?thesis using assms(3) by (simp add: parse_generation_qwen_def trim_NL2)
qed

theorem parse_qwen_stray_close_witness:
  "parse_generation_qwen ''x</think>y<think>z</think>w''
    = \<lparr>q_think = ''z</think>w'', q_content = ''x</think>y''\<rparr>"
proof -
  have 1: "\<not> js_includes THINK_TAG_OPEN ''x</think>y''" by code_simp
  have 2: "js_includes THINK_TAG_CLOSE ''x</think>y''" by code_simp
  have 3: "trim (''x</think>y'' @ THINK_TAG_OPEN @ ''z'' @ THINK_TAG_CLOSE @ ''w'')
    = ''x</think>y'' @ THINK_TAG_OPEN @ ''z'' @ THINK_TAG_CLOSE @ ''w''" by code_simp
  have 4: "trim (''z'' @ THINK_TAG_CLOSE @ ''w'') = ''z</think>w''" by code_simp
  have 5: "trim ''x</think>y'' = ''x</think>y''" by code_simp
  show ?thesis
    using parse_qwen_stray_close [OF 1 2 3] 4 5 by (simp add: think_tags)
qed

text \<open>
  C18 (parse_gpt_document): on harmony output, any number of closed channel sections and
  possibly one that is still growing, the parser maps every channel to the trimmed body of
  its latest section.
\<close>

theorem parse_gpt_document:
  assumes "list_all section_ok xs" and "pred_option section_ok l"
    and "trim (harmony_doc xs l) = harmony_doc xs l"
  shows "parse_generation_gpt (harmony_doc xs l) =
    fold put_section (xs @ (case l of None \<Rightarrow> [] | Some x \<Rightarrow> [x]))
      [''analysis'' \<mapsto> [], ''final'' \<mapsto> []]"
  using assms by (simp add: parse_generation_gpt_def gpt_loop_doc)

theorem parse_gpt_document_witness:
  "parse_generation_gpt
     ''<|channel|>analysis<|message|>why <|end|><|start|>assistant<|channel|>final<|message|>so''
     ''final'' = Some ''so''"
proof -
  let ?xs = "[([], ''analysis'', ''why '')] :: section3 list"
  let ?l = "Some (''<|start|>assistant'', ''final'', ''so'') :: section3 option"
  have 1: "list_all section_ok ?xs" by code_simp
  have "section_ok (''<|start|>assistant'', ''final'', ''so'')" by code_simp
  then have 2: "pred_option section_ok ?l" by simp
  have 3: "trim (harmony_doc ?xs ?l) = harmony_doc ?xs ?l" by code_simp
  have 4: "harmony_doc ?xs ?l =
    ''<|channel|>analysis<|message|>why <|end|><|start|>assistant<|channel|>final<|message|>so''"
    by code_simp
  have 5: "trim ''so'' = ''so''" by code_simp
  show ?thesis
    using parse_gpt_document [OF 1 2 3] unfolding 4
    by (simp add: put_section_def set_key_def 5)
qed

end
