(* ===== verification/Chat.thy ===== *)
theory Chat
  imports Sse ChatHelper
begin

text \<open>
  The conversation of \<^verbatim>\<open>services/chat.tsx\<close> (\<^verbatim>\<open>ChatProvider\<close>): the input box, the status and
  the messages, and the callbacks it hands to the SSE client. A state update whose updater
  raises is raised again while React renders and unmounts the page, which is the field
  \<open>ui_crashed\<close>; an error raised in a callback itself goes to the client's \<open>catch\<close>. The handlers
  read the state of the last render, which is the state at the start of the handler.
\<close>

datatype chat_message_status = M_waiting | M_thinking | M_generating | M_done | M_error

datatype chat_status = C_closed | C_opened | C_generating | C_error

record chat_message =
  c_id :: jval
  c_role :: jval
  c_status :: chat_message_status
  c_content :: string
  c_raw :: "string option"
  c_thinking :: "string option"
  c_created :: jval

record chat_ui =
  ui_input :: string
  ui_status :: chat_status
  ui_messages :: "chat_message list"
  ui_crashed :: bool

definition set_messages :: "(chat_message list \<Rightarrow> chat_message list js_result) \<Rightarrow> chat_ui \<Rightarrow> chat_ui" where
  "set_messages updater s =
     (case updater (ui_messages s) of
        Inl e \<Rightarrow> s\<lparr>ui_crashed := True\<rparr>
      | Inr ms \<Rightarrow> s\<lparr>ui_messages := ms\<rparr>)"

subsection \<open>Opening, closing, failing\<close>

definition mark_done :: "chat_message list \<Rightarrow> chat_message list js_result" where
  "mark_done prev =
     (if prev = [] then Inl type_error
      else Inr (butlast prev @ [(last prev)\<lparr>c_status := M_done\<rparr>]))"

definition chat_on_open :: "chat_ui \<Rightarrow> chat_ui" where
  "chat_on_open s = s\<lparr>ui_status := C_opened\<rparr>"

definition chat_on_close :: "chat_ui \<Rightarrow> chat_ui" where
  "chat_on_close s = (set_messages mark_done s)\<lparr>ui_status := C_closed\<rparr>"

definition chat_on_error :: "js_error \<Rightarrow> chat_ui \<Rightarrow> chat_ui" where
  "chat_on_error e s = (set_messages mark_done s)\<lparr>ui_status := C_error\<rparr>"

subsection \<open>Streamed deltas\<close>

text \<open>The parameter pattern \<open>{ delta: { role, content: rawDelta } = {} }\<close> of the inner callback.\<close>

definition choice_delta :: "jval \<Rightarrow> (jval \<times> jval) js_result" where
  "choice_delta choice =
     js_bind (get_prop choice ''delta'') (\<lambda>delta.
       if delta = JUndef then Inr (JUndef, JUndef)
       else js_bind (get_prop delta ''role'') (\<lambda>role.
              js_bind (get_prop delta ''content'') (\<lambda>content. Inr (role, content))))"

definition raw_text :: "string option \<Rightarrow> string" where
  "raw_text r = (case r of None \<Rightarrow> ''undefined'' | Some t \<Rightarrow> t)"

definition append_delta :: "jval \<Rightarrow> jval \<Rightarrow> jval \<Rightarrow> string \<Rightarrow> chat_message list \<Rightarrow> chat_message list" where
  "append_delta i created role rawDelta next =
     (if next \<noteq> [] \<and> strict_eq (c_role (last next)) role then
        (let raw = raw_text (c_raw (last next)) @ rawDelta
         in butlast next @ [(last next)\<lparr>c_raw := Some raw, c_content := raw\<rparr>])
      else next @ [\<lparr>c_id = i, c_role = role, c_status = M_thinking, c_content = rawDelta,
                    c_raw = Some rawDelta, c_thinking = None, c_created = created\<rparr>])"

text \<open>The \<open>forEach\<close> over the choices; the flag is whether \<open>next !== prev\<close> by now.\<close>

fun apply_choices :: "jval \<Rightarrow> jval \<Rightarrow> jval list \<Rightarrow> chat_message list \<Rightarrow> bool
    \<Rightarrow> (chat_message list \<times> bool) js_result" where
  "apply_choices i created [] next changed = Inr (next, changed)"
| "apply_choices i created (ch # chs) next changed =
     (case choice_delta ch of
        Inl e \<Rightarrow> Inl e
      | Inr (role, rawDelta) \<Rightarrow>
          (case rawDelta of
             JStr t \<Rightarrow>
               if t = [] then apply_choices i created chs next changed
               else apply_choices i created chs
                      (append_delta i created (js_or role (JStr ''assistant'')) t next) True
           | _ \<Rightarrow> apply_choices i created chs next changed))"

text \<open>Reasoning and answer of the raw text, by the name of the model.\<close>

definition parse_generation :: "string \<Rightarrow> string \<Rightarrow> string \<times> string" where
  "parse_generation model raw =
     (let modelLowerCase = to_lower model in
      if js_includes ''gpt-oss'' modelLowerCase then
        (let m = parse_generation_gpt raw
         in ((case m ''analysis'' of None \<Rightarrow> [] | Some t \<Rightarrow> t),
             (case m ''final'' of None \<Rightarrow> [] | Some t \<Rightarrow> t)))
      else if js_includes ''qwen'' modelLowerCase then
        (let m = parse_generation_qwen raw in (q_think m, q_content m))
      else ([], raw))"

definition reparse_last :: "string \<Rightarrow> chat_message list \<Rightarrow> chat_message list" where
  "reparse_last model next =
     (let m = last next;
          raw = (case c_raw m of None \<Rightarrow> [] | Some t \<Rightarrow> t)
      in case parse_generation model raw of (thinking, content) \<Rightarrow>
           butlast next @ [m\<lparr>c_status := (if content \<noteq> [] then M_generating else M_thinking),
                             c_thinking := Some thinking, c_content := content\<rparr>])"

definition delta_updater :: "jval \<Rightarrow> jval \<Rightarrow> jval \<Rightarrow> jval \<Rightarrow> chat_message list
    \<Rightarrow> chat_message list js_result" where
  "delta_updater i model created choices prev =
     js_bind (js_elems choices) (\<lambda>chs.
       js_bind (apply_choices i created chs prev False) (\<lambda>(next, changed).
         (case model of
            JStr mdl \<Rightarrow> Inr (if changed then reparse_last mdl next else next)
          | _ \<Rightarrow> Inr next)))"

definition chat_on_message :: "sse_message \<Rightarrow> chat_ui \<Rightarrow> chat_ui \<times> js_error option" where
  "chat_on_message message s =
     (let data = m_data message in
      if data = JUndef \<or> data = JNull then (s, Some type_error)
      else let object = prop_of data ''object''; choices = prop_of data ''choices'' in
        if object = JStr ''chat.completion.chunk'' \<and> js_gt (prop_of choices ''length'') 0 then
          (case js_bind (get_first choices) (\<lambda>c. js_bind (get_prop c ''delta'')
                  (\<lambda>d. get_prop d ''content'')) of
             Inl e \<Rightarrow> (s, Some e)
           | Inr content \<Rightarrow>
               (set_messages
                  (delta_updater (prop_of data ''id'') (prop_of data ''model'')
                     (prop_of data ''created'') choices)
                  (if truthy content then s\<lparr>ui_status := C_generating\<rparr> else s), None))
        else (s, None))"

definition chat_options :: "chat_ui sse_options" where
  "chat_options = \<lparr>on_open = chat_on_open, on_close = chat_on_close, on_error = chat_on_error,
                   on_message = chat_on_message\<rparr>"

subsection \<open>The actions\<close>

text \<open>What the conversation reads from the cluster: \<open>clusterStatus\<close> and \<open>modelName\<close>.\<close>

record chat_env =
  env_status :: jval
  env_model :: jval

type_synonym chat = "chat_ui sse"

definition request_message :: "chat_message \<Rightarrow> jval" where
  "request_message m = JObj [(''id'', c_id m), (''role'', c_role m), (''content'', JStr (c_content m))]"

fun find_index :: "('a \<Rightarrow> bool) \<Rightarrow> 'a list \<Rightarrow> nat option" where
  "find_index p [] = None"
| "find_index p (x # xs) = (if p x then Some 0 else map_option Suc (find_index p xs))"

definition chat_set_input :: "string \<Rightarrow> chat \<Rightarrow> chat" where
  "chat_set_input v x = x\<lparr>cb := (cb x)\<lparr>ui_input := v\<rparr>\<rparr>"

definition busy :: "chat_ui \<Rightarrow> bool" where
  "busy s \<longleftrightarrow> ui_status s = C_opened \<or> ui_status s = C_generating"

definition chat_send :: "jval \<Rightarrow> chat_message list \<Rightarrow> chat \<Rightarrow> chat" where
  "chat_send model next x =
     sse_connect chat_options model (map request_message next)
       (x\<lparr>cb := (cb x)\<lparr>ui_messages := next\<rparr>\<rparr>)"

definition user_message :: "rat \<Rightarrow> string \<Rightarrow> string \<Rightarrow> chat_message" where
  "user_message now nowString finalInput =
     \<lparr>c_id = JStr nowString, c_role = JStr ''user'', c_status = M_done, c_content = finalInput,
      c_raw = None, c_thinking = None, c_created = JNum now\<rparr>"

text \<open>\<open>now\<close> is \<open>performance.now()\<close> and \<open>nowString\<close> its text.\<close>

definition chat_generate :: "chat_env \<Rightarrow> chat_message option \<Rightarrow> rat \<Rightarrow> string \<Rightarrow> chat \<Rightarrow> chat" where
  "chat_generate env message now nowString x =
     (let s = cb x; messages = ui_messages s in
      if \<not> strict_eq (env_status env) (JStr ''available'') \<or> busy s then x
      else if \<not> truthy (env_model env) then x
      else (case message of
          Some msg \<Rightarrow>
            (case find_index (\<lambda>m. strict_eq (c_id m) (c_id msg)) messages of
               None \<Rightarrow> x
             | Some i \<Rightarrow>
                 chat_send (env_model env)
                   (take (i + (if c_role (messages ! i) = JStr ''user'' then 1 else 0)) messages) x)
        | None \<Rightarrow>
            (let finalInput = trim (ui_input s) in
             if finalInput = [] then x
             else chat_send (env_model env) (messages @ [user_message now nowString finalInput])
                    (chat_set_input [] x))))"

definition chat_stop :: "chat \<Rightarrow> chat" where
  "chat_stop x =
     (if ui_status (cb x) = C_closed \<or> ui_status (cb x) = C_error then x
      else sse_disconnect chat_options x)"

definition chat_clear :: "chat \<Rightarrow> chat" where
  "chat_clear x =
     (let y = chat_stop x in
      if busy (cb x) then y else y\<lparr>cb := (cb y)\<lparr>ui_messages := []\<rparr>\<rparr>)"

datatype 'b chat_event =
    SetInput string
  | Generate "chat_message option" rat string
  | Stop
  | Clear
  | Net "'b sse_event"

definition chat_init :: chat where
  "chat_init = \<lparr>conn = Idle, posted = [],
     cb = \<lparr>ui_input = [], ui_status = C_closed, ui_messages = [], ui_crashed = False\<rparr>\<rparr>"

text \<open>A page that has crashed is gone: nothing changes it any more.\<close>

definition chat_step :: "('b \<Rightarrow> string) \<Rightarrow> (string \<Rightarrow> jval option) \<Rightarrow> chat
    \<Rightarrow> chat_env \<times> 'b chat_event \<Rightarrow> chat" where
  "chat_step decode parse x e =
     (if ui_crashed (cb x) then x
      else (case e of (env, ev) \<Rightarrow>
        (case ev of
           SetInput v \<Rightarrow> chat_set_input v x
         | Generate m now nowString \<Rightarrow> chat_generate env m now nowString x
         | Stop \<Rightarrow> chat_stop x
         | Clear \<Rightarrow> chat_clear x
         | Net n \<Rightarrow> sse_step decode parse chat_options x n)))"

lemmas chat_handler_defs = chat_on_open_def chat_on_close_def chat_on_error_def chat_options_def

subsection \<open>The chat as a user of the client\<close>

lemma set_messages_status [simp]: "ui_status (set_messages f s) = ui_status s"
  by (simp add: set_messages_def split: sum.splits)

lemma set_messages_input [simp]: "ui_input (set_messages f s) = ui_input s"
  by (simp add: set_messages_def split: sum.splits)

lemma on_message_busy: "busy s \<Longrightarrow> busy (fst (chat_on_message m s))"
  by (auto simp: chat_on_message_def busy_def Let_def split: sum.splits)

interpretation chat_live: sse_live chat_options busy
  by unfold_locales (simp_all add: chat_handler_defs busy_def on_message_busy [unfolded busy_def])

text \<open>Data that cannot make a delta's updater raise: every choice carries a readable delta.\<close>

definition choice_ok :: "jval \<Rightarrow> bool" where
  "choice_ok c \<longleftrightarrow> c \<noteq> JUndef \<and> c \<noteq> JNull \<and> prop_of c ''delta'' \<noteq> JNull"

definition chunk_ok :: "jval \<Rightarrow> bool" where
  "chunk_ok d \<longleftrightarrow>
     prop_of d ''object'' \<noteq> JStr ''chat.completion.chunk'' \<or>
     (case prop_of d ''choices'' of JArr cs \<Rightarrow> list_all choice_ok cs
       | v \<Rightarrow> \<not> js_gt (prop_of v ''length'') 0)"

lemma choice_delta_ok: "choice_ok c \<Longrightarrow> \<exists>r t. choice_delta c = Inr (r, t)"
  by (cases "prop_of c ''delta'' = JUndef")
     (auto simp: choice_ok_def choice_delta_def get_prop_Inr)

definition user_first :: "chat_message list \<Rightarrow> bool" where
  "user_first ms \<longleftrightarrow> ms \<noteq> [] \<and> c_role (hd ms) = JStr ''user''"

lemma user_first_update_last:
  "user_first ms \<Longrightarrow> c_role m = c_role (last ms) \<Longrightarrow> user_first (butlast ms @ [m])"
  by (cases ms; cases "butlast ms") (auto simp: user_first_def split: if_splits)

lemma user_first_snoc: "user_first ms \<Longrightarrow> user_first (ms @ [m])"
  by (simp add: user_first_def)

lemma user_first_append_delta: "user_first ms \<Longrightarrow> user_first (append_delta i cr r t ms)"
  by (cases "ms = []", simp add: user_first_def) (auto simp: append_delta_def Let_def intro: user_first_update_last user_first_snoc)

lemma apply_choices_ok:
  "list_all choice_ok cs \<Longrightarrow> user_first ms \<Longrightarrow>
   \<exists>ms' b. apply_choices i cr cs ms ch = Inr (ms', b) \<and> user_first ms'"
proof (induction cs arbitrary: ms ch)
  case Nil
  then show ?case by simp
next
  case (Cons c cs)
  then obtain r t where "choice_delta c = Inr (r, t)" using choice_delta_ok [of c] by auto
  moreover have "\<exists>ms' b. apply_choices i cr cs ms ch = Inr (ms', b) \<and> user_first ms'"
    using Cons by simp
  moreover have "\<exists>ms' b. apply_choices i cr cs (append_delta i cr rl x ms) True = Inr (ms', b)
      \<and> user_first ms'" for rl x
    using Cons by (simp add: user_first_append_delta)
  ultimately show ?case by (cases t) auto
qed

lemma user_first_reparse: "user_first ms \<Longrightarrow> user_first (reparse_last mdl ms)"
  by (auto simp: reparse_last_def Let_def split: prod.splits intro: user_first_update_last)

lemma delta_updater_ok:
  assumes "list_all choice_ok cs" and "user_first ms"
  shows "\<exists>ms'. delta_updater i mdl cr (JArr cs) ms = Inr ms' \<and> user_first ms'"
proof -
  obtain ms' b where "apply_choices i cr cs ms False = Inr (ms', b)" "user_first ms'"
    using apply_choices_ok [OF assms] by blast
  then show ?thesis
    by (cases mdl) (auto simp: delta_updater_def intro: user_first_reparse)
qed

definition conversing :: "chat_ui \<Rightarrow> bool" where
  "conversing s \<longleftrightarrow> \<not> ui_crashed s \<and> user_first (ui_messages s)"

lemma conversing_mark_done: "conversing s \<Longrightarrow> conversing (set_messages mark_done s)"
  by (auto simp: conversing_def set_messages_def mark_done_def intro: user_first_update_last)
     (auto simp: user_first_def)

lemma conversing_status [simp]: "conversing (s\<lparr>ui_status := v\<rparr>) = conversing s"
  by (simp add: conversing_def)

lemma conversing_message: "conversing s \<Longrightarrow> chunk_ok (m_data m) \<Longrightarrow> conversing (fst (chat_on_message m s))"
  using delta_updater_ok
  by (auto simp: chat_on_message_def chunk_ok_def conversing_def set_messages_def Let_def
      split: sum.splits jval.splits) (metis Inl_Inr_False Inr_inject)+

interpretation chat_keeps: sse_keeps chat_options conversing chunk_ok
  by unfold_locales
     (auto simp: chat_handler_defs intro: conversing_mark_done conversing_message)

subsection \<open>Invariants of the whole conversation\<close>

definition coherent :: "chat \<Rightarrow> bool" where
  "coherent x \<longleftrightarrow> (conn x \<noteq> Idle) = busy (cb x)"

definition last_done :: "chat_ui \<Rightarrow> bool" where
  "last_done s \<longleftrightarrow> ui_crashed s \<or> ui_messages s = [] \<or> c_status (last (ui_messages s)) = M_done"

interpretation chat_settles: sse_settles chat_options busy last_done
  by unfold_locales
     (auto simp: chat_handler_defs last_done_def set_messages_def mark_done_def split: sum.splits)

lemma busy_send [simp]: "busy (cb (chat_send mdl ms x))" "conn (chat_send mdl ms x) = Fetching"
  "ui_messages (cb (chat_send mdl ms x)) = ms" "ui_crashed (cb (chat_send mdl ms x)) = ui_crashed (cb x)"
  by (simp_all add: chat_send_def sse_connect_def chat_handler_defs busy_def)

lemma coherent_generate: "coherent x \<Longrightarrow> coherent (chat_generate env m now ns x)"
  by (auto simp: coherent_def chat_generate_def Let_def split: option.splits)

lemma coherent_stop: "coherent x \<Longrightarrow> coherent (chat_stop x)"
  using chat_live.disconnect_coherent by (auto simp: coherent_def chat_stop_def)

lemma busy_stop: "\<not> busy (cb (chat_stop x))"
  using chat_live.disconnect_coherent [of x]
  by (auto simp: chat_stop_def busy_def sse_disconnect_def Let_def)

lemma stop_idle: "\<not> busy (cb x) \<Longrightarrow> chat_stop x = x"
  by (cases "ui_status (cb x)") (auto simp: chat_stop_def busy_def)

lemma coherent_clear: "coherent x \<Longrightarrow> coherent (chat_clear x)"
  using coherent_stop [of x] stop_idle [of x]
  by (auto simp: chat_clear_def Let_def coherent_def busy_def)

lemma coherent_net: "coherent x \<Longrightarrow> coherent (sse_step decode parse chat_options x n)"
  using chat_live.step_coherent [of x decode parse n] by (simp add: coherent_def)

lemma coherent_set_input: "coherent x \<Longrightarrow> coherent (chat_set_input v x)"
  by (simp add: coherent_def chat_set_input_def busy_def)

lemma coherent_step: "coherent x \<Longrightarrow> coherent (chat_step decode parse x e)"
  by (simp add: chat_step_def coherent_generate coherent_stop coherent_clear coherent_net
      coherent_set_input split: chat_event.splits prod.splits)

interpretation chat_coherent: invariant_steps "chat_step decode parse" coherent for decode parse
  by unfold_locales (rule coherent_step)

definition settled :: "chat \<Rightarrow> bool" where
  "settled x \<longleftrightarrow> coherent x \<and> (\<not> busy (cb x) \<longrightarrow> last_done (cb x))"

lemma settled_step: "settled x \<Longrightarrow> settled (chat_step decode parse x e)"
proof -
  assume s: "settled x"
  then have c: "(conn x \<noteq> Idle) = busy (cb x)" and d: "\<not> busy (cb x) \<longrightarrow> last_done (cb x)"
    by (auto simp: settled_def coherent_def)
  note net = chat_settles.step_settles [OF c d, of decode parse]
  have "last_done (cb (chat_stop x))"
    using d chat_settles.disconnect_settles [of x] stop_idle [of x]
    by (cases "busy (cb x)") (auto simp: chat_stop_def busy_def)
  then have stop: "settled (chat_stop x)" "settled (chat_clear x)"
    using s coherent_stop [of x] coherent_clear [of x]
    by (auto simp: settled_def chat_clear_def Let_def last_done_def)
  have "\<not> busy (cb (chat_generate env m now ns x)) \<longrightarrow> last_done (cb (chat_generate env m now ns x))"
    for env m now ns
    using d by (auto simp: chat_generate_def Let_def split: option.splits)
  then have gen: "settled (chat_generate env m now ns x)" for env m now ns
    using s coherent_generate by (auto simp: settled_def)
  show ?thesis
    using s net stop gen coherent_step [of x decode parse e]
    by (auto simp: chat_step_def settled_def chat_set_input_def last_done_def busy_def
        split: chat_event.splits prod.splits)
qed

interpretation chat_settled: invariant_steps "chat_step decode parse" settled for decode parse
  by unfold_locales (rule settled_step)

lemma init_settled: "settled chat_init"
  by (simp add: settled_def coherent_def chat_init_def busy_def last_done_def)

definition chat_inv :: "chat \<Rightarrow> bool" where
  "chat_inv x \<longleftrightarrow> coherent x \<and> \<not> ui_crashed (cb x) \<and>
     (ui_messages (cb x) = [] \<or> user_first (ui_messages (cb x))) \<and>
     (conn x \<noteq> Idle \<longrightarrow> ui_messages (cb x) \<noteq> [])"

lemma chat_inv_conversing: "chat_inv x \<Longrightarrow> conn x \<noteq> Idle \<Longrightarrow> conversing (cb x)"
  by (auto simp: chat_inv_def conversing_def)

lemma find_index_less: "find_index p xs = Some i \<Longrightarrow> i < length xs \<and> p (xs ! i)"
  by (induction xs arbitrary: i) (auto split: if_splits)

lemma user_first_take: "user_first ms \<Longrightarrow> 0 < n \<Longrightarrow> user_first (take n ms)"
  by (auto simp: user_first_def hd_take_pos)

lemma inv_send:
  "chat_inv x \<Longrightarrow> user_first ms \<Longrightarrow> chat_inv (chat_send mdl ms x)"
  by (auto simp: chat_inv_def coherent_def) (simp_all add: user_first_def)

lemma inv_generate:
  assumes "chat_inv x"
  shows "chat_inv (chat_generate env m now ns x)"
proof (cases m)
  case None
  have "user_first (ui_messages (cb x) @ [user_message now ns t])" for t
    using assms by (auto simp: chat_inv_def user_first_def user_message_def)
  moreover have "chat_inv (chat_set_input [] x)"
    using assms by (simp add: chat_inv_def chat_set_input_def coherent_def busy_def)
  ultimately show ?thesis
    using assms None by (simp add: chat_generate_def Let_def inv_send)
next
  case (Some msg)
  have "user_first (take (i + (if c_role (ui_messages (cb x) ! i) = JStr ''user'' then 1 else 0))
      (ui_messages (cb x)))" if "find_index p (ui_messages (cb x)) = Some i" for p i
  proof -
    from that have i: "i < length (ui_messages (cb x))" by (auto dest: find_index_less)
    with assms have u: "user_first (ui_messages (cb x))" by (auto simp: chat_inv_def)
    then have "c_role (ui_messages (cb x) ! 0) = JStr ''user''"
      by (auto simp: user_first_def hd_conv_nth)
    with u show ?thesis by (cases i) (auto intro: user_first_take)
  qed
  with assms Some show ?thesis
    by (auto simp: chat_generate_def Let_def inv_send split: option.splits)
qed

lemma inv_stop: "chat_inv x \<Longrightarrow> chat_inv (chat_stop x)"
proof -
  assume i: "chat_inv x"
  show ?thesis
  proof (cases "busy (cb x)")
    case True
    with i have "conn x \<noteq> Idle" by (auto simp: chat_inv_def coherent_def)
    with i have "conversing (cb x)" by (rule chat_inv_conversing)
    then have "conversing (cb (sse_disconnect chat_options x))" by (rule chat_keeps.disconnect_keeps)
    moreover have "chat_stop x = sse_disconnect chat_options x"
      using True by (auto simp: chat_stop_def busy_def)
    ultimately show ?thesis
      using coherent_stop [of x] i by (auto simp: chat_inv_def conversing_def user_first_def)
  next
    case False
    with i show ?thesis by (simp add: stop_idle)
  qed
qed

lemma inv_clear: "chat_inv x \<Longrightarrow> chat_inv (chat_clear x)"
  using inv_stop [of x] coherent_clear [of x] stop_idle [of x]
  by (auto simp: chat_clear_def Let_def chat_inv_def coherent_def busy_def)

lemma inv_net:
  assumes "parse_ok chunk_ok parse" and "chat_inv x"
  shows "chat_inv (sse_step decode parse chat_options x n)"
proof (cases "conn x = Idle")
  case True
  with assms(2) show ?thesis by (simp add: sse_step_def)
next
  case False
  have "conn x \<noteq> Idle \<longrightarrow> conversing (cb x)" using assms(2) chat_inv_conversing by blast
  from chat_keeps.step_keeps [OF assms(1) this] False
  have "conversing (cb (sse_step decode parse chat_options x n))" by blast
  moreover have "coherent (sse_step decode parse chat_options x n)"
    using assms(2) chat_live.step_coherent by (auto simp: chat_inv_def coherent_def)
  ultimately show ?thesis by (auto simp: chat_inv_def conversing_def user_first_def)
qed

interpretation chat_safe: invariant_steps "chat_step decode parse"
  "\<lambda>x. parse_ok chunk_ok parse \<longrightarrow> chat_inv x" for decode parse
proof
  fix x :: chat and e :: "chat_env \<times> 'a chat_event"
  assume i: "parse_ok chunk_ok parse \<longrightarrow> chat_inv x"
  show "parse_ok chunk_ok parse \<longrightarrow> chat_inv (chat_step decode parse x e)"
  proof
    assume p: "parse_ok chunk_ok parse"
    with i have x: "chat_inv x" by simp
    then have "chat_inv (chat_set_input v x)" for v
      by (simp add: chat_inv_def chat_set_input_def coherent_def busy_def)
    with x p show "chat_inv (chat_step decode parse x e)"
      by (auto simp: chat_step_def inv_generate inv_stop inv_clear inv_net
          split: chat_event.splits prod.splits)
  qed
qed

lemma run_settled: "settled (run (chat_step decode parse) chat_init es)"
  by (rule chat_settled.run_inv [OF init_settled])

lemma run_coherent: "coherent (run (chat_step decode parse) chat_init es)"
  using run_settled [of decode parse es] by (simp add: settled_def)

lemma run_busy:
  "(conn (run (chat_step decode parse) chat_init es) \<noteq> Idle)
    = busy (cb (run (chat_step decode parse) chat_init es))"
  using run_coherent [of decode parse es] by (simp add: coherent_def)

lemma init_inv: "chat_inv chat_init"
  by (simp add: chat_inv_def coherent_def chat_init_def busy_def)

subsection \<open>A streamed answer\<close>

text \<open>The data of one streamed chunk: one choice with a piece of text for the assistant.\<close>

definition delta_data :: "jval \<Rightarrow> string \<Rightarrow> jval \<Rightarrow> string \<Rightarrow> jval" where
  "delta_data i model created t = JObj
     [(''id'', i), (''object'', JStr ''chat.completion.chunk''), (''model'', JStr model),
      (''created'', created),
      (''choices'', JArr [JObj [(''delta'', JObj [(''role'', JStr ''assistant''), (''content'', JStr t)])]])]"

text \<open>The message that shows a whole answer at once.\<close>

definition answer :: "jval \<Rightarrow> string \<Rightarrow> jval \<Rightarrow> string \<Rightarrow> chat_message" where
  "answer i model created raw =
     (case parse_generation model raw of (thinking, content) \<Rightarrow>
        \<lparr>c_id = i, c_role = JStr ''assistant'',
         c_status = (if content \<noteq> [] then M_generating else M_thinking),
         c_content = content, c_raw = Some raw, c_thinking = Some thinking, c_created = created\<rparr>)"

lemma answer_fields [simp]:
  "c_role (answer i mdl cr raw) = JStr ''assistant''" "c_raw (answer i mdl cr raw) = Some raw"
  by (simp_all add: answer_def split: prod.splits)

lemma reparse_answer:
  "reparse_last mdl (ms @ [\<lparr>c_id = i, c_role = JStr ''assistant'', c_status = st, c_content = ct,
     c_raw = Some raw, c_thinking = th, c_created = cr\<rparr>]) = ms @ [answer i mdl cr raw]"
  by (simp add: reparse_last_def answer_def split: prod.splits)

lemma reparse_grown:
  "reparse_last mdl (ms @ [(answer i mdl cr raw)\<lparr>c_raw := Some raw', c_content := ct\<rparr>])
     = ms @ [answer i mdl cr raw']"
  by (simp add: reparse_last_def answer_def split: prod.splits)

lemma delta_data_props:
  "prop_of (delta_data i mdl cr t) ''object'' = JStr ''chat.completion.chunk''"
  "prop_of (delta_data i mdl cr t) ''id'' = i"
  "prop_of (delta_data i mdl cr t) ''model'' = JStr mdl"
  "prop_of (delta_data i mdl cr t) ''created'' = cr"
  "prop_of (delta_data i mdl cr t) ''choices'' =
     JArr [JObj [(''delta'', JObj [(''role'', JStr ''assistant''), (''content'', JStr t)])]]"
  "delta_data i mdl cr t \<noteq> JUndef" "delta_data i mdl cr t \<noteq> JNull"
  by (simp_all add: delta_data_def prop_of_def obj_get_def)

lemma prop_of_simps [simp]:
  "prop_of (JObj kvs) k = obj_get kvs k"
  "prop_of (JArr xs) ''length'' = JNum (of_nat (length xs))"
  by (simp_all add: prop_of_def)

lemma on_message_delta:
  "chat_on_message (sse_message0\<lparr>m_data := delta_data i mdl cr t\<rparr>) s =
     (set_messages (\<lambda>ms. Inr (if t = [] then ms
         else reparse_last mdl (append_delta i cr (JStr ''assistant'') t ms)))
       (if t = [] then s else s\<lparr>ui_status := C_generating\<rparr>), None)"
  by (simp add: chat_on_message_def delta_data_props obj_get_def js_gt_def Let_def
      delta_updater_def choice_delta_def js_or_def set_messages_def)

lemma set_messages_same: "set_messages (\<lambda>ms. Inr ms) s = s"
  by (simp add: set_messages_def)

lemma deliver_more:
  "ui_messages s = ms @ [answer i mdl cr raw] \<Longrightarrow> ui_status s = C_generating \<Longrightarrow>
   deliver chat_options (map (delta_data i mdl cr) ts) s =
     (s\<lparr>ui_messages := ms @ [answer i mdl cr (raw @ concat ts)]\<rparr>, None)"
proof (induction ts arbitrary: s raw)
  case Nil
  then show ?case by simp
next
  case (Cons t ts)
  show ?case
  proof (cases "t = []")
    case True
    with Cons show ?thesis by (simp add: chat_options_def on_message_delta set_messages_same)
  next
    case False
    let ?s = "s\<lparr>ui_messages := ms @ [answer i mdl cr (raw @ t)]\<rparr>"
    have "reparse_last mdl (append_delta i cr (JStr ''assistant'') t (ui_messages s))
        = ms @ [answer i mdl cr (raw @ t)]"
      using Cons.prems(1) by (simp add: append_delta_def raw_text_def Let_def reparse_grown)
    then have "chat_on_message (sse_message0\<lparr>m_data := delta_data i mdl cr t\<rparr>) s = (?s, None)"
      using Cons.prems(2) False by (simp add: on_message_delta set_messages_def)
    then show ?thesis
      using Cons.IH [of ?s "raw @ t"] Cons.prems(2) by (simp add: chat_options_def)
  qed
qed

lemma deliver_answer:
  assumes "ui_messages s = [] \<or> c_role (last (ui_messages s)) \<noteq> JStr ''assistant''"
  shows "deliver chat_options (map (delta_data i mdl cr) ts) s =
    (if concat ts = [] then (s, None)
     else (s\<lparr>ui_status := C_generating,
             ui_messages := ui_messages s @ [answer i mdl cr (concat ts)]\<rparr>, None))"
proof (induction ts)
  case Nil
  then show ?case by simp
next
  case (Cons t ts)
  show ?case
  proof (cases "t = []")
    case True
    with Cons show ?thesis by (simp add: chat_options_def on_message_delta set_messages_same)
  next
    case False
    let ?s = "s\<lparr>ui_status := C_generating, ui_messages := ui_messages s @ [answer i mdl cr t]\<rparr>"
    have "reparse_last mdl (append_delta i cr (JStr ''assistant'') t (ui_messages s))
        = ui_messages s @ [answer i mdl cr t]"
      using assms by (auto simp: append_delta_def reparse_answer)
    then have "chat_on_message (sse_message0\<lparr>m_data := delta_data i mdl cr t\<rparr>) s = (?s, None)"
      using False by (simp add: on_message_delta set_messages_def)
    then show ?thesis
      using False deliver_more [of ?s "ui_messages s" i mdl cr t ts] by (simp add: chat_options_def)
  qed
qed

subsection \<open>Properties\<close>

text \<open>
  C15 (chat_status_tracks_request): after any sequence of user actions and network events, the
  status is \<open>opened\<close> or \<open>generating\<close> exactly while a request is open, so the send button's
  guard, which reads the status, is a guard on the connection.
\<close>

theorem chat_status_tracks_request:
  "(conn (run (chat_step decode parse) chat_init es) \<noteq> Idle)
    = busy (cb (run (chat_step decode parse) chat_init es))"
  by (rule run_busy)

text \<open>
  C10 (chat_never_crashes): if the server's chunks carry readable choices, no sequence of
  actions and network events makes a state updater raise: the updaters of \<open>onClose\<close> and
  \<open>onError\<close>, which read the last message, only run on a conversation that has one, and a
  conversation always starts with a user message.
\<close>

theorem chat_never_crashes:
  assumes "parse_ok chunk_ok parse"
  shows "\<not> ui_crashed (cb (run (chat_step decode parse) chat_init es)) \<and>
    (conn (run (chat_step decode parse) chat_init es) = Idle \<or>
       ui_messages (cb (run (chat_step decode parse) chat_init es)) \<noteq> []) \<and>
    (ui_messages (cb (run (chat_step decode parse) chat_init es)) = [] \<or>
       user_first (ui_messages (cb (run (chat_step decode parse) chat_init es))))"
  using chat_safe.run_inv [of parse chat_init decode es] assms init_inv
  by (auto simp: chat_inv_def)

theorem chat_never_crashes_witness:
  "\<exists>parse. parse ''1'' = Some (delta_data (JStr ''m'') ''qwen3'' (JNum 0) ''hi'') \<and>
    \<not> ui_crashed (cb (run (chat_step id parse) chat_init
        [(\<lparr>env_status = JStr ''available'', env_model = JStr ''qwen3''\<rparr>, SetInput ''q''),
         (\<lparr>env_status = JStr ''available'', env_model = JStr ''qwen3''\<rparr>, Generate None 1 ''1'')]))"
proof -
  let ?parse = "\<lambda>t. if t = ''1'' then Some (delta_data (JStr ''m'') ''qwen3'' (JNum 0) ''hi'') else None"
  have "parse_ok chunk_ok ?parse"
    by (auto simp: parse_ok_def chunk_ok_def prop_of_def delta_data_def obj_get_def choice_ok_def)
  from chat_never_crashes [OF this, where decode = id and es =
      "[(\<lparr>env_status = JStr ''available'', env_model = JStr ''qwen3''\<rparr>, SetInput ''q''),
        (\<lparr>env_status = JStr ''available'', env_model = JStr ''qwen3''\<rparr>, Generate None 1 ''1'')]"]
  show ?thesis by (intro exI [of _ ?parse] conjI) (simp, blast)
qed

text \<open>
  Whenever no request is open, the last message is marked done (or there is
  none, or the page is gone): no sequence of stops, errors and closed streams leaves an answer
  that still looks as if it were being written.
\<close>

lemma chat_settles:
  "busy (cb (run (chat_step decode parse) chat_init es))
    \<or> last_done (cb (run (chat_step decode parse) chat_init es))"
  using run_settled [of decode parse es] by (auto simp: settled_def)

text \<open>
  While a request is open, a further attempt to send or regenerate
  changes nothing and posts nothing, so there is never more than one stream.
\<close>

lemma chat_one_request:
  assumes "conn (run (chat_step decode parse) chat_init es) \<noteq> Idle"
  shows "chat_generate env m now nowString (run (chat_step decode parse) chat_init es)
    = run (chat_step decode parse) chat_init es"
proof -
  have "busy (cb (run (chat_step decode parse) chat_init es))"
    using assms run_busy [of decode parse es] by simp
  then show ?thesis by (simp add: chat_generate_def Let_def)
qed

text \<open>
  C35 (chat_stop_status): stopping a request in any reachable state ends in \<open>error\<close> when its response has not
  arrived (the \<open>fetch\<close> is pending), and in \<open>closed\<close> when its body is being streamed: the abort reason is the string \<open>'stop'\<close>, so the
  rejected \<open>fetch\<close> is not recognised as an abort, while a stream is closed before it is aborted.
\<close>

theorem chat_stop_status:
  assumes "conn (run (chat_step decode parse) chat_init es) = c" and "c \<noteq> Idle"
  shows "ui_status (cb (chat_stop (run (chat_step decode parse) chat_init es)))
    = (if c = Fetching then C_error else C_closed)"
proof -
  let ?x = "run (chat_step decode parse) chat_init es"
  have "busy (cb ?x)"
    using assms run_busy [of decode parse es] by simp
  then have "chat_stop ?x = sse_disconnect chat_options ?x"
    by (auto simp: chat_stop_def busy_def)
  with assms show ?thesis
    by (cases c) (auto simp: sse_disconnect_def sse_catch_def is_abort_def chat_handler_defs Let_def)
qed

theorem chat_stop_status_witness:
  "let env = \<lparr>env_status = JStr ''available'', env_model = JStr ''m''\<rparr>
   in ui_status (cb (chat_stop (run (chat_step id (\<lambda>t. None)) chat_init
        [(env, SetInput ''q''), (env, Generate None 1 ''1'')]))) = C_error"
proof -
  let ?env = "\<lparr>env_status = JStr ''available'', env_model = JStr ''m''\<rparr>"
  let ?es = "[(?env, SetInput ''q''), (?env, Generate None 1 ''1'')]"
  have t: "trim ''q'' = ''q''" by code_simp
  have c: "conn (run (chat_step id (\<lambda>t. None)) chat_init ?es) = Fetching"
    by (simp add: chat_step_def chat_init_def chat_set_input_def chat_generate_def busy_def t
        chat_send_def sse_connect_def Let_def)
  have "Fetching \<noteq> Idle" by simp
  from chat_stop_status [OF c this] show ?thesis by (simp only: Let_def) simp
qed

text \<open>
  An answer streamed in any number of pieces leaves the conversation
  exactly as the same answer in one piece would: one assistant message behind the earlier
  messages, its reasoning and content parsed from the concatenated text.
\<close>

lemma chat_stream_concat:
  assumes "ui_messages s = [] \<or> c_role (last (ui_messages s)) \<noteq> JStr ''assistant''"
    and "concat ts \<noteq> []"
  shows "deliver chat_options (map (delta_data i model created) ts) s =
    (s\<lparr>ui_status := C_generating,
       ui_messages := ui_messages s @ [answer i model created (concat ts)]\<rparr>, None)"
  using deliver_answer [OF assms(1), of i model created ts] unfolding if_not_P [OF assms(2)] .

text \<open>
  Clearing twice always empties the conversation and leaves no request
  open: the first clear of a running request only stops it, the second removes the messages.
\<close>

lemma chat_clear_twice:
  "ui_messages (cb (chat_clear (chat_clear (run (chat_step decode parse) chat_init es)))) = [] \<and>
   conn (chat_clear (chat_clear (run (chat_step decode parse) chat_init es))) = Idle"
proof -
  let ?x = "run (chat_step decode parse) chat_init es"
  have c: "coherent ?x" by (rule run_coherent)
  have nb: "\<not> busy (cb (chat_clear ?x))"
    using busy_stop [of ?x] by (simp add: chat_clear_def Let_def busy_def)
  then have "\<not> busy (cb (chat_clear (chat_clear ?x)))"
    using busy_stop [of "chat_clear ?x"] by (simp add: chat_clear_def Let_def busy_def)
  moreover have "coherent (chat_clear (chat_clear ?x))" by (intro coherent_clear c)
  ultimately have "conn (chat_clear (chat_clear ?x)) = Idle" by (simp add: coherent_def)
  moreover have "ui_messages (cb (chat_clear (chat_clear ?x))) = []"
    using nb by (simp add: chat_clear_def [of "chat_clear ?x"] Let_def)
  ultimately show ?thesis by blast
qed

text \<open>
  Regenerating from a message keeps the messages before it, and the
  message itself only if it is the user's, and posts exactly what is kept as the new request.
\<close>

lemma chat_regenerate:
  assumes "env_status env = JStr ''available''" and "truthy (env_model env)" and "\<not> busy (cb x)"
    and "find_index (\<lambda>m. strict_eq (c_id m) (c_id msg)) (ui_messages (cb x)) = Some i"
  shows "let kept = take i (ui_messages (cb x)) @
          (if c_role (ui_messages (cb x) ! i) = JStr ''user'' then [ui_messages (cb x) ! i] else [])
     in chat_generate env (Some msg) now nowString x =
        x\<lparr>conn := Fetching,
          posted := posted x @ [sse_body (env_model env) (map request_message kept)],
          cb := (cb x)\<lparr>ui_status := C_opened, ui_messages := kept\<rparr>\<rparr>"
  using assms find_index_less [OF assms(4)]
  by (auto simp: chat_generate_def chat_send_def sse_connect_def chat_handler_defs Let_def
      take_Suc_conv_app_nth)

end
