(* ===== verification/ChatMessages.thy ===== *)
theory ChatMessages
  imports Ui Chat
begin

text \<open>
  \<^verbatim>\<open>components/inputs/chat-messages.tsx\<close> and \<^verbatim>\<open>dot-pulse.tsx\<close>: the stream of the
  messages, which scrolls to its end when the messages change unless the user has scrolled up,
  and a message with its two actions. The timers of \<open>scrollToBottom\<close> are never cleared, the one
  of the effect is. The container is mounted whenever its events occur.
\<close>

subsection \<open>Scrolling\<close>

record scroll =
  sc_bottom :: bool
  sc_user_up :: bool
  sc_auto :: bool
  sc_prev :: rat
  sc_frames :: nat
  sc_timers :: nat
  sc_effect_timer :: bool

definition scroll_start :: scroll where
  "scroll_start = \<lparr>sc_bottom = True, sc_user_up = False, sc_auto = False, sc_prev = 0, sc_frames = 0,
     sc_timers = 0, sc_effect_timer = False\<rparr>"

definition scroll_to_bottom :: "scroll \<Rightarrow> scroll" where
  "scroll_to_bottom s = s\<lparr>sc_user_up := False, sc_auto := True, sc_frames := sc_frames s + 1,
     sc_timers := sc_timers s + 1\<rparr>"

definition messages_effect :: "scroll \<Rightarrow> scroll" where
  "messages_effect s =
     (let s' = s\<lparr>sc_effect_timer := False\<rparr> in
      if sc_user_up s' then s'
      else (scroll_to_bottom (s'\<lparr>sc_auto := True\<rparr>))\<lparr>sc_effect_timer := True\<rparr>)"

definition on_scroll :: "rat \<Rightarrow> rat \<Rightarrow> rat \<Rightarrow> scroll \<Rightarrow> scroll" where
  "on_scroll scrollTop scrollHeight clientHeight s =
     (let bottomGap = scrollHeight - scrollTop - clientHeight;
          s1 = s\<lparr>sc_bottom := bottomGap < 10\<rparr>;
          s2 = (if \<not> sc_auto s1 \<and> scrollTop < sc_prev s1 - 2 then s1\<lparr>sc_user_up := True\<rparr> else s1);
          s3 = s2\<lparr>sc_prev := scrollTop\<rparr>
      in if bottomGap < 10 then s3\<lparr>sc_user_up := False\<rparr> else s3)"

definition on_wheel :: "rat \<Rightarrow> scroll \<Rightarrow> scroll" where
  "on_wheel deltaY s = (if deltaY < 0 then s\<lparr>sc_user_up := True\<rparr> else s)"

definition on_touch_move :: "scroll \<Rightarrow> scroll" where
  "on_touch_move s = s\<lparr>sc_user_up := True\<rparr>"

datatype scroll_event =
    MessagesChange
  | ClickToBottom
  | ScrollFrame
  | ScrollTimer
  | EffectTimer
  | ScrollTo rat rat rat
  | Wheel rat
  | TouchMove

definition scroll_step :: "scroll \<Rightarrow> scroll_event \<Rightarrow> scroll" where
  "scroll_step s ev =
     (case ev of
        MessagesChange \<Rightarrow> messages_effect s
      | ClickToBottom \<Rightarrow> scroll_to_bottom s
      | ScrollFrame \<Rightarrow> s\<lparr>sc_frames := sc_frames s - 1\<rparr>
      | ScrollTimer \<Rightarrow> if sc_timers s = 0 then s else s\<lparr>sc_timers := sc_timers s - 1, sc_auto := False\<rparr>
      | EffectTimer \<Rightarrow> if sc_effect_timer s then s\<lparr>sc_effect_timer := False, sc_auto := False\<rparr> else s
      | ScrollTo t h c \<Rightarrow> on_scroll t h c s
      | Wheel d \<Rightarrow> on_wheel d s
      | TouchMove \<Rightarrow> on_touch_move s)"

subsection \<open>A message\<close>

record message_ui =
  mu_copied :: bool
  mu_timer :: bool

text \<open>The effect runs when \<open>copied\<close> is new, also at first; its timer resets it.\<close>

definition message_ui_start :: message_ui where
  "message_ui_start = \<lparr>mu_copied = False, mu_timer = True\<rparr>"

definition mu_set_copied :: "bool \<Rightarrow> message_ui \<Rightarrow> message_ui" where
  "mu_set_copied b s = (if b = mu_copied s then s else \<lparr>mu_copied = b, mu_timer = True\<rparr>)"

definition mu_fire :: "message_ui \<Rightarrow> message_ui" where
  "mu_fire s = (if mu_timer s then mu_set_copied False (s\<lparr>mu_timer := False\<rparr>) else s)"

definition is_role :: "chat_message \<Rightarrow> string \<Rightarrow> bool" where
  "is_role m r \<longleftrightarrow> c_role m = JStr r"

definition assistant_done :: "chat_message \<Rightarrow> bool" where
  "assistant_done m \<longleftrightarrow> c_status m = M_done"

definition show_copy :: "chat_message \<Rightarrow> bool" where
  "show_copy m \<longleftrightarrow> is_role m ''user'' \<or> (is_role m ''assistant'' \<and> assistant_done m)"

definition show_regenerate :: "chat_message \<Rightarrow> bool" where
  "show_regenerate m \<longleftrightarrow> is_role m ''assistant'' \<and> assistant_done m"

datatype message_action = MA_copy string | MA_regenerate chat_message

definition thinking_text :: "chat_message \<Rightarrow> string" where
  "thinking_text m = (case c_thinking m of None \<Rightarrow> [] | Some t \<Rightarrow> t)"

definition message_content_view :: "chat_message \<Rightarrow> message_action ui" where
  "message_content_view m =
     (if is_role m ''user'' then
        El ''Typography'' [(''key'', PS ''user-message''), (''variant'', PS ''body1''),
          (''sx'', PO [(''px'', JNum 2), (''py'', JNum (3/2)), (''borderRadius'', JStr ''0.5rem''),
             (''backgroundColor'', JStr ''background.default''), (''fontSize'', JStr ''0.875rem'')])]
          [Txt (c_content m)]
      else El ''Fragment'' []
        [ui_and (case c_thinking m of None \<Rightarrow> JUndef | Some t \<Rightarrow> JStr t)
           (El ''ChatMarkdown'' [(''key'', PS ''assistant-thinking''), (''isThinking'', PV (JBool True)),
              (''content'', PS (thinking_text m))] []),
         ui_and (JStr (c_content m))
           (El ''ChatMarkdown'' [(''key'', PS ''assistant-message''), (''content'', PS (c_content m))] [])])"

definition action_tooltip :: "string \<Rightarrow> string \<Rightarrow> message_action \<Rightarrow> message_action ui \<Rightarrow> message_action ui" where
  "action_tooltip key title act icon =
     El ''Tooltip'' [(''key'', PS key), (''title'', PS title),
       (''slotProps'', PO [(''tooltip'', JObj [(''sx'', JObj [(''bgcolor'', JStr ''primary.main''), (''borderRadius'', JNum 1)])]),
          (''popper'', JObj [(''modifiers'', JArr [JObj [(''name'', JStr ''offset''),
             (''options'', JObj [(''offset'', JArr [JNum 0, JNum (- 8)])])]])])])]
      [El ''IconButton'' [(''onClick'', PE act), (''size'', PS ''small''),
         (''sx'', PO [(''width'', JNum 24), (''height'', JNum 24), (''borderRadius'', JStr ''8px''),
            (''&:hover'', JObj [(''bgcolor'', JStr ''action.hover'')])])] [icon]]"

definition message_view :: "chat_message \<Rightarrow> bool \<Rightarrow> message_action ui" where
  "message_view m copied =
     (let user = is_role m ''user'';
          justifyContent = JStr (if user then ''flex-end'' else ''flex-start'')
      in El ''Stack'' [(''direction'', PS ''row''), (''sx'', PO [(''width'', JStr ''100%''), (''justifyContent'', justifyContent)])]
       [El ''Stack'' [(''sx'', PO ([(''maxWidth'', if user then JObj [(''xs'', JStr ''100%''), (''md'', JStr ''80%'')] else JStr ''100%''),
            (''alignSelf'', JStr (if user then ''flex-end'' else ''flex-start'')), (''gap'', JNum 1)] @
            (if user then [(''&:hover .actions-user'', JObj [(''opacity'', JNum 1), (''pointerEvents'', JStr ''auto'')])] else [])))]
        [message_content_view m,
         ui_when (show_copy m \<or> show_regenerate m)
          (El ''Stack'' [(''key'', PS ''actions''), (''direction'', PS ''row''),
             (''className'', PV (if user then JStr ''actions-user'' else JUndef)),
             (''sx'', PO ([(''justifyContent'', justifyContent), (''color'', JStr ''grey.600''), (''gap'', JNum (1/2))] @
               (if user then [(''opacity'', JNum 0), (''pointerEvents'', JStr ''none''), (''transition'', JStr ''opacity .15s ease'')] else [])))]
           [ui_when (show_copy m)
              (action_tooltip ''copy'' (if copied then ''Copied!'' else ''Copy'') (MA_copy (c_content m))
                 (if copied then El ''IconCopyCheck'' [] [] else El ''IconCopy'' [] [])),
            ui_when (show_regenerate m)
              (action_tooltip ''regenerate'' ''Regenerate'' (MA_regenerate m) (El ''IconRefresh'' [] []))])]])"

text \<open>What an action does to the conversation; the clipboard is the browser's.\<close>

definition message_action :: "chat_env \<Rightarrow> message_action \<Rightarrow> chat \<Rightarrow> chat" where
  "message_action env a x =
     (case a of MA_copy t \<Rightarrow> x | MA_regenerate m \<Rightarrow> chat_generate env (Some m) 0 [] x)"

subsection \<open>The stream\<close>

definition scroll_button_view :: "bool \<Rightarrow> scroll_event ui" where
  "scroll_button_view isBottom =
     El ''IconButton'' [(''key'', PS ''scroll-to-bottom''), (''onClick'', PE ClickToBottom), (''size'', PS ''small''),
       (''aria-label'', PS ''Scroll to bottom''),
       (''sx'', PO [(''position'', JStr ''absolute''), (''right'', JNum 12), (''bottom'', JNum 8), (''width'', JNum 28),
          (''height'', JNum 28), (''bgcolor'', JStr ''white''), (''border'', JStr ''1px solid''),
          (''borderColor'', JStr ''grey.300''), (''&:hover'', JObj [(''bgcolor'', JStr ''grey.100'')]),
          (''opacity'', JNum (if isBottom then 0 else 1)), (''pointerEvents'', JStr (if isBottom then ''none'' else ''auto'')),
          (''transition'', JStr ''opacity .15s ease'')])]
      [El ''IconArrowDown'' [] []]"

text \<open>A message is passed to its component by its position in the list.\<close>

definition stream_view :: "chat_status \<Rightarrow> chat_message list \<Rightarrow> scroll_event ui" where
  "stream_view status messages =
     El ''Stack'' [(''key'', PS ''stream''),
       (''sx'', PO [(''width'', JStr ''100%''), (''height'', JStr ''100%''), (''overflowX'', JStr ''hidden''),
          (''overflowY'', JStr ''scroll''), (''&::-webkit-scrollbar'', JObj [(''display'', JStr ''none'')]),
          (''scrollbarWidth'', JStr ''none''), (''msOverflowStyle'', JStr ''none''), (''display'', JStr ''flex''),
          (''gap'', JNum 4)]),
       (''onScroll'', PG (\<lambda>(t, h, c). ScrollTo t h c)), (''onWheel'', PG (\<lambda>(d, _, _). Wheel d)),
       (''onTouchMove'', PE TouchMove)]
      (map (\<lambda>idx. El ''ChatMessage'' [(''key'', PV (c_id (messages ! idx))), (''message'', PN (of_nat idx)),
           (''isLast'', PV (JBool (idx = length messages - 1)))] []) [0..<length messages] @
       [ui_when (status = C_opened) (El ''DotPulse'' [(''size'', PS ''large'')] []),
        El ''Box'' [(''sx'', PO [(''width'', JStr ''100%''), (''height'', JNum 0)])] []])"

definition chat_messages_view :: "chat_status \<Rightarrow> chat_message list \<Rightarrow> scroll \<Rightarrow> scroll_event ui" where
  "chat_messages_view status messages s =
     El ''Box'' [(''sx'', PO [(''position'', JStr ''relative''), (''flex'', JNum 1), (''overflow'', JStr ''hidden'')])]
      [stream_view status messages, scroll_button_view (sc_bottom s)]"

subsection \<open>The pulse\<close>

definition SIZE_MAP :: "(string \<times> rat) list" where
  "SIZE_MAP = [(''small'', 1), (''medium'', 5/4), (''large'', 9/4)]"

definition DotPulseRoot_style :: "(rat \<Rightarrow> string) \<Rightarrow> string \<Rightarrow> jval" where
  "DotPulseRoot_style shown sz =
     (let l = JStr (js_text shown (case map_of SIZE_MAP sz of None \<Rightarrow> JUndef | Some q \<Rightarrow> JNum q) @ ''rem'') in
      JObj [(''position'', JStr ''relative''), (''width'', l), (''height'', l), (''display'', JStr ''inline-flex''),
        (''flexFlow'', JStr ''row nowrap''), (''justifyContent'', JStr ''center''), (''alignItems'', JStr ''center'')])"

definition Dot_style :: jval where
  "Dot_style = JObj [(''flex'', JNum 1), (''aspectRatio'', JNum 1), (''borderRadius'', JStr ''50%''),
     (''backgroundColor'', JStr ''currentColor'')]"

definition VARIANTS :: jval where
  "VARIANTS = JObj [(''pulse'', JObj [(''scale'', JArr [JNum 0, JNum (3/5), JNum 0, JNum 0]),
     (''keyTimes'', JArr [JNum 0, JNum (3/10), JNum (3/5), JNum 1]),
     (''transition'', JObj [(''duration'', JNum 2), (''repeat'', js_infinity), (''ease'', JStr ''linear'')])])]"

definition TRANSITION :: jval where
  "TRANSITION = JObj [(''staggerChildren'', JNum (1/4)), (''staggerDirection'', JNum 1)]"

definition dot_pulse_view :: "string \<Rightarrow> 'e ui" where
  "dot_pulse_view sz =
     El ''DotPulseRoot'' [(''size'', PS sz), (''animate'', PS ''pulse''), (''transition'', PV TRANSITION)]
      (map (\<lambda>k. El ''Dot'' [(''key'', PN k), (''variants'', PV VARIANTS)] []) [1, 2, 3])"

subsection \<open>Facts\<close>

lemmas scroll_defs = scroll_step_def messages_effect_def on_scroll_def on_wheel_def on_touch_move_def
  scroll_to_bottom_def Let_def

text \<open>
  What counts as going up: the wheel turned up, a touch, or the container scrolled up by more than
  two pixels and not to its end, while no scrolling of the page's own is under way. What counts as
  coming back: the button, or a scroll to within ten pixels of the end.
\<close>

definition goes_up :: "scroll \<Rightarrow> scroll_event \<Rightarrow> bool" where
  "goes_up s ev = (case ev of Wheel d \<Rightarrow> d < 0 | TouchMove \<Rightarrow> True
     | ScrollTo t h c \<Rightarrow> \<not> sc_auto s \<and> t < sc_prev s - 2 \<and> h - t - c \<ge> 10 | _ \<Rightarrow> False)"

definition comes_back :: "scroll_event \<Rightarrow> bool" where
  "comes_back ev = (case ev of ClickToBottom \<Rightarrow> True | ScrollTo t h c \<Rightarrow> h - t - c < 10 | _ \<Rightarrow> False)"

lemma user_up_step: "sc_user_up (scroll_step s ev) = (goes_up s ev \<or> sc_user_up s \<and> \<not> comes_back ev)"
  by (cases ev) (auto simp: scroll_defs goes_up_def comes_back_def)

text \<open>The user is up when some event went up and none that came later came back.\<close>

definition up_after :: "scroll \<Rightarrow> scroll_event list \<Rightarrow> bool" where
  "up_after s evs \<longleftrightarrow> (\<exists>before ev later. evs = before @ ev # later \<and> goes_up (run scroll_step s before) ev \<and>
     list_all (Not \<circ> comes_back) later)"

lemma up_after_snoc:
  "up_after s (evs @ [ev]) = (goes_up (run scroll_step s evs) ev \<or> up_after s evs \<and> \<not> comes_back ev)" (is "?l = ?r")
proof
  assume ?l
  then obtain before e later where e: "evs @ [ev] = before @ e # later" "goes_up (run scroll_step s before) e"
    "list_all (Not \<circ> comes_back) later" by (auto simp: up_after_def)
  then show ?r
    by (cases later rule: rev_cases) (auto simp: up_after_def)
next
  assume ?r
  then show ?l
  proof
    assume "goes_up (run scroll_step s evs) ev"
    then show ?l unfolding up_after_def by (intro exI [of _ evs] exI [of _ ev] exI [of _ "[]"]) simp
  next
    assume "up_after s evs \<and> \<not> comes_back ev"
    then obtain before e later where e: "evs = before @ e # later" "goes_up (run scroll_step s before) e"
      "list_all (Not \<circ> comes_back) later" "\<not> comes_back ev" by (auto simp: up_after_def)
    then show ?l unfolding up_after_def
      by (intro exI [of _ before] exI [of _ e] exI [of _ "later @ [ev]"]) simp
  qed
qed

lemma user_up_run: "\<not> sc_user_up s \<Longrightarrow> sc_user_up (run scroll_step s evs) = up_after s evs"
proof (induction evs rule: rev_induct)
  case Nil
  then show ?case by (simp add: up_after_def)
next
  case (snoc ev evs)
  then show ?case by (simp add: run_append user_up_step up_after_snoc)
qed

text \<open>The page's own scrolling hides the user's: a scroll up by the scroll bar in that time is not noticed.\<close>

lemma auto_scroll_hides: "sc_auto s \<Longrightarrow> \<not> sc_user_up s \<Longrightarrow> \<not> sc_user_up (scroll_step s (ScrollTo t h c))"
  by (simp add: user_up_step goes_up_def)

lemma events_content [simp]: "events ''onClick'' (message_content_view m) = []"
  by (simp add: message_content_view_def events_El)

lemma events_tooltip [simp]: "events ''onClick'' icon = [] \<Longrightarrow>
    events ''onClick'' (action_tooltip key title act icon) = [act]"
  by (simp add: action_tooltip_def events_El)

lemma message_events: "events ''onClick'' (message_view m copied) =
    (if show_copy m then [MA_copy (c_content m)] else []) @ (if show_regenerate m then [MA_regenerate m] else [])"
  by (simp add: message_view_def events_El Let_def)

subsection \<open>Properties\<close>

text \<open>
  C27 (scroll_respects_user): after any history of events a change of the messages asks for a
  scroll to the end exactly when the user is not up, and the user is up exactly when some event of the
  history went up and no later one came back. An event goes up when it is a wheel turned up, a
  touch, or a scroll up by more than two pixels, not to within ten pixels of the end, at a time
  when no scrolling of the page's own is under way; a scroll bar moved during that scrolling is
  not noticed, and the next change scrolls. An event comes back when it is the button, or a scroll to
  within ten pixels of the end.
\<close>

theorem scroll_respects_user:
  "sc_frames (run scroll_step scroll_start (evs @ [MessagesChange])) =
     sc_frames (run scroll_step scroll_start evs) +
     (if \<exists>before ev later. evs = before @ ev # later \<and> goes_up (run scroll_step scroll_start before) ev \<and>
          list_all (Not \<circ> comes_back) later
      then 0 else 1)"
proof -
  have "\<not> sc_user_up scroll_start" by (simp add: scroll_start_def)
  from user_up_run [OF this, of evs] show ?thesis
    unfolding up_after_def [symmetric] by (simp add: run_append scroll_defs)
qed

text \<open>The page scrolls the user down who moves the scroll bar up right after a change of the messages.\<close>

lemma scroll_bar_lost:
  "sc_frames (run scroll_step scroll_start [ScrollTo 500 1000 500, MessagesChange, ScrollTo 100 1000 500, MessagesChange]) = 2"
  by (simp add: scroll_defs scroll_start_def)

text \<open>
  In a conversation with distinct identifiers at rest, a message offers
  to be generated again exactly when it is a finished message of the assistant, and the button
  then posts the messages before it.
\<close>

lemma message_regenerate:
  assumes "k < length (ui_messages (cb x))" and "m = ui_messages (cb x) ! k"
    and "distinct (map c_id (ui_messages (cb x)))" and "primitive (c_id m)" and "\<not> busy (cb x)"
    and "env_status env = JStr ''available''" and "truthy (env_model env)"
  shows "(MA_regenerate m \<in> set (events ''onClick'' (message_view m copied)) \<longleftrightarrow>
      c_role m = JStr ''assistant'' \<and> c_status m = M_done) \<and>
    (c_role m = JStr ''assistant'' \<longrightarrow> message_action env (MA_regenerate m) x =
      chat_send (env_model env) (take k (ui_messages (cb x))) x)"
proof
  show "MA_regenerate m \<in> set (events ''onClick'' (message_view m copied)) \<longleftrightarrow>
      c_role m = JStr ''assistant'' \<and> c_status m = M_done"
    by (auto simp: message_events show_regenerate_def assistant_done_def is_role_def)
next
  have "find_index (\<lambda>m'. strict_eq (c_id m') (c_id m)) ms = Some j"
    if "j < length ms" "m = ms ! j" "distinct (map c_id ms)" for ms j
    using that assms(4)
  proof (induction ms arbitrary: j)
    case Nil
    then show ?case by simp
  next
    case (Cons a ms)
    show ?case
    proof (cases j)
      case 0
      then show ?thesis using Cons.prems by (simp add: primitive_def)
    next
      case (Suc i)
      then have "c_id a \<noteq> c_id m" using Cons.prems by (metis distinct.simps(2) in_set_conv_nth length_Cons list.simps(9) nth_Cons_Suc nth_map Suc_less_eq length_map)
      then have "\<not> strict_eq (c_id a) (c_id m)" using strict_eq_eq by blast
      then show ?thesis using Cons Suc by simp
    qed
  qed
  from this [OF assms(1-3)] show "c_role m = JStr ''assistant'' \<longrightarrow> message_action env (MA_regenerate m) x =
      chat_send (env_model env) (take k (ui_messages (cb x))) x"
    using assms by (simp add: message_action_def chat_generate_def Let_def)
qed

definition answered :: chat where
  "answered = chat_init\<lparr>cb := (cb chat_init)\<lparr>ui_messages :=
     [user_message 1 ''1'' ''hi'', \<lparr>c_id = JStr ''a'', c_role = JStr ''assistant'', c_status = M_done,
        c_content = ''hello'', c_raw = Some ''hello'', c_thinking = Some [], c_created = JNum 2\<rparr>]\<rparr>\<rparr>"

end
