(* ===== verification/ChatInput.thy ===== *)
theory ChatInput
  imports ChatMessages
begin

text \<open>
  \<^verbatim>\<open>components/inputs/chat-input.tsx\<close>: the text field and the two buttons of the chat. Every
  event is turned into the actions of the conversation it calls; \<open>composing\<close> is true between
  the start and the end of an input method's composition. \<open>busy_status\<close> is the condition both
  buttons read.
\<close>

datatype chat_call = Call_set_input string | Call_generate | Call_stop | Call_clear

datatype input_event =
    Change string
  | CompositionStart
  | CompositionEnd
  | KeyDown string bool
  | ClickMain
  | ClickClear

definition busy_status :: "chat_status \<Rightarrow> bool" where
  "busy_status st \<longleftrightarrow> st = C_opened \<or> st = C_generating"

definition on_key_down :: "bool \<Rightarrow> string \<Rightarrow> bool \<Rightarrow> chat_call list" where
  "on_key_down composing key shift =
     (if key = ''Enter'' \<and> \<not> shift \<and> \<not> composing then [Call_generate] else [])"

definition on_click_main :: "chat_status \<Rightarrow> chat_call list" where
  "on_click_main st =
     (if st = C_opened \<or> st = C_generating then [Call_stop]
      else if st = C_closed \<or> st = C_error then [Call_generate] else [])"

definition on_click_clear :: "chat_call list" where
  "on_click_clear = [Call_clear]"

definition input_step :: "chat_status \<Rightarrow> bool \<Rightarrow> input_event \<Rightarrow> bool \<times> chat_call list" where
  "input_step st composing ev =
     (case ev of
        Change t \<Rightarrow> (composing, [Call_set_input t])
      | CompositionStart \<Rightarrow> (True, [])
      | CompositionEnd \<Rightarrow> (False, [])
      | KeyDown key shift \<Rightarrow> (composing, on_key_down composing key shift)
      | ClickMain \<Rightarrow> (composing, on_click_main st)
      | ClickClear \<Rightarrow> (composing, on_click_clear))"

definition main_disabled :: "jval \<Rightarrow> chat_status \<Rightarrow> bool" where
  "main_disabled clusterStatus st \<longleftrightarrow> clusterStatus \<noteq> JStr ''available'' \<or> st = C_opened"

definition clear_disabled :: "chat_status \<Rightarrow> bool" where
  "clear_disabled st \<longleftrightarrow> st = C_opened \<or> st = C_generating"

definition status_name :: "chat_status \<Rightarrow> string" where
  "status_name st = (case st of C_closed \<Rightarrow> ''closed'' | C_opened \<Rightarrow> ''opened''
     | C_generating \<Rightarrow> ''generating'' | C_error \<Rightarrow> ''error'')"

definition chat_input_view :: "jval \<Rightarrow> string \<Rightarrow> chat_status \<Rightarrow> input_event ui" where
  "chat_input_view clusterStatus input st =
     El ''Stack'' [(''data-status'', PS (status_name st))]
      [El ''TextField'' [(''value'', PS input), (''onChange'', PF Change), (''multiline'', PV (JBool True)),
         (''maxRows'', PN 4), (''placeholder'', PS ''Ask anything''), (''fullWidth'', PV (JBool True)),
         (''onCompositionStart'', PE CompositionStart), (''onCompositionEnd'', PE CompositionEnd),
         (''onKeyDown'', PK KeyDown),
         (''slotProps'', PR [(''input'', PR [(''sx'', PO [(''border'', JStr ''1px solid''), (''borderColor'', JStr ''grey.300''),
            (''borderRadius'', JNum 2), (''fontSize'', JStr ''0.95rem''),
            (''boxShadow'', JStr ''2px 2px 4px rgba(0,0,0,0.05)''), (''flexDirection'', JStr ''column''),
            (''& textarea'', JObj [(''fontSize'', JStr ''0.875rem''), (''scrollbarWidth'', JStr ''none''),
               (''msOverflowStyle'', JStr ''none''),
               (''&::-webkit-scrollbar'', JObj [(''display'', JStr ''none'')])])]),
         (''endAdornment'', PU
           (El ''Stack'' [(''direction'', PS ''row''),
              (''sx'', PO [(''alignSelf'', JStr ''flex-end''), (''alignItems'', JStr ''center''), (''gap'', JNum 2)])]
            [El ''Button'' [(''variant'', PS ''text''), (''sx'', PO [(''color'', JStr ''text.secondary'')]),
               (''startIcon'', PU (El ''IconArrowBackUp'' [] [])), (''disabled'', PV (JBool (clear_disabled st))),
               (''onClick'', PE ClickClear)] [Txt ''Clear''],
             El ''Button'' [(''size'', PS ''small''), (''color'', PS ''primary''),
               (''disabled'', PV (JBool (main_disabled clusterStatus st))), (''onClick'', PE ClickMain)]
              [(case st of
                  C_opened \<Rightarrow> El ''DotPulse'' [(''size'', PS ''medium'')] []
                | C_generating \<Rightarrow> El ''IconSquareFilled'' [(''size'', PS ''1.25rem'')] []
                | _ \<Rightarrow> El ''IconArrowUp'' [(''size'', PS ''1.25rem'')] [])]]))])])] []]"

subsection \<open>The field over the conversation\<close>

text \<open>\<open>now\<close> and its text are \<open>performance.now()\<close> at the call.\<close>

definition chat_call :: "chat_env \<Rightarrow> rat \<Rightarrow> string \<Rightarrow> chat_call \<Rightarrow> chat \<Rightarrow> chat" where
  "chat_call env now nowString c x =
     (case c of
        Call_set_input t \<Rightarrow> chat_set_input t x
      | Call_generate \<Rightarrow> chat_generate env None now nowString x
      | Call_stop \<Rightarrow> chat_stop x
      | Call_clear \<Rightarrow> chat_clear x)"

text \<open>A disabled button does not dispatch its click.\<close>

definition enabled :: "chat_env \<Rightarrow> chat \<Rightarrow> input_event \<Rightarrow> bool" where
  "enabled env x ev = (case ev of
       ClickMain \<Rightarrow> \<not> main_disabled (env_status env) (ui_status (cb x))
     | ClickClear \<Rightarrow> \<not> clear_disabled (ui_status (cb x))
     | _ \<Rightarrow> True)"

definition input_on_chat :: "chat_env \<Rightarrow> rat \<Rightarrow> string \<Rightarrow> bool \<Rightarrow> input_event \<Rightarrow> chat \<Rightarrow> chat" where
  "input_on_chat env now nowString composing ev x =
     fold (chat_call env now nowString) (snd (input_step (ui_status (cb x)) composing ev)) x"

subsection \<open>Properties\<close>

text \<open>
  C30 (chat_input_commands): of the events the page lets through, only the main button of a
  conversation that is generating stops it; only Enter, without shift and outside a
  composition, and the main button post a request, at most one and only to an idle
  conversation of an available cluster; and the clear button empties the conversation.
\<close>

theorem chat_input_commands:
  assumes "enabled env x ev"
  shows "(Call_stop \<in> set (snd (input_step (ui_status (cb x)) composing ev)) \<longleftrightarrow>
      ev = ClickMain \<and> ui_status (cb x) = C_generating) \<and>
    length (posted (input_on_chat env now nowString composing ev x)) \<le> length (posted x) + 1 \<and>
    (posted (input_on_chat env now nowString composing ev x) \<noteq> posted x \<longrightarrow>
      (ev = ClickMain \<or> ev = KeyDown ''Enter'' False \<and> \<not> composing) \<and>
      \<not> busy (cb x) \<and> env_status env = JStr ''available'') \<and>
    (ev = ClickClear \<longrightarrow> ui_messages (cb (input_on_chat env now nowString composing ev x)) = [])"
proof -
  have gen: "length (posted (chat_generate env None now nowString x)) \<le> length (posted x) + 1 \<and>
      (posted (chat_generate env None now nowString x) \<noteq> posted x \<longrightarrow>
        \<not> busy (cb x) \<and> env_status env = JStr ''available'')"
    by (auto simp: chat_generate_def chat_send_def sse_connect_def chat_set_input_def Let_def)
  have stop: "posted (chat_stop x) = posted x"
    by (simp add: chat_stop_def sse_disconnect_def Let_def)
  have keep: "ui_status (cb x) \<noteq> C_opened \<Longrightarrow> ui_status (cb x) \<noteq> C_generating \<Longrightarrow> chat_stop x = x"
    by (cases "ui_status (cb x)") (auto simp: chat_stop_def)
  show ?thesis
    using assms gen stop keep
    by (cases ev; cases "ui_status (cb x)")
      (auto simp: input_on_chat_def input_step_def on_key_down_def on_click_main_def on_click_clear_def
        chat_call_def chat_clear_def chat_set_input_def enabled_def main_disabled_def clear_disabled_def busy_def Let_def
        split: if_splits)
qed

theorem chat_input_commands_witness:
  "ui_messages (cb (input_on_chat \<lparr>env_status = JStr ''available'', env_model = JStr ''m''\<rparr> 1 ''1'' False
     ClickClear answered)) = []"
proof -
  have "enabled \<lparr>env_status = JStr ''available'', env_model = JStr ''m''\<rparr> answered ClickClear"
    by (simp add: enabled_def clear_disabled_def answered_def chat_init_def)
  from chat_input_commands [OF this] show ?thesis by blast
qed

end
