(* ===== verification/Markdown.thy ===== *)
theory Markdown
  imports Ui
begin

text \<open>
  \<^verbatim>\<open>components/inputs/chat-markdown.tsx\<close>: what is done to a text before the Markdown
  renderer gets it, and the plugins the renderer is given. A replacement text is expanded as
  \<open>String.prototype.replace\<close> does: two dollar signs stand for one.
\<close>

definition BACKSLASH :: char where "BACKSLASH = CHR 0x5C"

definition preprocess_think :: "string \<Rightarrow> string" where
  "preprocess_think input =
     replace_first ''</think>'' ([CHR 0x0A, CHR 0x0A] @ ''</think>'' @ [CHR 0x0A, CHR 0x0A])
       (replace_first ''<think>'' (''<think>'' @ [CHR 0x0A, CHR 0x0A]) input)"

definition preprocess_math :: "string \<Rightarrow> string" where
  "preprocess_math input =
     replace_all [BACKSLASH, CHR '')''] ''$''
      (replace_all [BACKSLASH, CHR ''(''] ''$''
        (replace_all [BACKSLASH, CHR '']''] ''$$''
          (replace_all [BACKSLASH, CHR ''[''] ''$$'' input)))"

subsection \<open>The renderer\<close>

definition MarkdownRoot_style :: "theme \<Rightarrow> bool \<Rightarrow> jval" where
  "MarkdownRoot_style t isThinking = JObj (spread (th t [''typography'', ''body1'']) @
     [(''overflowWrap'', JStr ''break-word''), (''maxWidth'', JStr ''100%''), (''display'', JStr ''flex''),
      (''flexFlow'', JStr ''column nowrap''), (''justifyContent'', JStr ''flex-start''),
      (''alignItems'', JStr ''stretch''), (''gap'', spacing t 1),
      (''color'', js_or (if isThinking then th t [''palette'', ''text'', ''disabled''] else JBool False)
                     (th t [''palette'', ''text'', ''primary''])),
      (''& pre'', JObj [(''overflowX'', JStr ''auto'')]),
      (''& think'', JObj [(''color'', th t [''palette'', ''text'', ''disabled''])]),
      (''& ul, & ol'', JObj [(''margin'', JNum 0)])])"

text \<open>The tags that are rendered by a component, with the properties put in besides the tag's own.\<close>

definition typography_tag :: "string \<Rightarrow> string \<Rightarrow> string \<times> (string \<times> string) list" where
  "typography_tag tag variant = (tag, [(''Typography'', variant)])"

definition markdown_components :: "(string \<times> (string \<times> string) list) list" where
  "markdown_components =
     [typography_tag ''h1'' ''h1'', typography_tag ''h2'' ''h2'', typography_tag ''h3'' ''h3'',
      typography_tag ''h4'' ''h4'', typography_tag ''h5'' ''h5'', typography_tag ''h6'' ''h6'',
      typography_tag ''p'' ''body1'', typography_tag ''caption'' ''caption'', (''hr'', [(''Divider'', [])]),
      (''table'', [(''TableContainer'', []), (''Table'', [])]), (''thead'', [(''TableHead'', [])]),
      (''tbody'', [(''TableBody'', [])]), (''tr'', [(''TableRow'', [])]), (''th'', [(''TableCell'', [])]),
      (''td'', [(''TableCell'', [])])]"

definition blockList :: "string list" where
  "blockList = [''script'', ''iframe'', ''style'', ''form'', ''input'', ''textarea'']"

definition schema_tags :: "string list option \<Rightarrow> string list" where
  "schema_tags default_tags =
     filter (\<lambda>tag. tag \<notin> set blockList) (case default_tags of None \<Rightarrow> [] | Some ts \<Rightarrow> ts)"

text \<open>An entry of a plugin list: a plugin, or a list of arguments.\<close>

datatype plugin_entry = Plugin string | Listed "string list"

definition remark_plugins :: "plugin_entry list" where
  "remark_plugins = [Plugin ''remarkGfm'', Plugin ''remarkMath'']"

definition rehype_plugins :: "plugin_entry list" where
  "rehype_plugins = [Plugin ''rehypeKatex'', Plugin ''rehypeRaw'',
     Listed [''remarkGfm'', ''remarkMath'', ''rehypeSanitize'', ''schema'']]"

text \<open>The plugin lists are kept as they are; the renderer is the library's.\<close>

definition markdown_text :: "string \<Rightarrow> string" where
  "markdown_text content = preprocess_math (preprocess_think content)"

definition markdown_view :: "bool \<Rightarrow> string \<Rightarrow> 'e ui" where
  "markdown_view isThinking content =
     El ''ChatMarkdownRoot'' [(''className'', PS ''ChatMarkdown''), (''isThinking'', PV (JBool isThinking))]
      [El ''ReactMarkdown'' [] [Txt (markdown_text content)]]"

subsection \<open>Facts\<close>

text \<open>Replacing a two-character mark that starts with a backslash.\<close>

lemma replace_mark_Nil [simp]: "replace_all p r [] = []"
  by (simp add: replace_all_def)

lemma replace_mark_other:
  "c \<noteq> BACKSLASH \<Longrightarrow> replace_all [BACKSLASH, b] r (c # s) = c # replace_all [BACKSLASH, b] r s"
  by (simp add: replace_all_def)

lemma replace_mark_hit:
  "replace_all [BACKSLASH, b] r (BACKSLASH # b # s) = expand_dollar r @ replace_all [BACKSLASH, b] r s"
  by (simp add: replace_all_def)

lemma replace_mark_miss:
  "c \<noteq> b \<Longrightarrow> replace_all [BACKSLASH, b] r (BACKSLASH # c # s) = BACKSLASH # replace_all [BACKSLASH, b] r (c # s)"
  by (simp add: replace_all_def)

lemma replace_plain:
  "BACKSLASH \<notin> set u \<Longrightarrow> replace_all [BACKSLASH, b] r (u @ s) = u @ replace_all [BACKSLASH, b] r s"
  by (induction u) (auto simp: replace_mark_other)

lemma replace_plain_end: "BACKSLASH \<notin> set u \<Longrightarrow> replace_all [BACKSLASH, b] r u = u"
  using replace_plain [of u b r "[]"] by simp

lemma expand_dollars [simp]: "expand_dollar ''$$'' = ''$''" "expand_dollar ''$'' = ''$''"
  by simp_all

text \<open>A text in pieces: plain text, and escapes of one character (a mark of a formula is one).\<close>

definition piece :: "string \<Rightarrow> bool" where
  "piece p \<longleftrightarrow> BACKSLASH \<notin> set p \<or> (\<exists>c. c \<noteq> BACKSLASH \<and> p = [BACKSLASH, c])"

definition put_mark :: "char \<Rightarrow> string \<Rightarrow> string" where
  "put_mark b p = (if p = [BACKSLASH, b] then ''$'' else p)"

lemma replace_piece:
  assumes "piece p" and "expand_dollar r = ''$''"
  shows "replace_all [BACKSLASH, b] r (p @ s) = put_mark b p @ replace_all [BACKSLASH, b] r s"
proof (cases "BACKSLASH \<in> set p")
  case True
  then obtain c where "c \<noteq> BACKSLASH" "p = [BACKSLASH, c]" using assms(1) by (auto simp: piece_def)
  then show ?thesis
    using assms(2) by (cases "c = b") (simp_all add: put_mark_def replace_mark_hit replace_mark_miss replace_mark_other)
next
  case False
  then have "p \<noteq> [BACKSLASH, b]" by auto
  then show ?thesis using False by (simp add: put_mark_def replace_plain)
qed

lemma piece_put: "piece p \<Longrightarrow> piece (put_mark b p)"
  by (simp add: put_mark_def piece_def BACKSLASH_def)

lemma replace_pieces:
  assumes "list_all piece ps" and "expand_dollar r = ''$''"
  shows "replace_all [BACKSLASH, b] r (concat ps) = concat (map (put_mark b) ps)" "list_all piece (map (put_mark b) ps)"
  using assms(1) by (induction ps) (simp_all add: replace_piece [OF _ assms(2)] piece_put)

subsection \<open>Properties\<close>

text \<open>
  C40 (math_display_inline): in a text with any number of formulas, between \<open>\\[\<close> and \<open>\\]\<close> or \<open>\\(\<close> and
  \<open>\\)\<close>, and in which no backslash is escaped by another or ends the text, every mark of a formula becomes a single dollar sign and
  nothing else changes: the display formulas come out exactly like the inline ones. The comment of
  the function says that display formulas become two dollar signs on each side, but a replacement text of two
  dollar signs inserts one.
\<close>

theorem math_display_inline:
  assumes "list_all (\<lambda>p. BACKSLASH \<notin> set p \<or> (\<exists>c. c \<noteq> BACKSLASH \<and> p = [BACKSLASH, c])) ps"
  shows "preprocess_math (concat ps) = concat (map (\<lambda>p.
    if p \<in> {[BACKSLASH, CHR ''[''], [BACKSLASH, CHR '']''], [BACKSLASH, CHR ''(''], [BACKSLASH, CHR '')'']} then ''$'' else p) ps)"
proof -
  have ps: "list_all piece ps" using assms by (simp add: piece_def list_all_iff)
  note 1 = replace_pieces [OF ps expand_dollars(1), of "CHR ''[''"]
  note 2 = replace_pieces [OF 1(2) expand_dollars(1), of "CHR '']''"]
  note 3 = replace_pieces [OF 2(2) expand_dollars(2), of "CHR ''(''"]
  note 4 = replace_pieces [OF 3(2) expand_dollars(2), of "CHR '')''"]
  show ?thesis
    unfolding preprocess_math_def 1(1) 2(1) 3(1) 4(1) unfolding map_map
    by (intro arg_cong [where f = concat] map_cong refl) (simp add: put_mark_def BACKSLASH_def)
qed

theorem math_display_inline_witness:
  "preprocess_math (''a '' @ [BACKSLASH, CHR ''[''] @ ''x'' @ [BACKSLASH, CHR '']''] @ '' b '' @
     [BACKSLASH, CHR ''[''] @ ''y'' @ [BACKSLASH, CHR '']''] @ '' c '' @ [BACKSLASH, CHR ''(''] @ ''z'' @ [BACKSLASH, CHR '')''])
   = ''a $x$ b $y$ c $z$''"
proof -
  let ?ps = "[''a '', [BACKSLASH, CHR ''[''], ''x'', [BACKSLASH, CHR '']''], '' b '', [BACKSLASH, CHR ''[''], ''y'',
    [BACKSLASH, CHR '']''], '' c '', [BACKSLASH, CHR ''(''], ''z'', [BACKSLASH, CHR '')'']]"
  have "list_all (\<lambda>p. BACKSLASH \<notin> set p \<or> (\<exists>c. c \<noteq> BACKSLASH \<and> p = [BACKSLASH, c])) ?ps"
    by (simp add: BACKSLASH_def)
  from math_display_inline [OF this] show ?thesis by simp
qed

text \<open>
  The renderer of the raw HTML of an answer is not given the
  sanitiser: an entry of a plugin list that is a list is one plugin with its options, so the
  entry that names \<open>rehypeSanitize\<close> is the plugin \<open>remarkGfm\<close>.
\<close>

lemma markdown_not_sanitized:
  assumes "\<And>p. plugin_of (Plugin p) = p" and "\<And>p options. plugin_of (Listed (p # options)) = p"
  shows "''rehypeRaw'' \<in> plugin_of ` set rehype_plugins \<and> ''rehypeSanitize'' \<notin> plugin_of ` set rehype_plugins"
  using assms by (simp add: rehype_plugins_def)

end
