(* ===== verification/App.thy ===== *)
theory App
  imports Pages JoinCommand ModelSelect NodeList Drawer ChatInput Markdown
begin

text \<open>
  \<^verbatim>\<open>App.tsx\<close>, \<^verbatim>\<open>services/host.tsx\<close>, \<^verbatim>\<open>hooks\<close>, \<^verbatim>\<open>pages/chat.tsx\<close> and
  \<^verbatim>\<open>components/common/main-layout.tsx\<close>: the two applications, the contexts their
  components read, and the two hooks the providers are built with.
\<close>

subsection \<open>Hooks\<close>

text \<open>\<open>useConst\<close>: the cell of the component and the value of this render; \<open>v\<close> is given as a value
  or as a function that is called for the first render only.\<close>

definition use_const :: "'a option \<Rightarrow> 'a + (unit \<Rightarrow> 'a) \<Rightarrow> 'a option \<times> 'a" where
  "use_const ref v =
     (case ref of
        Some x \<Rightarrow> (Some x, x)
      | None \<Rightarrow> (let x = (case v of Inl a \<Rightarrow> a | Inr f \<Rightarrow> f ()) in (Some x, x)))"

text \<open>\<open>useConstCallback\<close> keeps the first callback in the same way.\<close>

definition use_const_callback :: "('a \<Rightarrow> 'b) option \<Rightarrow> ('a \<Rightarrow> 'b) \<Rightarrow> ('a \<Rightarrow> 'b) option \<times> ('a \<Rightarrow> 'b)" where
  "use_const_callback ref callback =
     (case ref of Some f \<Rightarrow> (Some f, f) | None \<Rightarrow> (Some callback, callback))"

text \<open>\<open>useRefCallback\<close>: the reference to the latest callback, and the constant function that calls
  what the reference holds when it is called.\<close>

record ('a, 'b) ref_callback =
  rc_ref :: "('a \<Rightarrow> 'b) option"
  rc_const :: "(('a \<Rightarrow> 'b) option \<times> 'a \<Rightarrow> 'b option) option"

definition rc_start :: "('a, 'b) ref_callback" where
  "rc_start = \<lparr>rc_ref = None, rc_const = None\<rparr>"

definition invoke_ref :: "('a \<Rightarrow> 'b) option \<times> 'a \<Rightarrow> 'b option" where
  "invoke_ref p = (case fst p of None \<Rightarrow> None | Some f \<Rightarrow> Some (f (snd p)))"

definition use_ref_callback :: "('a \<Rightarrow> 'b) \<Rightarrow> ('a, 'b) ref_callback \<Rightarrow> ('a, 'b) ref_callback" where
  "use_ref_callback callback s =
     \<lparr>rc_ref = Some callback, rc_const = fst (use_const_callback (rc_const s) invoke_ref)\<rparr>"

definition call_ref_callback :: "('a, 'b) ref_callback \<Rightarrow> 'a \<Rightarrow> 'b option" where
  "call_ref_callback s x = (case rc_const s of None \<Rightarrow> None | Some f \<Rightarrow> f (rc_ref s, x))"

subsection \<open>Contexts\<close>

datatype app_context = Ctx_host | Ctx_cluster | Ctx_chat

definition use_context :: "string \<Rightarrow> string \<Rightarrow> 'a option \<Rightarrow> 'a js_result" where
  "use_context hook provider v =
     (case v of
        None \<Rightarrow> Inl (JsErr ''Error'' (hook @ '' must be used within a '' @ provider))
      | Some x \<Rightarrow> Inr x)"

definition use_host :: "'a option \<Rightarrow> 'a js_result" where
  "use_host v = use_context ''useHost'' ''HostProvider'' v"

definition use_cluster :: "'a option \<Rightarrow> 'a js_result" where
  "use_cluster v = use_context ''useCluster'' ''ClusterProvider'' v"

definition use_chat :: "'a option \<Rightarrow> 'a js_result" where
  "use_chat v = use_context ''useChat'' ''ChatProvider'' v"

definition host_provider :: "host_type \<Rightarrow> (string \<times> jval) list" where
  "host_provider t = [(''type'', JStr (case t of Host_cluster \<Rightarrow> ''cluster'' | Host_node \<Rightarrow> ''node''))]"

text \<open>The contexts a component reads, and the one a provider adds.\<close>

definition component_uses :: "string \<Rightarrow> app_context list" where
  "component_uses n =
     (case map_of
        [(''ClusterProvider'', [Ctx_host]), (''ChatProvider'', [Ctx_cluster]), (''MainRouter'', [Ctx_cluster]),
         (''PageSetup'', [Ctx_cluster]), (''PageJoin'', [Ctx_cluster]), (''DebugInfo'', [Ctx_cluster]),
         (''DrawerLayout'', [Ctx_host, Ctx_cluster]), (''JoinCommand'', [Ctx_cluster]),
         (''ModelSelect'', [Ctx_host, Ctx_cluster]), (''NodeList'', [Ctx_cluster, Ctx_chat]),
         (''ChatInput'', [Ctx_cluster, Ctx_chat]), (''ChatMessages'', [Ctx_chat]), (''ChatMessage'', [Ctx_chat])] n of
        None \<Rightarrow> [] | Some cs \<Rightarrow> cs)"

definition component_provides :: "string \<Rightarrow> app_context list" where
  "component_provides n =
     (case map_of [(''HostProvider'', [Ctx_host]), (''ClusterProvider'', [Ctx_cluster]), (''ChatProvider'', [Ctx_chat])] n of
        None \<Rightarrow> [] | Some cs \<Rightarrow> cs)"

subsection \<open>The applications\<close>

definition AppRoot_style :: "theme \<Rightarrow> jval" where
  "AppRoot_style t = JObj (spread (th t [''typography'', ''body2'']) @
     [(''color'', th t [''palette'', ''text'', ''primary'']),
      (''backgroundColor'', th t [''palette'', ''background'', ''default'']),
      (''width'', JStr ''100%''), (''height'', JStr ''100%''), (''display'', JStr ''flex''),
      (''flexFlow'', JStr ''column nowrap''), (''justifyContent'', JStr ''center''), (''alignItems'', JStr ''center'')])"

definition providers_view :: "(string \<times> jval) list \<Rightarrow> 'e ui \<Rightarrow> 'e ui" where
  "providers_view hostProps children =
     El ''StrictMode'' []
      [El ''HashRouter'' []
        [El ''ThemeProvider'' []
          [El ''CssBaseline'' [] [],
           El ''AppRoot'' []
            [El ''HostProvider'' (map (\<lambda>(k, v). (k, PV v)) hostProps)
              [El ''ClusterProvider'' [] [El ''ChatProvider'' [] [children]]]]]]]"

definition main_app :: "'e ui" where
  "main_app = providers_view (host_provider Host_cluster) (El ''MainRouter'' [] [])"

definition chat_app :: "'e ui" where
  "chat_app = providers_view (host_provider Host_node) (El ''ChatRouter'' [] [])"

definition page_chat :: "'e ui" where
  "page_chat = El ''DrawerLayout'' [] [El ''ChatMessages'' [] [], El ''ChatInput'' [] []]"

subsection \<open>The frame of the pages\<close>

definition MainLayoutRoot_style :: "theme \<Rightarrow> jval" where
  "MainLayoutRoot_style t = JObj [(''width'', JStr ''100%''), (''height'', JStr ''100%''), (''display'', JStr ''flex''),
     (''alignItems'', JStr ''center''), (''gap'', spacing t 3), (''padding'', spacing t 3), (''overflow'', JStr ''hidden''),
     (''backgroundColor'', th t [''palette'', ''grey'', ''100''])]"

definition MainLayoutHeader_style :: "theme \<Rightarrow> jval" where
  "MainLayoutHeader_style t = JObj [(''width'', JStr ''100%''), (''flex'', JStr ''none''),
     (''justifyContent'', JStr ''flex-start''), (''alignItems'', JStr ''center''), (''gap'', spacing t 1)]"

definition MainLayoutContainer_style :: jval where
  "MainLayoutContainer_style = JObj [(''position'', JStr ''relative''), (''flex'', JStr ''1''), (''width'', JStr ''100%''),
     (''display'', JStr ''flex''), (''flexFlow'', JStr ''column nowrap''), (''justifyContent'', JStr ''center''),
     (''alignItems'', JStr ''center''), (''overflowY'', JStr ''hidden'')]"

definition MainLayoutContent_style :: "theme \<Rightarrow> jval" where
  "MainLayoutContent_style t = JObj [(''width'', JStr ''31rem''), (''height'', JStr ''100%''), (''gap'', spacing t 7),
     (''paddingInline'', spacing t 1), (''overflowY'', JStr ''auto'')]"

definition MainLayoutStart_style :: "theme \<Rightarrow> jval" where
  "MainLayoutStart_style t = JObj [(''width'', JStr ''calc((100% - 30rem) / 2 - 4rem)''), (''height'', JStr ''100%''),
     (''overflow'', JStr ''auto''), (''position'', JStr ''absolute''), (''top'', JNum 0), (''left'', JStr ''2rem''),
     (''alignItems'', JStr ''flex-end''), (''gap'', spacing t 2)]"

definition MainLayoutEnd_style :: "theme \<Rightarrow> jval" where
  "MainLayoutEnd_style t = JObj [(''width'', JStr ''calc((100% - 30rem) / 2 - 4rem)''), (''height'', JStr ''100%''),
     (''overflow'', JStr ''auto''), (''position'', JStr ''absolute''), (''top'', JNum 0), (''right'', JStr ''2rem''),
     (''alignItems'', JStr ''flex-start''), (''gap'', spacing t 2)]"

text \<open>\<open>None\<close> for a part that is not given; \<open>contentEnd\<close> is the debug information by default.\<close>

definition main_layout_view :: "'e ui list \<Rightarrow> 'e ui option \<Rightarrow> 'e ui option \<Rightarrow> 'e ui" where
  "main_layout_view children contentStart contentEnd =
     El ''MainLayoutRoot'' []
      [El ''MainLayoutHeader'' [(''direction'', PS ''row'')] [El ''LogoGradient'' [] []],
       El ''MainLayoutContainer'' []
        [El ''MainLayoutContent'' [(''className'', PS ''MainLayoutContent'')] children,
         (case contentStart of None \<Rightarrow> Val JUndef | Some u \<Rightarrow> El ''MainLayoutStart'' [] [u]),
         (let c = (case contentEnd of None \<Rightarrow> El ''DebugInfo'' [] [] | Some u \<Rightarrow> u) in El ''MainLayoutEnd'' [] [c])]]"

text \<open>\<open>stringify\<close> is \<open>JSON.stringify\<close>.\<close>

definition render_record :: "(jval \<Rightarrow> string) \<Rightarrow> string \<Rightarrow> (string \<times> jval) list \<Rightarrow> 'e ui" where
  "render_record stringify title kvs =
     El ''Stack'' [(''gap'', PN 1)]
      (El ''Typography'' [(''variant'', PS ''subtitle2'')] [Txt title] #
       map (\<lambda>(k, v). El ''Typography'' [(''variant'', PS ''body2''), (''key'', PS k)]
              [Txt k, Txt '': '', Txt (stringify v)]) kvs)"

definition debug_link :: "string \<Rightarrow> string \<Rightarrow> 'e ui" where
  "debug_link path label = El ''Link'' [(''component'', PS ''RouterLink''), (''to'', PS path)] [Txt label]"

definition cluster_fields :: "cluster_info \<Rightarrow> (string \<times> jval) list" where
  "cluster_fields c = [(''id'', JStr (ci_id c)), (''status'', ci_status c), (''modelName'', ci_model_name c),
     (''modelInfo'', model_val (ci_model_info c)), (''nodeJoinCommand'', ci_join c),
     (''initNodesNumber'', ci_init_nodes c), (''needMoreNodes'', ci_more c)]"

definition debug_info_view :: "bool \<Rightarrow> (jval \<Rightarrow> string) \<Rightarrow> cluster \<Rightarrow> 'e ui" where
  "debug_info_view dev stringify cl =
     (if dev then
        El ''Stack'' [(''gap'', PN 4), (''data-debug-info'', PS ''true'')]
         [El ''Typography'' [(''variant'', PS ''subtitle1'')] [Txt ''Debug Info''],
          render_record stringify ''Init Parameters''
            [(''initNodesNumber'', json_number (cl_init_nodes cl)),
             (''networkType'', JStr (case cl_network cl of Local \<Rightarrow> ''local'' | Remote \<Rightarrow> ''remote'')),
             (''modelName'', cl_model_name cl)],
          render_record stringify ''Status Info'' (cluster_fields (cl_info cl)),
          El ''Stack'' []
           [debug_link ''/setup'' ''Setup'', debug_link ''/join'' ''Join'', debug_link ''/chat'' ''Chat'']]
      else Val JNull)"

subsection \<open>Facts\<close>

text \<open>The contexts available to the elements of a name, by the providers above them.\<close>

fun contexts_of :: "string \<Rightarrow> app_context list \<Rightarrow> 'e ui \<Rightarrow> app_context list list"
  and contexts_of_list :: "string \<Rightarrow> app_context list \<Rightarrow> 'e ui list \<Rightarrow> app_context list list" where
  "contexts_of n ctx (Val v) = []"
| "contexts_of n ctx (El m ps cs) =
     (if m = n then [ctx] else []) @ contexts_of_list n (component_provides m @ ctx) cs"
| "contexts_of_list n ctx [] = []"
| "contexts_of_list n ctx (c # cs) = contexts_of n ctx c @ contexts_of_list n ctx cs"

text \<open>Every component of a tree has the contexts it reads.\<close>

fun contexts_met :: "app_context list \<Rightarrow> 'e ui \<Rightarrow> bool"
  and contexts_met_list :: "app_context list \<Rightarrow> 'e ui list \<Rightarrow> bool" where
  "contexts_met ctx (Val v) = True"
| "contexts_met ctx (El m ps cs) =
     (set (component_uses m) \<subseteq> set ctx \<and> contexts_met_list (component_provides m @ ctx) cs)"
| "contexts_met_list ctx [] = True"
| "contexts_met_list ctx (c # cs) = (contexts_met ctx c \<and> contexts_met_list ctx cs)"

lemma all_contexts: "set cs \<subseteq> {Ctx_host, Ctx_cluster, Ctx_chat}"
  using app_context.exhaust by auto

lemma ref_callback_run:
  "cs \<noteq> [] \<Longrightarrow> fold use_ref_callback cs rc_start = \<lparr>rc_ref = Some (last cs), rc_const = Some invoke_ref\<rparr>"
proof (induction cs rule: rev_induct)
  case Nil
  then show ?case by simp
next
  case (snoc c cs)
  then show ?case
    by (cases "cs = []") (simp_all add: use_ref_callback_def use_const_callback_def rc_start_def)
qed

subsection \<open>Properties\<close>

text \<open>
  The function \<open>useRefCallback\<close> returns is the same in every render,
  and calling it calls the callback of the latest render.
\<close>

lemma ref_callback_latest:
  assumes "cs \<noteq> []"
  shows "rc_const (fold use_ref_callback cs rc_start) = rc_const (use_ref_callback (hd cs) rc_start) \<and>
    call_ref_callback (fold use_ref_callback cs rc_start) x = Some (last cs x)"
  using ref_callback_run [OF assms] ref_callback_run [of "[hd cs]"]
  by (simp add: call_ref_callback_def invoke_ref_def)

text \<open>
  In both applications every component finds the contexts it reads: the
  providers are nested in the order in which they use each other, and the router, and so every
  page and every component on a page, has all of them, so that no \<open>use...\<close> hook raises.
\<close>

lemma app_contexts:
  "contexts_met [] (main_app :: 'e ui) \<and> contexts_met [] (chat_app :: 'e ui) \<and>
   (\<forall>ctx \<in> set (contexts_of ''MainRouter'' [] (main_app :: 'e ui) @ contexts_of ''ChatRouter'' [] (chat_app :: 'e ui)).
      \<forall>n. set (component_uses n) \<subseteq> set ctx)"
proof -
  have "contexts_of ''MainRouter'' [] (main_app :: 'e ui) = [[Ctx_chat, Ctx_cluster, Ctx_host]]"
    "contexts_of ''ChatRouter'' [] (chat_app :: 'e ui) = [[Ctx_chat, Ctx_cluster, Ctx_host]]"
    by (simp_all add: main_app_def chat_app_def providers_view_def component_provides_def)
  moreover have "contexts_met [] (main_app :: 'e ui)" "contexts_met [] (chat_app :: 'e ui)"
    by (simp_all add: main_app_def chat_app_def providers_view_def component_provides_def component_uses_def)
  moreover have "set (component_uses n) \<subseteq> set [Ctx_chat, Ctx_cluster, Ctx_host]" for n
    using all_contexts [of "component_uses n"] by auto
  ultimately show ?thesis by simp
qed

end
