(* ===== verification/Style.thy ===== *)
theory Style
  imports Ui
begin

text \<open>
  How the theme describes the look of a component of the library: for each of its parts (slots) a
  list of rules and a list of variants, rules under a condition on the component's properties. A
  rule is a CSS property or a nested selector with the rules below it. The component's default
  properties stand beside them. Class names of the library, the URLs the bundler gives to assets
  and the decimal form of fractions are parameters, gathered with the theme in a \<open>kit\<close>.
\<close>

record kit = theme +
  digits :: "rat \<Rightarrow> string"
  classes :: "string \<Rightarrow> string \<Rightarrow> string"
  asset :: "string \<Rightarrow> string"

type_synonym css_rules = "(string \<times> jval) list"

text \<open>The condition of a variant: the properties it lists, or a function of the owner's state.\<close>

datatype matcher =
    When "(string \<times> jval) list"
  | Owner "(string \<Rightarrow> jval) \<Rightarrow> bool"

type_synonym variant_rules = "(matcher \<times> css_rules) list"

record slot_style =
  rules :: css_rules
  variants :: variant_rules

datatype overrides =
    Slots "(string \<times> slot_style) list"
  | Css string

record component_theme =
  theme_props :: "(string \<times> unit attr) list"
  overrides :: overrides
  own_variants :: variant_rules

text \<open>The template \<^verbatim>\<open>`${n}rem`\<close>.\<close>

definition rem :: "kit \<Rightarrow> rat \<Rightarrow> jval" where
  "rem k n = JStr (show_rat (digits k) n @ ''rem'')"

subsection \<open>Values without undefined parts\<close>

fun fully_defined :: "jval \<Rightarrow> bool" and all_defined :: "jval list \<Rightarrow> bool"
  and fields_defined :: "(string \<times> jval) list \<Rightarrow> bool" where
  "fully_defined JUndef = False"
| "fully_defined (JArr xs) = all_defined xs"
| "fully_defined (JObj kvs) = fields_defined kvs"
| "fully_defined v = True"
| "all_defined [] = True"
| "all_defined (x # xs) = (fully_defined x \<and> all_defined xs)"
| "fields_defined [] = True"
| "fields_defined ((k, v) # kvs) = (fully_defined v \<and> fields_defined kvs)"

definition variants_defined :: "variant_rules \<Rightarrow> bool" where
  "variants_defined vs = list_all (\<lambda>(m, rs). fields_defined rs) vs"

definition slot_defined :: "slot_style \<Rightarrow> bool" where
  "slot_defined s = (fields_defined (rules s) \<and> variants_defined (variants s))"

fun overrides_defined :: "overrides \<Rightarrow> bool" where
  "overrides_defined (Slots ss) = list_all (\<lambda>(n, s). slot_defined s) ss"
| "overrides_defined (Css s) = True"

definition component_defined :: "component_theme \<Rightarrow> bool" where
  "component_defined c = (overrides_defined (overrides c) \<and> variants_defined (own_variants c))"

lemma fields_defined_append [simp]: "fields_defined (xs @ ys) \<longleftrightarrow> fields_defined xs \<and> fields_defined ys"
  by (induction xs) auto

lemma fields_defined_spread [simp]: "fully_defined v \<Longrightarrow> fields_defined (spread v)"
  by (cases v) (auto simp: spread_def)

lemma fields_defined_get: "fields_defined kvs \<Longrightarrow> map_of kvs k = Some v \<Longrightarrow> fully_defined v"
  by (induction kvs) (auto split: if_splits)

lemma fully_defined_js_or [simp]: "fully_defined a \<Longrightarrow> fully_defined b \<Longrightarrow> fully_defined (js_or a b)"
  by (simp add: js_or_def)

lemma js_or_JUndef [simp]: "js_or JUndef b = b"
  by (simp add: js_or_def)

lemma fully_defined_js_and [simp]: "fully_defined a \<Longrightarrow> fully_defined b \<Longrightarrow> fully_defined (js_and a b)"
  by (simp add: js_and_def)

lemma fully_defined_rem [simp]: "fully_defined (rem k n)"
  by (simp add: rem_def)

lemma variants_defined_simps [simp]:
  "variants_defined []"
  "variants_defined ((m, rs) # vs) \<longleftrightarrow> fields_defined rs \<and> variants_defined vs"
  "variants_defined (vs @ ws) \<longleftrightarrow> variants_defined vs \<and> variants_defined ws"
  by (simp_all add: variants_defined_def)

lemma variants_defined_concat:
  "variants_defined (concat vss) \<longleftrightarrow> list_all variants_defined vss"
  by (induction vss) auto

lemma variants_defined_map:
  "(\<And>x. x \<in> set xs \<Longrightarrow> fields_defined (snd (f x))) \<Longrightarrow> variants_defined (map f xs)"
  by (auto simp: variants_defined_def list_all_iff split: prod.split) (metis snd_conv)

lemma slot_defined_simps [simp]:
  "slot_defined \<lparr>rules = rs, variants = vs\<rparr> \<longleftrightarrow> fields_defined rs \<and> variants_defined vs"
  by (simp add: slot_defined_def)

lemma component_defined_simps [simp]:
  "component_defined \<lparr>theme_props = ps, overrides = ov, own_variants = vs\<rparr> \<longleftrightarrow>
     overrides_defined ov \<and> variants_defined vs"
  by (simp add: component_defined_def)

subsection \<open>Which rules apply\<close>

text \<open>
  The library's choice of variants is a parameter \<open>applies\<close>; it documents that a variant applies
  when every property it lists has the listed value, or when its function accepts the owner.
\<close>

definition applies_by_props :: "(matcher \<Rightarrow> (string \<Rightarrow> jval) \<Rightarrow> bool) \<Rightarrow> bool" where
  "applies_by_props applies \<longleftrightarrow>
     (\<forall>ps owner. applies (When ps) owner \<longleftrightarrow> (\<forall>(x, v) \<in> set ps. owner x = v)) \<and>
     (\<forall>f owner. applies (Owner f) owner \<longleftrightarrow> f owner)"

definition variant_lookup ::
    "(matcher \<Rightarrow> (string \<Rightarrow> jval) \<Rightarrow> bool) \<Rightarrow> (string \<Rightarrow> jval) \<Rightarrow> slot_style \<Rightarrow> css_rules" where
  "variant_lookup applies owner s =
     rules s @ concat (map snd (filter (\<lambda>v. applies (fst v) owner) (variants s)))"

end
