(* ===== verification/Tokens.thy ===== *)
theory Tokens
  imports Style
begin

text \<open>
  The constants the look is made of: \<^verbatim>\<open>themes/components/constants.ts\<close>, \<^verbatim>\<open>themes/palette.ts\<close>,
  \<^verbatim>\<open>themes/typography.ts\<close>, \<^verbatim>\<open>themes/shadows.ts\<close>, and the options \<^verbatim>\<open>themes/index.tsx\<close> hands to
  the library's \<open>createTheme\<close>, with what is relied on of the theme it returns.
\<close>

subsection \<open>Sizes\<close>

definition INPUT_SIZE_REM_MAP :: "string \<Rightarrow> rat" where
  "INPUT_SIZE_REM_MAP s = (if s = ''small'' then 9/4 else if s = ''medium'' then 11/4 else 7/2)"

definition INPUT_SIZE_PADDING_REM_MAP :: "string \<Rightarrow> rat" where
  "INPUT_SIZE_PADDING_REM_MAP s = (if s = ''small'' then 3/4 else if s = ''medium'' then 1 else 5/4)"

definition INPUT_ICON_SIZE_REM_MAP :: "string \<Rightarrow> rat" where
  "INPUT_ICON_SIZE_REM_MAP s = (if s = ''small'' then 1 else if s = ''medium'' then 5/4 else 3/2)"

definition INPUT_RADIUS :: rat where "INPUT_RADIUS = 19/50"

subsection \<open>Palette\<close>

definition white :: jval where "white = JStr ''#ffffff''"
definition black :: jval where "black = JStr ''#000000''"

definition brand :: "(string \<times> jval) list" where
  "brand = [(''500'', JStr ''#05aa6c''), (''100'', JStr ''#cdeee4''), (''50'', JStr ''#dff0e7'')]"

definition grey :: "(string \<times> jval) list" where
  "grey = [(''50'', JStr ''#FAFAFA''), (''100'', JStr ''#F7F7F7''), (''200'', JStr ''#F1F1F1''),
     (''250'', JStr ''#e4e4e4''), (''300'', JStr ''#D6D6D6''), (''400'', JStr ''#BBBBBB''),
     (''500'', JStr ''#A0A0A0''), (''600'', JStr ''#858585''), (''700'', JStr ''#6A6969''),
     (''800'', JStr ''#4F4E4E''), (''900'', JStr ''#343333''), (''1000'', JStr ''#191818'')]"

definition red :: "(string \<times> jval) list" where
  "red = [(''100'', JStr ''#f5e5dd''), (''200'', JStr ''#efbcb3''), (''400'', JStr ''#f06a64''), (''500'', JStr ''#d92d20'')]"

definition orange :: "(string \<times> jval) list" where
  "orange = [(''100'', JStr ''#f5e9cf''), (''200'', JStr ''#e99f55''), (''500'', JStr ''#ec7804'')]"

definition green :: "(string \<times> jval) list" where
  "green = [(''100'', JStr ''#e0f0e2''), (''200'', JStr ''#b0dbc3''), (''500'', JStr ''#079455'')]"

text \<open>\<open>grey[900]!\<close>; the colour tables have no prototype entry of a numeric name.\<close>

definition tone :: "(string \<times> jval) list \<Rightarrow> string \<Rightarrow> jval" where
  "tone c n = obj_get c n"

definition palette :: jval where
  "palette = JObj [
     (''mode'', JStr ''light''),
     (''common'', JObj [(''white'', white), (''black'', black)]),
     (''grey'', JObj grey),
     (''primary'', JObj [(''main'', tone grey ''900''), (''darker'', tone grey ''1000''), (''dark'', tone grey ''1000''),
        (''light'', tone grey ''800''), (''lighter'', tone grey ''700''), (''contrastText'', tone grey ''100''),
        (''chip'', tone grey ''100''), (''chipText'', tone grey ''800'')]),
     (''secondary'', JObj [(''main'', tone grey ''100''), (''darker'', tone grey ''250''), (''dark'', tone grey ''200''),
        (''light'', tone grey ''200''), (''lighter'', tone grey ''300''), (''contrastText'', tone grey ''900''),
        (''chip'', tone brand ''100''), (''chipText'', tone brand ''500'')]),
     (''brand'', JObj [(''main'', tone brand ''500''), (''darker'', tone brand ''500''), (''dark'', tone brand ''500''),
        (''light'', tone brand ''500''), (''lighter'', tone brand ''50''), (''contrastText'', tone grey ''100''),
        (''chip'', tone brand ''100''), (''chipText'', tone brand ''500'')]),
     (''info'', JObj [(''main'', white), (''dark'', tone grey ''500''), (''darker'', tone grey ''250''),
        (''light'', tone grey ''100''), (''lighter'', tone grey ''100''), (''contrastText'', tone grey ''800''),
        (''chip'', tone grey ''200''), (''chipText'', tone grey ''800'')]),
     (''error'', JObj [(''main'', tone red ''500''), (''dark'', tone red ''500''), (''darker'', tone red ''500''),
        (''light'', tone red ''400''), (''lighter'', tone red ''100''), (''contrastText'', tone grey ''100''),
        (''chip'', tone red ''100''), (''chipText'', tone red ''500'')]),
     (''warning'', JObj [(''main'', tone orange ''500''), (''dark'', tone orange ''500''), (''darker'', tone orange ''500''),
        (''light'', tone orange ''500''), (''lighter'', tone orange ''100''), (''contrastText'', tone grey ''100''),
        (''chip'', tone orange ''100''), (''chipText'', tone orange ''500'')]),
     (''success'', JObj [(''main'', tone green ''500''), (''dark'', tone green ''500''), (''darker'', tone green ''500''),
        (''light'', tone green ''500''), (''lighter'', tone green ''100''), (''contrastText'', tone grey ''100''),
        (''chip'', tone red ''100''), (''chipText'', tone brand ''500'')]),
     (''text'', JObj [(''primary'', tone grey ''900''), (''secondary'', tone grey ''700''), (''disabled'', tone grey ''500'')]),
     (''divider'', tone grey ''250''),
     (''background'', JObj [(''default'', white), (''paper'', white), (''area'', tone grey ''200'')])]"

text \<open>The declarations: what a palette colour, the greys and the backgrounds must have as strings.\<close>

definition has_strings :: "string list \<Rightarrow> jval \<Rightarrow> bool" where
  "has_strings ks v = list_all (\<lambda>k. is_str (prop_of v k)) ks"

definition PaletteColor :: "string list" where
  "PaletteColor = [''light'', ''main'', ''dark'', ''contrastText'', ''darker'', ''lighter'', ''chip'', ''chipText'']"

definition Color_extra :: "string list" where "Color_extra = [''150'', ''250'', ''1000'']"

definition TypeBackground_extra :: "string list" where "TypeBackground_extra = [''area'']"

subsection \<open>Typography\<close>

definition HTML_FONT_SIZE :: rat where "HTML_FONT_SIZE = 16"

definition text_variant :: "string \<Rightarrow> rat \<Rightarrow> rat \<Rightarrow> jval" where
  "text_variant fontSize fontWeight lineHeight = JObj [(''fontSize'', JStr fontSize), (''fontStyle'', JStr ''normal''),
     (''fontWeight'', JNum fontWeight), (''lineHeight'', JNum lineHeight)]"

definition fontFamily :: "string list" where
  "fontFamily = [''Inter'', ''-apple-system'', ''BlinkMacSystemFont'', ''\"Segoe UI\"'', ''Roboto'',
     ''\"Helvetica Neue\"'', ''Arial'', ''sans-serif'', ''\"Apple Color Emoji\"'', ''\"Segoe UI Emoji\"'',
     ''\"Segoe UI Symbol\"'']"

definition typography :: jval where
  "typography = JObj [
     (''fontFamily'', JStr (join_with '','' fontFamily)),
     (''h1'', text_variant ''1.75rem'' 700 (3/2)),
     (''h2'', text_variant ''1.25rem'' 700 (3/2)),
     (''h3'', text_variant ''1rem'' 700 (3/2)),
     (''h4'', JUndef), (''h5'', JUndef), (''h6'', JUndef),
     (''subtitle1'', text_variant ''0.875rem'' 700 (15714285714285714/10000000000000000)),
     (''subtitle2'', text_variant ''0.8125rem'' 700 (15384615384615385/10000000000000000)),
     (''body1'', text_variant ''0.875rem'' 500 (15714285714285714/10000000000000000)),
     (''body2'', text_variant ''0.75rem'' 500 (3/2)),
     (''fontSize'', JNum 12),
     (''fontWeightLight'', JNum 400), (''fontWeightRegular'', JNum 400), (''fontWeightMedium'', JNum 500),
     (''fontWeightBold'', JNum 700),
     (''htmlFontSize'', JNum HTML_FONT_SIZE)]"

subsection \<open>Shadows\<close>

definition Overlays :: "string list" where
  "Overlays = [''shadowXSmall'', ''shadowSmall'', ''shadowMiddle'', ''shadowInput'', ''shadowInputActive'',
     ''shadowInputError'', ''buttonShadeDefault'', ''buttonShadeActiveLight'', ''buttonShadeActiveDark'',
     ''buttonShadeBrand'', ''buttonShadeError'', ''cardHover'']"

definition overlays :: jval where
  "overlays = JObj [
     (''shadowXSmall'', JStr ''0px 1px 2px 0px rgba(16, 24, 40, 0.05)''),
     (''shadowSmall'', JStr ''0px 1px 2px 0px rgba(49, 49, 48, 0.05)''),
     (''shadowMiddle'', JStr ''0px 8px 8px -4px rgba(52, 51, 51, 0.03), 0px 20px 24px -4px rgba(52, 51, 51, 0.08)''),
     (''shadowInput'', JStr ''none''),
     (''shadowInputActive'', JStr ''0px 0px 0px 4px rgba(49, 49, 48, 0.05), 0px 1px 2px 0px rgba(49, 49, 48, 0.05)''),
     (''shadowInputError'', JStr ''0px 0px 0px 4px rgba(221, 82, 76, 0.12), 0px 1px 2px 0px rgba(221, 82, 76, 0.05)''),
     (''buttonShadeDefault'', JStr ''0px 1px 2px 0px rgba(49, 49, 48, 0.05)''),
     (''buttonShadeActiveLight'', JStr ''0px 0px 0px 4px rgba(49, 49, 48, 0.05), 0px 1px 2px 0px rgba(49, 49, 48, 0.05)''),
     (''buttonShadeActiveDark'', JStr ''0px 0px 0px 4px rgba(49, 49, 48, 0.24), 0px 1px 2px 0px rgba(49, 49, 48, 0.32)''),
     (''buttonShadeBrand'', JStr ''0 1px 2px 0 rgba(7, 139, 89, 0.10), 0 0 0 4px rgba(7, 139, 89, 0.10)''),
     (''buttonShadeError'', JStr ''0px 0px 0px 4px rgba(221, 82, 76, 0.12), 0px 1px 2px 0px rgba(221, 82, 76, 0.05)''),
     (''cardHover'', JStr ''0px 4px 16px 0px rgba(160, 160, 160, 0.25)'')]"

subsection \<open>The theme's options\<close>

definition theme_options :: jval where
  "theme_options = JObj [(''palette'', palette), (''typography'', typography), (''overlays'', overlays)]"

definition theme_spacing :: "(rat \<Rightarrow> string) \<Rightarrow> rat \<Rightarrow> jval" where
  "theme_spacing shown factor = JStr (show_rat shown (factor * 8 / HTML_FONT_SIZE) @ ''rem'')"

text \<open>The value at a path; \<open>None\<close> where some property on the way is absent.\<close>

fun path_opt :: "jval \<Rightarrow> string list \<Rightarrow> jval option" where
  "path_opt v [] = Some v"
| "path_opt (JObj kvs) (k # ks) = (case map_of kvs k of None \<Rightarrow> None | Some w \<Rightarrow> path_opt w ks)"
| "path_opt v (k # ks) = None"

definition is_obj :: "jval \<Rightarrow> bool" where
  "is_obj v = (case v of JObj kvs \<Rightarrow> True | _ \<Rightarrow> False)"

text \<open>
  What the library documents of \<open>createTheme(options)\<close>: the theme has every plain value the
  options set, at the same path, computes \<open>spacing\<close> with the given function, and an object of the
  options, all of whose values are defined, is completed with the library's own defined values
  under other names.
\<close>

definition made_from :: "jval \<Rightarrow> kit \<Rightarrow> bool" where
  "made_from opts k \<longleftrightarrow>
     (\<forall>p v. path_opt opts p = Some v \<and> \<not> is_obj v \<longrightarrow> th k p = v) \<and>
     (\<forall>p kvs. path_opt opts p = Some (JObj kvs) \<and> fields_defined kvs \<longrightarrow>
        (\<exists>all. th k p = JObj all \<and> fields_defined all \<and>
           (\<forall>x v. map_of kvs x = Some v \<and> \<not> is_obj v \<longrightarrow> map_of all x = Some v))) \<and>
     (\<forall>f. spacing k f = theme_spacing (digits k) f)"

text \<open>The theme that has nothing but the options.\<close>

definition bare_kit :: "jval \<Rightarrow> (rat \<Rightarrow> string) \<Rightarrow> kit" where
  "bare_kit opts shown = \<lparr>th = (\<lambda>p. case path_opt opts p of None \<Rightarrow> JUndef | Some v \<Rightarrow> v),
     spacing = theme_spacing shown, digits = shown,
     classes = (\<lambda>c s. ''Mui'' @ c @ ''-'' @ s), asset = (\<lambda>f. ''/assets/'' @ f)\<rparr>"

lemma bare_kit_made: "made_from opts (bare_kit opts shown)"
  by (auto simp: made_from_def bare_kit_def)

lemma made_spacing [simp]: "made_from opts k \<Longrightarrow> spacing k f = theme_spacing (digits k) f"
  by (simp add: made_from_def)

lemma fully_defined_spacing [simp]: "fully_defined (theme_spacing shown f)"
  by (simp add: theme_spacing_def)

lemma made_plain: "made_from opts k \<Longrightarrow> path_opt opts p = Some v \<Longrightarrow> \<not> is_obj v \<Longrightarrow> th k p = v"
  by (simp add: made_from_def)

lemma made_prop:
  assumes "made_from opts k" "path_opt opts p = Some (JObj kvs)" "fields_defined kvs"
    "map_of kvs x = Some v" "\<not> is_obj v"
  shows "get_prop (th k p) x = Inr v"
proof -
  from assms obtain all where "th k p = JObj all" "map_of all x = Some v" unfolding made_from_def by blast
  then show ?thesis by (simp add: obj_get_def)
qed

definition sets_defined :: "jval \<Rightarrow> string list \<Rightarrow> bool" where
  "sets_defined opts p = (case path_opt opts p of None \<Rightarrow> False | Some v \<Rightarrow> fully_defined v)"

lemma made_defined: "made_from opts k \<Longrightarrow> sets_defined opts p \<Longrightarrow> fully_defined (th k p)"
proof -
  assume made: "made_from opts k" and "sets_defined opts p"
  then obtain v where v: "path_opt opts p = Some v" "fully_defined v"
    by (auto simp: sets_defined_def split: option.splits)
  show ?thesis
  proof (cases "is_obj v")
    case True
    then obtain kvs where "v = JObj kvs" by (cases v) (auto simp: is_obj_def)
    then show ?thesis using made v unfolding made_from_def by fastforce
  next
    case False
    then show ?thesis using made_plain [OF made v(1)] v(2) by simp
  qed
qed

text \<open>Every path a style of the front end reads, and that the options set it.\<close>

definition palette_reads :: "string list list" where
  "palette_reads = map (\<lambda>g. [''palette'', ''grey'', g]) (map fst grey) @
     concat (map (\<lambda>c. map (\<lambda>x. [''palette'', c, x]) PaletteColor)
       [''primary'', ''secondary'', ''brand'', ''info'', ''error'', ''warning'', ''success'']) @
     [[''palette'', ''text'', ''primary''], [''palette'', ''text'', ''secondary''], [''palette'', ''text'', ''disabled''],
      [''palette'', ''divider''], [''palette'', ''background'', ''default''], [''palette'', ''background'', ''area''],
      [''palette'', ''common'', ''white'']]"

definition typography_reads :: "string list list" where
  "typography_reads = map (\<lambda>x. [''typography'', x]) [''h1'', ''h2'', ''h3'', ''subtitle1'', ''subtitle2'', ''body1'', ''body2'',
       ''fontWeightLight'', ''fontWeightRegular'', ''fontWeightMedium'', ''fontWeightBold''] @
     concat (map (\<lambda>x. map (\<lambda>y. [''typography'', x, y]) [''fontSize'', ''fontWeight'', ''lineHeight''])
       [''h1'', ''h2'', ''h3'', ''subtitle1'', ''subtitle2'', ''body1'', ''body2''])"

definition overlay_reads :: "string list list" where
  "overlay_reads = map (\<lambda>x. [''overlays'', x]) Overlays"

lemma palette_set: "list_all (sets_defined theme_options) (take 32 palette_reads)"
    "list_all (sets_defined theme_options) (drop 32 palette_reads)"
  by code_simp+

lemma typography_set: "list_all (sets_defined theme_options) typography_reads"
  by code_simp

lemma overlays_set: "list_all (sets_defined theme_options) overlay_reads"
  by code_simp

lemma reads_set: "list_all (sets_defined theme_options) (palette_reads @ typography_reads @ overlay_reads)"
proof -
  have "list_all (sets_defined theme_options) (take 32 palette_reads @ drop 32 palette_reads)"
    using palette_set by (simp only: list_all_append)
  then show ?thesis using typography_set overlays_set by (simp only: append_take_drop_id list_all_append)
qed

lemma reads_defined:
  "made_from theme_options k \<Longrightarrow>
     list_all (\<lambda>p. fully_defined (th k p)) (palette_reads @ typography_reads @ overlay_reads)"
  using reads_set by (auto simp: list_all_iff intro: made_defined)

lemma palette_defined:
  "made_from theme_options k \<Longrightarrow> list_all (\<lambda>p. fully_defined (th k p)) palette_reads"
  "made_from theme_options k \<Longrightarrow> list_all (\<lambda>p. fully_defined (th k p)) typography_reads"
  "made_from theme_options k \<Longrightarrow> list_all (\<lambda>p. fully_defined (th k p)) overlay_reads"
  using reads_defined [of k] by simp_all

lemmas read_defined [simp] =
  palette_defined(1) [unfolded palette_reads_def grey_def PaletteColor_def, simplified list.map list_all_append list.pred_inject append.simps concat.simps prod.sel]
  palette_defined(2) [unfolded typography_reads_def, simplified list.map list_all_append list.pred_inject append.simps concat.simps prod.sel]
  palette_defined(3) [unfolded overlay_reads_def Overlays_def, simplified list.map list_all_append list.pred_inject append.simps concat.simps prod.sel]

end
