(* ===== verification/ButtonTheme.thy ===== *)
theory ButtonTheme
  imports Tokens
begin

text \<open>
  \<^verbatim>\<open>themes/components/form/button.ts\<close>: the styles of buttons. The variants are computed from the
  list of colours and the palette; each slot is a definition of its own.
\<close>

definition BUTTON_COLORS :: "string list" where
  "BUTTON_COLORS = [''brand'', ''primary'', ''secondary'', ''error'', ''info'', ''success'', ''warning'']"

definition BUTTON_SIZES :: "string list" where
  "BUTTON_SIZES = [''small'', ''medium'', ''large'']"

definition CONTAINED :: "string list" where
  "CONTAINED = [''contained'', ''containedRounded'', ''containedSquare'', ''containedCircle'']"

definition MIN_WIDTH_MULTIPLY :: rat where "MIN_WIDTH_MULTIPLY = 3 / (9/4)"

definition BUTTON_PADDING_INLINE_REM_MAP :: "string \<Rightarrow> rat" where
  "BUTTON_PADDING_INLINE_REM_MAP s = (if s = ''small'' then 7/8 else if s = ''medium'' then 9/8 else 3/2)"

definition colorShadowMap :: "kit \<Rightarrow> string \<Rightarrow> jval" where
  "colorShadowMap k c =
     (if c = ''primary'' then th k [''overlays'', ''buttonShadeActiveDark'']
      else if c = ''secondary'' then th k [''overlays'', ''buttonShadeActiveLight'']
      else if c = ''brand'' then th k [''overlays'', ''buttonShadeBrand'']
      else if c = ''error'' then th k [''overlays'', ''buttonShadeError'']
      else JUndef)"

definition containedBoxShadowVariants :: "kit \<Rightarrow> variant_rules" where
  "containedBoxShadowVariants k = concat (map (\<lambda>color. map (\<lambda>variant.
     (When [(''variant'', JStr variant), (''color'', JStr color)],
      [(''boxShadow'', th k [''overlays'', ''buttonShadeDefault'']),
       (''&:hover'', JObj [(''boxShadow'', th k [''overlays'', ''buttonShadeDefault''])]),
       (''&:active'', JObj [(''boxShadow'', js_or (colorShadowMap k color) (colorShadowMap k ''secondary''))]),
       (''&.Mui-disabled'', JObj [(''boxShadow'', th k [''overlays'', ''buttonShadeDefault''])])]))
     CONTAINED) BUTTON_COLORS)"

definition containedColorVariants :: "kit \<Rightarrow> variant_rules" where
  "containedColorVariants k = concat (map (\<lambda>color. map (\<lambda>variant.
     (When [(''variant'', JStr variant), (''color'', JStr color)],
      [(''color'', th k [''palette'', color, ''contrastText'']), (''border'', JStr ''1px solid''),
       (''borderColor'', th k [''palette'', color, ''darker'']),
       (''backgroundColor'', th k [''palette'', color, ''main'']),
       (''&:hover'', JObj [(''backgroundColor'', th k [''palette'', color, ''light''])]),
       (''&:active'', JObj [(''backgroundColor'', th k [''palette'', color, ''main''])]),
       (''&.Mui-disabled'', JObj [(''color'', th k [''palette'', ''text'', ''disabled'']),
          (''borderColor'', th k [''palette'', color, ''lighter'']),
          (''backgroundColor'', th k [''palette'', color, ''lighter''])])]))
     CONTAINED) BUTTON_COLORS)"

definition iconFontSizeVariants :: "kit \<Rightarrow> variant_rules" where
  "iconFontSizeVariants k = map (\<lambda>size. (When [(''size'', JStr size)],
     [(''&>*:nth-of-type(1)'', JObj [(''fontSize'', rem k (INPUT_ICON_SIZE_REM_MAP size))])])) BUTTON_SIZES"

definition MuiButton_root :: "kit \<Rightarrow> slot_style" where
  "MuiButton_root k =
     \<lparr>rules = [(''gap'', JStr ''0.25rem''), (''borderRadius'', rem k INPUT_RADIUS),
           (''fontWeight'', JNum 400), (''letterSpacing'', JNum 0), (''textTransform'', JStr ''none''),
           (''&.'' @ classes k ''Button'' ''text'',
              JObj [(''fontFamily'', JStr ''inherit''), (''fontWeight'', JStr ''inherit''),
                 (''fontSize'', JStr ''inherit''), (''lineHeight'', JStr ''inherit''),
                 (''color'', JStr ''inherit''), (''background'', JStr ''transparent''),
                 (''&:hover'', JObj [(''background'', JStr ''transparent'')])])],
        variants = containedBoxShadowVariants k @ containedColorVariants k\<rparr>"

definition MuiButton_startIcon :: "kit \<Rightarrow> slot_style" where
  "MuiButton_startIcon k =
     \<lparr>rules = [(''marginLeft'', JNum 0), (''marginRight'', JNum 0),
           (''& .tabler-icon'', JObj [(''width'', JStr ''1em''), (''height'', JStr ''1em'')])],
        variants = iconFontSizeVariants k\<rparr>"

definition MuiButton_endIcon :: "kit \<Rightarrow> slot_style" where
  "MuiButton_endIcon k =
     \<lparr>rules = [(''& .table-icon'', JObj [(''width'', JStr ''1em''), (''height'', JStr ''1em'')])],
        variants = iconFontSizeVariants k\<rparr>"

definition MuiButton_sizeSmall :: "kit \<Rightarrow> slot_style" where
  "MuiButton_sizeSmall k =
     \<lparr>rules = [(''minWidth'', rem k (INPUT_SIZE_REM_MAP ''small'' * MIN_WIDTH_MULTIPLY)),
           (''height'', rem k (INPUT_SIZE_REM_MAP ''small'')),
           (''fontSize'', th k [''typography'', ''subtitle2'', ''fontSize'']),
           (''lineHeight'', th k [''typography'', ''subtitle2'', ''lineHeight'']), (''padding'', JNum 0),
           (''paddingBlock'', JNum 0), (''paddingInline'', rem k (BUTTON_PADDING_INLINE_REM_MAP ''small'')),
           (''&.'' @ classes k ''Button'' ''text'',
              JObj [(''minWidth'', JNum 0), (''height'', JStr ''1lh''), (''paddingInline'', JNum 0)]),
           (''&.MuiButton-containedRounded'',
              JObj [(''borderRadius'', rem k (INPUT_SIZE_REM_MAP ''small'' / 2))]),
           (''&.MuiButton-containedSquare'',
              JObj [(''width'', rem k (INPUT_SIZE_REM_MAP ''small'')),
                 (''minWidth'', rem k (INPUT_SIZE_REM_MAP ''small'')),
                 (''maxWidth'', rem k (INPUT_SIZE_REM_MAP ''small'')), (''paddingInline'', JNum 0)]),
           (''&.MuiButton-containedCircle'',
              JObj [(''width'', rem k (INPUT_SIZE_REM_MAP ''small'')),
                 (''minWidth'', rem k (INPUT_SIZE_REM_MAP ''small'')),
                 (''maxWidth'', rem k (INPUT_SIZE_REM_MAP ''small'')), (''paddingInline'', JNum 0),
                 (''borderRadius'', JStr ''50%'')])], variants = []\<rparr>"

definition MuiButton_sizeMedium :: "kit \<Rightarrow> slot_style" where
  "MuiButton_sizeMedium k =
     \<lparr>rules = [(''minWidth'', rem k (INPUT_SIZE_REM_MAP ''medium'' * MIN_WIDTH_MULTIPLY)),
           (''height'', rem k (INPUT_SIZE_REM_MAP ''medium'')),
           (''fontSize'', th k [''typography'', ''h3'', ''fontSize'']),
           (''lineHeight'', th k [''typography'', ''h3'', ''lineHeight'']), (''padding'', JNum 0),
           (''paddingBlock'', JNum 0), (''paddingInline'', rem k (BUTTON_PADDING_INLINE_REM_MAP ''medium'')),
           (''&.'' @ classes k ''Button'' ''text'',
              JObj [(''minWidth'', JNum 0), (''height'', JStr ''1lh''), (''paddingInline'', JNum 0)]),
           (''&.MuiButton-containedRounded'',
              JObj [(''borderRadius'', rem k (INPUT_SIZE_REM_MAP ''medium'' / 2))]),
           (''&.MuiButton-containedSquare'',
              JObj [(''width'', rem k (INPUT_SIZE_REM_MAP ''medium'')),
                 (''minWidth'', rem k (INPUT_SIZE_REM_MAP ''medium'')),
                 (''maxWidth'', rem k (INPUT_SIZE_REM_MAP ''medium'')), (''paddingInline'', JNum 0)]),
           (''&.MuiButton-containedCircle'',
              JObj [(''width'', rem k (INPUT_SIZE_REM_MAP ''medium'')),
                 (''minWidth'', rem k (INPUT_SIZE_REM_MAP ''medium'')),
                 (''maxWidth'', rem k (INPUT_SIZE_REM_MAP ''medium'')), (''paddingInline'', JNum 0),
                 (''borderRadius'', JStr ''50%'')])], variants = []\<rparr>"

definition MuiButton_sizeLarge :: "kit \<Rightarrow> slot_style" where
  "MuiButton_sizeLarge k =
     \<lparr>rules = [(''minWidth'', rem k (INPUT_SIZE_REM_MAP ''large'' * MIN_WIDTH_MULTIPLY)),
           (''height'', rem k (INPUT_SIZE_REM_MAP ''large'')),
           (''fontSize'', th k [''typography'', ''h3'', ''fontSize'']),
           (''lineHeight'', th k [''typography'', ''h3'', ''lineHeight'']), (''padding'', JNum 0),
           (''paddingBlock'', JNum 0), (''paddingInline'', rem k (BUTTON_PADDING_INLINE_REM_MAP ''large'')),
           (''&.'' @ classes k ''Button'' ''text'',
              JObj [(''minWidth'', JNum 0), (''height'', JStr ''1lh''), (''paddingInline'', JNum 0)]),
           (''&.MuiButton-containedRounded'',
              JObj [(''borderRadius'', rem k (INPUT_SIZE_REM_MAP ''large'' / 2))]),
           (''&.MuiButton-containedSquare'',
              JObj [(''width'', rem k (INPUT_SIZE_REM_MAP ''large'')),
                 (''minWidth'', rem k (INPUT_SIZE_REM_MAP ''large'')),
                 (''maxWidth'', rem k (INPUT_SIZE_REM_MAP ''large'')), (''paddingInline'', JNum 0)]),
           (''&.MuiButton-containedCircle'',
              JObj [(''width'', rem k (INPUT_SIZE_REM_MAP ''large'')),
                 (''minWidth'', rem k (INPUT_SIZE_REM_MAP ''large'')),
                 (''maxWidth'', rem k (INPUT_SIZE_REM_MAP ''large'')), (''paddingInline'', JNum 0),
                 (''borderRadius'', JStr ''50%'')])], variants = []\<rparr>"

definition MuiButton :: "kit \<Rightarrow> component_theme" where
  "MuiButton k =
     \<lparr>theme_props = [(''size'', PS ''small''), (''variant'', PS ''contained''),
           (''disableRipple'', PV (JBool True))],
        overrides = Slots [(''root'', MuiButton_root k), (''startIcon'', MuiButton_startIcon k),
           (''endIcon'', MuiButton_endIcon k), (''sizeSmall'', MuiButton_sizeSmall k),
           (''sizeMedium'', MuiButton_sizeMedium k), (''sizeLarge'', MuiButton_sizeLarge k)],
        own_variants = []\<rparr>"

definition MuiButtonBase :: "kit \<Rightarrow> component_theme" where
  "MuiButtonBase k =
     \<lparr>theme_props = [(''disableRipple'', PV (JBool True))],
        overrides = Slots [(''root'',
              \<lparr>rules = [(''borderRadius'', JStr ''6px''), (''textTransform'', JStr ''none'')], variants = []\<rparr>)],
        own_variants = []\<rparr>"

definition MuiButtonGroup :: "kit \<Rightarrow> component_theme" where
  "MuiButtonGroup k =
     \<lparr>theme_props = [(''color'', PS ''primary''), (''variant'', PS ''contained''), (''size'', PS ''small'')],
        overrides = Slots [], own_variants = []\<rparr>"

definition MuiIconButton_root :: "kit \<Rightarrow> slot_style" where
  "MuiIconButton_root k =
     \<lparr>rules = [(''display'', JStr ''inline-flex''), (''justifyContent'', JStr ''center''),
           (''alignItems'', JStr ''center''), (''padding'', JNum 0), (''borderRadius'', rem k INPUT_RADIUS),
           (''textTransform'', JStr ''none''),
           (''&:hover'',
              JObj [(''backgroundColor'', th k [''palette'', ''grey'', ''200'']),
                 (''color'', th k [''palette'', ''grey'', ''800''])]),
           (''& .tabler-icon'', JObj [(''width'', JStr ''1em''), (''height'', JStr ''1em'')])],
        variants = [(When [(''size'', JStr ''mini'')],
              [(''width'', JStr ''1em''), (''height'', JStr ''1em''), (''fontSize'', JStr ''1rem''),
                 (''borderRadius'', JStr ''0.25rem'')]),
           (When [(''size'', JStr ''em'')],
              [(''width'', JStr ''1em''), (''height'', JStr ''1em''), (''fontSize'', JStr ''inherit''),
                 (''lineHeight'', JStr ''inherit''), (''borderRadius'', JStr ''0.25rem'')]),
           (When [(''size'', JStr ''lh'')],
              [(''width'', JStr ''1lh''), (''height'', JStr ''1lh''), (''fontSize'', JStr ''1lh''),
                 (''lineHeight'', JStr ''1lh''), (''borderRadius'', JStr ''0.25rem'')]),
           (When [(''color'', JStr ''primary'')], [(''color'', th k [''palette'', ''grey'', ''800''])]),
           (When [(''color'', JStr ''secondary'')], [(''color'', th k [''palette'', ''grey'', ''500''])]),
           (When [(''color'', JStr ''info'')], [(''color'', th k [''palette'', ''grey'', ''700''])])]\<rparr>"

definition MuiIconButton :: "kit \<Rightarrow> component_theme" where
  "MuiIconButton k =
     \<lparr>theme_props = [(''size'', PS ''mini''), (''color'', PS ''inherit'')],
        overrides = Slots [(''root'', MuiIconButton_root k),
           (''sizeSmall'',
              \<lparr>rules = [(''width'', rem k (INPUT_SIZE_REM_MAP ''small'')),
                    (''height'', rem k (INPUT_SIZE_REM_MAP ''small'')),
                    (''fontSize'', rem k (INPUT_ICON_SIZE_REM_MAP ''small''))], variants = []\<rparr>),
           (''sizeMedium'',
              \<lparr>rules = [(''width'', rem k (INPUT_SIZE_REM_MAP ''medium'')),
                    (''height'', rem k (INPUT_SIZE_REM_MAP ''medium'')),
                    (''fontSize'', rem k (INPUT_ICON_SIZE_REM_MAP ''medium''))], variants = []\<rparr>),
           (''sizeLarge'',
              \<lparr>rules = [(''width'', rem k (INPUT_SIZE_REM_MAP ''large'')),
                    (''height'', rem k (INPUT_SIZE_REM_MAP ''large'')),
                    (''fontSize'', rem k (INPUT_ICON_SIZE_REM_MAP ''large''))], variants = []\<rparr>)],
        own_variants = []\<rparr>"

subsection \<open>No style is undefined\<close>

lemma contained_variants_defined:
  "made_from theme_options k \<Longrightarrow> variants_defined (containedBoxShadowVariants k)"
  "made_from theme_options k \<Longrightarrow> variants_defined (containedColorVariants k)"
  "variants_defined (iconFontSizeVariants k)"
  by (simp_all add: containedBoxShadowVariants_def containedColorVariants_def iconFontSizeVariants_def
      BUTTON_COLORS_def CONTAINED_def BUTTON_SIZES_def colorShadowMap_def)

lemma button_theme_defined:
  assumes "made_from theme_options k"
  shows "component_defined (MuiButton k)" "component_defined (MuiButtonBase k)"
    "component_defined (MuiButtonGroup k)" "component_defined (MuiIconButton k)"
  using assms by (simp_all add: MuiButton_def MuiButtonBase_def MuiButtonGroup_def MuiIconButton_def
      MuiButton_root_def MuiButton_startIcon_def MuiButton_endIcon_def MuiButton_sizeSmall_def
      MuiButton_sizeMedium_def MuiButton_sizeLarge_def MuiIconButton_root_def contained_variants_defined)

end
