(* ===== verification/FormTheme.thy ===== *)
theory FormTheme
  imports Tokens
begin

text \<open>
  The styles of the other form components, \<^verbatim>\<open>themes/components/form/\<close>: labels, adornments, inputs,
  toggles, selects and sliders.
\<close>

definition INPUT_BASE_SIZES :: "string list" where "INPUT_BASE_SIZES = [''small'', ''medium'']"

definition sizeVariants :: "kit \<Rightarrow> variant_rules" where
  "sizeVariants k = concat (map (\<lambda>size.
     [(When [(''size'', JStr size)],
       [(''height'', rem k (INPUT_SIZE_REM_MAP size)), (''paddingInline'', rem k (INPUT_SIZE_PADDING_REM_MAP size))]),
      (When [(''size'', JStr size), (''multiline'', JBool True)],
       [(''height'', JStr ''auto''), (''paddingBlock'', rem k (INPUT_SIZE_PADDING_REM_MAP size))])]) INPUT_BASE_SIZES)"

definition SELECT_SIZES :: "string list" where "SELECT_SIZES = [''small'', ''medium'']"

text \<open>The icon of a select: the properties of its owner first, then its own.\<close>

definition SelectIcon :: "(string \<times> 'e attr) list \<Rightarrow> (string \<times> 'e attr) list \<Rightarrow> 'e ui" where
  "SelectIcon ownerState props = El ''IconButton'' (ownerState @ props) [El ''IconChevronDown'' [] []]"

definition Slider_Sizes :: "string list" where "Slider_Sizes = [''small'', ''medium'']"

text \<open>Unit rem.\<close>

record slider_size =
  thumb :: rat
  track :: rat
  rail :: rat
  slider_padding :: rat

definition SizeMaps :: "string \<Rightarrow> slider_size" where
  "SizeMaps s = (if s = ''small''
     then \<lparr>thumb = 3/4, track = 5/16, rail = 5/16, slider_padding = 1/8\<rparr>
     else \<lparr>thumb = 1, track = 5/8, rail = 5/8, slider_padding = 1/8\<rparr>)"

definition SLIDER_COLORS :: "string list" where
  "SLIDER_COLORS = [''brand'', ''primary'', ''secondary'', ''error'', ''info'', ''success'', ''warning'']"

text \<open>\<open>size.charAt(0).toUpperCase() + size.slice(1)\<close>, for the two sizes.\<close>

definition sizeClassKey :: "string \<Rightarrow> string" where
  "sizeClassKey s = ''&.MuiSlider-size'' @ (if s = ''small'' then ''Small'' else ''Medium'')"

definition sliderColorVariants :: "kit \<Rightarrow> variant_rules" where
  "sliderColorVariants k = concat (map (\<lambda>color. map (\<lambda>size.
     (When [(''color'', JStr color), (''size'', JStr size)],
      [(''color'', th k [''palette'', color, ''main'']),
       (''& .MuiSlider-thumb'', JObj [(''backgroundColor'', th k [''palette'', color, ''main'']),
          (''&.Mui-disabled'', JObj [(''backgroundColor'', th k [''palette'', ''grey'', ''250'']),
             (''&::before'', JObj [(''boxShadow'', JStr ''none'')])]),
          (''&:hover, &.Mui-focusVisible, &.Mui-active'',
             JObj [(''boxShadow'', JStr ''0px 0px 0px 0.25rem rgba(5, 170, 108, 0.16)'')])]),
       (sizeClassKey size, JObj [
          (''.MuiSlider-thumb'', JObj [(''width'', rem k (thumb (SizeMaps size))), (''height'', rem k (thumb (SizeMaps size)))]),
          (''.MuiSlider-track'', JObj [(''height'', rem k (track (SizeMaps size) - slider_padding (SizeMaps size) * 2)),
             (''marginLeft'', rem k (slider_padding (SizeMaps size)))]),
          (''.MuiSlider-rail'', JObj [(''height'', rem k (rail (SizeMaps size))),
             (''padding'', JStr (''0 '' @ show_rat (digits k) (slider_padding (SizeMaps size)) @ ''rem'')),
             (''backgroundColor'', th k [''palette'', ''grey'', ''250'']), (''opacity'', JNum 1)])])]))
     Slider_Sizes) SLIDER_COLORS)"

definition MuiFormControl :: "kit \<Rightarrow> component_theme" where
  "MuiFormControl k =
     \<lparr>theme_props = [],
        overrides = Slots [(''root'', \<lparr>rules = [(''gap'', JStr ''0.25rem'')], variants = []\<rparr>)],
        own_variants = []\<rparr>"

definition MuiFormLabel :: "kit \<Rightarrow> component_theme" where
  "MuiFormLabel k =
     \<lparr>theme_props = [],
        overrides = Slots [(''root'',
              \<lparr>rules = spread (th k [''typography'', ''subtitle2'']), variants = []\<rparr>)],
        own_variants = []\<rparr>"

definition MuiFormHelperText :: "kit \<Rightarrow> component_theme" where
  "MuiFormHelperText k =
     \<lparr>theme_props = [],
        overrides = Slots [(''root'',
              \<lparr>rules = [(''margin'', JNum 0)] @ spread (th k [''typography'', ''body2'']) @
                    [(''color'', th k [''palette'', ''text'', ''disabled''])], variants = []\<rparr>)],
        own_variants = []\<rparr>"

definition MuiInputLabel :: "kit \<Rightarrow> component_theme" where
  "MuiInputLabel k =
     \<lparr>theme_props = [(''shrink'', PV (JBool True)), (''variant'', PS ''outlined'')],
        overrides = Slots [(''root'',
              \<lparr>rules = [(''position'', JStr ''relative''), (''inset'', JStr ''unset''),
                    (''top'', JStr ''unset''), (''left'', JStr ''unset''), (''right'', JStr ''unset''),
                    (''bottom'', JStr ''unset''), (''transform'', JStr ''none''),
                    (''transformOrigin'', JStr ''unset''), (''maxWidth'', JStr ''unset'')] @
                    spread (th k [''typography'', ''body2'']) @ [(''color'',
                          th k [''palette'', ''text'', ''secondary'']),
                       (''backgroundColor'', JStr ''transparent'')], variants = []\<rparr>)],
        own_variants = []\<rparr>"

definition MuiInputAdornment :: "kit \<Rightarrow> component_theme" where
  "MuiInputAdornment k =
     \<lparr>theme_props = [],
        overrides = Slots [(''root'',
              \<lparr>rules = spread (th k [''typography'', ''body2'']) @ [(''color'',
                       th k [''palette'', ''text'', ''disabled''])],
                 variants = [(When [(''position'', JStr ''start'')], [(''marginRight'', JNum 0)]),
                    (When [(''position'', JStr ''end'')], [(''marginLeft'', JNum 0)])]\<rparr>)],
        own_variants = []\<rparr>"

definition MuiInputBase :: "kit \<Rightarrow> component_theme" where
  "MuiInputBase k =
     \<lparr>theme_props = [(''size'', PS ''small'')],
        overrides = Slots [(''root'',
              \<lparr>rules = [(''padding'', JNum 0),
                    (''borderRadius'', JStr (show_rat (digits k) (INPUT_RADIUS) @ ''rem !important'')),
                    (''gap'', spacing k 1)], variants = sizeVariants k\<rparr>),
           (''input'',
              \<lparr>rules = spread (th k [''typography'', ''body2'']) @ [(''color'',
                       th k [''palette'', ''text'', ''primary'']), (''padding'', JNum 0),
                    (''textAlign'', JStr ''start''),
                    (''&:placeholder'', JObj [(''color'', th k [''palette'', ''grey'', ''400''])])],
                 variants = [(When [(''type'', JStr ''number'')], [(''textAlign'', JStr ''end'')])]\<rparr>)],
        own_variants = []\<rparr>"

definition MuiOutlinedInput :: "kit \<Rightarrow> component_theme" where
  "MuiOutlinedInput k =
     \<lparr>theme_props = [(''size'', PS ''small'')],
        overrides = Slots [(''root'',
              \<lparr>rules = [(''backgroundColor'', th k [''palette'', ''background'', ''default'']),
                    (''boxShadow'', th k [''overlays'', ''shadowInput'']),
                    (''&:hover'', JObj [(''backgroundColor'', th k [''palette'', ''grey'', ''50''])]),
                    (''&.'' @ classes k ''OutlinedInput'' ''focused'',
                       JObj [(''boxShadow'', th k [''overlays'', ''shadowInputActive''])]),
                    (''&.'' @ classes k ''OutlinedInput'' ''disabled'',
                       JObj [(''&, &:hover'',
                             JObj [(''backgroundColor'', th k [''palette'', ''grey'', ''200''])])]),
                    (''&, &.'' @ classes k ''OutlinedInput'' ''focused'' @ '', &.'' @ classes k ''OutlinedInput'' ''disabled'',
                       JObj [(''&, &:hover'',
                             JObj [(''.'' @ classes k ''OutlinedInput'' ''notchedOutline'',
                                   JObj [(''borderWidth'', JNum 1),
                                      (''borderColor'', th k [''palette'', ''divider''])])])]),
                    (''&.'' @ classes k ''OutlinedInput'' ''error'',
                       JObj [(''boxShadow'', th k [''overlays'', ''shadowInputError'']),
                          (''&, &:hover'',
                             JObj [(''.'' @ classes k ''OutlinedInput'' ''notchedOutline'',
                                   JObj [(''borderWidth'', JNum 1),
                                      (''borderColor'', th k [''palette'', ''error'', ''main''])])])])],
                 variants = []\<rparr>),
           (''input'',
              \<lparr>rules = spread (th k [''typography'', ''body2'']) @ [(''color'',
                       th k [''palette'', ''text'', ''primary'']), (''padding'', JNum 0)], variants = []\<rparr>),
           (''notchedOutline'',
              \<lparr>rules = [(''top'', JNum 0), (''left'', JNum 0), (''right'', JNum 0), (''bottom'', JNum 0),
                    (''border'', JStr ''1px solid''), (''borderColor'', th k [''palette'', ''divider'']),
                    (''legend'', JObj [(''display'', JStr ''none'')])],
                 variants = [(When [(''disabled'', JBool True)],
                       [(''borderColor'', th k [''palette'', ''divider''])])]\<rparr>)], own_variants = []\<rparr>"

definition MuiTextField :: "kit \<Rightarrow> component_theme" where
  "MuiTextField k =
     \<lparr>theme_props = [(''size'', PS ''small''), (''variant'', PS ''outlined''),
           (''slotProps'', PO [(''input'', JObj []), (''inputLabel'', JObj [(''shrink'', JBool True)])])],
        overrides = Slots [(''root'', \<lparr>rules = [], variants = []\<rparr>)], own_variants = []\<rparr>"

definition MuiToggleButton :: "kit \<Rightarrow> component_theme" where
  "MuiToggleButton k =
     \<lparr>theme_props = [],
        overrides = Slots [(''root'',
              \<lparr>rules = spread (th k [''typography'', ''subtitle2'']) @ [(''flex'', JNum 1),
                    (''height'', rem k (INPUT_SIZE_REM_MAP ''small'')),
                    (''borderColor'', th k [''palette'', ''divider'']),
                    (''color'', th k [''palette'', ''grey'', ''400'']),
                    (''backgroundColor'', th k [''palette'', ''grey'', ''200'']),
                    (''&:hover'',
                       JObj [(''color'', th k [''palette'', ''text'', ''secondary'']),
                          (''backgroundColor'', th k [''palette'', ''background'', ''area'']),
                          (''@media (hover: none)'',
                             JObj [(''backgroundColor'', th k [''palette'', ''grey'', ''200''])])])],
                 variants = [(When [(''color'', JStr ''standard'')],
                       [(''&.'' @ classes k ''ToggleButton'' ''selected'',
                             JObj [(''color'', th k [''palette'', ''text'', ''primary'']),
                                (''backgroundColor'', th k [''palette'', ''background'', ''default'']),
                                (''&:hover'',
                                   JObj [(''backgroundColor'', th k [''palette'', ''background'', ''default'']),
                                      (''@media (hover: none)'',
                                         JObj [(''backgroundColor'',
                                               th k [''palette'', ''background'', ''default''])])])])])]\<rparr>)],
        own_variants = []\<rparr>"

definition MuiToggleButtonGroup :: "kit \<Rightarrow> component_theme" where
  "MuiToggleButtonGroup k =
     \<lparr>theme_props = [], overrides = Slots [(''root'', \<lparr>rules = [], variants = []\<rparr>)],
        own_variants = []\<rparr>"

definition MuiSelect :: "kit \<Rightarrow> component_theme" where
  "MuiSelect k =
     \<lparr>theme_props = [(''size'', PS ''small''), (''variant'', PS ''outlined''),
           (''IconComponent'', PS ''SelectIcon'')],
        overrides = Slots [(''root'', \<lparr>rules = [], variants = []\<rparr>),
           (''select'', \<lparr>rules = [], variants = []\<rparr>),
           (''icon'',
              \<lparr>rules = [(''top'', JStr ''50%''), (''transform'', JStr ''translateY(-50%)''),
                    (''color'', th k [''palette'', ''text'', ''disabled''])],
                 variants = [(Owner (\<lambda>p. truthy (p ''open'')),
                       [(''transform'', JStr ''translateY(-50%) rotate(180deg)'')])] @
                    map (\<lambda>size. (When [(''size'', JStr size)],
                          [(''right'', rem k (INPUT_SIZE_PADDING_REM_MAP size))])) SELECT_SIZES\<rparr>)],
        own_variants = []\<rparr>"

definition MuiSlider :: "kit \<Rightarrow> component_theme" where
  "MuiSlider k =
     \<lparr>theme_props = [(''size'', PS ''medium''), (''color'', PS ''brand'')],
        overrides = Slots [(''root'', \<lparr>rules = [(''paddingBottom'', JNum 0)], variants = []\<rparr>),
           (''thumb'',
              \<lparr>rules = [(''borderWidth'', JStr ''0.2rem''), (''borderStyle'', JStr ''solid''),
                    (''borderColor'', th k [''palette'', ''common'', ''white''])], variants = []\<rparr>)],
        own_variants = sliderColorVariants k\<rparr>"

subsection \<open>No style is undefined\<close>

lemma size_variants_defined: "variants_defined (sizeVariants k)"
  by (simp add: sizeVariants_def INPUT_BASE_SIZES_def)

lemma slider_variants_defined:
  "made_from theme_options k \<Longrightarrow> variants_defined (sliderColorVariants k)"
  by (simp add: sliderColorVariants_def SLIDER_COLORS_def Slider_Sizes_def)

lemma form_theme_defined:
  assumes "made_from theme_options k"
  shows "component_defined (MuiFormControl k)" "component_defined (MuiFormLabel k)"
    "component_defined (MuiFormHelperText k)" "component_defined (MuiInputLabel k)"
    "component_defined (MuiInputAdornment k)" "component_defined (MuiInputBase k)"
    "component_defined (MuiOutlinedInput k)" "component_defined (MuiTextField k)"
    "component_defined (MuiToggleButton k)" "component_defined (MuiToggleButtonGroup k)"
    "component_defined (MuiSelect k)" "component_defined (MuiSlider k)"
  using assms by (simp_all add: MuiFormControl_def MuiFormLabel_def MuiFormHelperText_def
      MuiInputLabel_def MuiInputAdornment_def MuiInputBase_def MuiOutlinedInput_def MuiTextField_def
      MuiToggleButton_def MuiToggleButtonGroup_def MuiSelect_def MuiSlider_def
      SELECT_SIZES_def size_variants_defined slider_variants_defined)

end
