(* ===== verification/DataTheme.thy ===== *)
theory DataTheme
  imports Tokens
begin

text \<open>
  The styles of what shows data, \<^verbatim>\<open>themes/components/data-display/\<close>, of surfaces and of menus,
  \<^verbatim>\<open>themes/components/surfaces/\<close> and \<^verbatim>\<open>themes/components/navigation/\<close>.
\<close>

definition CHIP_PADDING_INLINE_REM_MAP :: "string \<Rightarrow> rat" where
  "CHIP_PADDING_INLINE_REM_MAP s = (if s = ''small'' then 5/8 else 3/4)"

definition CHIP_RADIUS_REM_MAP :: "string \<Rightarrow> rat" where
  "CHIP_RADIUS_REM_MAP s = (if s = ''small'' then 3/8 else 1/4)"

definition CHIP_COLORS :: "string list" where
  "CHIP_COLORS = [''secondary'', ''info'', ''brand'', ''primary'', ''error'', ''success'', ''warning'']"

definition chipColorVariants :: "kit \<Rightarrow> variant_rules" where
  "chipColorVariants k = concat (map (\<lambda>color. map (\<lambda>variant.
     (When [(''variant'', JStr variant), (''color'', JStr color)],
      [(''backgroundColor'', th k [''palette'', color, ''chip'']), (''color'', th k [''palette'', color, ''chipText''])]))
     [''filled'', ''outlined'']) CHIP_COLORS)"

definition MuiChip :: "kit \<Rightarrow> component_theme" where
  "MuiChip k =
     \<lparr>theme_props = [(''variant'', PS ''filled'')],
        overrides = Slots [(''root'',
              \<lparr>rules = [(''fontWeight'', JNum 700), (''letterSpacing'', JNum 0),
                    (''textTransform'', JStr ''capitalize'')], variants = chipColorVariants k\<rparr>),
           (''deleteIcon'',
              \<lparr>rules = [(''marginLeft'', JStr ''0.375rem''), (''marginRight'', JNum 0),
                    (''color'', th k [''palette'', ''grey'', ''700'']),
                    (''&:hover'', JObj [(''color'', th k [''palette'', ''grey'', ''700''])])], variants = []\<rparr>),
           (''sizeSmall'',
              \<lparr>rules = [(''minWidth'', JStr ''auto''), (''height'', JStr ''1.625rem''),
                    (''paddingInline'', rem k (CHIP_PADDING_INLINE_REM_MAP ''small'')),
                    (''borderRadius'', rem k (CHIP_RADIUS_REM_MAP ''small'')),
                    (''.MuiChip-label'', JObj [(''padding'', JStr ''0 0'')]),
                    (''fontSize'', th k [''typography'', ''body2'', ''fontSize''])], variants = []\<rparr>),
           (''sizeMedium'',
              \<lparr>rules = [(''minWidth'', JStr ''auto''), (''height'', JStr ''1.375rem''),
                    (''paddingInline'', rem k (CHIP_PADDING_INLINE_REM_MAP ''medium'')),
                    (''borderRadius'', rem k (CHIP_RADIUS_REM_MAP ''medium'')),
                    (''.MuiChip-label'', JObj [(''padding'', JStr ''0 0'')])], variants = []\<rparr>)],
        own_variants = []\<rparr>"

definition MuiDivider :: "kit \<Rightarrow> component_theme" where
  "MuiDivider k =
     \<lparr>theme_props = [],
        overrides = Slots [(''root'',
              \<lparr>rules = [],
                 variants = [(When [(''variant'', JStr ''inset'')],
                       [(''margin'', JNum 0),
                          (''marginInlineStart'', rem k (INPUT_ICON_SIZE_REM_MAP ''small''))])]\<rparr>)],
        own_variants = []\<rparr>"

definition MuiList :: "kit \<Rightarrow> component_theme" where
  "MuiList k =
     \<lparr>theme_props = [(''disablePadding'', PV (JBool True))],
        overrides = Slots [(''root'',
              \<lparr>rules = spread (th k [''typography'', ''subtitle2'']) @ [(''fontWeight'',
                       th k [''typography'', ''fontWeightMedium'']),
                    (''color'', th k [''palette'', ''text'', ''primary'']), (''display'', JStr ''flex''),
                    (''flexFlow'', JStr ''column nowrap''), (''justifyContent'', JStr ''flex-start''),
                    (''alignItems'', JStr ''stretch''), (''gap'', spacing k (1/2))],
                 variants = [(Owner (\<lambda>p. \<not> truthy (p ''disablePadding'')),
                       [(''paddingTop'', spacing k 1), (''paddingBottom'', spacing k 1)])]\<rparr>)],
        own_variants = []\<rparr>"

definition MuiListItem :: "kit \<Rightarrow> component_theme" where
  "MuiListItem k =
     \<lparr>theme_props = [],
        overrides = Slots [(''root'',
              \<lparr>rules = [(''padding'', spacing k 1), (''gap'', spacing k (3/4))],
                 variants = [(When [(''disablePadding'', JBool True)], [(''paddingBlock'', JNum 0)])]\<rparr>)],
        own_variants = []\<rparr>"

definition MuiListItemButton :: "kit \<Rightarrow> component_theme" where
  "MuiListItemButton k =
     \<lparr>theme_props = [],
        overrides = Slots [(''root'',
              \<lparr>rules = [(''padding'', spacing k 1), (''gap'', spacing k (3/4)),
                    (''&:hover'', JObj [(''backgroundColor'', th k [''palette'', ''grey'', ''100''])])],
                 variants = []\<rparr>)], own_variants = []\<rparr>"

definition MuiListItemIcon :: "kit \<Rightarrow> component_theme" where
  "MuiListItemIcon k =
     \<lparr>theme_props = [],
        overrides = Slots [(''root'',
              \<lparr>rules = [(''fontSize'', rem k (INPUT_ICON_SIZE_REM_MAP ''small'')),
                    (''minWidth'', rem k (INPUT_ICON_SIZE_REM_MAP ''small'')),
                    (''color'', th k [''palette'', ''text'', ''secondary'']),
                    (''& .tabler-icon'', JObj [(''width'', JStr ''1em''), (''height'', JStr ''1em'')])],
                 variants = []\<rparr>)], own_variants = []\<rparr>"

definition MuiListItemText :: "kit \<Rightarrow> component_theme" where
  "MuiListItemText k =
     \<lparr>theme_props = [(''slotProps'',
              PO [(''primary'',
                    JObj [(''component'', JStr ''span''), (''variant'', JStr ''subtitle2''),
                       (''fontWeight'', JStr ''medium''), (''color'', JStr ''text.primary'')]),
                 (''secondary'',
                    JObj [(''component'', JStr ''span''), (''variant'', JStr ''body2''),
                       (''fontWeight'', JStr ''medium''), (''color'', JStr ''grey.600'')])])],
        overrides = Slots [(''root'',
              \<lparr>rules = [(''margin'', JNum 0)],
                 variants = [(When [(''inset'', JBool True)],
                       [(''padding'', JNum 0), (''paddingInlineStart'', spacing k 3)])]\<rparr>)],
        own_variants = []\<rparr>"

definition MuiListItemAvatar :: "kit \<Rightarrow> component_theme" where
  "MuiListItemAvatar k =
     \<lparr>theme_props = [], overrides = Slots [], own_variants = []\<rparr>"

definition MuiTableContainer :: "kit \<Rightarrow> component_theme" where
  "MuiTableContainer k =
     \<lparr>theme_props = [(''component'', PS ''Paper'')], overrides = Slots [], own_variants = []\<rparr>"

definition MuiTable :: "kit \<Rightarrow> component_theme" where
  "MuiTable k =
     \<lparr>theme_props = [], overrides = Slots [], own_variants = []\<rparr>"

definition MuiTableHead :: "kit \<Rightarrow> component_theme" where
  "MuiTableHead k =
     \<lparr>theme_props = [], overrides = Slots [(''root'', \<lparr>rules = [], variants = []\<rparr>)],
        own_variants = []\<rparr>"

definition MuiTableBody :: "kit \<Rightarrow> component_theme" where
  "MuiTableBody k =
     \<lparr>theme_props = [], overrides = Slots [(''root'', \<lparr>rules = [], variants = []\<rparr>)],
        own_variants = []\<rparr>"

definition MuiTableRow :: "kit \<Rightarrow> component_theme" where
  "MuiTableRow k =
     \<lparr>theme_props = [],
        overrides = Slots [(''root'',
              \<lparr>rules = [(''&:hover, &.'' @ classes k ''TableRow'' ''hover'' @ '':hover'',
                       JObj [(''backgroundColor'', th k [''palette'', ''grey'', ''100''])]),
                    (''&.'' @ classes k ''TableRow'' ''selected'',
                       JObj [(''backgroundColor'', th k [''palette'', ''grey'', ''50'']),
                          (''&:hover'', JObj [(''backgroundColor'', th k [''palette'', ''grey'', ''200''])])]),
                    (''&:last-child>.'' @ classes k ''TableCell'' ''body'', JObj [(''border'', JNum 0)])],
                 variants = []\<rparr>)], own_variants = []\<rparr>"

definition MuiTableCell :: "kit \<Rightarrow> component_theme" where
  "MuiTableCell k =
     \<lparr>theme_props = [],
        overrides = Slots [(''root'',
              \<lparr>rules = [(''padding'', JStr ''1rem''),
                    (''borderBottom'',
                       JStr (''1px solid '' @ js_text (digits k) (th k [''palette'', ''divider''])))],
                 variants = [(When [(''variant'', JStr ''head'')],
                       [(''backgroundColor'', th k [''palette'', ''background'', ''area''])]),
                    (Owner (\<lambda>p. truthy (p ''stickyHeader'')),
                       [(''backgroundColor'', th k [''palette'', ''background'', ''area''])])]\<rparr>)],
        own_variants = []\<rparr>"

definition MuiTableFooter :: "kit \<Rightarrow> component_theme" where
  "MuiTableFooter k =
     \<lparr>theme_props = [], overrides = Slots [], own_variants = []\<rparr>"

definition MuiTablePagination :: "kit \<Rightarrow> component_theme" where
  "MuiTablePagination k =
     \<lparr>theme_props = [], overrides = Slots [], own_variants = []\<rparr>"

definition MuiTablePaginationActions :: "kit \<Rightarrow> component_theme" where
  "MuiTablePaginationActions k =
     \<lparr>theme_props = [], overrides = Slots [], own_variants = []\<rparr>"

definition MuiTableSortLabel :: "kit \<Rightarrow> component_theme" where
  "MuiTableSortLabel k =
     \<lparr>theme_props = [], overrides = Slots [], own_variants = []\<rparr>"

definition MuiTypography :: "kit \<Rightarrow> component_theme" where
  "MuiTypography k =
     \<lparr>theme_props = [(''variant'', PS ''inherit''), (''color'', PS ''inherit''),
           (''variantMapping'', PO [(''pre'', JStr ''pre'')])],
        overrides = Slots [(''root'',
              \<lparr>rules = [(''flex'', JStr ''none'')],
                 variants = [(When [(''variant'', JStr ''pre'')],
                       [(''fontFamily'', JStr ''Geist Mono, monospace'')])]\<rparr>)], own_variants = []\<rparr>"

definition MuiMenu :: "kit \<Rightarrow> component_theme" where
  "MuiMenu k =
     \<lparr>theme_props = [(''slotProps'',
              PO [(''paper'', JObj [(''variant'', JStr ''overlay'')]),
                 (''backdrop'', JObj [(''invisible'', JBool True)])])],
        overrides = Slots [(''root'',
              \<lparr>rules = [(''& .'' @ classes k ''Divider'' ''root'', JObj [(''marginBlock'', spacing k (3/2))])],
                 variants = []\<rparr>),
           (''paper'', \<lparr>rules = [(''padding'', spacing k 1)], variants = []\<rparr>)],
        own_variants = []\<rparr>"

definition MuiMenuList :: "kit \<Rightarrow> component_theme" where
  "MuiMenuList k =
     \<lparr>theme_props = [], overrides = Slots [], own_variants = []\<rparr>"

definition MuiMenuItem :: "kit \<Rightarrow> component_theme" where
  "MuiMenuItem k =
     \<lparr>theme_props = [],
        overrides = Slots [(''root'',
              \<lparr>rules = [(''padding'', spacing k 1), (''gap'', spacing k (3/4)),
                    (''&:hover'', JObj [(''backgroundColor'', th k [''palette'', ''grey'', ''200''])]),
                    (''& + .'' @ classes k ''Divider'' ''root'',
                       JObj [(''margin'', JNum 0), (''marginBlock'', spacing k (3/2))]),
                    (''& .'' @ classes k ''Divider'' ''inset'',
                       JObj [(''margin'', JNum 0),
                          (''marginInline'', rem k (INPUT_ICON_SIZE_REM_MAP ''small''))]),
                    (''& .'' @ classes k ''ListItemIcon'' ''root'',
                       JObj [(''minWidth'', rem k (INPUT_ICON_SIZE_REM_MAP ''small''))])], variants = []\<rparr>)],
        own_variants = []\<rparr>"

definition MuiPaper :: "kit \<Rightarrow> component_theme" where
  "MuiPaper k =
     \<lparr>theme_props = [(''variant'', PS ''outlined'')],
        overrides = Slots [(''root'',
              \<lparr>rules = [],
                 variants = [(Owner (\<lambda>p. \<not> truthy (p ''square'')),
                       [(''borderRadius'', JStr ''0.75rem'')]),
                    (When [(''variant'', JStr ''outlined'')],
                       [(''border'',
                             JStr (''1px solid '' @ js_text (digits k) (th k [''palette'', ''divider''])))]),
                    (When [(''variant'', JStr ''overlay'')],
                       [(''border'',
                             JStr (''1px solid '' @ js_text (digits k) (th k [''palette'', ''divider'']))),
                          (''boxShadow'', th k [''overlays'', ''shadowMiddle''])])]\<rparr>)],
        own_variants = []\<rparr>"

subsection \<open>No style is undefined\<close>

lemma chip_variants_defined:
  "made_from theme_options k \<Longrightarrow> variants_defined (chipColorVariants k)"
  by (simp add: chipColorVariants_def CHIP_COLORS_def)

lemma data_theme_defined:
  assumes "made_from theme_options k"
  shows "component_defined (MuiChip k)" "component_defined (MuiDivider k)"
    "component_defined (MuiList k)" "component_defined (MuiListItem k)"
    "component_defined (MuiListItemButton k)" "component_defined (MuiListItemIcon k)"
    "component_defined (MuiListItemText k)" "component_defined (MuiListItemAvatar k)"
    "component_defined (MuiTableContainer k)" "component_defined (MuiTable k)"
    "component_defined (MuiTableHead k)" "component_defined (MuiTableBody k)"
    "component_defined (MuiTableRow k)" "component_defined (MuiTableCell k)"
    "component_defined (MuiTableFooter k)" "component_defined (MuiTablePagination k)"
    "component_defined (MuiTablePaginationActions k)" "component_defined (MuiTableSortLabel k)"
    "component_defined (MuiTypography k)" "component_defined (MuiMenu k)"
    "component_defined (MuiMenuList k)" "component_defined (MuiMenuItem k)"
    "component_defined (MuiPaper k)"
  using assms by (simp_all add: MuiChip_def MuiDivider_def MuiList_def MuiListItem_def
      MuiListItemButton_def MuiListItemIcon_def MuiListItemText_def MuiListItemAvatar_def
      MuiTableContainer_def MuiTable_def MuiTableHead_def MuiTableBody_def MuiTableRow_def
      MuiTableCell_def MuiTableFooter_def MuiTablePagination_def MuiTablePaginationActions_def
      MuiTableSortLabel_def MuiTypography_def MuiMenu_def MuiMenuList_def MuiMenuItem_def
      MuiPaper_def chip_variants_defined)

end
