(* ===== verification/FeedbackTheme.thy ===== *)
theory FeedbackTheme
  imports Tokens
begin

text \<open>
  The styles of what reports to the user, \<^verbatim>\<open>themes/components/feedback/\<close>: alerts, backdrops, dialogs,
  progress bars and snackbars.
\<close>

definition ALERT_COLORS :: "string list" where
  "ALERT_COLORS = [''error'', ''warning'', ''info'', ''success'']"

definition PROGRESS_COLORS :: "string list" where
  "PROGRESS_COLORS = [''primary'', ''secondary'', ''brand'', ''info'', ''error'', ''success'', ''warning'']"

definition alertVariants :: "kit \<Rightarrow> variant_rules" where
  "alertVariants k =
     map (\<lambda>color. (When [(''variant'', JStr ''outlined''), (''severity'', JStr color)],
       [(''color'', th k [''palette'', ''text'', ''secondary'']),
        (''backgroundColor'', th k [''palette'', ''background'', ''default'']),
        (''borderColor'', th k [''palette'', ''divider''])])) ALERT_COLORS @
     map (\<lambda>color. (When [(''variant'', JStr ''standard''), (''severity'', JStr color)],
       [(''alignItems'', JStr ''flex-start''), (''gap'', spacing k (1/2)),
        (''color'', js_or (js_and (JBool (color = ''info'')) (th k [''palette'', ''text'', ''disabled'']))
           (th k [''palette'', color, ''main''])),
        (''backgroundColor'', js_or (js_and (JBool (color = ''info'')) (th k [''palette'', ''background'', ''area'']))
           (th k [''palette'', color, ''lighter''])),
        (''border'', JStr ''none''),
        (''& .'' @ classes k ''Alert'' ''icon'', JObj [(''color'', JStr ''inherit'')])])) ALERT_COLORS @
     [(When [(''variant'', JStr ''notification'')],
       [(''flexWrap'', JStr ''wrap''), (''justifyContent'', JStr ''space-between''), (''gap'', JNum 0),
        (''padding'', JNum 0), (''paddingBlock'', JNum 0), (''paddingInline'', JNum 0), (''alignItems'', JStr ''stretch'')])]"

definition MuiAlertTitle :: "kit \<Rightarrow> component_theme" where
  "MuiAlertTitle k =
     \<lparr>theme_props = [],
        overrides = Slots [(''root'',
              \<lparr>rules = spread (th k [''typography'', ''subtitle1'']) @ [(''padding'', JNum 0),
                    (''margin'', JNum 0), (''color'', th k [''palette'', ''text'', ''primary''])],
                 variants = []\<rparr>)], own_variants = []\<rparr>"

definition MuiAlert_root :: "kit \<Rightarrow> slot_style" where
  "MuiAlert_root k =
     \<lparr>rules = spread (th k [''typography'', ''subtitle2'']) @ [(''fontWeight'',
              th k [''typography'', ''fontWeightRegular'']), (''flex'', JStr ''none''),
           (''position'', JStr ''relative''), (''display'', JStr ''flex''),
           (''flexFlow'', JStr ''row nowrap''), (''justifyContent'', JStr ''flex-start''),
           (''justifyItems'', JStr ''flex-start''), (''alignItems'', JStr ''center''),
           (''gap'', JStr ''0.75rem''), (''padding'', JNum 0), (''paddingBlock'', JStr ''0.75rem''),
           (''paddingInline'', JStr ''0.75rem 1.25rem''), (''overflow'', JStr ''hidden'')],
        variants = alertVariants k\<rparr>"

definition MuiAlert_icon :: "kit \<Rightarrow> slot_style" where
  "MuiAlert_icon k =
     \<lparr>rules = [(''fontSize'', JStr ''inherit''), (''lineHeight'', JStr ''inherit''),
           (''flex'', JStr ''none''), (''width'', JStr ''1em''), (''height'', JStr ''1lh''),
           (''display'', JStr ''inline-flex''), (''alignItems'', JStr ''center''), (''marginRight'', JNum 0),
           (''padding'', JNum 0),
           (''& .tabler-icon'', JObj [(''width'', JStr ''1em''), (''height'', JStr ''1em'')])],
        variants = [(When [(''variant'', JStr ''notification'')],
              [(''order'', JNum 1), (''padding'', JStr ''1rem'')])]\<rparr>"

definition MuiAlert_message :: "kit \<Rightarrow> slot_style" where
  "MuiAlert_message k =
     \<lparr>rules = [(''flex'', JNum 1), (''display'', JStr ''inline-flex''),
           (''flexFlow'', JStr ''column nowrap''), (''justifyContent'', JStr ''flex-start''),
           (''alignItems'', JStr ''stretch''), (''gap'', JStr ''0.25rem''), (''padding'', JNum 0),
           (''margin'', JNum 0)],
        variants = [(When [(''variant'', JStr ''notification'')],
              [(''order'', JNum 3), (''flex'', JStr ''2 0 100%''), (''padding'', JStr ''0 1rem 1rem'')])]\<rparr>"

definition MuiAlert_action :: "kit \<Rightarrow> slot_style" where
  "MuiAlert_action k =
     \<lparr>rules = [(''flex'', JStr ''none''), (''display'', JStr ''inline-flex''),
           (''flexFlow'', JStr ''row nowrap''), (''alignItems'', JStr ''center''),
           (''justifyContent'', JStr ''flex-end''), (''gap'', JStr ''0.75rem''), (''padding'', JNum 0),
           (''margin'', JNum 0), (''marginInlineStart'', JStr ''auto''),
           (''color'', th k [''palette'', ''grey'', ''700''])],
        variants = [(When [(''variant'', JStr ''notification'')],
              [(''order'', JNum 2), (''padding'', JStr ''1rem'')])]\<rparr>"

definition MuiAlert :: "kit \<Rightarrow> component_theme" where
  "MuiAlert k =
     \<lparr>theme_props = [(''variant'', PS ''standard''),
           (''iconMapping'',
              PR [(''info'', PU (El ''IconInfoCircle'' [] [])),
                 (''success'', PU (El ''IconCircleCheck'' [] [])),
                 (''warning'', PU (El ''IconAlertCircle'' [] [])),
                 (''error'', PU (El ''IconAlertCircle'' [] []))]),
           (''slots'', PR [(''closeIcon'', PU (El ''IconX'' [(''fontSize'', PS ''1.25rem'')] []))]),
           (''slotProps'', PO [(''root'', JObj [(''variant'', JStr ''outlined'')])])],
        overrides = Slots [(''root'', MuiAlert_root k), (''icon'', MuiAlert_icon k),
           (''message'', MuiAlert_message k), (''action'', MuiAlert_action k)], own_variants = []\<rparr>"

definition MuiBackdrop :: "kit \<Rightarrow> component_theme" where
  "MuiBackdrop k =
     \<lparr>theme_props = [],
        overrides = Slots [(''root'',
              \<lparr>rules = [(''backgroundColor'', JStr ''rgba(25, 24, 24, 0.5)'')],
                 variants = [(When [(''invisible'', JBool True)],
                       [(''backgroundColor'', JStr ''transparent'')])]\<rparr>)], own_variants = []\<rparr>"

definition MuiDialogActions :: "kit \<Rightarrow> component_theme" where
  "MuiDialogActions k =
     \<lparr>theme_props = [],
        overrides = Slots [(''root'',
              \<lparr>rules = [(''padding'', JStr ''1rem''),
                    (''.'' @ classes k ''DialogContent'' ''root'' @ '':not(.'' @ classes k ''DialogContent'' ''dividers'' @ '') + &'',
                       JObj [(''marginTop'', JStr ''-0.25rem'')])],
                 variants = [(Owner (\<lambda>p. \<not> truthy (p ''disableSpacing'')),
                       [(''& > :not(style) ~ :not(style)'', JObj [(''marginLeft'', JNum 0)])])]\<rparr>)],
        own_variants = []\<rparr>"

definition MuiDialogTitle :: "kit \<Rightarrow> component_theme" where
  "MuiDialogTitle k =
     \<lparr>theme_props = [],
        overrides = Slots [(''root'',
              \<lparr>rules = [(''display'', JStr ''flex''), (''flexFlow'', JStr ''row nowrap''),
                    (''justifyContent'', JStr ''space-between''), (''alignContent'', JStr ''flex-start''),
                    (''alignItems'', JStr ''center''), (''gap'', JStr ''0.75rem''),
                    (''padding'', JStr ''1rem'')] @ spread (th k [''typography'', ''subtitle1'']),
                 variants = []\<rparr>)], own_variants = []\<rparr>"

definition MuiDialogContent :: "kit \<Rightarrow> component_theme" where
  "MuiDialogContent k =
     \<lparr>theme_props = [],
        overrides = Slots [(''root'',
              \<lparr>rules = [(''display'', JStr ''flex''), (''flexFlow'', JStr ''column nowrap''),
                    (''justifyContent'', JStr ''flex-start''), (''alignItems'', JStr ''stretch''),
                    (''gap'', JStr ''0.5rem''), (''padding'', JStr ''1rem'')],
                 variants = [(Owner (\<lambda>p. truthy (p ''dividers'')),
                       [(''padding'', JStr ''1rem''),
                          (''borderTop'',
                             JStr (''1px solid '' @ js_text (digits k) (th k [''palette'', ''divider'']))),
                          (''borderBottom'',
                             JStr (''1px solid '' @ js_text (digits k) (th k [''palette'', ''divider''])))]),
                    (Owner (\<lambda>p. \<not> truthy (p ''dividers'')),
                       [(''.'' @ classes k ''DialogTitle'' ''root'' @ '' + &'',
                             JObj [(''paddingTop'', JNum 0)]),
                          (''& + &'', JObj [(''paddingTop'', JNum 0), (''marginTop'', JStr ''-0.25rem'')])])]\<rparr>)],
        own_variants = []\<rparr>"

definition MuiDialogContentText :: "kit \<Rightarrow> component_theme" where
  "MuiDialogContentText k =
     \<lparr>theme_props = [(''component'', PS ''Stack'')],
        overrides = Slots [(''root'',
              \<lparr>rules = [(''gap'', spacing k 1), (''color'', th k [''palette'', ''text'', ''primary''])] @
                    spread (th k [''typography'', ''body2'']), variants = []\<rparr>)], own_variants = []\<rparr>"

definition MuiDialog :: "kit \<Rightarrow> component_theme" where
  "MuiDialog k =
     \<lparr>theme_props = [(''slotProps'',
              PO [(''paper'',
                    JObj [(''variant'', JStr ''overlay''),
                       (''style'',
                          JObj [(''backgroundColor'', th k [''palette'', ''background'', ''default''])])])])],
        overrides = Slots [(''root'', \<lparr>rules = [], variants = []\<rparr>)], own_variants = []\<rparr>"

definition MuiLinearProgress :: "kit \<Rightarrow> component_theme" where
  "MuiLinearProgress k =
     \<lparr>theme_props = [],
        overrides = Slots [(''root'',
              \<lparr>rules = [(''height'', JStr ''0.375rem''), (''borderRadius'', JStr ''0.1875rem'')],
                 variants = map (\<lambda>color. (When [(''color'', JStr color)],
                       [(''backgroundColor'', th k [''palette'', ''grey'', ''300''])])) PROGRESS_COLORS\<rparr>),
           (''bar1'',
              \<lparr>rules = [],
                 variants = map (\<lambda>color. (When [(''color'', JStr color)],
                       [(''backgroundColor'',
                             (if color = ''inherit'' then JStr ''currentColor'' else th k [''palette'', color,
                                   ''main'']))])) PROGRESS_COLORS\<rparr>)], own_variants = []\<rparr>"

definition MuiSnackbarContent :: "kit \<Rightarrow> component_theme" where
  "MuiSnackbarContent k =
     \<lparr>theme_props = [(''variant'', PS ''overlay'')],
        overrides = Slots [(''root'',
              \<lparr>rules = spread (th k [''typography'', ''subtitle1'']) @ [(''color'',
                       th k [''palette'', ''text'', ''primary'']),
                    (''backgroundColor'', th k [''palette'', ''background'', ''default'']),
                    (''padding'', JNum 0)], variants = []\<rparr>),
           (''message'', \<lparr>rules = [(''padding'', JNum 0)], variants = []\<rparr>)], own_variants = []\<rparr>"

definition MuiSnackbar :: "kit \<Rightarrow> component_theme" where
  "MuiSnackbar k =
     \<lparr>theme_props = [(''anchorOrigin'',
              PO [(''vertical'', JStr ''bottom''), (''horizontal'', JStr ''right'')])],
        overrides = Slots [(''root'', \<lparr>rules = [], variants = []\<rparr>)], own_variants = []\<rparr>"

subsection \<open>No style is undefined\<close>

lemma feedback_theme_defined:
  assumes "made_from theme_options k"
  shows "component_defined (MuiAlertTitle k)" "component_defined (MuiAlert k)"
    "component_defined (MuiBackdrop k)" "component_defined (MuiDialogActions k)"
    "component_defined (MuiDialogTitle k)" "component_defined (MuiDialogContent k)"
    "component_defined (MuiDialogContentText k)" "component_defined (MuiDialog k)"
    "component_defined (MuiLinearProgress k)" "component_defined (MuiSnackbarContent k)"
    "component_defined (MuiSnackbar k)"
  using assms by (simp_all add: MuiAlertTitle_def MuiAlert_def MuiBackdrop_def MuiDialogActions_def
      MuiDialogTitle_def MuiDialogContent_def MuiDialogContentText_def MuiDialog_def
      MuiLinearProgress_def MuiSnackbarContent_def MuiSnackbar_def MuiAlert_root_def
      MuiAlert_icon_def MuiAlert_message_def MuiAlert_action_def
      alertVariants_def ALERT_COLORS_def PROGRESS_COLORS_def)

end
