(* ===== verification/Notification.thy ===== *)
theory Notification
  imports Ui
begin

text \<open>
  \<^verbatim>\<open>components/mui/alert/notification.tsx\<close>: an alert with an optional countdown, driven by
  animation frames. \<open>cd_start\<close> is the time of the first frame, \<open>None\<close> before it; the code tests
  it for falsity, so a start time of zero counts as none. \<open>cd_running\<close> says that a frame is
  requested.
\<close>

definition Compensation :: rat where "Compensation = 150"

record countdown =
  cd_start :: "rat option"
  cd_progress :: int
  cd_running :: bool

text \<open>The effect of a mount with a duration.\<close>

definition countdown_mount :: "rat \<Rightarrow> countdown" where
  "countdown_mount autoHideDuration =
     \<lparr>cd_start = None, cd_progress = 0, cd_running = (autoHideDuration > 0)\<rparr>"

definition frame_progress :: "rat \<Rightarrow> rat \<Rightarrow> rat \<Rightarrow> int" where
  "frame_progress autoHideDuration startTime currentTime =
     min 100 \<lceil>(currentTime + Compensation - startTime) / (autoHideDuration / 100)\<rceil>"

definition countdown_frame :: "rat \<Rightarrow> countdown \<Rightarrow> rat \<Rightarrow> countdown" where
  "countdown_frame autoHideDuration s currentTime =
     (if \<not> cd_running s then s
      else let startTime = (case cd_start s of None \<Rightarrow> currentTime
               | Some t \<Rightarrow> if t = 0 then currentTime else t);
               progress = frame_progress autoHideDuration startTime currentTime
           in \<lparr>cd_start = Some startTime, cd_progress = progress, cd_running = (progress < 100)\<rparr>)"

text \<open>
  The clean-up of the effect cancels the frame that was asked for; a new duration runs the effect
  again, with a start of its own, under the progress reached so far.
\<close>

definition countdown_unmount :: "countdown \<Rightarrow> countdown" where
  "countdown_unmount s = s\<lparr>cd_running := False\<rparr>"

definition countdown_change :: "rat \<Rightarrow> countdown \<Rightarrow> countdown" where
  "countdown_change autoHideDuration s =
     (countdown_mount autoHideDuration)\<lparr>cd_progress := cd_progress (countdown_unmount s)\<rparr>"

subsection \<open>View\<close>

definition NotificationActions_style :: "theme \<Rightarrow> jval" where
  "NotificationActions_style t = JObj [(''display'', JStr ''flex''), (''flexFlow'', JStr ''row nowrap''),
     (''alignItems'', JStr ''center''), (''justifyContent'', JStr ''flex-start''), (''gap'', JStr ''0.75rem''),
     (''paddingBlockStart'', JStr ''0.75rem''), (''color'', th t [''palette'', ''grey'', ''700''])]"

definition NotificationCountdown_style :: jval where
  "NotificationCountdown_style = JObj [(''position'', JStr ''absolute''), (''bottom'', JNum 0),
     (''left'', JStr ''-1rem''), (''right'', JStr ''-1rem'')]"

definition countdown_view :: "jval \<Rightarrow> countdown \<Rightarrow> 'e ui" where
  "countdown_view severity s =
     El ''NotificationCountdown'' []
      [El ''LinearProgress'' [(''variant'', PS ''determinate''), (''color'', PV severity),
         (''value'', PN (of_int (cd_progress s)))] []]"

text \<open>Nodes a caller may leave out are \<open>undefined\<close>; \<open>shows\<close> is the truth of a node.\<close>

fun shows_node :: "'e ui \<Rightarrow> bool" where
  "shows_node (Val v) = truthy v"
| "shows_node (El n ps cs) = True"

definition or_undefined :: "'e ui \<Rightarrow> 'e ui" where
  "or_undefined u = (if shows_node u then u else Val JUndef)"

datatype notification_action = N_dismiss | N_close

record notification =
  nt_duration :: jval
  nt_variant :: string
  nt_title :: "notification_action ui"
  nt_children :: "notification_action ui"
  nt_closable :: bool
  nt_action :: "notification_action ui"
  nt_dismiss_label :: "notification_action ui"
  nt_dismissable :: bool
  nt_rest :: "(string \<times> notification_action attr) list"

text \<open>Without a title the children are the title.\<close>

definition nt_heading :: "notification \<Rightarrow> notification_action ui \<times> notification_action ui" where
  "nt_heading p = (if \<not> shows_node (nt_title p) \<and> shows_node (nt_children p)
     then (nt_children p, Val JUndef) else (nt_title p, nt_children p))"

definition nt_dismiss_node :: "notification \<Rightarrow> notification_action ui" where
  "nt_dismiss_node p = (if nt_dismissable p
     then El ''Button'' [(''variant'', PS ''text''), (''color'', PS ''inherit''), (''onClick'', PE N_dismiss)] [nt_dismiss_label p]
     else Val JUndef)"

definition nt_actions :: "notification \<Rightarrow> notification_action ui" where
  "nt_actions p = (if shows_node (nt_action p) \<or> shows_node (nt_dismiss_node p)
     then El ''Fragment'' [] [nt_dismiss_node p, nt_action p] else Val JUndef)"

definition title_node :: "notification_action ui \<Rightarrow> notification_action ui" where
  "title_node title = ui_when (shows_node title) (El ''AlertTitle'' [] [title])"

definition close_prop :: "notification \<Rightarrow> (string \<times> notification_action attr) list" where
  "close_prop p = [(''variant'', PS (nt_variant p)), (''onClose'', if nt_closable p then PE N_close else PV JUndef)]"

definition notification_view :: "notification \<Rightarrow> notification_action ui" where
  "notification_view p =
     (case nt_heading p of (title, children) \<Rightarrow>
       if nt_variant p = ''notification'' then
         El ''Alert'' (nt_rest p @ close_prop p)
          [title_node title, children,
           (if shows_node (nt_actions p) then El ''NotificationActions'' [] [nt_actions p] else Val JUndef),
           ui_and (nt_duration p) (ui_when (js_gt (nt_duration p) 0) (El ''Countdown'' [] []))]
       else
         El ''Alert'' (nt_rest p @ close_prop p @ [(''action'', PU (nt_actions p))])
          [title_node title, children])"

subsection \<open>Facts\<close>

lemma frame_progress_mono:
  "0 < d \<Longrightarrow> t \<le> u \<Longrightarrow> frame_progress d s t \<le> frame_progress d s u"
  unfolding frame_progress_def by (intro min.mono order.refl ceiling_mono divide_right_mono) simp_all

lemma frame_progress_done:
  assumes "0 < d"
  shows "frame_progress d s t = 100 \<longleftrightarrow> t + Compensation - s > 99 * (d / 100)"
proof -
  have "frame_progress d s t = 100 \<longleftrightarrow> 99 < \<lceil>(t + Compensation - s) / (d / 100)\<rceil>"
    unfolding frame_progress_def by linarith
  also have "\<dots> \<longleftrightarrow> 99 < (t + Compensation - s) / (d / 100)" by (simp add: less_ceiling_iff)
  also have "\<dots> \<longleftrightarrow> 99 * (d / 100) < t + Compensation - s" using assms by (subst pos_less_divide_eq) auto
  finally show ?thesis .
qed

definition frames :: "rat \<Rightarrow> rat \<Rightarrow> rat list \<Rightarrow> countdown" where
  "frames d t0 ts = run (countdown_frame d) (countdown_mount d) (t0 # ts)"

lemma frame_after:
  assumes "t0 \<noteq> 0" and "cd_start s = Some t0" and "cd_running s"
  shows "countdown_frame d s t = \<lparr>cd_start = Some t0, cd_progress = frame_progress d t0 t,
    cd_running = (frame_progress d t0 t < 100)\<rparr>"
  using assms by (simp add: countdown_frame_def Let_def)

lemma first_frame:
  "0 < d \<Longrightarrow> countdown_frame d (countdown_mount d) t0 = \<lparr>cd_start = Some t0,
     cd_progress = frame_progress d t0 t0, cd_running = (frame_progress d t0 t0 < 100)\<rparr>"
  by (simp add: countdown_frame_def countdown_mount_def Let_def)

lemma stopped_run: "\<not> cd_running s \<Longrightarrow> run (countdown_frame d) s ts = s"
  by (induction ts arbitrary: s) (auto simp: countdown_frame_def)

text \<open>The first frame after a change starts the count of the new duration.\<close>

lemma changed_frame:
  "0 < d \<Longrightarrow> countdown_frame d (countdown_change d s) t = countdown_frame d (countdown_mount d) t"
  by (simp add: countdown_frame_def countdown_change_def countdown_mount_def)

lemma frames_at:
  assumes "0 < d" and "t0 \<noteq> 0" and "sorted (t0 # ts)"
  shows "cd_progress (frames d t0 ts) = frame_progress d t0 (last (t0 # ts)) \<and>
    cd_start (frames d t0 ts) = Some t0 \<and>
    (cd_running (frames d t0 ts) \<longleftrightarrow> frame_progress d t0 (last (t0 # ts)) < 100)"
  using assms(3)
proof (induction ts rule: rev_induct)
  case Nil
  then show ?case using assms by (simp add: frames_def first_frame)
next
  case (snoc u us)
  let ?s = "frames d t0 us"
  let ?t = "last (t0 # us)"
  have sorted: "sorted (t0 # us)" and le: "?t \<le> u"
    using snoc.prems by (auto simp: sorted_append)
  have IH: "cd_progress ?s = frame_progress d t0 ?t" "cd_start ?s = Some t0"
    "cd_running ?s \<longleftrightarrow> frame_progress d t0 ?t < 100"
    using snoc.IH [OF sorted] by simp_all
  have step: "frames d t0 (us @ [u]) = countdown_frame d ?s u" by (simp add: frames_def)
  show ?case
  proof (cases "cd_running ?s")
    case True
    then show ?thesis using step frame_after [OF assms(2) IH(2), of d u] by simp
  next
    case False
    have "frame_progress d t0 u \<le> 100" by (simp add: frame_progress_def)
    then have "frame_progress d t0 u = frame_progress d t0 ?t"
      using frame_progress_mono [OF assms(1) le, of t0] False IH(3) by linarith
    then show ?thesis using step IH False by (simp add: countdown_frame_def)
  qed
qed

subsection \<open>Properties\<close>

text \<open>
  C32 (notification_countdown): along frames whose times do not decrease the progress never
  decreases and never exceeds a hundred, and the countdown requests its last frame exactly when
  99 percent of the duration, less the compensation, have passed since the first; none comes after
  the countdown is taken off the page.
\<close>

theorem notification_countdown:
  assumes "0 < d" and "t0 \<noteq> 0" and "sorted (t0 # ts @ us)"
  shows "cd_progress (frames d t0 ts) \<le> cd_progress (frames d t0 (ts @ us)) \<and>
    cd_progress (frames d t0 ts) \<le> 100 \<and>
    (\<not> cd_running (frames d t0 ts) \<longleftrightarrow> last (t0 # ts) - t0 > 99 * (d / 100) - Compensation) \<and>
    run (countdown_frame d) (countdown_unmount (frames d t0 ts)) us = countdown_unmount (frames d t0 ts)"
proof -
  have s: "sorted (t0 # ts)" using assms(3) by (auto simp: sorted_append)
  have "last (t0 # ts) \<le> last (t0 # ts @ us)"
  proof (cases "us = []")
    case False
    moreover have "last (t0 # ts) \<in> set (t0 # ts)" by (rule last_in_set) simp
    moreover have "last us \<in> set us" using False by simp
    ultimately show ?thesis using assms(3) by (auto simp: sorted_append)
  qed simp
  from frame_progress_mono [OF assms(1) this, of t0]
  have "cd_progress (frames d t0 ts) \<le> cd_progress (frames d t0 (ts @ us))"
    using frames_at [OF assms] frames_at [OF assms(1,2) s] by simp
  moreover have "cd_progress (frames d t0 ts) \<le> 100"
    using frames_at [OF assms(1,2) s] by (simp add: frame_progress_def)
  moreover have "\<not> cd_running (frames d t0 ts) \<longleftrightarrow> frame_progress d t0 (last (t0 # ts)) = 100"
  proof -
    have "frame_progress d t0 (last (t0 # ts)) \<le> 100" by (simp add: frame_progress_def)
    then show ?thesis using frames_at [OF assms(1,2) s] by linarith
  qed
  moreover have "run (countdown_frame d) (countdown_unmount (frames d t0 ts)) us = countdown_unmount (frames d t0 ts)"
    by (rule stopped_run) (simp add: countdown_unmount_def)
  ultimately show ?thesis using frame_progress_done [OF assms(1), of t0 "last (t0 # ts)"] by (simp add: algebra_simps)
qed

theorem notification_countdown_witness:
  "\<not> cd_running (frames 1000 5 [400, 850])"
proof -
  have 1: "(0::rat) < 1000" "(5::rat) \<noteq> 0" "sorted ((5::rat) # [400, 850] @ [])" by simp_all
  show ?thesis using notification_countdown [OF 1] by (simp add: Compensation_def)
qed

text \<open>
  A notification with an \<open>autoHideDuration\<close> of zero, and nothing else,
  shows the text of that zero: \<open>0 && ...\<close> is the number, which React renders.
\<close>

lemma notification_zero:
  assumes "nt_duration p = JNum 0" and "nt_variant p = ''notification''"
    and "nt_title p = Txt t" and "nt_children p = Val JUndef" and "\<not> nt_dismissable p" and "nt_action p = Val JUndef"
  shows "shown_text shown (notification_view p) = t @ ''0''"
proof -
  have "show_nat 0 = ''0''" by code_simp
  then have "show_rat shown 0 = ''0''" by (simp add: show_rat_def show_int_def)
  then show ?thesis
    using assms by (cases "t = []") (simp_all add: notification_view_def nt_heading_def nt_actions_def
        nt_dismiss_node_def title_node_def ui_and_def ui_when_def)
qed

end
