(* ===== verification/Snackbar.thy ===== *)
theory Snackbar
  imports Notification Style
begin

text \<open>
  \<^verbatim>\<open>themes/components/feedback/notistack.tsx\<close>: what the snackbar library shows for a message, the
  \<open>Notification\<close> of the front end. The queue of messages is the library's; closing one is asked of it
  with \<open>closeSnackbar(id)\<close>. Booleans that may be left out are options.
\<close>

record snack =
  sn_id :: jval
  sn_variant :: string
  sn_title :: "notification_action ui"
  sn_message :: "notification_action ui"
  sn_action :: "(jval \<Rightarrow> notification_action ui) + notification_action ui"
  sn_notification :: "bool option"
  sn_closable :: "bool option"
  sn_dismissable :: bool
  sn_duration :: jval
  sn_hide_icon :: bool
  sn_class :: jval
  sn_style :: jval

definition sn_as_notification :: "snack \<Rightarrow> bool" where
  "sn_as_notification s = (case sn_notification s of None \<Rightarrow> True | Some b \<Rightarrow> b)"

definition sn_closes :: "snack \<Rightarrow> bool" where
  "sn_closes s = (case sn_closable s of None \<Rightarrow> sn_as_notification s | Some b \<Rightarrow> b)"

definition sn_severity :: "snack \<Rightarrow> string" where
  "sn_severity s = (if sn_variant s = ''default'' then ''info'' else sn_variant s)"

definition Simple :: "snack \<Rightarrow> notification" where
  "Simple s = \<lparr>nt_duration = js_or (sn_duration s) JUndef,
     nt_variant = (if sn_as_notification s then ''notification'' else ''outlined''),
     nt_title = sn_title s, nt_children = sn_message s, nt_closable = sn_closes s,
     nt_action = (case sn_action s of Inl f \<Rightarrow> f (sn_id s) | Inr u \<Rightarrow> u),
     nt_dismiss_label = Txt ''Dismiss'', nt_dismissable = sn_dismissable s,
     nt_rest = [(''severity'', PS (sn_severity s)),
       (''icon'', if sn_hide_icon s then PV (JBool False) else PV JUndef),
       (''className'', PV (sn_class s)), (''style'', PV (sn_style s))]\<rparr>"

text \<open>
  What the two controls do to the messages on display: \<open>onClose\<close> and \<open>onDismiss\<close>, where they are
  given, call \<open>closeSnackbar\<close> of the library with the message's identifier.
\<close>

definition snack_control :: "(jval \<Rightarrow> snack list \<Rightarrow> snack list) \<Rightarrow> snack \<Rightarrow> notification_action \<Rightarrow> snack list \<Rightarrow> snack list" where
  "snack_control closeSnackbar s a ss =
     (case a of
        N_close \<Rightarrow> if sn_closes s then closeSnackbar (sn_id s) ss else ss
      | N_dismiss \<Rightarrow> if sn_dismissable s then closeSnackbar (sn_id s) ss else ss)"

definition Snack_Components :: "(string \<times> 'e attr) list" where
  "Snack_Components = map (\<lambda>v. (v, PS ''Simple'')) [''default'', ''info'', ''success'', ''warning'', ''error'']"

definition SnackbarProvider_view :: "'e ui list \<Rightarrow> 'e ui" where
  "SnackbarProvider_view children =
     El ''SnackbarProvider'' [(''anchorOrigin'', PO [(''vertical'', JStr ''bottom''), (''horizontal'', JStr ''right'')]),
       (''maxSnack'', PN 5), (''autoHideDuration'', PN 5000), (''Components'', PR Snack_Components),
       (''style'', PO [(''width'', JStr ''21.25rem'')])] children"

subsection \<open>Facts\<close>

lemma shows_text: "shows_node (Txt t) \<longleftrightarrow> t \<noteq> []"
  by simp

lemma snack_duration: "nt_duration (Simple s) = js_or (sn_duration s) JUndef"
  by (simp add: Simple_def)

lemma js_or_undefined_zero: "js_or v JUndef \<noteq> JNum 0"
  by (cases v) (auto simp: js_or_def)

text \<open>What stands below the texts of a message: its countdown or nothing that is shown.\<close>

definition countdown_part :: "snack \<Rightarrow> notification_action ui" where
  "countdown_part s = (if js_gt (sn_duration s) 0 \<and> truthy (sn_duration s) then El ''Countdown'' [] []
     else Val (if truthy (sn_duration s) then JBool False else JUndef))"

lemma snack_countdown:
  "ui_and (nt_duration (Simple s)) (ui_when (js_gt (nt_duration (Simple s)) 0) (El ''Countdown'' [] [])) =
     countdown_part s"
  by (simp add: snack_duration js_or_def countdown_part_def ui_and_def ui_when_def)

lemma shown_countdown_part [simp]: "shown_text shown (countdown_part s) = []"
  by (simp add: countdown_part_def)

text \<open>\<open>closeSnackbar\<close> with the identifier of a message on display takes the messages of that identifier away.\<close>

definition closes_by_id :: "(jval \<Rightarrow> snack list \<Rightarrow> snack list) \<Rightarrow> bool" where
  "closes_by_id closeSnackbar \<longleftrightarrow>
     (\<forall>k ss. k \<in> sn_id ` set ss \<longrightarrow> closeSnackbar k ss = filter (\<lambda>u. sn_id u \<noteq> k) ss)"

lemma closes_this:
  assumes "closes_by_id closeSnackbar" and "s \<in> set ss" and "distinct (map sn_id ss)"
  shows "closeSnackbar (sn_id s) ss = filter (\<lambda>u. u \<noteq> s) ss"
proof -
  have "sn_id u = sn_id s \<longleftrightarrow> u = s" if "u \<in> set ss" for u
    using that assms(2,3) by (auto simp: distinct_map dest: inj_onD)
  then show ?thesis using assms(1,2) by (auto simp: closes_by_id_def cong: filter_cong)
qed

text \<open>What a message of two texts and no action of its own is as an alert, in both of its forms.\<close>

lemma snack_alert:
  assumes "sn_title s = Txt t" and "sn_message s = Txt m" and "sn_action s = Inr (Val JUndef)"
  shows "shown_text shown (notification_view (Simple s)) = t @ m @ (if sn_as_notification s \<and> sn_dismissable s then ''Dismiss'' else [])"
    "length (named_elems ''Countdown'' (notification_view (Simple s))) =
      (if sn_as_notification s \<and> js_gt (sn_duration s) 0 \<and> truthy (sn_duration s) then 1 else 0)"
    "events ''onClose'' (notification_view (Simple s)) = (if sn_closes s then [N_close] else [])"
    "events ''onClick'' (notification_view (Simple s)) = (if sn_dismissable s then [N_dismiss] else [])"
proof -
  have v: "nt_variant (Simple s) = (if sn_as_notification s then ''notification'' else ''outlined'')"
    and d: "nt_dismissable (Simple s) = sn_dismissable s"
    and l: "nt_dismiss_label (Simple s) = Txt ''Dismiss''" and a: "nt_action (Simple s) = Val JUndef"
    and c: "nt_closable (Simple s) = sn_closes s"
    and t: "nt_title (Simple s) = Txt t" and m: "nt_children (Simple s) = Txt m"
    and r: "nt_rest (Simple s) = [(''severity'', PS (sn_severity s)),
       (''icon'', if sn_hide_icon s then PV (JBool False) else PV JUndef),
       (''className'', PV (sn_class s)), (''style'', PV (sn_style s))]"
    using assms by (simp_all add: Simple_def)
  note defs = nt_heading_def v d l a c t m r nt_actions_def nt_dismiss_node_def title_node_def
    close_prop_def named_elems_def events_def countdown_part_def
  show "shown_text shown (notification_view (Simple s)) = t @ m @ (if sn_as_notification s \<and> sn_dismissable s then ''Dismiss'' else [])"
    unfolding notification_view_def snack_countdown
    by (cases "t = []"; cases "m = []"; cases "sn_dismissable s"; cases "sn_as_notification s") (simp_all add: defs)
  show "length (named_elems ''Countdown'' (notification_view (Simple s))) =
      (if sn_as_notification s \<and> js_gt (sn_duration s) 0 \<and> truthy (sn_duration s) then 1 else 0)"
    unfolding notification_view_def snack_countdown
    by (cases "t = []"; cases "m = []"; cases "sn_dismissable s"; cases "sn_as_notification s") (simp_all add: defs)
  show "events ''onClose'' (notification_view (Simple s)) = (if sn_closes s then [N_close] else [])"
    unfolding notification_view_def snack_countdown
    by (cases "t = []"; cases "m = []"; cases "sn_dismissable s"; cases "sn_as_notification s") (simp_all add: defs)
  show "events ''onClick'' (notification_view (Simple s)) = (if sn_dismissable s then [N_dismiss] else [])"
    unfolding notification_view_def snack_countdown
    by (cases "t = []"; cases "m = []"; cases "sn_dismissable s"; cases "sn_as_notification s") (simp_all add: defs)
qed

subsection \<open>Properties\<close>



end
