(* ===== verification/TitleIcon.thy ===== *)
theory TitleIcon
  imports Tokens
begin

text \<open>
  \<^verbatim>\<open>components/mui/title-icon/\<close>: the icon above a dialog's title, two outlines around it, and the
  form picture that may replace it. Joining the names of classes (\<open>composeClasses\<close>, \<open>clsx\<close>,
  \<open>generateUtilityClass\<close>, \<open>capitalize\<close>) is the libraries' and a parameter.
\<close>

subsection \<open>Classes\<close>

definition TitleIconClasses :: "string list" where
  "TitleIconClasses = [''root'', ''colorInherit'', ''colorPrimary'', ''colorSecondary'', ''colorError'',
     ''colorInfo'', ''colorSuccess'', ''colorWarning'']"

definition getTitleIconUtilityClass :: "(string \<Rightarrow> string \<Rightarrow> string) \<Rightarrow> string \<Rightarrow> string" where
  "getTitleIconUtilityClass generateUtilityClass slot = generateUtilityClass ''MuiTitleIcon'' slot"

definition titleIconClasses :: "(string \<Rightarrow> string \<Rightarrow> string) \<Rightarrow> (string \<times> string) list" where
  "titleIconClasses generateUtilityClass = map (\<lambda>s. (s, generateUtilityClass ''MuiTitleIcon'' s)) TitleIconClasses"

subsection \<open>Properties of the component\<close>

datatype icon_variant = IV_circle | IV_square

fun icon_variant_name :: "icon_variant \<Rightarrow> string" where
  "icon_variant_name IV_circle = ''circle''"
| "icon_variant_name IV_square = ''square''"

definition TitleIcon_colors :: "string list" where
  "TitleIcon_colors = [''inherit'', ''default'', ''primary'', ''secondary'', ''error'', ''info'', ''success'', ''warning'']"

record 'e title_icon =
  ti_children :: "'e ui"
  ti_classes :: jval
  ti_variant :: "icon_variant option"
  ti_color :: "string option"
  ti_class_name :: jval
  ti_rest :: "(string \<times> 'e attr) list"

text \<open>
  The state of the owner: its properties with the defaults of variant and colour, the two that
  classes and styles ask for.
\<close>

definition ti_owner_variant :: "'e title_icon \<Rightarrow> string" where
  "ti_owner_variant p = (case ti_variant p of None \<Rightarrow> ''circle'' | Some v \<Rightarrow> icon_variant_name v)"

definition ti_owner_color :: "'e title_icon \<Rightarrow> string" where
  "ti_owner_color p = (case ti_color p of None \<Rightarrow> ''default'' | Some c \<Rightarrow> c)"

definition ti_owner :: "'e title_icon \<Rightarrow> string \<Rightarrow> jval" where
  "ti_owner p x = (if x = ''variant'' then JStr (ti_owner_variant p)
     else if x = ''color'' then JStr (ti_owner_color p) else JUndef)"

text \<open>\<open>useUtilityClasses\<close>: the keys of each slot, for \<open>composeClasses\<close>.\<close>

definition ti_slots :: "(string \<Rightarrow> string) \<Rightarrow> string \<Rightarrow> string \<Rightarrow> (string \<times> string list) list" where
  "ti_slots capitalize variant color =
     [(''root'', [''root''] @ (if variant = [] then [] else [''variant'' @ capitalize variant]) @
                 (if color = [] then [] else [''color'' @ capitalize color])),
      (''outlineOuter'', [''outlineOuter'']), (''outlineInner'', [''outlineInner''])]"

subsection \<open>Styles\<close>

definition TITLE_ICON_COLORS :: "string list" where
  "TITLE_ICON_COLORS = [''inherit'', ''primary'', ''secondary'', ''error'', ''info'', ''success'', ''warning'']"

text \<open>\<open>overridesResolver\<close>: the entries of the theme's overrides that apply to the root.\<close>

definition ti_overrides :: "(string \<Rightarrow> string) \<Rightarrow> (string \<Rightarrow> jval) \<Rightarrow> string \<Rightarrow> string \<Rightarrow> jval list" where
  "ti_overrides capitalize styles color variant =
     [styles ''root'',
      (if color = [] then JStr [] else styles (''color'' @ capitalize color)),
      (if variant = [] then JStr [] else styles (''variant'' @ capitalize variant))]"

definition titleIconColorVariants :: "kit \<Rightarrow> variant_rules" where
  "titleIconColorVariants k = map (\<lambda>color. (When [(''color'', JStr color)],
     [(''color'', (if color = ''inherit'' then JStr ''inherit''
        else if color = ''default'' then th k [''palette'', ''text'', ''primary'']
        else th k [''palette'', color, ''main'']))])) TITLE_ICON_COLORS"

definition TitleIconRoot :: "kit \<Rightarrow> slot_style" where
  "TitleIconRoot k =
     \<lparr>rules = [(''position'', JStr ''relative''), (''width'', JStr ''2.25rem''), (''height'', JStr ''2.25rem''),
        (''display'', JStr ''inline-flex''), (''justifyContent'', JStr ''center''), (''alignItems'', JStr ''center''),
        (''color'', JStr ''inherit''), (''backgroundColor'', JStr ''transparent''), (''border'', JStr ''none''),
        (''outline'', JStr ''none''), (''fontSize'', JStr ''1.25rem''),
        (''& .'' @ classes k ''Icon'' ''root'' @ '', & .tabler-icon, & svg'',
           JObj [(''width'', JStr ''1em''), (''height'', JStr ''1em'')])],
      variants = titleIconColorVariants k\<rparr>"

definition TitleIconOutlineOuter :: slot_style where
  "TitleIconOutlineOuter =
     \<lparr>rules = [(''boxSizing'', JStr ''border-box''), (''width'', JStr ''2.25rem''), (''height'', JStr ''2.25rem''),
        (''position'', JStr ''absolute''), (''top'', JStr ''50%''), (''left'', JStr ''50%''),
        (''transform'', JStr ''translate(-50%, -50%)''), (''opacity'', JNum (1/10)),
        (''borderWidth'', JStr ''1.667px''), (''borderStyle'', JStr ''solid''), (''borderColor'', JStr ''currentcolor'')],
      variants = [(When [(''variant'', JStr ''circle'')], [(''borderRadius'', JStr ''50%'')]),
        (When [(''variant'', JStr ''square'')], [(''borderRadius'', JStr ''0.38rem'')])]\<rparr>"

definition TitleIconOutlineInner :: slot_style where
  "TitleIconOutlineInner =
     \<lparr>rules = [(''boxSizing'', JStr ''border-box''), (''width'', JStr ''1.75rem''), (''height'', JStr ''1.75rem''),
        (''position'', JStr ''absolute''), (''top'', JStr ''50%''), (''left'', JStr ''50%''),
        (''transform'', JStr ''translate(-50%, -50%)''), (''opacity'', JNum (3/10)),
        (''borderWidth'', JStr ''1.667px''), (''borderStyle'', JStr ''solid''), (''borderColor'', JStr ''currentcolor'')],
      variants = [(When [(''variant'', JStr ''circle'')], [(''borderRadius'', JStr ''50%'')]),
        (When [(''variant'', JStr ''square'')], [(''borderRadius'', JStr ''0.25em'')])]\<rparr>"

definition TitleIconFormRoot :: "kit \<Rightarrow> slot_style" where
  "TitleIconFormRoot k =
     \<lparr>rules = [(''flex'', JStr ''none''), (''width'', JStr ''3rem''), (''height'', JStr ''3rem''),
        (''aspectRatio'', JStr ''1 / 1''), (''display'', JStr ''flex''), (''alignItems'', JStr ''center''),
        (''justifyContent'', JStr ''center''), (''borderRadius'', JStr ''0.375rem''),
        (''backgroundColor'', th k [''palette'', ''grey'', ''250'']), (''overflow'', JStr ''hidden'')],
      variants = []\<rparr>"

definition TitleIconFormImage :: slot_style where
  "TitleIconFormImage =
     \<lparr>rules = [(''width'', JStr ''100%''), (''height'', JStr ''100%''), (''display'', JStr ''flex''),
        (''alignItems'', JStr ''center''), (''justifyContent'', JStr ''center''),
        (''background'', JStr ''url(/assets/common/form-half-one.png) center / cover no-repeat''),
        (''mixBlendMode'', JStr ''multiply'')],
      variants = []\<rparr>"

subsection \<open>Views\<close>

text \<open>\<open>compose\<close> is \<open>composeClasses\<close> with the utility class of this component, \<open>clsx\<close> joins two classes.\<close>

definition TitleIcon_view ::
    "((string \<times> string list) list \<Rightarrow> jval \<Rightarrow> string \<Rightarrow> string) \<Rightarrow> (string \<Rightarrow> jval \<Rightarrow> string) \<Rightarrow>
     (string \<Rightarrow> string) \<Rightarrow> 'e title_icon \<Rightarrow> 'e ui" where
  "TitleIcon_view compose clsx capitalize p =
     (let cls = compose (ti_slots capitalize (ti_owner_variant p) (ti_owner_color p)) (ti_classes p);
          owner = PO [(''variant'', ti_owner p ''variant''), (''color'', ti_owner p ''color'')]
      in El ''TitleIconRoot''
           ([(''className'', PS (clsx (cls ''root'') (ti_class_name p))), (''ownerState'', owner), (''role'', PS ''img'')] @
            ti_rest p)
          [El ''TitleIconOutlineOuter'' [(''className'', PS (cls ''outlineOuter'')), (''ownerState'', owner)] [],
           El ''TitleIconOutlineInner'' [(''className'', PS (cls ''outlineInner'')), (''ownerState'', owner)] [],
           ti_children p])"

definition TitleIconForm :: "'e ui" where
  "TitleIconForm = El ''TitleIconFormRoot'' [] [El ''TitleIconFormImage'' [] []]"

subsection \<open>Properties\<close>

text \<open>The value a list of rules gives a property: the last one counts.\<close>

definition effective :: "css_rules \<Rightarrow> string \<Rightarrow> jval option" where
  "effective rs x = map_of (rev rs) x"

lemma effective_append: "effective (rs @ ss) x = (case effective ss x of None \<Rightarrow> effective rs x | Some v \<Rightarrow> Some v)"
  by (simp add: effective_def map_add_def split: option.split)

lemma variant_lookup_props:
  assumes "applies_by_props applies" and "variants s = map (\<lambda>c. (When [(x, JStr c)], f c)) cs"
    and "distinct cs" and "owner x = JStr d"
  shows "variant_lookup applies owner s = rules s @ (if d \<in> set cs then f d else [])"
proof -
  have a: "applies (When [(x, JStr c)]) owner \<longleftrightarrow> d = c" for c
    using assms(1,4) by (auto simp: applies_by_props_def)
  have "concat (map snd (filter (\<lambda>v. applies (fst v) owner) (map (\<lambda>c. (When [(x, JStr c)], f c)) cs))) =
      (if d \<in> set cs then f d else [])"
    using assms(3) by (induction cs) (auto simp: a)
  then show ?thesis by (simp add: variant_lookup_def assms(2))
qed

text \<open>
  A title icon of a listed palette colour is drawn in that colour's main
  tone. An icon of the default colour inherits its colour from the text around it: the table of
  variants has a case for \<open>'default'\<close>, the primary text colour, but the list it is made from does
  not contain that colour.
\<close>

lemma title_icon_default:
  assumes "applies_by_props applies" and "made_from theme_options k"
  shows "effective (variant_lookup applies (ti_owner p) (TitleIconRoot k)) ''color'' =
    (if ti_owner_color p \<in> set TITLE_ICON_COLORS - {''inherit''}
     then Some (th k [''palette'', ti_owner_color p, ''main'']) else Some (JStr ''inherit'')) \<and>
    (ti_color p = None \<longrightarrow> effective (variant_lookup applies (ti_owner p) (TitleIconRoot k)) ''color'' \<noteq>
       Some (th k [''palette'', ''text'', ''primary'']))"
proof -
  have o: "ti_owner p ''color'' = JStr (ti_owner_color p)" by (simp add: ti_owner_def)
  have d: "distinct TITLE_ICON_COLORS" by code_simp
  let ?f = "\<lambda>c. [(''color'', (if c = ''inherit'' then JStr ''inherit'' else if c = ''default'' then
    th k [''palette'', ''text'', ''primary''] else th k [''palette'', c, ''main'']))]"
  have v: "variants (TitleIconRoot k) = map (\<lambda>c. (When [(''color'', JStr c)], ?f c)) TITLE_ICON_COLORS"
    by (simp add: TitleIconRoot_def titleIconColorVariants_def)
  note lookup = variant_lookup_props [where f = ?f and x = "''color''" and s = "TitleIconRoot k" and
    cs = TITLE_ICON_COLORS and owner = "ti_owner p" and d = "ti_owner_color p", OF assms(1) v d o]
  have base: "effective (rules (TitleIconRoot k)) ''color'' = Some (JStr ''inherit'')"
    by (simp add: TitleIconRoot_def effective_def)
  have nd: "''default'' \<notin> set TITLE_ICON_COLORS" by code_simp
  have first: "effective (variant_lookup applies (ti_owner p) (TitleIconRoot k)) ''color'' =
    (if ti_owner_color p \<in> set TITLE_ICON_COLORS - {''inherit''}
     then Some (th k [''palette'', ti_owner_color p, ''main'']) else Some (JStr ''inherit''))"
    unfolding lookup effective_append base using nd
    by (auto simp: effective_def)
  have "th k [''palette'', ''text'', ''primary''] = JStr ''#343333''"
    by (rule made_plain [OF assms(2)]) (code_simp, code_simp)
  moreover have "ti_color p = None \<Longrightarrow> ti_owner_color p = ''default''" by (simp add: ti_owner_color_def)
  ultimately show ?thesis using first nd by auto
qed

definition matcher_holds :: "matcher \<Rightarrow> (string \<Rightarrow> jval) \<Rightarrow> bool" where
  "matcher_holds m owner = (case m of When ps \<Rightarrow> list_all (\<lambda>(x, v). owner x = v) ps | Owner f \<Rightarrow> f owner)"

lemma matcher_holds_by_props: "applies_by_props matcher_holds"
  by (simp add: applies_by_props_def matcher_holds_def list_all_iff)

end
