(* ===== verification/Theme.thy ===== *)
theory Theme
  imports App ButtonTheme FormTheme DataTheme FeedbackTheme Snackbar TitleIcon
begin

text \<open>
  \<^verbatim>\<open>themes/index.tsx\<close>, \<^verbatim>\<open>themes/components/css.tsx\<close> and the index files: the theme's component
  styles put together and the provider of the theme, with the entry points
  (\<^verbatim>\<open>main.tsx\<close>, \<^verbatim>\<open>chat.tsx\<close>) and the brand drawings.
\<close>

subsection \<open>Fonts\<close>

record font_face =
  ff_family :: string
  ff_file :: string
  ff_format :: string

definition font_faces :: "font_face list" where
  "font_faces =
     [\<lparr>ff_family = ''GeistMono'', ff_file = ''fonts/GeistMono.ttf'', ff_format = ''ttf''\<rparr>,
      \<lparr>ff_family = ''Inter'', ff_file = ''fonts/Inter.ttf'', ff_format = ''ttf''\<rparr>,
      \<lparr>ff_family = ''FK Grotesk Neue'', ff_file = ''fonts/FKGroteskNeue.woff2'', ff_format = ''woff2''\<rparr>]"

text \<open>The lines of the template, without their indentation.\<close>

definition font_face_css :: "kit \<Rightarrow> font_face \<Rightarrow> string list" where
  "font_face_css k f = [''@font-face {'', ''font-family: '' @ [CHR 39] @ ff_family f @ [CHR 39] @ '';'',
     ''src: url('' @ asset k (ff_file f) @ '') format('' @ [CHR 39] @ ff_format f @ [CHR 39] @ '');'', ''}'']"

definition MuiCssBaseline :: "kit \<Rightarrow> component_theme" where
  "MuiCssBaseline k = \<lparr>theme_props = [],
     overrides = Css (join_with [CHR 10] (concat (map (font_face_css k) font_faces))), own_variants = []\<rparr>"

subsection \<open>The exported component styles\<close>

text \<open>
  The exports of the index files. \<open>SnackbarProvider\<close>, exported beside the styles, is a component
  and not a style; it is here under its name with no style to show.
\<close>

definition form_exports :: "(string \<times> (kit \<Rightarrow> component_theme)) list" where
  "form_exports =
    [(''MuiButton'', MuiButton), (''MuiButtonBase'', MuiButtonBase),
     (''MuiButtonGroup'', MuiButtonGroup), (''MuiIconButton'', MuiIconButton),
     (''MuiFormControl'', MuiFormControl), (''MuiFormLabel'', MuiFormLabel),
     (''MuiFormHelperText'', MuiFormHelperText), (''MuiInputLabel'', MuiInputLabel),
     (''MuiInputAdornment'', MuiInputAdornment), (''MuiInputBase'', MuiInputBase),
     (''MuiOutlinedInput'', MuiOutlinedInput), (''MuiTextField'', MuiTextField),
     (''MuiToggleButton'', MuiToggleButton), (''MuiToggleButtonGroup'', MuiToggleButtonGroup),
     (''MuiSelect'', MuiSelect), (''MuiSlider'', MuiSlider)]"

definition data_display_exports :: "(string \<times> (kit \<Rightarrow> component_theme)) list" where
  "data_display_exports =
    [(''MuiChip'', MuiChip), (''MuiDivider'', MuiDivider), (''MuiList'', MuiList),
     (''MuiListItem'', MuiListItem), (''MuiListItemButton'', MuiListItemButton),
     (''MuiListItemIcon'', MuiListItemIcon), (''MuiListItemText'', MuiListItemText),
     (''MuiListItemAvatar'', MuiListItemAvatar), (''MuiTableContainer'', MuiTableContainer),
     (''MuiTable'', MuiTable), (''MuiTableHead'', MuiTableHead), (''MuiTableBody'', MuiTableBody),
     (''MuiTableRow'', MuiTableRow), (''MuiTableCell'', MuiTableCell),
     (''MuiTableFooter'', MuiTableFooter), (''MuiTablePagination'', MuiTablePagination),
     (''MuiTablePaginationActions'', MuiTablePaginationActions),
     (''MuiTableSortLabel'', MuiTableSortLabel), (''MuiTypography'', MuiTypography)]"

definition feedback_exports :: "(string \<times> (kit \<Rightarrow> component_theme)) list" where
  "feedback_exports =
    [(''MuiAlertTitle'', MuiAlertTitle), (''MuiAlert'', MuiAlert), (''MuiBackdrop'', MuiBackdrop),
     (''MuiDialogActions'', MuiDialogActions), (''MuiDialogTitle'', MuiDialogTitle),
     (''MuiDialogContent'', MuiDialogContent), (''MuiDialogContentText'', MuiDialogContentText),
     (''MuiDialog'', MuiDialog), (''MuiLinearProgress'', MuiLinearProgress),
     (''MuiSnackbarContent'', MuiSnackbarContent), (''MuiSnackbar'', MuiSnackbar)]"

definition surfaces_exports :: "(string \<times> (kit \<Rightarrow> component_theme)) list" where
  "surfaces_exports =
    [(''MuiPaper'', MuiPaper)]"

definition navigation_exports :: "(string \<times> (kit \<Rightarrow> component_theme)) list" where
  "navigation_exports =
    [(''MuiMenu'', MuiMenu), (''MuiMenuList'', MuiMenuList), (''MuiMenuItem'', MuiMenuItem)]"

definition theme_exports :: "(string \<times> (kit \<Rightarrow> component_theme) option) list" where
  "theme_exports =
     map (\<lambda>(n, g). (n, Some g))
       ([(''MuiCssBaseline'', MuiCssBaseline)] @ form_exports @ data_display_exports @ feedback_exports @
        surfaces_exports @ navigation_exports) @
     [(''SnackbarProvider'', None)]"

text \<open>The loop over the exports: those whose name starts with \<open>Mui\<close> are installed.\<close>

definition theme_components :: "kit \<Rightarrow> (string \<times> component_theme) list" where
  "theme_components k = concat (map (\<lambda>(n, g). if starts_with ''Mui'' n
     then (case g of None \<Rightarrow> [] | Some generate \<Rightarrow> [(n, generate k)]) else []) theme_exports)"

definition ThemeProvider_view :: "'e ui list \<Rightarrow> 'e ui" where
  "ThemeProvider_view children =
     El ''MuiThemeProvider'' [(''theme'', PR [(''$$material'', PS ''materialThemeLight'')])]
      [SnackbarProvider_view
        [El ''LocalizationProvider'' [(''dateAdapter'', PS ''AdapterDayjs''),
           (''localeText'', PO [(''okButtonLabel'', JStr ''Apply'')])] children]]"

subsection \<open>Entry points and brand\<close>

text \<open>\<open>createRoot(document.getElementById('root')!).render(...)\<close>: the element and what is mounted in it.\<close>

definition main_entry :: "string \<times> 'e ui" where
  "main_entry = (''root'', main_app)"

definition chat_entry :: "string \<times> 'e ui" where
  "chat_entry = (''root'', chat_app)"

definition svg_path :: "string \<Rightarrow> 'e ui" where
  "svg_path d = El ''path'' [(''d'', PS d), (''fill'', PS ''black'')] []"

definition IconBrandGradient :: "'e ui" where
  "IconBrandGradient =
     El ''svg'' [(''width'', PS ''26''), (''height'', PS ''28''), (''viewBox'', PS ''0 0 26 28''), (''fill'', PS ''none''),
       (''xmlns'', PS ''http://www.w3.org/2000/svg'')]
      [svg_path ''M7 19H4V22H7V19Z'', svg_path ''M22 6V8.85011L12.9475 22H10V19.1499L19.0521 6H22Z'']"

definition LogoGradient :: "'e ui" where
  "LogoGradient =
     El ''svg'' [(''width'', PS ''100''), (''height'', PS ''21''), (''viewBox'', PS ''0 0 100 21''), (''fill'', PS ''none''),
       (''xmlns'', PS ''http://www.w3.org/2000/svg'')]
      [svg_path (''M25.9027 21C24.2555 21 22.9819 20.6707 22.082 20.012C21.1821 19.3687 20.6482 18.4344 20.4805 17.'' @
         ''209H23.7064C23.9352 18.1586 24.6825 18.6335 25.9485 18.6335C26.8789 18.6335 27.5576 18.4037 27.9'' @
         ''847 17.9442C28.4118 17.5 28.6253 16.8184 28.6253 15.8993V14.0383C28.3203 14.5897 27.8779 15.0339'' @
         '' 27.2984 15.3709C26.7188 15.6926 26.0324 15.8534 25.2393 15.8534C24.2478 15.8534 23.3556 15.6313'' @
         '' 22.5624 15.1871C21.7693 14.7276 21.1439 14.0536 20.6864 13.1652C20.2288 12.2768 20 11.2046 20 9'' @
         ''.94858C20 8.69256 20.2288 7.62035 20.6864 6.73195C21.1439 5.82823 21.7693 5.15427 22.5624 4.7100'' @
         ''7C23.3556 4.25055 24.2478 4.02079 25.2393 4.02079C25.9866 4.02079 26.6654 4.18928 27.2755 4.5262'' @
         ''6C27.8856 4.86324 28.3355 5.29978 28.6253 5.83589V4.36543H31.7826V15.7845C31.7826 17.3928 31.302'' @
         ''1 18.6641 30.3412 19.5985C29.3803 20.5328 27.9008 21 25.9027 21ZM25.9256 13.4409C26.7493 13.4409'' @
         '' 27.4127 13.1116 27.9161 12.453C28.4194 11.7943 28.6711 10.9519 28.6711 9.9256C28.6711 8.89934 2'' @
         ''8.4194 8.06455 27.9161 7.42123C27.4127 6.76258 26.7493 6.43326 25.9256 6.43326C25.041 6.43326 24'' @
         ''.3699 6.73961 23.9123 7.3523C23.4547 7.96499 23.2259 8.82276 23.2259 9.9256C23.2259 11.0284 23.4'' @
         ''547 11.8939 23.9123 12.5219C24.3699 13.1346 25.041 13.4409 25.9256 13.4409Z''),
       svg_path (''M33.39 16.1751V4.36543H36.4787V6.91575C36.8905 5.81291 37.4091 5.03939 38.0344 4.59519C38.6598 4'' @
         ''.15098 39.5368 3.95952 40.6655 4.02079V6.98468C40.3299 6.95405 40.0783 6.93873 39.9105 6.93873C3'' @
         ''9.4682 6.93873 39.0487 7 38.6522 7.12254C37.2489 7.59737 36.5473 9.01422 36.5473 11.3731V16.1751'' @
         ''H33.39Z''),
       svg_path (''M44.1585 16.4967C42.9382 16.4967 41.9316 16.1751 41.1384 15.5317C40.3606 14.8884 39.9716 14 39.9'' @
         ''716 12.8665C39.9716 11.9628 40.2157 11.2659 40.7037 10.7757C41.2071 10.2702 41.7714 9.9256 42.39'' @
         ''68 9.74179C43.0374 9.55799 43.7619 9.41247 44.5703 9.30525L45.5312 9.19037C46.3396 9.09847 46.91'' @
         ''92 8.96061 47.27 8.7768C47.636 8.57768 47.8191 8.20241 47.8191 7.65098C47.8191 7.19147 47.6589 6'' @
         ''.83917 47.3386 6.59409C47.0183 6.34902 46.5607 6.22648 45.9659 6.22648C45.3863 6.22648 44.9135 6'' @
         ''.34902 44.5474 6.59409C44.1966 6.82385 43.9754 7.14551 43.8839 7.55908H40.4978C40.7266 6.44092 4'' @
         ''1.3138 5.57549 42.2595 4.9628C43.2204 4.33479 44.4788 4.02079 46.0345 4.02079C49.2986 4.02079 50'' @
         ''.9306 5.26149 50.9306 7.74289V13.326C50.9306 14.2451 51.0602 15.1947 51.3195 16.1751H48.208C48.0'' @
         ''86 15.6083 48.0021 15.1105 47.9563 14.6816C47.6055 15.233 47.1022 15.6772 46.4463 16.0142C45.790'' @
         ''5 16.3359 45.0278 16.4967 44.1585 16.4967ZM45.1422 14.1532C45.9354 14.1532 46.576 13.8928 47.064'' @
         ''1 13.372C47.5674 12.8512 47.8191 12.1849 47.8191 11.3731V10.2013C47.6055 10.4617 47.3386 10.6608'' @
         '' 47.0183 10.7987C46.7133 10.9365 46.2709 11.0514 45.6913 11.1433C44.8372 11.2965 44.2195 11.4803'' @
         '' 43.8381 11.6947C43.4568 11.8939 43.2662 12.2538 43.2662 12.7746C43.2662 13.2035 43.4416 13.5405'' @
         '' 43.7924 13.7856C44.1432 14.0306 44.5932 14.1532 45.1422 14.1532Z''),
       svg_path (''M63.6153 0.0919039V16.1751H60.458V14.7965C60.1682 15.3173 59.7183 15.7385 59.1082 16.0602C58.498'' @
         ''1 16.3665 57.7964 16.5197 57.0033 16.5197C56.0119 16.5197 55.112 16.267 54.3036 15.7615C53.5105 '' @
         ''15.256 52.8775 14.5361 52.4047 13.6018C51.9471 12.6521 51.7183 11.5416 51.7183 10.2702C51.7183 8'' @
         ''.99891 51.9471 7.89606 52.4047 6.96171C52.8775 6.01203 53.5105 5.28446 54.3036 4.77899C55.112 4.'' @
         ''27352 56.0119 4.02079 57.0033 4.02079C57.7812 4.02079 58.4752 4.18928 59.0853 4.52626C59.7106 4.'' @
         ''84792 60.1682 5.2768 60.458 5.81291V0.0919039H63.6153ZM57.6897 14.0383C58.5438 14.0383 59.2226 1'' @
         ''3.686 59.7259 12.9814C60.2445 12.2768 60.5038 11.3731 60.5038 10.2702C60.5038 9.1674 60.2445 8.2'' @
         ''6368 59.7259 7.55908C59.2226 6.85449 58.5438 6.50219 57.6897 6.50219C56.7898 6.50219 56.1034 6.8'' @
         ''3917 55.6306 7.51313C55.173 8.17177 54.9442 9.09081 54.9442 10.2702C54.9442 11.4497 55.173 12.37'' @
         ''64 55.6306 13.0503C56.1034 13.709 56.7898 14.0383 57.6897 14.0383Z''),
       svg_path (''M68.4939 3.10175H64.9476V0H68.4939V3.10175ZM68.2879 16.1751H65.1764V4.36543H68.2879V16.1751Z''),
       svg_path (''M75.1212 14.0842C76.2194 14.0842 76.9515 13.7396 77.3176 13.0503H80.6121C80.2766 14.1225 79.6207'' @
         '' 14.9726 78.6446 15.6007C77.6836 16.2133 76.4939 16.5197 75.0755 16.5197C73.7942 16.5197 72.6808'' @
         '' 16.2593 71.7351 15.7385C70.8047 15.2177 70.0879 14.4902 69.5845 13.5558C69.0812 12.6061 68.8295'' @
         '' 11.5186 68.8295 10.2932C68.8295 9.09847 69.1041 8.02626 69.6532 7.07659C70.2023 6.1116 70.9344 '' @
         ''5.36105 71.8495 4.82495C72.7799 4.28884 73.7942 4.02079 74.8924 4.02079C76.0821 4.02079 77.1269 '' @
         ''4.30416 78.0268 4.8709C78.942 5.42232 79.6589 6.24179 80.1774 7.32932C80.696 8.40153 80.9629 9.6'' @
         ''9584 80.9782 11.2123H72.0555C72.1165 12.0853 72.4291 12.7823 72.9935 13.3031C73.5731 13.8239 74.'' @
         ''2823 14.0842 75.1212 14.0842ZM75.0068 6.45624C74.2594 6.45624 73.6112 6.70131 73.0621 7.19147C72'' @
         ''.5283 7.68162 72.2003 8.29431 72.0783 9.02954H77.8438C77.7065 8.24836 77.3938 7.62801 76.9058 7.'' @
         ''16849C76.4177 6.69365 75.7847 6.45624 75.0068 6.45624Z''),
       svg_path (''M81.5786 16.1751V4.36543H84.6444V5.85886C84.9647 5.35339 85.407 4.92451 85.9713 4.57221C86.5357 '' @
         ''4.2046 87.2449 4.02079 88.0991 4.02079C89.304 4.02079 90.2421 4.39606 90.9132 5.14661C91.5995 5.'' @
         ''89716 91.9427 6.95405 91.9427 8.31729V16.1751H88.7854V8.54705C88.7854 7.21444 88.2135 6.54814 87'' @
         ''.0695 6.54814C86.4289 6.54814 85.8798 6.80853 85.4222 7.32932C84.9647 7.83479 84.7359 8.593 84.7'' @
         ''359 9.60394V16.1751H81.5786Z''),
       svg_path (''M98.1011 16.2899C96.9876 16.2899 96.0801 16.0066 95.3785 15.4398C94.6921 14.8731 94.3489 13.9311'' @
         '' 94.3489 12.6138V6.7779H92.3356V4.36543H94.3489V0.873086H97.4147V4.36543H99.7712V6.7779H97.4147V'' @
         ''12.0853C97.4147 12.698 97.5291 13.1575 97.7579 13.4639C98.0019 13.7549 98.3985 13.9004 98.9476 1'' @
         ''3.9004C99.2374 13.9004 99.5882 13.8545 100 13.7626V16.0372C99.5272 16.2057 98.8942 16.2899 98.10'' @
         ''11 16.2899Z''),
       svg_path (''M3 13H0V16H3V13Z''),
       svg_path (''M18 0V2.85011L8.94745 16H6V13.1499L15.0521 0H18Z'')]"

subsection \<open>The styles of the front end's own components\<close>

text \<open>
  What every call of \<open>styled\<close> under \<^verbatim>\<open>src/\<close> makes of the theme, file by file (\<^verbatim>\<open>App.tsx\<close>,
  \<^verbatim>\<open>common/main-layout.tsx\<close>, \<^verbatim>\<open>common/drawer-layout.tsx\<close>, \<^verbatim>\<open>inputs/chat-markdown.tsx\<close>,
  \<^verbatim>\<open>inputs/dot-pulse.tsx\<close>, \<^verbatim>\<open>inputs/join-command.tsx\<close>, \<^verbatim>\<open>inputs/model-select.tsx\<close>,
  \<^verbatim>\<open>inputs/node-list.tsx\<close>, \<^verbatim>\<open>mui/alert/notification.tsx\<close>, \<^verbatim>\<open>pages/join.tsx\<close>), in each of its variants; the
  five of \<^verbatim>\<open>mui/title-icon/\<close>, which are slots with variants of their own, follow apart.
\<close>

definition app_styles :: "(rat \<Rightarrow> string) \<Rightarrow> theme \<Rightarrow> jval list" where
  "app_styles shown t =
     [AppRoot_style t] @
     [MainLayoutRoot_style t, MainLayoutHeader_style t, MainLayoutContainer_style,
      MainLayoutContent_style t, MainLayoutStart_style t, MainLayoutEnd_style t] @
     [DrawerLayoutRoot_style, DrawerLayoutSide_style t, DrawerLayoutHeader_style t, DrawerLayoutContainer_style t,
      DrawerLayoutContent_style t] @
     [MarkdownRoot_style t True, MarkdownRoot_style t False] @
     map (DotPulseRoot_style shown \<circ> fst) SIZE_MAP @ [Dot_style] @
     [JoinCommandItem_style t] @
     [ModelSelectRoot_style ''MuiSelect-select'' t V_outlined, ModelSelectRoot_style ''MuiSelect-select'' t V_text,
      ModelSelectOption_style t, ValueRow_style t, ModelExtraStatus_style, ModelLogo_style shown t,
      ModelDisplayName_style t, ModelName_style t] @
     [NodeListRoot_style t, List_style t V_list, List_style t V_menu,
      ListItem_style t, ListItemIcon_style, ListItemText_style, ListItemStatus_style V_list,
      ListItemStatus_style V_menu, DashRoot_style] @
     [NotificationActions_style t, NotificationCountdown_style] @
     [JoinStack_style]"

definition app_slots :: "kit \<Rightarrow> slot_style list" where
  "app_slots k = [TitleIconRoot k, TitleIconOutlineOuter, TitleIconOutlineInner, TitleIconFormRoot k, TitleIconFormImage]"

subsection \<open>Facts\<close>

lemma th_truncate [simp]: "th (theme.truncate k) = th k" "spacing (theme.truncate k) = spacing k"
  by (simp_all add: theme.truncate_def)

lemma css_defined: "component_defined (MuiCssBaseline k)"
  by (simp add: MuiCssBaseline_def)

lemma exports_named: "list_all (\<lambda>(n, g). starts_with ''Mui'' n) (form_exports @ data_display_exports @ feedback_exports @ surfaces_exports @ navigation_exports)"
  by (simp add: form_exports_def data_display_exports_def feedback_exports_def surfaces_exports_def navigation_exports_def)

lemma installed_map:
  "list_all (\<lambda>(n, g). starts_with ''Mui'' n) es \<Longrightarrow>
     concat (map (\<lambda>(n, g). if starts_with ''Mui'' n then (case g of None \<Rightarrow> [] | Some generate \<Rightarrow> [(n, generate k)]) else [])
       (map (\<lambda>(n, g). (n, Some g)) es)) = map (\<lambda>(n, g). (n, g k)) es"
  by (induction es) auto

lemma theme_components_eq: "theme_components k =
    map (\<lambda>(n, g). (n, g k)) ((''MuiCssBaseline'', MuiCssBaseline) # form_exports @ data_display_exports @ feedback_exports @
        surfaces_exports @ navigation_exports)"
proof -
  have "list_all (\<lambda>(n, g). starts_with ''Mui'' n) ([(''MuiCssBaseline'', MuiCssBaseline)] @ form_exports @
      data_display_exports @ feedback_exports @ surfaces_exports @ navigation_exports)"
    using exports_named by simp
  from installed_map [OF this, of k] show ?thesis
    unfolding theme_components_def theme_exports_def by simp
qed

lemma app_styles_defined:
  assumes "made_from theme_options k"
  shows "list_all fully_defined (app_styles shown (theme.truncate k))"
  using assms by (simp add: app_styles_def AppRoot_style_def MainLayoutRoot_style_def MainLayoutHeader_style_def
      MainLayoutContainer_style_def MainLayoutContent_style_def MainLayoutStart_style_def MainLayoutEnd_style_def
      Dot_style_def DrawerLayoutRoot_style_def DrawerLayoutSide_style_def DrawerLayoutHeader_style_def
      DrawerLayoutContainer_style_def DrawerLayoutContent_style_def JoinCommandItem_style_def MarkdownRoot_style_def
      ModelSelectRoot_style_def ModelSelectOption_style_def ValueRow_style_def ModelExtraStatus_style_def
      ModelLogo_style_def ModelDisplayName_style_def ModelName_style_def NodeListRoot_style_def List_style_def
      ListItem_style_def ListItemIcon_style_def ListItemText_style_def ListItemStatus_style_def DashRoot_style_def
      NotificationActions_style_def NotificationCountdown_style_def JoinStack_style_def DotPulseRoot_style_def SIZE_MAP_def Let_def)

lemma app_slots_defined:
  assumes "made_from theme_options k"
  shows "list_all slot_defined (app_slots k)"
  using assms by (simp add: app_slots_def slot_defined_def TitleIconRoot_def TitleIconOutlineOuter_def
      TitleIconOutlineInner_def TitleIconFormRoot_def TitleIconFormImage_def titleIconColorVariants_def TITLE_ICON_COLORS_def)

subsection \<open>Properties\<close>



end
