(* ===== verification/ClusterTypes.thy ===== *)
theory ClusterTypes
  imports Cluster
begin

text \<open>
  The interfaces \<^verbatim>\<open>services/cluster.tsx\<close> declares for the state it provides, as predicates, and the
  theorem that the provider keeps them: the code gives these types to values that come from the
  server unchecked, so they hold exactly as far as the server keeps the format of its messages.
\<close>

subsection \<open>Types\<close>

fun is_num :: "jval \<Rightarrow> bool" where
  "is_num (JNum n) = True"
| "is_num v = False"

fun is_bool :: "jval \<Rightarrow> bool" where
  "is_bool (JBool b) = True"
| "is_bool v = False"

definition one_of :: "string list \<Rightarrow> jval \<Rightarrow> bool" where
  "one_of ss v = list_ex (\<lambda>s. v = JStr s) ss"

definition record_of_strings :: "jval \<Rightarrow> bool" where
  "record_of_strings v = (case v of JObj kvs \<Rightarrow> list_all (\<lambda>(k, w). is_str w) kvs | _ \<Rightarrow> False)"

definition ClusterStatus :: "string list" where
  "ClusterStatus = [''offline'', ''idle'', ''waiting'', ''available'', ''rebalancing'', ''failed'']"

definition NodeStatus :: "string list" where
  "NodeStatus = [''waiting'', ''available'', ''failed'']"

definition ModelInfo_typed :: "model_info \<Rightarrow> bool" where
  "ModelInfo_typed m = is_num (mi_vram m)"

definition ClusterInfo_typed :: "cluster_info \<Rightarrow> bool" where
  "ClusterInfo_typed c \<longleftrightarrow> one_of ClusterStatus (ci_status c) \<and> is_str (ci_model_name c) \<and>
     (case ci_model_info c of None \<Rightarrow> True | Some m \<Rightarrow> ModelInfo_typed m) \<and>
     record_of_strings (ci_join c) \<and> is_num (ci_init_nodes c) \<and> is_bool (ci_more c)"

definition NodeInfo_typed :: "node_info \<Rightarrow> bool" where
  "NodeInfo_typed n \<longleftrightarrow> is_str (n_id n) \<and> one_of NodeStatus (n_status n) \<and> is_num (n_gpu_number n) \<and>
     is_str (n_gpu_name n) \<and> is_num (n_gpu_memory n)"

definition ClusterConfig_typed :: "cluster \<Rightarrow> bool" where
  "ClusterConfig_typed s \<longleftrightarrow> is_str (cl_model_name s) \<and> list_all ModelInfo_typed (cl_models s)"

definition ClusterStates_typed :: "cluster \<Rightarrow> bool" where
  "ClusterStates_typed s \<longleftrightarrow> ClusterConfig_typed s \<and> ClusterInfo_typed (cl_info s) \<and>
     list_all NodeInfo_typed (cl_nodes s)"

subsection \<open>Well typed messages of the server\<close>

text \<open>A field that may be missing or \<open>null\<close>.\<close>

definition given :: "(jval \<Rightarrow> bool) \<Rightarrow> jval \<Rightarrow> bool" where
  "given P v \<longleftrightarrow> P v \<or> v = JUndef \<or> v = JNull"

definition raw_node_typed :: "jval \<Rightarrow> bool" where
  "raw_node_typed r \<longleftrightarrow> r \<noteq> JUndef \<and> r \<noteq> JNull \<and> is_str (prop_of r ''node_id'') \<and>
     one_of NodeStatus (prop_of r ''status'') \<and> given is_num (prop_of r ''gpu_num'') \<and>
     given is_str (prop_of r ''gpu_name'') \<and> given is_num (prop_of r ''gpu_memory'')"

definition status_data_typed :: "(string \<Rightarrow> jval) \<Rightarrow> bool" where
  "status_data_typed f \<longleftrightarrow> given (one_of ClusterStatus) (f ''status'') \<and> given is_num (f ''init_nodes_num'') \<and>
     given is_str (f ''model_name'') \<and> given record_of_strings (f ''node_join_command'') \<and>
     given is_bool (f ''need_more_nodes'') \<and>
     (\<exists>raw. f ''node_list'' = JArr raw \<and> list_all raw_node_typed raw)"

definition status_typed :: "jval \<Rightarrow> bool" where
  "status_typed m \<longleftrightarrow> prop_of m ''type'' = JStr ''cluster_status'' \<longrightarrow>
     prop_of m ''data'' \<noteq> JUndef \<longrightarrow> prop_of m ''data'' \<noteq> JNull \<longrightarrow> status_data_typed (prop_of (prop_of m ''data''))"

definition raw_models_typed :: "jval js_result \<Rightarrow> bool" where
  "raw_models_typed r \<longleftrightarrow> (\<forall>ms. r = Inr (JArr ms) \<longrightarrow> list_all (\<lambda>m. given is_num (prop_of m ''vram_gb'')) ms)"

definition reply_typed :: "(rat \<Rightarrow> string) \<Rightarrow> 'b cluster_event \<Rightarrow> bool" where
  "reply_typed shown ev \<longleftrightarrow> (\<forall>r. ev = ModelListReply r \<longrightarrow> raw_models_typed (get_model_list shown r))"

subsection \<open>Every handler keeps the types\<close>

lemma js_or_typed: "given P v \<Longrightarrow> P d \<Longrightarrow> P (js_or v d)"
  by (auto simp: given_def js_or_def)

lemma is_str_js_or [simp]: "is_str a \<Longrightarrow> is_str b \<Longrightarrow> is_str (js_or a b)"
  by (simp add: js_or_def)

lemma status_and_typed:
  "given (one_of ss) st \<Longrightarrow> list_ex (\<lambda>s. s = ''idle'') ss \<Longrightarrow> given is_str name \<Longrightarrow>
     one_of ss (js_or (js_and name st) (JStr ''idle''))"
  by (auto simp: given_def one_of_def js_or_def js_and_def list_ex_iff)

lemma find_model_None: "find_model first_models n = None"
  by (simp add: find_model_def first_models_def)

lemma info_next_typed:
  assumes "status_data_typed f" and "ClusterInfo_typed c"
  shows "ClusterInfo_typed (c\<lparr>ci_status := js_or (js_and (f ''model_name'') (f ''status'')) (JStr ''idle''),
      ci_init_nodes := js_or (f ''init_nodes_num'') (JNum 0), ci_model_name := js_or (f ''model_name'') (JStr []),
      ci_model_info := None, ci_join := js_or (f ''node_join_command'') (JObj []),
      ci_more := js_or (f ''need_more_nodes'') (JBool False)\<rparr>)"
proof -
  have "one_of ClusterStatus (js_or (js_and (f ''model_name'') (f ''status'')) (JStr ''idle''))"
    using assms(1) by (intro status_and_typed) (auto simp: status_data_typed_def ClusterStatus_def)
  then show ?thesis
    using assms js_or_typed [of is_str "f ''model_name''" "JStr []"] js_or_typed [of is_num "f ''init_nodes_num''" "JNum 0"]
      js_or_typed [of record_of_strings "f ''node_join_command''" "JObj []"]
      js_or_typed [of is_bool "f ''need_more_nodes''" "JBool False"]
    by (simp add: ClusterInfo_typed_def status_data_typed_def record_of_strings_def)
qed

lemma info_typed:
  "status_data_typed f \<Longrightarrow> ClusterInfo_typed c \<Longrightarrow> ClusterInfo_typed (info_updater first_models f c)"
  using info_next_typed [of f c] by (simp add: info_updater_def find_model_None Let_def)

lemma node_typed: "raw_node_typed r \<Longrightarrow> \<exists>n. node_of r = Inr n \<and> NodeInfo_typed n"
  using js_or_typed [of is_num "prop_of r ''gpu_num''" "JNum 1"] js_or_typed [of is_str "prop_of r ''gpu_name''" "JStr []"]
    js_or_typed [of is_num "prop_of r ''gpu_memory''" "JNum 0"]
  by (auto simp: raw_node_typed_def node_of_def NodeInfo_typed_def get_prop_Inr)

lemma nodes_typed:
  "list_all raw_node_typed raw \<Longrightarrow> \<exists>ns. js_map node_of raw = Inr ns \<and> list_all NodeInfo_typed ns"
proof (induction raw)
  case (Cons r raw)
  then obtain n ns where "node_of r = Inr n" "NodeInfo_typed n" "js_map node_of raw = Inr ns" "list_all NodeInfo_typed ns"
    using node_typed by fastforce
  then show ?case by simp
qed simp

lemma failed_node_typed: "NodeInfo_typed n \<Longrightarrow> NodeInfo_typed (failed_node n)"
  by (simp add: NodeInfo_typed_def failed_node_def one_of_def NodeStatus_def)

lemma merge_nodes_typed:
  "list_all NodeInfo_typed next \<Longrightarrow> list_all NodeInfo_typed prev \<Longrightarrow> list_all NodeInfo_typed (merge_nodes next prev)"
  by (auto simp: merge_nodes_def Let_def list_all_iff failed_node_typed)

definition typed :: "cluster \<Rightarrow> bool" where
  "typed s \<longleftrightarrow> \<not> cl_crashed s \<and> ClusterStates_typed s"

lemma typed_message:
  assumes "typed s" and "status_typed m"
  shows "typed (cluster_on_message first_models m s)"
proof -
  consider "m = JUndef \<or> m = JNull" | "get_prop m ''type'' = Inr (prop_of m ''type'')"
    "get_prop m ''data'' = Inr (prop_of m ''data'')"
    using get_prop_Inr by blast
  then show ?thesis
  proof cases
    case 2
    let ?d = "prop_of m ''data''"
    show ?thesis
    proof (cases "prop_of m ''type'' = JStr ''cluster_status'' \<and> ?d \<noteq> JUndef \<and> ?d \<noteq> JNull")
      case True
      then have f: "status_data_typed (prop_of ?d)" using assms(2) by (simp add: status_typed_def)
      then obtain raw ns where "prop_of ?d ''node_list'' = JArr raw" "js_map node_of raw = Inr ns" "list_all NodeInfo_typed ns"
        using nodes_typed unfolding status_data_typed_def by blast
      then show ?thesis
        using True 2 assms(1) info_typed [OF f] merge_nodes_typed [of ns "cl_nodes s"]
        by (simp add: cluster_on_message_def typed_def ClusterStates_typed_def ClusterConfig_typed_def
            nodes_updater_def set_info_def Let_def)
    next
      case False
      then show ?thesis using 2 assms(1) by (auto simp: cluster_on_message_def)
    qed
  qed (use assms(1) in \<open>auto simp: cluster_on_message_def\<close>)
qed

lemma initial_info_typed: "ClusterInfo_typed INITIAL_CLUSTER_INFO"
  by (simp add: ClusterInfo_typed_def INITIAL_CLUSTER_INFO_def one_of_def ClusterStatus_def record_of_strings_def)

lemma models_typed:
  "list_all (\<lambda>m. given is_num (prop_of m ''vram_gb'')) ms \<Longrightarrow> js_map (model_of asset) ms = Inr next \<Longrightarrow>
     list_all ModelInfo_typed next"
proof (induction ms arbitrary: "next")
  case (Cons m ms)
  then obtain x xs where x: "model_of asset m = Inr x" "js_map (model_of asset) ms = Inr xs" "next = x # xs"
    by (auto simp: js_bind_Inr_iff)
  obtain v va where "get_prop m ''vram_gb'' = Inr va" "(case js_or v (JStr []) of
      JStr n \<Rightarrow> Inr \<lparr>mi_name = n, mi_display = n, mi_logo = get_logo_url asset n, mi_vram = js_or va (JNum 0)\<rparr>
    | _ \<Rightarrow> Inl type_error) = Inr x"
    using x(1) unfolding model_of_def js_bind_Inr_iff by blast
  then have "mi_vram x = js_or (prop_of m ''vram_gb'') (JNum 0)"
    by (cases "js_or v (JStr [])") (auto simp: prop_of_Inr)
  then have "ModelInfo_typed x"
    using Cons.prems(1) js_or_typed [of is_num "prop_of m ''vram_gb''" "JNum 0"] by (simp add: ModelInfo_typed_def)
  then show ?case using Cons x by simp
qed simp

lemma reply_handler_typed:
  assumes "typed s" and "raw_models_typed (get_model_list shown r)"
  shows "typed (model_list_reply shown asset r s)"
proof -
  have "list_all ModelInfo_typed next"
    if "js_bind (get_model_list shown r) (\<lambda>rawList. js_bind (js_elems rawList) (js_map (model_of asset))) = Inr next" for "next"
  proof -
    from that obtain v ms where "get_model_list shown r = Inr v" "js_elems v = Inr ms" "js_map (model_of asset) ms = Inr next"
      by (auto simp: js_bind_Inr_iff)
    then show ?thesis using assms(2) models_typed by (cases v) (auto simp: raw_models_typed_def)
  qed
  then show ?thesis using assms(1)
    by (auto simp: model_list_reply_def typed_def ClusterStates_typed_def ClusterConfig_typed_def split: sum.splits)
qed

lemma first_name_str: "is_str (first_model_name s)"
  by (simp add: first_model_name_def split: list.split)

lemma render_typed: "typed s \<Longrightarrow> typed (render s)"
  by (auto simp: typed_def ClusterStates_typed_def ClusterConfig_typed_def ClusterInfo_typed_def render_def
      model_name_effect_def first_name_str Let_def)

lemma handler_typed: "reply_typed shown ev \<Longrightarrow> typed s \<Longrightarrow> typed (cluster_handler shown asset ev s)"
proof (cases ev)
  case (ModelListReply r)
  then show "reply_typed shown ev \<Longrightarrow> typed s \<Longrightarrow> ?thesis"
    by (simp add: cluster_handler_def reply_typed_def reply_handler_typed)
qed (auto simp: cluster_handler_def start_model_list_def model_list_retry_def typed_def
    ClusterStates_typed_def ClusterConfig_typed_def)

interpretation typing: cluster_keeps typed status_typed "reply_typed shown" shown asset for shown asset
proof
  show "typed s \<Longrightarrow> typed (on_status cluster_stream_options st s)" for s st by simp
  show "typed s \<Longrightarrow> status_typed m \<Longrightarrow> typed (on_msg cluster_stream_options m s)" for s m
    by (simp add: unless_crashed_def typed_message)
  show "typed s \<Longrightarrow> typed (on_err cluster_stream_options e s)" for s e
    by (simp add: cluster_set_defs typed_def ClusterStates_typed_def ClusterConfig_typed_def initial_info_typed)
  show "typed s \<Longrightarrow> reply_typed shown ev \<Longrightarrow> typed (render (unless_crashed (cluster_handler shown asset ev) s))"
    for s and ev :: "'b cluster_event"
    by (simp add: unless_crashed_def render_typed handler_typed)
qed

lemma start_typed: "typed (h_cb (http_init cluster_start))"
  by (simp add: typed_def ClusterStates_typed_def ClusterConfig_typed_def http_init_def cluster_start_def initial_info_typed)

lemma reachable_typed:
  assumes "\<forall>line m. parse line = Some m \<longrightarrow> status_typed m" and "list_all (reply_typed shown) evs"
  shows "typed (h_cb (run (cluster_step decode parse shown asset) (http_init cluster_start) evs))"
proof -
  have "lines_ok status_typed parse Some"
    using assms(1) by (simp add: lines_ok_def line_message_def split: option.splits)
  then show ?thesis
    using typing.cluster_kept.run_guarded [of parse "http_init cluster_start" shown evs decode asset] assms(2) start_typed
    by blast
qed

subsection \<open>Properties\<close>

text \<open>
  C17 (cluster_typed): as long as the status messages and the model lists of the server have the
  documented fields, every state the provider hands out has the types its interfaces declare:
  the cluster's status and every node's status are among the named ones, names are strings,
  numbers are numbers and the join commands are strings.
\<close>

theorem cluster_typed:
  assumes "\<forall>line m. parse line = Some m \<longrightarrow> status_typed m" and "list_all (reply_typed shown) evs"
    and "s = h_cb (run (cluster_step decode parse shown asset) (http_init cluster_start) evs)"
  shows "ClusterConfig_typed s \<and> ClusterInfo_typed (cl_info s) \<and> list_all NodeInfo_typed (cl_nodes s) \<and>
    (\<forall>m. config_model_info s = Some m \<longrightarrow> ModelInfo_typed m)"
proof -
  have t: "ClusterStates_typed s" using reachable_typed [OF assms(1,2)] assms(3) by (simp add: typed_def)
  have "ModelInfo_typed m" if "config_model_info s = Some m" for m
  proof -
    have "m \<in> set (cl_models s)" using that by (auto simp: config_model_info_def find_model_def find_Some_iff)
    then show ?thesis using t by (auto simp: ClusterStates_typed_def ClusterConfig_typed_def list_all_iff)
  qed
  then show ?thesis using t by (simp add: ClusterStates_typed_def)
qed

lemma nodes_message_typed: "status_typed (nodes_message [''a'', ''b''])"
  by (simp add: status_typed_def nodes_message_def status_message_def node_json_def prop_of_def obj_get_def
      status_data_typed_def given_def one_of_def ClusterStatus_def NodeStatus_def raw_node_typed_def)

theorem cluster_typed_witness:
  "ClusterInfo_typed (cl_info (h_cb (run (cluster_step id (\<lambda>l. Some (nodes_message [''a'', ''b''])) (\<lambda>q. []) id)
     (http_init cluster_start) [Mount Host_cluster, Stream (HResponse 0 200 (Some ''application/x-ndjson'') True),
       Stream (HChunk 0 [NL])])))"
proof -
  have 1: "\<forall>line m. Some (nodes_message [''a'', ''b'']) = Some m \<longrightarrow> status_typed m" using nodes_message_typed by simp
  have 2: "list_all (reply_typed (\<lambda>q. [])) [Mount Host_cluster,
      Stream (HResponse 0 200 (Some ''application/x-ndjson'') True), Stream (HChunk 0 [NL])]"
    by (simp add: reply_typed_def)
  show ?thesis using cluster_typed [OF 1 2 refl] by blast
qed

end
