(* ===== verification/Conversation.thy ===== *)
theory Conversation
  imports Chat "HOL-Library.Sublist"
begin

text \<open>
  What the chat provider promises, without its connection, its statuses and its identifiers: a
  history of questions and answers and, while a request is open, one answer that grows. The
  abstract operations say what each kind of event may do; the provider of
  \<^verbatim>\<open>services/chat.tsx\<close> refines them.
\<close>

subsection \<open>The abstract conversation\<close>

datatype turn = Asked string | Answered string

datatype conv =
    Rest "turn list"
  | Answering "turn list" "string option"

definition answer_turns :: "string option \<Rightarrow> turn list" where
  "answer_turns a = (case a of None \<Rightarrow> [] | Some r \<Rightarrow> [Answered r])"

text \<open>The end of a request: the answer so far becomes a turn of the history.\<close>

fun finished :: "conv \<Rightarrow> conv" where
  "finished (Answering h a) = Rest (h @ answer_turns a)"
| "finished (Rest h) = Rest h"

text \<open>A new question, and a repeated one: the history up to it is sent again.\<close>

inductive ask_step :: "conv \<Rightarrow> conv \<Rightarrow> bool" where
  ask: "q \<noteq> [] \<Longrightarrow> ask_step (Rest h) (Answering (h @ [Asked q]) None)"

inductive repeat_step :: "conv \<Rightarrow> conv \<Rightarrow> bool" where
  again: "i < length h \<Longrightarrow> h ! i = Asked q \<Longrightarrow> repeat_step (Rest h) (Answering (take (Suc i) h) None)"
| redo: "i < length h \<Longrightarrow> h ! i = Answered r \<Longrightarrow> repeat_step (Rest h) (Answering (take i h) None)"

text \<open>A piece of the answer.\<close>

inductive token_step :: "conv \<Rightarrow> conv \<Rightarrow> bool" where
  token: "t \<noteq> [] \<Longrightarrow> token_step (Answering h a) (Answering h (Some ((case a of None \<Rightarrow> [] | Some r \<Rightarrow> r) @ t)))"

inductive_cases token_from_answering: "token_step (Answering h a) c"

text \<open>What an event may do to the conversation.\<close>

fun conv_spec :: "'b chat_event \<Rightarrow> conv \<Rightarrow> conv \<Rightarrow> bool" where
  "conv_spec (SetInput v) c c' = (c' = c)"
| "conv_spec (Generate None now ns) c c' = (c' = c \<or> ask_step c c')"
| "conv_spec (Generate (Some m) now ns) c c' = (c' = c \<or> repeat_step c c')"
| "conv_spec Stop c c' = (c' = finished c)"
| "conv_spec Clear c c' = (c' = (case c of Rest h \<Rightarrow> Rest [] | Answering h a \<Rightarrow> finished c))"
| "conv_spec (Net n) c c' = (\<exists>b. token_step\<^sup>*\<^sup>* c b \<and> (c' = b \<or> c' = finished b))"

text \<open>Tokens lengthen the answer and leave the history alone.\<close>

lemma tokens_extend:
  assumes "token_step\<^sup>*\<^sup>* (Answering h a) b"
  shows "\<exists>a'. b = Answering h a' \<and> prefix (case a of None \<Rightarrow> [] | Some r \<Rightarrow> r) (case a' of None \<Rightarrow> [] | Some r \<Rightarrow> r)"
  using assms
proof (induction rule: rtranclp_induct)
  case base
  then show ?case by simp
next
  case (step b c)
  then show ?case by (auto elim!: token_from_answering)
qed

subsection \<open>The abstraction\<close>

definition turn_of :: "chat_message \<Rightarrow> turn" where
  "turn_of m = (if c_role m = JStr ''user'' then Asked (c_content m) else Answered (raw_text (c_raw m)))"

text \<open>The messages of the last request.\<close>

definition last_request :: "chat \<Rightarrow> jval list" where
  "last_request x = (if posted x = [] then []
     else (case prop_of (last (posted x)) ''messages'' of JArr ms \<Rightarrow> ms | _ \<Rightarrow> []))"

definition answer_of :: "chat_message list \<Rightarrow> string option" where
  "answer_of ms = (case ms of [] \<Rightarrow> None | m # _ \<Rightarrow> Some (raw_text (c_raw m)))"

definition open_view :: "jval list \<Rightarrow> chat_message list \<Rightarrow> conv" where
  "open_view R ms = Answering (map turn_of (take (length R) ms)) (answer_of (drop (length R) ms))"

definition conv_of :: "chat \<Rightarrow> conv" where
  "conv_of x = (if busy (cb x) then open_view (last_request x) (ui_messages (cb x))
     else Rest (map turn_of (ui_messages (cb x))))"

subsection \<open>The simulation relation\<close>

text \<open>Messages of the user, and answers that follow one.\<close>

definition alternates :: "chat_message list \<Rightarrow> bool" where
  "alternates ms \<longleftrightarrow> (\<forall>i < length ms. c_role (ms ! i) = JStr ''user'' \<or>
     (c_role (ms ! i) = JStr ''assistant'' \<and> 0 < i \<and> c_role (ms ! (i - 1)) = JStr ''user''))"

text \<open>An open request \<open>R\<close>: its messages are on display, and behind them at most one answer.\<close>

definition open_conv :: "jval list \<Rightarrow> chat_message list \<Rightarrow> bool" where
  "open_conv R ms \<longleftrightarrow> alternates ms \<and> R \<noteq> [] \<and> map request_message (take (length R) ms) = R \<and>
     c_role (ms ! (length R - 1)) = JStr ''user'' \<and> length ms \<le> Suc (length R) \<and>
     (length ms = Suc (length R) \<longrightarrow> c_role (last ms) = JStr ''assistant'')"

lemma alternates_take: "alternates ms \<Longrightarrow> alternates (take n ms)"
  by (auto simp: alternates_def)

lemma alternates_snoc:
  assumes "alternates ms"
  shows "alternates (ms @ [m]) \<longleftrightarrow> c_role m = JStr ''user'' \<or>
    (c_role m = JStr ''assistant'' \<and> ms \<noteq> [] \<and> c_role (last ms) = JStr ''user'')"
  using assms unfolding alternates_def
  by (auto simp: nth_append last_conv_nth less_Suc_eq all_conj_distrib split: if_splits)

lemma alternates_last:
  assumes "alternates ms" and "ms \<noteq> []" and "c_role m = c_role (last ms)"
  shows "alternates (butlast ms @ [m])"
proof -
  have a: "alternates (butlast ms)" using assms(1) by (simp add: butlast_conv_take alternates_take)
  have "alternates (butlast ms @ [last ms])" using assms(1,2) by simp
  then show ?thesis using alternates_snoc [OF a] assms(3) by simp
qed

lemma alternates_prev:
  "alternates ms \<Longrightarrow> i < length ms \<Longrightarrow> c_role (ms ! i) \<noteq> JStr ''user'' \<Longrightarrow>
     0 < i \<and> c_role (ms ! (i - 1)) = JStr ''user''"
  by (auto simp: alternates_def)

lemma open_conv_length: "open_conv R ms \<Longrightarrow> length ms = length R \<or> length ms = Suc (length R)"
proof -
  assume o: "open_conv R ms"
  then have "length (map request_message (take (length R) ms)) = length R" by (simp only: open_conv_def)
  then have "length R \<le> length ms" by simp
  then show ?thesis using o by (auto simp: open_conv_def)
qed

lemma open_conv_shown:
  "open_conv R ms \<Longrightarrow> R = map request_message (take (length R) ms) \<and> length ms \<le> Suc (length R)"
  unfolding open_conv_def by argo

text \<open>Replacing the last message by one of its role that is sent and shown the same.\<close>

lemma open_conv_update:
  assumes "open_conv R ms" and "c_role m = c_role (last ms)"
    and "length ms = length R \<Longrightarrow> request_message m = request_message (last ms)"
  shows "open_conv R (butlast ms @ [m])"
proof -
  have ne: "ms \<noteq> []" using assms(1) by (auto simp: open_conv_def)
  have len: "length (butlast ms @ [m]) = length ms" using ne by simp
  show ?thesis
  proof (cases "length ms = length R")
    case True
    have "map request_message ms = R" using assms(1) True by (simp add: open_conv_def)
    moreover have "map request_message (butlast ms @ [m]) = map request_message (butlast ms @ [last ms])"
      using assms(3) True by simp
    ultimately have "map request_message (butlast ms @ [m]) = R" using ne by simp
    moreover have "take (length R) (butlast ms @ [m]) = butlast ms @ [m]"
      using len True by (intro take_all) simp
    ultimately have req: "map request_message (take (length R) (butlast ms @ [m])) = R" by presburger
    have "(butlast ms @ [m]) ! (length R - 1) = m"
      using True nth_append_length [of "butlast ms" m "[]"] by simp
    moreover have "ms ! (length R - 1) = last ms" using True last_conv_nth [OF ne] by simp
    ultimately have "c_role ((butlast ms @ [m]) ! (length R - 1)) = JStr ''user''"
      using assms(1,2) by (simp add: open_conv_def)
    then show ?thesis
      using req assms(1) alternates_last [OF _ ne assms(2)] len True unfolding open_conv_def by simp
  next
    case False
    then have l: "length ms = Suc (length R)" using open_conv_length [OF assms(1)] by simp
    then have "take (length R) (butlast ms @ [m]) = take (length R) ms"
      by (simp add: butlast_conv_take min_def)
    moreover have "(butlast ms @ [m]) ! (length R - 1) = ms ! (length R - 1)"
    proof -
      have "length R - 1 < length (butlast ms)" using l assms(1) by (auto simp: open_conv_def)
      then show ?thesis by (simp add: nth_append nth_butlast)
    qed
    ultimately show ?thesis using assms alternates_last [OF _ ne assms(2)] len by (auto simp: open_conv_def)
  qed
qed

lemma open_view_update:
  assumes "open_conv R ms" and "turn_of m = turn_of (last ms)"
    and "length ms = Suc (length R) \<Longrightarrow> c_raw m = c_raw (last ms)"
  shows "open_view R (butlast ms @ [m]) = open_view R ms"
proof -
  have ne: "ms \<noteq> []" using assms(1) by (auto simp: open_conv_def)
  then obtain ns l where ms: "ms = ns @ [l]" by (metis rev_exhaust)
  show ?thesis using open_conv_length [OF assms(1)] assms(2,3)
    by (auto simp: ms open_view_def answer_of_def)
qed

lemma request_message_status [simp]: "request_message (m\<lparr>c_status := st\<rparr>) = request_message m"
  "turn_of (m\<lparr>c_status := st\<rparr>) = turn_of m"
  by (simp_all add: request_message_def turn_of_def)

lemma mark_done_open:
  assumes "open_conv R ms"
  shows "\<exists>ms'. mark_done ms = Inr ms' \<and> open_conv R ms' \<and> open_view R ms' = open_view R ms"
proof -
  have ne: "ms \<noteq> []" using assms by (auto simp: open_conv_def)
  let ?m = "(last ms)\<lparr>c_status := M_done\<rparr>"
  have "open_conv R (butlast ms @ [?m])" by (rule open_conv_update [OF assms]) simp_all
  moreover have "open_view R (butlast ms @ [?m]) = open_view R ms" by (rule open_view_update [OF assms]) simp_all
  ultimately show ?thesis using ne by (simp add: mark_done_def)
qed

lemma mark_done_turns: "mark_done ms = Inr ms' \<Longrightarrow> map turn_of ms' = map turn_of ms \<and> (alternates ms \<longrightarrow> alternates ms')"
proof -
  assume m: "mark_done ms = Inr ms'"
  then have ne: "ms \<noteq> []" and ms': "ms' = butlast ms @ [(last ms)\<lparr>c_status := M_done\<rparr>]"
    by (auto simp: mark_done_def split: if_splits)
  obtain ns l where "ms = ns @ [l]" using ne by (metis rev_exhaust)
  then show ?thesis using ms' alternates_last [of ms "(last ms)\<lparr>c_status := M_done\<rparr>"] ne by auto
qed

lemma open_view_closed:
  assumes "open_conv R ms"
  shows "finished (open_view R ms) = Rest (map turn_of ms)"
proof -
  have "map turn_of (take (length R) ms) @ answer_turns (answer_of (drop (length R) ms)) = map turn_of ms"
  proof (cases "length ms = length R")
    case True
    then show ?thesis by (simp add: answer_of_def answer_turns_def)
  next
    case False
    then have l: "length ms = Suc (length R)" using open_conv_length [OF assms] by simp
    then obtain ns m where ms: "ms = ns @ [m]" by (metis append_butlast_last_id length_0_conv nat.distinct(1))
    have "c_role m = JStr ''assistant''" using assms l ms by (simp add: open_conv_def)
    then show ?thesis using l by (simp add: ms answer_of_def answer_turns_def turn_of_def)
  qed
  then show ?thesis by (simp add: open_view_def)
qed

subsection \<open>Deltas are tokens\<close>

text \<open>A choice whose delta is readable and does not name another role than the assistant's.\<close>

definition assistant_choice :: "jval \<Rightarrow> bool" where
  "assistant_choice c = (case choice_delta c of Inl e \<Rightarrow> False | Inr (r, t) \<Rightarrow> js_or r (JStr ''assistant'') = JStr ''assistant'')"

definition delta_ok :: "jval \<Rightarrow> bool" where
  "delta_ok d \<longleftrightarrow> prop_of d ''object'' \<noteq> JStr ''chat.completion.chunk'' \<or>
     (case prop_of d ''choices'' of JArr cs \<Rightarrow> list_all assistant_choice cs
       | v \<Rightarrow> \<not> js_gt (prop_of v ''length'') 0)"

lemma append_delta_open:
  fixes i cr :: jval
  assumes "open_conv R ms" and "t \<noteq> []"
  defines "ms' \<equiv> append_delta i cr (JStr ''assistant'') t ms"
  shows "open_conv R ms' \<and> length ms' = Suc (length R) \<and> token_step (open_view R ms) (open_view R ms')"
proof -
  have ne: "ms \<noteq> []" using assms(1) by (auto simp: open_conv_def)
  show ?thesis
  proof (cases "length ms = length R")
    case True
    then have u: "c_role (last ms) = JStr ''user''" using assms(1) ne by (simp add: open_conv_def last_conv_nth)
    let ?m = "\<lparr>c_id = i, c_role = JStr ''assistant'', c_status = M_thinking, c_content = t, c_raw = Some t,
      c_thinking = None, c_created = cr\<rparr>"
    have ms': "ms' = ms @ [?m]" using u by (simp add: ms'_def append_delta_def)
    have "alternates ms'" using assms(1) u ne by (simp add: ms' open_conv_def alternates_snoc)
    then have "open_conv R ms'" using assms(1) True by (auto simp: ms' open_conv_def nth_append)
    moreover have "token_step (open_view R ms) (open_view R ms')"
      using token [OF assms(2), of "map turn_of ms" None] True
      by (simp add: ms' open_view_def answer_of_def raw_text_def)
    ultimately show ?thesis using True by (simp add: ms')
  next
    case False
    then have l: "length ms = Suc (length R)" using open_conv_length [OF assms(1)] by simp
    then have a: "c_role (last ms) = JStr ''assistant''" using assms(1) by (simp add: open_conv_def)
    let ?raw = "raw_text (c_raw (last ms)) @ t"
    have ms': "ms' = butlast ms @ [(last ms)\<lparr>c_raw := Some ?raw, c_content := ?raw\<rparr>]"
      using a ne by (simp add: ms'_def append_delta_def Let_def)
    have "open_conv R ms'" unfolding ms' by (rule open_conv_update [OF assms(1)]) (use False in simp_all)
    moreover have "token_step (open_view R ms) (open_view R ms')"
    proof -
      obtain ns m where ms: "ms = ns @ [m]" using ne by (metis rev_exhaust)
      show ?thesis using token [OF assms(2), of "map turn_of ns" "Some (raw_text (c_raw m))"] l
        unfolding ms' by (simp add: ms open_view_def answer_of_def raw_text_def)
    qed
    ultimately show ?thesis using l ne by (simp add: ms')
  qed
qed

lemma apply_choices_open:
  assumes "list_all assistant_choice cs" and "open_conv R ms" and "ch \<longrightarrow> length ms = Suc (length R)"
  shows "\<exists>ms' ch'. apply_choices i cr cs ms ch = Inr (ms', ch') \<and> open_conv R ms' \<and>
    (ch' \<longrightarrow> length ms' = Suc (length R)) \<and> token_step\<^sup>*\<^sup>* (open_view R ms) (open_view R ms')"
  using assms
proof (induction cs arbitrary: ms ch)
  case Nil
  then show ?case by simp
next
  case (Cons c cs)
  then obtain r v where c: "choice_delta c = Inr (r, v)" "js_or r (JStr ''assistant'') = JStr ''assistant''"
    by (auto simp: assistant_choice_def split: sum.splits)
  have rest: "list_all assistant_choice cs" using Cons.prems(1) by simp
  show ?case
  proof (cases "\<exists>t. v = JStr t \<and> t \<noteq> []")
    case True
    then obtain t where t: "v = JStr t" "t \<noteq> []" by blast
    note s = append_delta_open [OF Cons.prems(2) t(2), of i cr]
    then obtain ms' ch' where "apply_choices i cr cs (append_delta i cr (JStr ''assistant'') t ms) True = Inr (ms', ch')"
      "open_conv R ms'" "ch' \<longrightarrow> length ms' = Suc (length R)"
      "token_step\<^sup>*\<^sup>* (open_view R (append_delta i cr (JStr ''assistant'') t ms)) (open_view R ms')"
      using Cons.IH [OF rest, of "append_delta i cr (JStr ''assistant'') t ms" True] by auto
    then show ?thesis using c t s by (auto intro: converse_rtranclp_into_rtranclp)
  next
    case False
    then show ?thesis using c Cons.IH [OF rest Cons.prems(2,3)] by (cases v) auto
  qed
qed

lemma reparse_open:
  assumes "open_conv R ms" and "length ms = Suc (length R)"
  shows "open_conv R (reparse_last mdl ms) \<and> open_view R (reparse_last mdl ms) = open_view R ms"
proof -
  have a: "c_role (last ms) = JStr ''assistant''" using assms by (simp add: open_conv_def)
  obtain th ct where p: "parse_generation mdl (case c_raw (last ms) of None \<Rightarrow> [] | Some t \<Rightarrow> t) = (th, ct)"
    by fastforce
  let ?m = "(last ms)\<lparr>c_status := (if ct \<noteq> [] then M_generating else M_thinking), c_thinking := Some th, c_content := ct\<rparr>"
  have r: "reparse_last mdl ms = butlast ms @ [?m]" by (simp add: reparse_last_def p Let_def)
  have "open_conv R (butlast ms @ [?m])" by (rule open_conv_update [OF assms(1)]) (use assms(2) in simp_all)
  moreover have "open_view R (butlast ms @ [?m]) = open_view R ms"
    by (rule open_view_update [OF assms(1)]) (simp_all add: turn_of_def a)
  ultimately show ?thesis by (simp add: r)
qed

lemma delta_updater_open:
  assumes "list_all assistant_choice cs" and "open_conv R ms"
  shows "\<exists>ms'. delta_updater i mdl cr (JArr cs) ms = Inr ms' \<and> open_conv R ms' \<and>
    token_step\<^sup>*\<^sup>* (open_view R ms) (open_view R ms')"
proof -
  obtain ms' ch' where a: "apply_choices i cr cs ms False = Inr (ms', ch')" "open_conv R ms'"
    "ch' \<longrightarrow> length ms' = Suc (length R)" "token_step\<^sup>*\<^sup>* (open_view R ms) (open_view R ms')"
    using apply_choices_open [OF assms, of False i cr] by auto
  then show ?thesis using reparse_open [of R ms'] by (cases mdl) (auto simp: delta_updater_def)
qed

subsection \<open>The provider as a user of the client\<close>

text \<open>
  The relation \<open>r\<close> from the conversation at the start: \<open>token_step\<^sup>*\<^sup>*\<close> over a stream, equality where no
  message can arrive.
\<close>

definition session_open :: "(conv \<Rightarrow> conv \<Rightarrow> bool) \<Rightarrow> jval list \<Rightarrow> conv \<Rightarrow> chat_ui \<Rightarrow> bool" where
  "session_open r R a s \<longleftrightarrow> \<not> ui_crashed s \<and> busy s \<and> open_conv R (ui_messages s) \<and> r a (open_view R (ui_messages s))"

definition session_over :: "(conv \<Rightarrow> conv \<Rightarrow> bool) \<Rightarrow> conv \<Rightarrow> chat_ui \<Rightarrow> bool" where
  "session_over r a s \<longleftrightarrow> \<not> ui_crashed s \<and> \<not> busy s \<and> ui_messages s \<noteq> [] \<and> alternates (ui_messages s) \<and>
     (\<exists>b. r a b \<and> finished b = Rest (map turn_of (ui_messages s)))"

lemma on_message_cases:
  obtains (skip) "fst (chat_on_message m s) = s"
  | (delta) cs i mdl cr st where "prop_of (m_data m) ''object'' = JStr ''chat.completion.chunk''"
      "prop_of (m_data m) ''choices'' = JArr cs" "st = ui_status s \<or> st = C_generating"
      "fst (chat_on_message m s) = set_messages (delta_updater i mdl cr (JArr cs)) (s\<lparr>ui_status := st\<rparr>)"
  | (other) v where "prop_of (m_data m) ''object'' = JStr ''chat.completion.chunk''"
      "prop_of (m_data m) ''choices'' = v" "js_gt (prop_of v ''length'') 0" "\<forall>cs. v \<noteq> JArr cs"
proof -
  let ?d = "m_data m"
  let ?v = "prop_of ?d ''choices''"
  show thesis
  proof (cases "?d \<noteq> JUndef \<and> ?d \<noteq> JNull \<and> prop_of ?d ''object'' = JStr ''chat.completion.chunk'' \<and>
      js_gt (prop_of ?v ''length'') 0 \<and> (\<exists>cs. ?v = JArr cs)")
    case True
    then obtain cs where cs: "?v = JArr cs" by blast
    show thesis
    proof (cases "js_bind (get_first ?v) (\<lambda>c. js_bind (get_prop c ''delta'') (\<lambda>d. get_prop d ''content''))")
      case (Inl e)
      with True skip show thesis by (simp add: chat_on_message_def Let_def)
    next
      case (Inr content)
      have "s = s\<lparr>ui_status := ui_status s\<rparr>" by simp
      with True Inr cs delta [of cs "if truthy content then C_generating else ui_status s"] show thesis
        by (cases "truthy content") (simp_all add: chat_on_message_def Let_def)
    qed
  next
    case False
    show thesis
    proof (cases "prop_of ?d ''object'' = JStr ''chat.completion.chunk'' \<and> js_gt (prop_of ?v ''length'') 0 \<and>
        (\<forall>cs. ?v \<noteq> JArr cs)")
      case True
      with other show thesis by blast
    next
      case no: False
      have "fst (chat_on_message m s) = s"
        using False no by (auto simp: chat_on_message_def Let_def)
      then show thesis by (rule skip)
    qed
  qed
qed

lemma session_message:
  assumes "session_open token_step\<^sup>*\<^sup>* R a s" and "delta_ok (m_data m)"
  shows "session_open token_step\<^sup>*\<^sup>* R a (fst (chat_on_message m s))"
proof -
  have o: "open_conv R (ui_messages s)" using assms(1) by (simp add: session_open_def)
  show ?thesis
  proof (cases rule: on_message_cases [of m s])
    case skip
    then show ?thesis using assms(1) by simp
  next
    case (delta cs i mdl cr st)
    then have "list_all assistant_choice cs" using assms(2) by (simp add: delta_ok_def)
    then obtain ms' where "delta_updater i mdl cr (JArr cs) (ui_messages s) = Inr ms'" "open_conv R ms'"
      "token_step\<^sup>*\<^sup>* (open_view R (ui_messages s)) (open_view R ms')"
      using delta_updater_open [OF _ o] by blast
    then show ?thesis using delta assms(1)
      by (auto simp: session_open_def set_messages_def busy_def)
  next
    case (other v)
    then show ?thesis using assms(2) by (cases v) (simp_all add: delta_ok_def)
  qed
qed

lemma session_done:
  assumes "session_open r R a s \<or> session_over r a s" and "st = C_closed \<or> st = C_error"
  shows "session_over r a ((set_messages mark_done s)\<lparr>ui_status := st\<rparr>)"
  using assms(1)
proof
  assume l: "session_open r R a s"
  then have o: "open_conv R (ui_messages s)" by (simp add: session_open_def)
  then obtain ms' where m: "mark_done (ui_messages s) = Inr ms'" "open_conv R ms'"
    "open_view R ms' = open_view R (ui_messages s)" using mark_done_open by blast
  have "r a (open_view R ms')" using l m by (simp add: session_open_def)
  moreover have "finished (open_view R ms') = Rest (map turn_of ms')" by (rule open_view_closed [OF m(2)])
  ultimately show ?thesis
    using l m assms(2) by (auto simp: session_over_def session_open_def set_messages_def busy_def open_conv_def)
next
  assume d: "session_over r a s"
  then obtain ms' where "mark_done (ui_messages s) = Inr ms'" "ms' \<noteq> []"
    by (auto simp: session_over_def mark_done_def)
  then show ?thesis
    using d assms(2) mark_done_turns [of "ui_messages s" ms']
    by (auto simp: session_over_def set_messages_def busy_def)
qed

interpretation streaming: sse_session chat_options "session_open token_step\<^sup>*\<^sup>* R a" "session_over token_step\<^sup>*\<^sup>* a" delta_ok for R a
  by unfold_locales
    (auto simp: chat_options_def chat_on_close_def chat_on_error_def intro: session_message session_done)

interpretation stopping: sse_session chat_options "session_open (=) R a" "session_over (=) a" "\<lambda>d. False" for R a
  by unfold_locales (auto simp: chat_options_def chat_on_close_def chat_on_error_def intro: session_done)

definition chat_sim :: "chat \<Rightarrow> bool" where
  "chat_sim x \<longleftrightarrow> coherent x \<and> \<not> ui_crashed (cb x) \<and>
     (if busy (cb x) then open_conv (last_request x) (ui_messages (cb x)) else alternates (ui_messages (cb x)))"

lemma posted_step [simp]: "posted (sse_step decode parse opts x ev) = posted x"
  "posted (sse_disconnect opts x) = posted x"
  by (auto simp: sse_step_def sse_response_def sse_chunk_def sse_disconnect_def Let_def
      split: sse_conn.splits sse_event.splits prod.splits option.splits)

lemma last_request_cong: "posted y = posted x \<Longrightarrow> last_request y = last_request x"
  by (simp add: last_request_def)

lemma last_request_send [simp]: "last_request (chat_send mdl ms x) = map request_message ms"
  by (simp add: last_request_def chat_send_def sse_connect_def sse_body_def obj_get_def)

lemma sim_session:
  "chat_sim x \<Longrightarrow> busy (cb x) \<Longrightarrow> reflp r \<Longrightarrow> session_open r (last_request x) (conv_of x) (cb x)"
  by (simp add: chat_sim_def session_open_def conv_of_def reflpD)

lemma sim_over:
  assumes "session_over r a (cb y)" and "coherent y"
  shows "chat_sim y \<and> (\<exists>b. r a b \<and> conv_of y = finished b)"
  using assms by (auto simp: chat_sim_def session_over_def conv_of_def)

lemma sim_still:
  assumes "session_open r R a (cb y)" and "coherent y" and "last_request y = R"
  shows "chat_sim y \<and> r a (conv_of y)"
  using assms by (simp add: chat_sim_def session_open_def conv_of_def)

lemma rest_finished: "chat_sim x \<Longrightarrow> \<not> busy (cb x) \<Longrightarrow> conv_of x = Rest (map turn_of (ui_messages (cb x)))"
  by (simp add: conv_of_def)

lemma sim_stop:
  assumes "chat_sim x"
  shows "chat_sim (chat_stop x) \<and> conv_of (chat_stop x) = finished (conv_of x)"
proof (cases "busy (cb x)")
  case True
  then have "chat_stop x = sse_disconnect chat_options x" by (auto simp: chat_stop_def busy_def)
  then show ?thesis
    using sim_over [OF stopping.disconnect_session [OF sim_session [OF assms True reflp_on_equality]]]
      coherent_stop [of x] assms
    by (auto simp: chat_sim_def)
next
  case False
  then show ?thesis using assms rest_finished by (simp add: stop_idle)
qed

lemma sim_clear:
  assumes "chat_sim x"
  shows "chat_sim (chat_clear x) \<and> conv_spec Clear (conv_of x) (conv_of (chat_clear x))"
proof (cases "busy (cb x)")
  case True
  then have "\<exists>h a. conv_of x = Answering h a" by (simp add: conv_of_def open_view_def)
  then show ?thesis using True sim_stop [OF assms] by (auto simp: chat_clear_def Let_def)
next
  case False
  then have c: "chat_clear x = x\<lparr>cb := (cb x)\<lparr>ui_messages := []\<rparr>\<rparr>" by (simp add: chat_clear_def stop_idle Let_def)
  have "coherent (chat_clear x)" using assms coherent_clear by (simp add: chat_sim_def)
  moreover have "conv_spec Clear (conv_of x) (conv_of (chat_clear x))"
    using False by (simp add: c conv_of_def busy_def)
  ultimately show ?thesis using assms False by (auto simp: c chat_sim_def alternates_def busy_def)
qed

lemma tokens_refl: "reflp token_step\<^sup>*\<^sup>*"
  by (simp add: reflp_def)

lemma sim_net:
  assumes "chat_sim x" and "parse_ok delta_ok parse"
  shows "chat_sim (sse_step decode parse chat_options x n) \<and>
    conv_spec (Net n) (conv_of x) (conv_of (sse_step decode parse chat_options x n))"
proof (cases "conn x = Idle")
  case True
  then show ?thesis using assms by (auto simp: sse_step_def)
next
  case False
  then have "busy (cb x)" using assms(1) by (simp add: chat_sim_def coherent_def)
  note o = sim_session [OF assms(1) this tokens_refl]
  have c: "coherent (sse_step decode parse chat_options x n)"
    using assms(1) by (simp add: chat_sim_def coherent_net)
  note step = streaming.step_session [OF assms(2) False o, of decode n]
  show ?thesis
  proof (cases "conn (sse_step decode parse chat_options x n) = Idle")
    case True
    then show ?thesis using sim_over [OF _ c] step by fastforce
  next
    case False
    then show ?thesis
      using sim_still [OF _ c last_request_cong [OF posted_step(1)]] step by fastforce
  qed
qed

lemma sim_send:
  assumes "chat_sim x" and "alternates ms" and "ms \<noteq> []" and "c_role (last ms) = JStr ''user''"
  shows "chat_sim (chat_send mdl ms x) \<and> conv_of (chat_send mdl ms x) = Answering (map turn_of ms) None"
proof -
  have "open_conv (map request_message ms) ms" using assms(2-4) by (simp add: open_conv_def last_conv_nth)
  moreover have "open_view (map request_message ms) ms = Answering (map turn_of ms) None"
    by (simp add: open_view_def answer_of_def)
  moreover have "coherent (chat_send mdl ms x)" by (simp add: coherent_def)
  ultimately show ?thesis using assms(1) by (auto simp: chat_sim_def conv_of_def)
qed

lemma set_input_simps [simp]: "last_request (chat_set_input v x) = last_request x"
  "busy (cb (chat_set_input v x)) = busy (cb x)" "ui_messages (cb (chat_set_input v x)) = ui_messages (cb x)"
  "ui_crashed (cb (chat_set_input v x)) = ui_crashed (cb x)"
  by (simp_all add: chat_set_input_def busy_def last_request_def)

lemma sim_set_input:
  "chat_sim x \<Longrightarrow> chat_sim (chat_set_input v x) \<and> conv_of (chat_set_input v x) = conv_of x"
  by (simp add: chat_sim_def conv_of_def coherent_set_input)

lemma sim_generate:
  assumes "chat_sim x"
  shows "chat_sim (chat_generate env m now ns x) \<and>
    conv_spec (Generate m now ns) (conv_of x) (conv_of (chat_generate env m now ns x))"
proof (cases "strict_eq (env_status env) (JStr ''available'') \<and> \<not> busy (cb x) \<and> truthy (env_model env)")
  case False
  then show ?thesis using assms by (cases m) (auto simp: chat_generate_def Let_def)
next
  case True
  let ?ms = "ui_messages (cb x)"
  have alt: "alternates ?ms" and rest: "conv_of x = Rest (map turn_of ?ms)"
    using True assms by (simp_all add: chat_sim_def conv_of_def)
  show ?thesis
  proof (cases m)
    case None
    let ?q = "trim (ui_input (cb x))"
    let ?y = "chat_set_input [] x"
    have y: "chat_sim ?y" "conv_of ?y = conv_of x"
      using sim_set_input [OF assms] by simp_all
    have "chat_sim (chat_send (env_model env) (?ms @ [user_message now ns ?q]) ?y) \<and>
        ask_step (conv_of x) (conv_of (chat_send (env_model env) (?ms @ [user_message now ns ?q]) ?y))" if "?q \<noteq> []"
      using sim_send [OF y(1), of "?ms @ [user_message now ns ?q]" "env_model env"] alt ask [OF that]
      by (simp add: alternates_snoc rest user_message_def turn_of_def)
    then show ?thesis using True None assms by (auto simp: chat_generate_def Let_def)
  next
    case (Some msg)
    show ?thesis
    proof (cases "find_index (\<lambda>m. strict_eq (c_id m) (c_id msg)) ?ms")
      case None
      then show ?thesis using True Some assms by (simp add: chat_generate_def Let_def)
    next
      case i: (Some i)
      then have l: "i < length ?ms" by (auto dest: find_index_less)
      define kept where "kept = take (i + (if c_role (?ms ! i) = JStr ''user'' then 1 else 0)) ?ms"
      have "alternates kept \<and> kept \<noteq> [] \<and> c_role (last kept) = JStr ''user'' \<and>
          repeat_step (conv_of x) (Answering (map turn_of kept) None)"
      proof (cases "c_role (?ms ! i) = JStr ''user''")
        case True
        then have k: "kept = take (Suc i) ?ms" by (simp add: kept_def)
        have e: "kept = take i ?ms @ [?ms ! i]" using l by (simp add: k take_Suc_conv_app_nth)
        have "repeat_step (Rest (map turn_of ?ms)) (Answering (take (Suc i) (map turn_of ?ms)) None)"
          by (rule again) (use l True in \<open>simp_all add: turn_of_def\<close>)
        then have "repeat_step (conv_of x) (Answering (map turn_of kept) None)" by (simp add: k rest take_map)
        moreover have "alternates kept" unfolding k by (rule alternates_take [OF alt])
        ultimately show ?thesis using True by (simp add: e)
      next
        case False
        then have k: "kept = take i ?ms" by (simp add: kept_def)
        note p = alternates_prev [OF alt l False]
        have "repeat_step (Rest (map turn_of ?ms)) (Answering (take i (map turn_of ?ms)) None)"
          by (rule redo) (use l False in \<open>simp_all add: turn_of_def\<close>)
        then have "repeat_step (conv_of x) (Answering (map turn_of kept) None)" by (simp add: k rest take_map)
        moreover have "alternates kept" unfolding k by (rule alternates_take [OF alt])
        moreover have "kept = take (i - 1) ?ms @ [?ms ! (i - 1)]"
          using take_Suc_conv_app_nth [of "i - 1" ?ms] l p by (simp add: k)
        ultimately show ?thesis using p by simp
      qed
      then show ?thesis using True Some i sim_send [OF assms, of kept "env_model env"]
        by (simp add: chat_generate_def Let_def kept_def)
    qed
  qed
qed

lemma sim_step:
  assumes "parse_ok delta_ok parse" and "chat_sim x"
  shows "chat_sim (chat_step decode parse x e) \<and> conv_spec (snd e) (conv_of x) (conv_of (chat_step decode parse x e))"
proof (cases e)
  case (Pair env ev)
  show ?thesis
  proof (cases "ui_crashed (cb x)")
    case False
    then show ?thesis
      using sim_set_input [OF assms(2)] sim_generate [OF assms(2)] sim_stop [OF assms(2)] sim_clear [OF assms(2)]
        sim_net [OF assms(2,1)]
      by (cases ev) (simp_all add: chat_step_def Pair)
  qed (use assms(2) in \<open>simp add: chat_sim_def\<close>)
qed

interpretation conversing: invariant_steps "chat_step decode parse" "\<lambda>x. parse_ok delta_ok parse \<longrightarrow> chat_sim x"
  for decode parse
  by unfold_locales (blast intro: conjunct1 [OF sim_step])

lemma init_sim: "chat_sim chat_init" "conv_of chat_init = Rest []"
  by (simp_all add: chat_sim_def conv_of_def coherent_def chat_init_def busy_def alternates_def)

lemma run_sim: "parse_ok delta_ok parse \<Longrightarrow> chat_sim (run (chat_step decode parse) chat_init es)"
  using conversing.run_inv [of parse chat_init decode es] init_sim by simp

subsection \<open>Properties\<close>



end
