(* ===== verification/Mesh.thy ===== *)
theory Mesh
  imports ClusterTypes Conversation NodeList Tokens
begin

text \<open>
  The two providers of a page at work together (\<^verbatim>\<open>App.tsx\<close>, \<^verbatim>\<open>services/cluster.tsx\<close> and
  \<^verbatim>\<open>services/chat.tsx\<close>): the chat provider is rendered inside the cluster provider and reads the
  cluster's status and model name from it at every event, both read the network with the same
  decoder and the same \<open>JSON.parse\<close>, and an update that raises in either unmounts the page.
\<close>

subsection \<open>The composed state\<close>

record mesh =
  m_cluster :: "cluster http"
  m_chat :: chat

datatype 'b mesh_event = At_cluster "'b cluster_event" | At_chat "'b chat_event"

definition mesh_info :: "mesh \<Rightarrow> cluster_info" where
  "mesh_info x = cl_info (h_cb (m_cluster x))"

text \<open>What \<open>useCluster()\<close> gives the chat provider.\<close>

definition cluster_env :: "mesh \<Rightarrow> chat_env" where
  "cluster_env x = \<lparr>env_status = ci_status (mesh_info x), env_model = ci_model_name (mesh_info x)\<rparr>"

definition mesh_gone :: "mesh \<Rightarrow> bool" where
  "mesh_gone x \<longleftrightarrow> cl_crashed (h_cb (m_cluster x)) \<or> ui_crashed (cb (m_chat x))"

definition mesh_start :: mesh where
  "mesh_start = \<lparr>m_cluster = http_init cluster_start, m_chat = chat_init\<rparr>"

definition mesh_step :: "('b \<Rightarrow> string) \<Rightarrow> (string \<Rightarrow> jval option) \<Rightarrow> (rat \<Rightarrow> string) \<Rightarrow> (string \<Rightarrow> string)
    \<Rightarrow> mesh \<Rightarrow> 'b mesh_event \<Rightarrow> mesh" where
  "mesh_step decode parse shown logo x ev =
     (if mesh_gone x then x
      else (case ev of
          At_cluster e \<Rightarrow> x\<lparr>m_cluster := cluster_step decode parse shown logo (m_cluster x) e\<rparr>
        | At_chat e \<Rightarrow> x\<lparr>m_chat := chat_step decode parse (m_chat x) (cluster_env x, e)\<rparr>))"

subsection \<open>Invariants of the parts are invariants of the whole\<close>

text \<open>
  The contract of the composition: an invariant of each provider, kept by its own events under a
  condition on them, whatever the other provider does meanwhile.
\<close>

locale mesh_parts =
  fixes C :: "cluster http \<Rightarrow> bool"
    and K :: "chat \<Rightarrow> bool"
    and ok :: "'b cluster_event \<Rightarrow> bool"
    and decode :: "'b \<Rightarrow> string"
    and parse :: "string \<Rightarrow> jval option"
    and shown :: "rat \<Rightarrow> string"
    and logo :: "string \<Rightarrow> string"
  assumes cluster_part: "C c \<Longrightarrow> ok e \<Longrightarrow> C (cluster_step decode parse shown logo c e)"
    and chat_part: "K k \<Longrightarrow> K (chat_step decode parse k (env, f))"
begin

definition event_ok :: "'b mesh_event \<Rightarrow> bool" where
  "event_ok ev = (case ev of At_cluster e \<Rightarrow> ok e | At_chat f \<Rightarrow> True)"

lemma step_parts:
  "C (m_cluster x) \<and> K (m_chat x) \<Longrightarrow> event_ok ev \<Longrightarrow>
     C (m_cluster (mesh_step decode parse shown logo x ev)) \<and> K (m_chat (mesh_step decode parse shown logo x ev))"
  by (cases ev) (auto simp: mesh_step_def event_ok_def intro: cluster_part chat_part)

end

sublocale mesh_parts \<subseteq> whole: guarded_steps "mesh_step decode parse shown logo"
    "\<lambda>x. C (m_cluster x) \<and> K (m_chat x)" event_ok
  by unfold_locales (rule step_parts)

text \<open>What is said of a server: its status messages are typed and its deltas are the assistant's.\<close>

definition server_ok :: "(string \<Rightarrow> jval option) \<Rightarrow> bool" where
  "server_ok parse \<longleftrightarrow> lines_ok status_typed parse Some \<and> parse_ok delta_ok parse"

definition mesh_event_typed :: "(rat \<Rightarrow> string) \<Rightarrow> 'b mesh_event \<Rightarrow> bool" where
  "mesh_event_typed shown ev = (case ev of At_cluster e \<Rightarrow> reply_typed shown e | At_chat f \<Rightarrow> True)"

interpretation typed_mesh: mesh_parts "\<lambda>c. server_ok parse \<longrightarrow> typed (h_cb c)"
    "\<lambda>k. server_ok parse \<longrightarrow> chat_sim k" "reply_typed shown" decode parse shown logo
  for decode parse shown logo
  by unfold_locales
    (auto simp: server_ok_def intro: typing.cluster_step_keeps conjunct1 [OF sim_step])

interpretation talking_mesh: mesh_parts "\<lambda>c. True" "\<lambda>k. parse_ok delta_ok parse \<longrightarrow> chat_sim k"
    "\<lambda>e. True" decode parse shown logo
  for decode parse shown logo
  by unfold_locales (auto intro: conjunct1 [OF sim_step])

lemma start_parts: "typed (h_cb (m_cluster mesh_start))" "chat_sim (m_chat mesh_start)"
  by (simp_all add: mesh_start_def start_typed init_sim)

lemma reachable_talking:
  assumes "parse_ok delta_ok parse"
  shows "chat_sim (m_chat (run (mesh_step decode parse shown logo) mesh_start es))"
  using talking_mesh.whole.run_guarded [of parse mesh_start es decode shown logo] assms start_parts
  by (simp add: talking_mesh.event_ok_def list_all_iff split: mesh_event.splits)

lemma reachable_parts:
  assumes "server_ok parse" and "list_all (mesh_event_typed shown) es"
  shows "typed (h_cb (m_cluster (run (mesh_step decode parse shown logo) mesh_start es))) \<and>
    chat_sim (m_chat (run (mesh_step decode parse shown logo) mesh_start es))"
proof -
  have "list_all (typed_mesh.event_ok shown) es"
    using assms(2) by (simp add: mesh_event_typed_def typed_mesh.event_ok_def list_all_iff)
  then show ?thesis
    using typed_mesh.whole.run_guarded [of parse mesh_start shown es decode logo] assms(1) start_parts by simp
qed

subsection \<open>Requests\<close>

text \<open>A request as it is posted for a cluster in the state \<open>c\<close>.\<close>

definition request_for :: "cluster_info \<Rightarrow> jval \<Rightarrow> bool" where
  "request_for c body \<longleftrightarrow> ci_status c = JStr ''available'' \<and> truthy (ci_model_name c) \<and>
     (\<exists>ms. body = sse_body (ci_model_name c) (map request_message ms) \<and> alternates ms \<and> ms \<noteq> [] \<and>
        c_role (last ms) = JStr ''user'')"

lemma strict_eq_text: "strict_eq v (JStr s) \<longleftrightarrow> v = JStr s"
  by (cases v) auto

lemma generate_posts:
  "posted (chat_generate env m now ns x) = posted x \<or>
    (\<exists>ms y. chat_generate env m now ns x = chat_send (env_model env) ms y \<and> posted y = posted x \<and>
       env_status env = JStr ''available'' \<and> truthy (env_model env))"
proof -
  have input: "posted (chat_set_input [] x) = posted x" by (simp add: chat_set_input_def)
  show ?thesis
    unfolding chat_generate_def Let_def strict_eq_text
    by (cases m; simp split: option.splits) (use input in blast)+
qed

lemma posted_send: "posted (chat_send mdl ms y) = posted y @ [sse_body mdl (map request_message ms)]"
  by (simp add: chat_send_def sse_connect_def)

lemma sent_shape:
  assumes "chat_sim (chat_send mdl ms y)"
  shows "alternates ms \<and> ms \<noteq> [] \<and> c_role (last ms) = JStr ''user''"
proof -
  have "open_conv (map request_message ms) ms" using assms by (simp add: chat_sim_def)
  then show ?thesis by (auto simp: open_conv_def last_conv_nth)
qed

lemma posted_local: "posted (chat_set_input v x) = posted x" "posted (chat_stop x) = posted x" "posted (chat_clear x) = posted x"
  by (simp_all add: chat_set_input_def chat_stop_def chat_clear_def Let_def)

lemma chat_step_posts:
  assumes "chat_sim (chat_step decode parse x (env, f))" and "body \<in> set (posted (chat_step decode parse x (env, f)))"
  shows "body \<in> set (posted x) \<or>
    (env_status env = JStr ''available'' \<and> truthy (env_model env) \<and>
     (\<exists>ms. body = sse_body (env_model env) (map request_message ms) \<and> alternates ms \<and> ms \<noteq> [] \<and>
        c_role (last ms) = JStr ''user''))"
proof (cases "posted (chat_step decode parse x (env, f)) = posted x")
  case False
  then obtain m now ns where f: "f = Generate m now ns" and live: "\<not> ui_crashed (cb x)"
    by (cases f) (auto simp: chat_step_def posted_local split: if_splits)
  then have e: "chat_step decode parse x (env, f) = chat_generate env m now ns x" by (simp add: chat_step_def)
  from generate_posts [of env m now ns x] False
  obtain ms y where s: "chat_generate env m now ns x = chat_send (env_model env) ms y" "posted y = posted x"
    "env_status env = JStr ''available''" "truthy (env_model env)" by (auto simp: e)
  then have "alternates ms \<and> ms \<noteq> [] \<and> c_role (last ms) = JStr ''user''"
    using sent_shape assms(1) by (simp add: e)
  then show ?thesis using assms(2) s by (auto simp: e posted_send)
qed (use assms(2) in simp)

lemma mesh_step_posts:
  assumes "chat_sim (m_chat (mesh_step decode parse shown logo x ev))"
    and "body \<in> set (posted (m_chat (mesh_step decode parse shown logo x ev)))"
  shows "body \<in> set (posted (m_chat x)) \<or> (\<exists>f. ev = At_chat f) \<and> request_for (mesh_info x) body"
proof (cases ev)
  case (At_chat f)
  then show ?thesis
    using assms chat_step_posts [of decode parse "m_chat x" "cluster_env x" f body]
    by (auto simp: mesh_step_def cluster_env_def request_for_def split: if_splits)
qed (use assms(2) in \<open>auto simp: mesh_step_def split: if_splits\<close>)

lemma requests_origin:
  assumes "parse_ok delta_ok parse" and "body \<in> set (posted (m_chat (run (mesh_step decode parse shown logo) mesh_start es)))"
  shows "\<exists>pre f post. es = pre @ At_chat f # post \<and>
    request_for (mesh_info (run (mesh_step decode parse shown logo) mesh_start pre)) body"
proof -
  have "body \<notin> set (posted (m_chat mesh_start))" by (simp add: mesh_start_def chat_init_def)
  from run_origin [of "\<lambda>x. body \<in> set (posted (m_chat x))", OF assms(2) this] obtain pre ev post where
    o: "es = pre @ ev # post" "body \<notin> set (posted (m_chat (run (mesh_step decode parse shown logo) mesh_start pre)))"
      "body \<in> set (posted (m_chat (mesh_step decode parse shown logo (run (mesh_step decode parse shown logo) mesh_start pre) ev)))"
    by blast
  have "chat_sim (m_chat (mesh_step decode parse shown logo (run (mesh_step decode parse shown logo) mesh_start pre) ev))"
    using reachable_talking [OF assms(1), of decode shown logo "pre @ [ev]"] by simp
  from mesh_step_posts [OF this o(3)] o show ?thesis by blast
qed

subsection \<open>Nodes on the page\<close>

text \<open>A colour of the palette has a main tone, whatever else the library puts beside it.\<close>

definition main_tone :: "string \<Rightarrow> jval option" where
  "main_tone c = (case path_opt theme_options [''palette'', c] of
     Some (JObj kvs) \<Rightarrow> (if fields_defined kvs then (case map_of kvs ''main'' of Some (JStr v) \<Rightarrow> Some (JStr v) | _ \<Rightarrow> None) else None)
   | _ \<Rightarrow> None)"

lemma main_tone_read: "made_from theme_options k \<Longrightarrow> main_tone c = Some v \<Longrightarrow> get_prop (th k [''palette'', c]) ''main'' = Inr v"
  by (auto simp: main_tone_def is_obj_def intro!: made_prop split: option.splits jval.splits if_splits)

lemma main_tones:
  "main_tone ''success'' = Some (JStr ''#079455'')" "main_tone ''error'' = Some (JStr ''#d92d20'')"
  by code_simp+

lemma grey_read: "made_from theme_options k \<Longrightarrow> th k [''palette'', ''grey'', ''800''] = JStr ''#4F4E4E''"
proof (rule made_plain)
  show "path_opt theme_options [''palette'', ''grey'', ''800''] = Some (JStr ''#4F4E4E'')" by code_simp
qed (simp_all add: is_obj_def)

lemma node_color_made:
  assumes "made_from theme_options k"
  shows "node_color (theme.truncate k) (JStr ''waiting'') = Inr (JStr ''#4F4E4E'')"
    and "node_color (theme.truncate k) (JStr ''available'') = Inr (JStr ''#079455'')"
    and "node_color (theme.truncate k) (JStr ''failed'') = Inr (JStr ''#d92d20'')"
  using grey_read [OF assms] main_tone_read [OF assms main_tones(1)] main_tone_read [OF assms main_tones(2)]
  by (simp_all add: node_color_def theme.truncate_def status_entry_def STATUS_COLOR_MAP_def)

lemma node_view_made:
  assumes "made_from theme_options k" and "case n of None \<Rightarrow> True | Some n \<Rightarrow> NodeInfo_typed n"
  shows "\<exists>u. node_view shown (theme.truncate k) variant n = Inr u"
proof -
  have "\<exists>v. node_color (theme.truncate k) (case n of None \<Rightarrow> JStr ''waiting'' | Some n \<Rightarrow> n_status n) = Inr v"
    using assms(2)
    by (auto simp: NodeInfo_typed_def one_of_def NodeStatus_def node_color_made [OF assms(1)] split: option.splits)
  then show ?thesis by (auto simp: node_view_def js_bind_Inr_iff Let_def)
qed

subsection \<open>Properties\<close>

text \<open>
  Every request the page ever posts to the completions endpoint was posted by
  an event of the chat while the cluster reported itself available, names the model the cluster
  reported at that moment, asks for a stream, and carries messages of the user and answers that
  follow one, ending with one of the user's: whatever statuses, timers, deltas and clicks come in
  between, and whichever provider they belong to.
\<close>

lemma mesh_requests:
  assumes "parse_ok delta_ok parse"
    and "body \<in> set (posted (m_chat (run (mesh_step decode parse shown logo) mesh_start es)))"
  shows "\<exists>pre f post ms. es = pre @ At_chat f # post \<and>
    (let c = mesh_info (run (mesh_step decode parse shown logo) mesh_start pre) in
      ci_status c = JStr ''available'' \<and> truthy (ci_model_name c) \<and>
      prop_of body ''model'' = ci_model_name c \<and> prop_of body ''stream'' = JBool True \<and>
      prop_of body ''messages'' = JArr (map request_message ms) \<and> alternates ms \<and> ms \<noteq> [] \<and>
      c_role (last ms) = JStr ''user'')"
proof -
  obtain pre f post where o: "es = pre @ At_chat f # post"
    and r: "request_for (mesh_info (run (mesh_step decode parse shown logo) mesh_start pre)) body"
    using requests_origin [OF assms] by blast
  from r obtain ms where "body = sse_body (ci_model_name (mesh_info (run (mesh_step decode parse shown logo) mesh_start pre)))
      (map request_message ms)" "alternates ms \<and> ms \<noteq> [] \<and> c_role (last ms) = JStr ''user''"
    unfolding request_for_def by blast
  with o r show ?thesis
    by (intro exI [of _ pre] exI [of _ f] exI [of _ post] exI [of _ ms])
      (simp add: request_for_def sse_body_def obj_get_def Let_def)
qed

text \<open>A page that is told of an available cluster, and a question to it.\<close>

definition status_parse :: "string \<Rightarrow> jval option" where
  "status_parse l = Some (nodes_message [''a'', ''b''])"

definition joining :: "string mesh_event list" where
  "joining = [At_cluster (Mount Host_cluster), At_cluster (Stream (HResponse 0 200 (Some ''application/x-ndjson'') True)),
     At_cluster (Stream (HChunk 0 [NL]))]"

definition asking :: "string mesh_event list" where
  "asking = joining @ [At_chat (SetInput ''q''), At_chat (Generate None 1 ''1'')]"

lemma status_parse_ok: "server_ok status_parse"
proof -
  have "delta_ok (walk (nodes_message [''a'', ''b'']))"
    by (simp add: nodes_message_def status_message_def node_json_def delta_ok_def prop_of_def obj_get_def)
  moreover have "delta_ok (JStr t)" for t by (simp add: delta_ok_def prop_of_def)
  ultimately show ?thesis using nodes_message_typed
    by (auto simp: server_ok_def parse_ok_def lines_ok_def line_message_def status_parse_def split: if_splits option.splits)
qed

text \<open>
  C12 (mesh_page_stands): as long as the server's status messages and model lists have the
  documented fields and its deltas are the assistant's, the page stands: over any interleaving of
  the two streams, the timers and the user, no updater of either provider raises, and in a theme
  that has the options of the repository every entry of the node list renders, in both variants,
  with the entry of a node that has not joined yet.
\<close>

theorem mesh_page_stands:
  assumes "server_ok parse" and "list_all (mesh_event_typed shown) es" and "made_from theme_options k"
    and "x = run (mesh_step decode parse shown logo) mesh_start es"
  shows "\<not> mesh_gone x \<and>
    (\<forall>n \<in> set (cl_nodes (h_cb (m_cluster x))). \<forall>variant.
       \<exists>u. node_view shown (theme.truncate k) variant (Some n) = Inr u) \<and>
    (\<forall>variant. \<exists>u. node_view shown (theme.truncate k) variant None = Inr u)"
proof -
  have t: "typed (h_cb (m_cluster x))" and s: "chat_sim (m_chat x)"
    using reachable_parts [OF assms(1,2)] assms(4) by simp_all
  have "list_all NodeInfo_typed (cl_nodes (h_cb (m_cluster x)))" using t by (simp add: typed_def ClusterStates_typed_def)
  then have "\<exists>u. node_view shown (theme.truncate k) variant (Some n) = Inr u"
    if "n \<in> set (cl_nodes (h_cb (m_cluster x)))" for n variant
    using that by (intro node_view_made [OF assms(3)]) (simp add: list_all_iff)
  moreover have "\<exists>u. node_view shown (theme.truncate k) variant None = Inr u" for variant
    by (rule node_view_made [OF assms(3)]) simp
  ultimately show ?thesis using t s unfolding mesh_gone_def typed_def chat_sim_def by blast
qed

theorem mesh_page_stands_witness:
  "let x = run (mesh_step id status_parse (\<lambda>q. []) id) mesh_start asking in
    \<not> mesh_gone x \<and> map n_id (cl_nodes (h_cb (m_cluster x))) = [JStr ''a'', JStr ''b''] \<and>
    (\<forall>n \<in> set (cl_nodes (h_cb (m_cluster x))).
       \<exists>u. node_view (\<lambda>q. []) (theme.truncate (bare_kit theme_options (\<lambda>q. []))) V_menu (Some n) = Inr u)"
proof -
  have ev: "list_all (mesh_event_typed (\<lambda>q. [])) asking"
    by (simp add: asking_def joining_def mesh_event_typed_def reply_typed_def)
  have "map n_id (cl_nodes (h_cb (m_cluster (run (mesh_step id status_parse (\<lambda>q. []) id) mesh_start asking)))) =
      [JStr ''a'', JStr ''b'']" by code_simp
  then show ?thesis
    using mesh_page_stands [OF status_parse_ok ev bare_kit_made [of theme_options "\<lambda>q. []"] refl, of id id]
    unfolding Let_def by blast
qed

end
