(* ===== verification/DevProxy.thy ===== *)
theory DevProxy
  imports Chat Api
begin

text \<open>
  \<^verbatim>\<open>vite.config.ts\<close>: the pages the build makes and the proxy of the development server, through which
  the front end's requests reach the scheduler. Which entry of the table the server takes for a
  request is the tool's, and a parameter.
\<close>

subsection \<open>The configuration\<close>

record proxy_entry =
  px_target :: string
  px_rewrite :: "string \<Rightarrow> string"

text \<open>\<open>path.replace(/^\/proxy-api/, '')\<close>.\<close>

definition without_proxy_api :: "string \<Rightarrow> string" where
  "without_proxy_api path =
     (if starts_with ''/proxy-api'' path then drop (length ''/proxy-api'') path else path)"

definition server_proxy :: "(string \<times> proxy_entry) list" where
  "server_proxy =
     [(''/proxy-api/v1/chat/completions'', \<lparr>px_target = ''http://localhost:3001'', px_rewrite = without_proxy_api\<rparr>),
      (''/proxy-api'', \<lparr>px_target = ''http://localhost:3001'', px_rewrite = without_proxy_api\<rparr>)]"

definition rollup_input :: "(string \<Rightarrow> string) \<Rightarrow> (string \<times> string) list" where
  "rollup_input resolve = [(''main'', resolve ''index.html''), (''chat'', resolve ''chat.html'')]"

subsection \<open>Requests\<close>

definition chat_completions_url :: "bool \<Rightarrow> string" where
  "chat_completions_url dev = API_BASE_URL dev @ ''/v1/chat/completions''"

text \<open>All the front end requests of the scheduler.\<close>

definition scheduler_urls :: "bool \<Rightarrow> string list" where
  "scheduler_urls dev =
     [r_url (model_list_request dev), r_url (init_scheduler_request dev JUndef), r_url (cluster_status_request dev),
      chat_completions_url dev]"

text \<open>
  Of a development server that proxies: a request is given to some entry of the table whose key
  its path begins with, when there is one.
\<close>

definition proxies_by_prefix :: "((string \<times> proxy_entry) list \<Rightarrow> string \<Rightarrow> proxy_entry option) \<Rightarrow> bool" where
  "proxies_by_prefix pick \<longleftrightarrow>
     (\<forall>table path. (\<exists>x \<in> set table. starts_with (fst x) path) \<longrightarrow>
        (\<exists>x \<in> set table. starts_with (fst x) path \<and> pick table path = Some (snd x)))"

definition first_prefix :: "(string \<times> proxy_entry) list \<Rightarrow> string \<Rightarrow> proxy_entry option" where
  "first_prefix table path = map_option snd (List.find (\<lambda>x. starts_with (fst x) path) table)"

lemma first_prefix_proxies: "proxies_by_prefix first_prefix"
proof -
  have "\<exists>x \<in> set table. starts_with (fst x) path \<and> first_prefix table path = Some (snd x)"
    if "\<exists>x \<in> set table. starts_with (fst x) path" for table path
    using that unfolding first_prefix_def by (induction table) auto
  then show ?thesis unfolding proxies_by_prefix_def by blast
qed

lemma without_base [simp]: "without_proxy_api (API_BASE_URL True @ path) = API_BASE_URL False @ path"
  by (simp add: without_proxy_api_def API_BASE_URL_def)

lemma proxied:
  assumes "proxies_by_prefix pick"
  shows "\<exists>e. pick server_proxy (API_BASE_URL True @ path) = Some e \<and> px_target e = ''http://localhost:3001'' \<and>
    px_rewrite e = without_proxy_api"
proof -
  have "\<exists>x \<in> set server_proxy. starts_with (fst x) (API_BASE_URL True @ path)"
    by (simp add: server_proxy_def API_BASE_URL_def)
  then obtain x where "x \<in> set server_proxy" "pick server_proxy (API_BASE_URL True @ path) = Some (snd x)"
    using assms unfolding proxies_by_prefix_def by blast
  then show ?thesis by (auto simp: server_proxy_def)
qed

subsection \<open>Properties\<close>

text \<open>
  C34 (dev_proxy_transparent): in development every request the front end makes of the scheduler is
  proxied to the scheduler's port, under exactly the path the built front end requests itself.
\<close>

theorem dev_proxy_transparent:
  assumes "proxies_by_prefix pick"
  shows "map (\<lambda>u. map_option (\<lambda>e. (px_target e, px_rewrite e u)) (pick server_proxy u)) (scheduler_urls True) =
    map (\<lambda>u. Some (''http://localhost:3001'', u)) (scheduler_urls False)"
  using proxied [OF assms, of "''/model/list''"] proxied [OF assms, of "''/scheduler/init''"]
    proxied [OF assms, of "''/cluster/status''"] proxied [OF assms, of "''/v1/chat/completions''"]
  by (auto simp: scheduler_urls_def model_list_request_def init_scheduler_request_def cluster_status_request_def
      chat_completions_url_def)

theorem dev_proxy_transparent_witness:
  "map_option (\<lambda>e. (px_target e, px_rewrite e ''/proxy-api/v1/chat/completions''))
      (first_prefix server_proxy ''/proxy-api/v1/chat/completions'') =
    Some (''http://localhost:3001'', ''/v1/chat/completions'')"
  using dev_proxy_transparent [OF first_prefix_proxies]
  by (simp add: scheduler_urls_def chat_completions_url_def API_BASE_URL_def)

end
