(* ===== verification/Wire.thy ===== *)
theory Wire
  imports Chat
begin

text \<open>
  A whole answer, from the bytes on the wire to the message on the screen: the event stream that
  the repository's inference server (\<^verbatim>\<open>parallax/server/http_server.py\<close>) sends for a list of pieces
  of text, cut anywhere into chunks by the network, through the client and the callbacks of
  \<^verbatim>\<open>services/chat.tsx\<close>. Python's \<open>json.dumps\<close> is a parameter; it prints ASCII on one line, and
  \<open>JSON.parse\<close> reads back what it prints. A \<open>char\<close> of the wire is a byte.
\<close>

subsection \<open>What the server sends\<close>

text \<open>
  The server's record of a request, as it is when a chunk is generated: the first four fields are
  fixed, the others change while the answer grows.
\<close>

record request_info =
  ri_id :: string
  ri_object :: string
  ri_model :: string
  ri_created :: rat
  ri_logprobs :: jval
  ri_finish_reason :: jval
  ri_matched_stop :: jval
  ri_prompt_tokens :: nat
  ri_completion_tokens :: nat

text \<open>\<open>_generate_stream_chunk\<close> before it is printed; \<open>path\<close> is the path of the model.\<close>

definition generate_stream_chunk :: "string \<Rightarrow> request_info \<Rightarrow> jval \<Rightarrow> bool \<Rightarrow> bool \<Rightarrow> jval" where
  "generate_stream_chunk path info token is_first is_last =
     (let role = (if is_first then JStr ''assistant'' else JNull);
          content = (if is_first then JStr (if js_includes ''minimax-m2'' (to_lower path) then ''<think>'' else [])
                     else if is_last then JNull else token)
      in JObj [(''id'', JStr (ri_id info)), (''object'', JStr ''chat.completion.chunk''),
           (''model'', JStr (ri_model info)), (''created'', JNum (ri_created info)),
           (''choices'', JArr [JObj [(''index'', JNum 0), (''logprobs'', ri_logprobs info),
              (''finish_reason'', if is_last then ri_finish_reason info else JNull),
              (''matched_stop'', ri_matched_stop info),
              (''delta'', JObj [(''role'', role), (''content'', content)])]]),
           (''usage'', JObj [(''prompt_tokens'', JNum (of_nat (ri_prompt_tokens info))),
              (''total_tokens'', JNum (of_nat (ri_prompt_tokens info + ri_completion_tokens info))),
              (''completion_tokens'', JNum (of_nat (ri_completion_tokens info)))])])"

definition generate_error_stream_chunk :: "request_info \<Rightarrow> jval \<Rightarrow> jval" where
  "generate_error_stream_chunk info payload =
     JObj [(''id'', JStr (ri_id info)), (''object'', JStr (ri_object info)), (''model'', JStr (ri_model info)),
       (''created'', JNum (ri_created info)), (''error'', payload)]"

text \<open>What comes out of the request's queue before its end: tokens, and errors of the executor.\<close>

datatype queue_item = Token string | Failure jval

fun item_chunk :: "string \<Rightarrow> request_info \<times> queue_item \<Rightarrow> jval" where
  "item_chunk path (info, Token t) = generate_stream_chunk path info (JStr t) False False"
| "item_chunk path (info, Failure payload) = generate_error_stream_chunk info payload"

text \<open>\<open>generate_stream_response\<close>: the chunks of an answer, and then \<open>[DONE]\<close>.\<close>

definition stream_chunks :: "string \<Rightarrow> request_info \<Rightarrow> (request_info \<times> queue_item) list \<Rightarrow> request_info \<Rightarrow> jval list" where
  "stream_chunks path first items last_info =
     generate_stream_chunk path first JNull True False # map (item_chunk path) items @
     [generate_stream_chunk path last_info JNull False True]"

definition event_lines :: "string \<Rightarrow> string list" where
  "event_lines p = [''data: '' @ p, []]"

definition wire_text :: "string list \<Rightarrow> string" where
  "wire_text ps = unlines (concat (map event_lines ps))"

definition answer_payloads :: "(jval \<Rightarrow> string) \<Rightarrow> jval list \<Rightarrow> string list" where
  "answer_payloads json chunks = map json chunks @ [''[DONE]'']"

text \<open>The text of the answer, and that all its chunks are of one request.\<close>

definition item_text :: "queue_item \<Rightarrow> string" where
  "item_text it = (case it of Token t \<Rightarrow> t | Failure payload \<Rightarrow> [])"

definition answer_text :: "string \<Rightarrow> (request_info \<times> queue_item) list \<Rightarrow> string" where
  "answer_text path items =
     (if js_includes ''minimax-m2'' (to_lower path) then ''<think>'' else []) @ concat (map (item_text \<circ> snd) items)"

definition same_request :: "string \<Rightarrow> string \<Rightarrow> rat \<Rightarrow> request_info \<Rightarrow> bool" where
  "same_request i model created info \<longleftrightarrow> ri_id info = i \<and> ri_model info = model \<and> ri_created info = created"

text \<open>What the server relies on of \<open>json.dumps\<close>, and the client of \<open>JSON.parse\<close> and the text decoder.\<close>

definition ascii :: "string \<Rightarrow> bool" where
  "ascii t \<longleftrightarrow> list_all (\<lambda>ch. of_char ch < (128::nat)) t"

definition payload_ok :: "string \<Rightarrow> bool" where
  "payload_ok p \<longleftrightarrow> p \<noteq> [] \<and> NL \<notin> set p \<and> trim p = p \<and> \<not> starts_with '':'' p \<and> ascii p"

definition prints :: "(jval \<Rightarrow> string) \<Rightarrow> (string \<Rightarrow> jval option) \<Rightarrow> jval \<Rightarrow> bool" where
  "prints json parse v \<longleftrightarrow> parse (json v) = Some v \<and> payload_ok (json v)"

subsection \<open>What the client reads\<close>

definition payload_data :: "(string \<Rightarrow> jval option) \<Rightarrow> string \<Rightarrow> jval" where
  "payload_data parse p = (case parse p of Some d \<Rightarrow> walk d | None \<Rightarrow> JStr p)"

lemma trim_space: "trim (CHR '' '' # s) = trim s"
  by (simp add: trim_def trim_start_def js_ws_def)

lemma data_index: "index_of '':'' (''data: '' @ p) = 4"
  by (simp add: index_of_def)

lemma event_line:
  assumes "payload_ok p"
  shows "\<not> skip_line (''data: '' @ p)" "data_line (''data: '' @ p)" "line_data parse (''data: '' @ p) = payload_data parse p"
proof -
  have v: "trim (drop (nat (index_of '':'' (''data: '' @ p)) + 1) (''data: '' @ p)) = p"
    using assms unfolding data_index by (simp add: trim_space payload_ok_def)
  have f: "trim (take (nat (index_of '':'' (''data: '' @ p))) (''data: '' @ p)) = ''data''"
    unfolding data_index by (simp, code_simp)
  show "\<not> skip_line (''data: '' @ p)" using assms unfolding skip_line_def v data_index by (simp add: payload_ok_def trim_space)
  show "data_line (''data: '' @ p)" unfolding data_line_def f by simp
  show "line_data parse (''data: '' @ p) = payload_data parse p" unfolding line_data_def Let_def v payload_data_def ..
qed

lemma blank_line: "skip_line []" "data_line []"
  by (simp_all add: data_line_def skip_line_def index_of_def)

lemma wire_lines:
  assumes "list_all payload_ok ps"
  shows "complete_lines (wire_text ps) = concat (map event_lines ps)" "rest_line (wire_text ps) = []"
proof -
  have "\<forall>l \<in> set (concat (map event_lines ps)). NL \<notin> set l"
    using assms by (auto simp: event_lines_def list_all_iff payload_ok_def)
  from split_on_unlines [OF this, of "[]"]
  have s: "split_on NL (wire_text ps) = concat (map event_lines ps) @ [[]]" by (simp add: wire_text_def)
  show "complete_lines (wire_text ps) = concat (map event_lines ps)" "rest_line (wire_text ps) = []"
    by (simp_all add: complete_lines_def rest_line_def s)
qed

lemma event_data:
  assumes "payload_ok p"
  shows "list_all data_line (event_lines p)"
    "stream_data parse (event_lines p) = filter (\<lambda>d. d \<noteq> JUndef) [payload_data parse p]"
  using event_line [OF assms] by (simp_all add: event_lines_def stream_data_def blank_line)

lemma wire_data:
  "list_all payload_ok ps \<Longrightarrow> list_all data_line (concat (map event_lines ps))"
  "list_all payload_ok ps \<Longrightarrow>
     stream_data parse (concat (map event_lines ps)) = filter (\<lambda>d. d \<noteq> JUndef) (map (payload_data parse) ps)"
  by (induction ps) (simp_all add: event_data, simp_all add: stream_data_def)

lemma done_payload: "payload_ok ''[DONE]''"
  by code_simp

lemma payloads_read:
  assumes "\<forall>v \<in> set vs. prints json parse v \<and> walk v \<noteq> JUndef" and "parse ''[DONE]'' = None"
  shows "list_all payload_ok (answer_payloads json vs)"
    "filter (\<lambda>d. d \<noteq> JUndef) (map (payload_data parse) (answer_payloads json vs)) = map walk vs @ [JStr ''[DONE]'']"
  using assms by (induction vs) (simp_all add: answer_payloads_def payload_data_def prints_def done_payload)

text \<open>ASCII text is decoded to itself, however it is cut.\<close>

lemma ascii_simps [simp]: "ascii []" "ascii (ch # t) = (of_char ch < (128::nat) \<and> ascii t)" "ascii (t @ u) = (ascii t \<and> ascii u)"
  by (simp_all add: ascii_def)

lemma ascii_wire: "list_all payload_ok ps \<Longrightarrow> ascii (wire_text ps)"
  by (induction ps) (simp_all add: wire_text_def event_lines_def payload_ok_def)

lemma decode_pieces:
  "ascii (concat cs) \<Longrightarrow> \<forall>c. ascii c \<longrightarrow> decode c = c \<Longrightarrow> concat (map decode cs) = concat cs"
  by (induction cs) simp_all

subsection \<open>What the page makes of a chunk\<close>

lemma obj_get_simps:
  "obj_get [] k = JUndef" "obj_get ((k', v) # kvs) k = (if k = k' then v else obj_get kvs k)"
  by (simp_all add: obj_get_def)

lemma obj_get_absent: "k \<notin> fst ` set kvs \<Longrightarrow> obj_get kvs k = JUndef"
  by (induction kvs) (auto simp: obj_get_simps)

lemma obj_get_walk:
  "distinct (map fst kvs) \<Longrightarrow> obj_get (walk_props kvs) k = (if obj_get kvs k = JNull then JUndef else walk (obj_get kvs k))"
proof (induction kvs)
  case (Cons kv kvs)
  then show ?case
    by (cases kv) (auto simp: obj_get_simps obj_get_absent)
qed (simp add: obj_get_simps)

text \<open>Data that the page reads as a piece of text \<open>t\<close> of the assistant.\<close>

definition reads_as :: "jval \<Rightarrow> jval \<Rightarrow> string \<Rightarrow> jval \<Rightarrow> string \<Rightarrow> bool" where
  "reads_as v i mdl cr t \<longleftrightarrow> (\<forall>s. chat_on_message (sse_message0\<lparr>m_data := v\<rparr>) s =
     chat_on_message (sse_message0\<lparr>m_data := delta_data i mdl cr t\<rparr>) s)"

lemma deliver_reads:
  "list_all2 (\<lambda>v t. reads_as v i mdl cr t) vs ts \<Longrightarrow>
     deliver chat_options vs s = deliver chat_options (map (delta_data i mdl cr) ts) s"
  by (induction vs ts arbitrary: s rule: list_all2_induct)
     (simp_all add: reads_as_def chat_options_def split: prod.splits option.splits)

text \<open>What every chunk with one choice comes to: role and text may be missing, the text empty.\<close>

lemma reads_choice:
  assumes "prop_of v ''object'' = JStr ''chat.completion.chunk''" and "v \<noteq> JUndef" and "v \<noteq> JNull"
    and "prop_of v ''id'' = i" and "prop_of v ''model'' = JStr mdl" and "prop_of v ''created'' = cr"
    and "prop_of v ''choices'' = JArr [JObj ch]" and "obj_get ch ''delta'' = JObj dl"
    and "obj_get dl ''role'' = JUndef \<or> obj_get dl ''role'' = JStr ''assistant''"
    and "obj_get dl ''content'' = JStr t \<or> obj_get dl ''content'' = JUndef \<and> t = []"
  shows "reads_as v i mdl cr t"
  using assms unfolding reads_as_def on_message_delta
  by (auto simp: chat_on_message_def js_gt_def Let_def delta_updater_def choice_delta_def js_or_def set_messages_def)

definition chunk_choice :: "request_info \<Rightarrow> jval \<Rightarrow> jval \<Rightarrow> jval \<Rightarrow> (string \<times> jval) list" where
  "chunk_choice info reason role content =
     [(''index'', JNum 0), (''logprobs'', ri_logprobs info), (''finish_reason'', reason),
      (''matched_stop'', ri_matched_stop info), (''delta'', JObj [(''role'', role), (''content'', content)])]"

lemma reads_chunk:
  assumes "same_request i mdl cr info"
    and "t = (if is_first then (if js_includes ''minimax-m2'' (to_lower path) then ''<think>'' else []) else if is_last then [] else u)"
  shows "reads_as (walk (generate_stream_chunk path info (JStr u) is_first is_last)) (JStr i) mdl (JNum cr) t"
proof -
  let ?reason = "if is_last then ri_finish_reason info else JNull"
  let ?role = "if is_first then JStr ''assistant'' else JNull"
  let ?content = "if is_first then JStr (if js_includes ''minimax-m2'' (to_lower path) then ''<think>'' else [])
    else if is_last then JNull else JStr u"
  let ?dl = "[(''role'', ?role), (''content'', ?content)]"
  have c: "\<exists>us. generate_stream_chunk path info (JStr u) is_first is_last = JObj
     [(''id'', JStr i), (''object'', JStr ''chat.completion.chunk''), (''model'', JStr mdl), (''created'', JNum cr),
      (''choices'', JArr [JObj (chunk_choice info ?reason ?role ?content)]), (''usage'', us)]"
    using assms(1) by (simp add: generate_stream_chunk_def chunk_choice_def same_request_def Let_def)
  have d: "obj_get (walk_props (chunk_choice info ?reason ?role ?content)) ''delta'' = JObj (walk_props ?dl)"
    by (simp add: obj_get_walk obj_get_simps chunk_choice_def del: walk_props.simps)
  have t: "obj_get (walk_props ?dl) ''role'' = JUndef \<or> obj_get (walk_props ?dl) ''role'' = JStr ''assistant''"
    "obj_get (walk_props ?dl) ''content'' = JStr t \<or> obj_get (walk_props ?dl) ''content'' = JUndef \<and> t = []"
    using assms(2) by (simp_all add: obj_get_walk obj_get_simps del: walk_props.simps)
  show ?thesis
    using c by (elim exE, intro reads_choice [OF _ _ _ _ _ _ _ d t])
      (simp_all add: obj_get_walk obj_get_simps del: walk_props.simps)
qed

lemma reads_error:
  assumes "same_request i mdl cr info"
  shows "reads_as (walk (generate_error_stream_chunk info payload)) (JStr i) mdl (JNum cr) []"
proof -
  have "prop_of (walk (generate_error_stream_chunk info payload)) ''choices'' = JUndef"
    by (simp add: generate_error_stream_chunk_def obj_get_walk obj_get_simps del: walk_props.simps)
  moreover have "walk (generate_error_stream_chunk info payload) = JObj (walk_props kvs)" if "generate_error_stream_chunk info payload = JObj kvs" for kvs
    using that by simp
  ultimately show ?thesis
    unfolding reads_as_def on_message_delta
    by (simp add: generate_error_stream_chunk_def chat_on_message_def Let_def js_gt_def set_messages_same prop_of_def del: walk_props.simps)
qed

text \<open>All the chunks of an answer.\<close>

definition answer_texts :: "string \<Rightarrow> (request_info \<times> queue_item) list \<Rightarrow> string list" where
  "answer_texts path items =
     (if js_includes ''minimax-m2'' (to_lower path) then ''<think>'' else []) # map (item_text \<circ> snd) items @ [[]]"

lemma answer_texts: "concat (answer_texts path items) = answer_text path items"
  by (simp add: answer_texts_def answer_text_def)

lemma reads_item: "same_request i mdl cr (fst it) \<Longrightarrow> reads_as (walk (item_chunk path it)) (JStr i) mdl (JNum cr) (item_text (snd it))"
  by (cases it; cases "snd it") (auto simp: item_text_def intro: reads_chunk reads_error)

lemma reads_stream:
  assumes "list_all (same_request i mdl cr) (first # last_info # map fst items)"
  shows "list_all2 (\<lambda>v t. reads_as v (JStr i) mdl (JNum cr) t)
    (map walk (stream_chunks path first items last_info)) (answer_texts path items)"
proof -
  have ends: "generate_stream_chunk path info JNull True False = generate_stream_chunk path info (JStr []) True False"
    "generate_stream_chunk path info JNull False True = generate_stream_chunk path info (JStr []) False True" for info
    by (simp_all add: generate_stream_chunk_def)
  have "list_all2 (\<lambda>v t. reads_as v (JStr i) mdl (JNum cr) t)
      (map (walk \<circ> item_chunk path) items) (map (item_text \<circ> snd) items)"
    using assms by (auto simp: list_all2_conv_all_nth list_all_iff intro!: reads_item)
  then show ?thesis
    using assms unfolding stream_chunks_def answer_texts_def ends
    by (auto intro!: list_all2_appendI reads_chunk)
qed

lemma walk_chunks: "\<forall>v \<in> set (stream_chunks path first items last_info). walk v \<noteq> JUndef"
proof -
  have "walk (item_chunk path it) \<noteq> JUndef" for it
    by (cases it; cases "snd it") (auto simp: generate_stream_chunk_def generate_error_stream_chunk_def Let_def)
  then show ?thesis by (auto simp: stream_chunks_def generate_stream_chunk_def Let_def)
qed

lemma deliver_done: "deliver chat_options [JStr t] s = (s, None)"
  by (simp add: chat_options_def chat_on_message_def prop_of_def Let_def)

text \<open>The answer on the wire, in any chunks, is the answer delivered in one piece.\<close>

lemma wire_answer:
  assumes "conn x = Streaming []" and "ui_messages (cb x) \<noteq> []" and "c_role (last (ui_messages (cb x))) \<noteq> JStr ''assistant''"
    and "list_all (same_request i mdl cr) (first # last_info # map fst items)"
    and "\<forall>v \<in> set (stream_chunks path first items last_info). prints json parse v" and "parse ''[DONE]'' = None"
    and "\<forall>c. ascii c \<longrightarrow> decode c = c"
    and "concat cs = wire_text (answer_payloads json (stream_chunks path first items last_info))"
    and "answer_text path items \<noteq> []"
  shows "run (sse_step decode parse chat_options) x (map Chunk cs) =
    x\<lparr>conn := Streaming [], cb := (cb x)\<lparr>ui_status := C_generating,
        ui_messages := ui_messages (cb x) @ [answer (JStr i) mdl (JNum cr) (answer_text path items)]\<rparr>\<rparr>"
proof -
  let ?vs = "stream_chunks path first items last_info"
  have p: "\<forall>v \<in> set ?vs. prints json parse v \<and> walk v \<noteq> JUndef" using assms(5) walk_chunks by blast
  note read = payloads_read [OF p assms(6)]
  have d: "concat (map decode cs) = wire_text (answer_payloads json ?vs)"
    using decode_pieces [of cs decode] ascii_wire [OF read(1)] assms(7) unfolding assms(8) by blast
  have "list_all data_line (complete_lines (concat (map decode cs)))"
    unfolding d wire_lines [OF read(1)] by (rule wire_data [OF read(1)])
  from stream_chunked [OF assms(1) this, of parse chat_options] show ?thesis
    unfolding d wire_lines [OF read(1)] wire_data [OF read(1)] read(2)
    using chat_stream_concat [of "cb x" "answer_texts path items" "JStr i" mdl "JNum cr"] assms(3,9)
      deliver_reads [OF reads_stream [OF assms(4), of path]]
    by (simp add: stream_result_def deliver_append deliver_done answer_texts del: deliver.simps concat_eq_Nil_conv)
qed

subsection \<open>Network events of a page that stands\<close>

text \<open>What has crashed stays so, hence a page that stands at the end of a stream stood throughout.\<close>

lemma set_messages_crashed [simp]: "ui_crashed s \<Longrightarrow> ui_crashed (set_messages f s)"
  by (simp add: set_messages_def split: sum.splits)

lemma on_message_crashed: "ui_crashed s \<Longrightarrow> ui_crashed (fst (chat_on_message m s))"
  by (simp add: chat_on_message_def Let_def split: sum.splits)

interpretation crashed: sse_keeps chat_options ui_crashed "\<lambda>d. True"
  by unfold_locales (simp_all add: chat_options_def chat_on_close_def chat_on_error_def on_message_crashed)

lemma crashed_run: "ui_crashed (cb x) \<Longrightarrow> ui_crashed (cb (run (sse_step decode parse chat_options) x ns))"
proof (induction ns arbitrary: x)
  case (Cons n ns)
  have "parse_ok (\<lambda>d. True) parse" by (simp add: parse_ok_def)
  then have "ui_crashed (cb (sse_step decode parse chat_options x n))"
    using crashed.keeping.step_session [of parse x decode n] Cons.prems
    by (cases "conn x = Idle") (auto simp: sse_step_def [of _ _ _ x] split: if_splits)
  then show ?case using Cons.IH by simp
qed simp

definition on_net :: "chat_env \<Rightarrow> 'b sse_event list \<Rightarrow> (chat_env \<times> 'b chat_event) list" where
  "on_net env ns = map (\<lambda>n. (env, Net n)) ns"

lemma run_net:
  "\<not> ui_crashed (cb (run (sse_step decode parse chat_options) x ns)) \<Longrightarrow>
     run (chat_step decode parse) x (on_net env ns) = run (sse_step decode parse chat_options) x ns"
proof (induction ns arbitrary: x)
  case Nil
  then show ?case by (simp add: on_net_def)
next
  case (Cons n ns)
  have "\<not> ui_crashed (cb x)" using crashed_run [of x decode parse "n # ns"] Cons.prems by blast
  then show ?case using Cons by (simp add: chat_step_def on_net_def)
qed


text \<open>A printer given by a table.\<close>

lemma table_prints:
  assumes "length vs = length ps" and "distinct vs" and "distinct ps" and "list_all payload_ok ps"
  shows "\<forall>v \<in> set vs. prints (the \<circ> map_of (zip vs ps)) (map_of (zip ps vs)) v"
proof
  fix v assume "v \<in> set vs"
  then obtain k where "k < length vs" "vs ! k = v" by (auto simp: in_set_conv_nth)
  then show "prints (the \<circ> map_of (zip vs ps)) (map_of (zip ps vs)) v"
    using assms map_of_zip_nth [of vs ps k] map_of_zip_nth [of ps vs k] by (auto simp: prints_def list_all_length)
qed

subsection \<open>Properties\<close>

text \<open>
  C2 (chat_round_trip): a question asked in any reachable state at rest, while the cluster is
  available and a model is set, and answered by the repository's inference server: with status 200
  and an event stream, as \<open>generate_stream_response\<close> writes it, of a first chunk that carries the
  role, of any number of tokens with a role that is \<open>null\<close> and of errors of the executor, of a last chunk whose
  content is \<open>null\<close>, and of \<open>[DONE]\<close>. However the network cuts the bytes into chunks, if the answer
  has any text then the page ends with the connection closed, the input empty and two more
  messages: the question, and the answer of the assistant, done, with its reasoning and content parsed from
  exactly the text of the server's tokens. Errors inside the stream leave no trace. Assumed is that
  \<open>json.dumps\<close> prints each chunk as one line of ASCII text that \<open>JSON.parse\<close> reads back, that \<open>JSON.parse\<close> raises on
  \<open>[DONE]\<close>, and that the text decoder leaves ASCII text as it is.
\<close>

theorem chat_round_trip:
  assumes "x = run (chat_step decode parse) chat_init es" and "\<not> ui_crashed (cb x)" and "\<not> busy (cb x)"
    and "env_status env = JStr ''available''" and "truthy (env_model env)" and "trim (ui_input (cb x)) \<noteq> []"
    and "js_includes ''text/event-stream'' ctype"
    and "list_all (same_request i mdl cr) (first # last_info # map fst items)"
    and "\<forall>v \<in> set (stream_chunks path first items last_info). prints json parse v" and "parse ''[DONE]'' = None"
    and "\<forall>c. ascii c \<longrightarrow> decode c = c"
    and "concat cs = wire_text (answer_payloads json (stream_chunks path first items last_info))"
    and "answer_text path items \<noteq> []"
    and "y = run (chat_step decode parse) x ((env, Generate None now ns) #
      on_net env' (Response 200 (Some ctype) True # map Chunk cs @ [StreamEnd]))"
  shows "conn y = Idle \<and> ui_status (cb y) = C_closed \<and> \<not> ui_crashed (cb y) \<and> ui_input (cb y) = [] \<and>
    ui_messages (cb y) = ui_messages (cb x) @ [user_message now ns (trim (ui_input (cb x))),
      (answer (JStr i) mdl (JNum cr) (answer_text path items))\<lparr>c_status := M_done\<rparr>] \<and>
    posted y = posted x @ [sse_body (env_model env)
      (map request_message (ui_messages (cb x) @ [user_message now ns (trim (ui_input (cb x)))]))]"
proof -
  let ?ms = "ui_messages (cb x) @ [user_message now ns (trim (ui_input (cb x)))]"
  let ?a = "answer (JStr i) mdl (JNum cr) (answer_text path items)"
  let ?sent = "chat_send (env_model env) ?ms (chat_set_input [] x)"
  let ?open = "?sent\<lparr>conn := Streaming []\<rparr>"
  let ?sse = "run (sse_step decode parse chat_options)"
  have 1: "chat_step decode parse x (env, Generate None now ns) = ?sent"
    using assms(2-6) by (simp add: chat_step_def chat_generate_def Let_def)
  have sent: "conn ?sent = Fetching"
    "cb ?sent = (cb x)\<lparr>ui_input := [], ui_messages := ?ms, ui_status := C_opened\<rparr>"
    "posted ?sent = posted x @ [sse_body (env_model env) (map request_message ?ms)]"
    by (simp_all add: chat_send_def sse_connect_def chat_set_input_def chat_options_def chat_on_open_def)
  have 2: "?sse ?sent [Response 200 (Some ctype) True] = ?open"
    using sent(1) assms(7) by (simp add: sse_step_def sse_response_def Let_def)
  have "conn ?open = Streaming []" "ui_messages (cb ?open) \<noteq> []" "c_role (last (ui_messages (cb ?open))) \<noteq> JStr ''assistant''"
    using sent(2) by (simp_all add: user_message_def)
  note 3 = wire_answer [OF this assms(8-13)]
  let ?final = "?open\<lparr>conn := Idle, cb := (cb ?open)\<lparr>ui_status := C_closed, ui_messages := ?ms @ [?a\<lparr>c_status := M_done\<rparr>]\<rparr>\<rparr>"
  have "?sse ?sent (Response 200 (Some ctype) True # map Chunk cs @ [StreamEnd]) =
      ?sse (?sse (?sse ?sent [Response 200 (Some ctype) True]) (map Chunk cs)) [StreamEnd]"
    by (simp only: run_append [symmetric] append_Cons append_Nil)
  also have "\<dots> = ?final"
    using sent(2) unfolding 2 3 by (simp add: sse_step_def chat_options_def chat_on_close_def set_messages_def mark_done_def butlast_append)
  finally have e: "?sse ?sent (Response 200 (Some ctype) True # map Chunk cs @ [StreamEnd]) = ?final" .
  then have "\<not> ui_crashed (cb (?sse ?sent (Response 200 (Some ctype) True # map Chunk cs @ [StreamEnd])))"
    using assms(2) sent(2) by simp
  note quiet = run_net [OF this, of env']
  have "y = run (chat_step decode parse) ?sent (on_net env' (Response 200 (Some ctype) True # map Chunk cs @ [StreamEnd]))"
    unfolding assms(14) by (simp only: run.simps 1)
  then have "y = ?final" unfolding quiet e .
  then show ?thesis using assms(2) sent by simp
qed

theorem chat_round_trip_witness:
  "let env = \<lparr>env_status = JStr ''available'', env_model = JStr ''llama''\<rparr>;
       info = \<lparr>ri_id = ''a'', ri_object = ''chat.completion.chunk'', ri_model = ''llama'', ri_created = 2,
         ri_logprobs = JNull, ri_finish_reason = JNull, ri_matched_stop = JNull, ri_prompt_tokens = 5, ri_completion_tokens = 0\<rparr>;
       items = [(info, Token ''Hel''), (info, Failure (JObj [(''code'', JNum 500)])), (info, Token ''lo'')];
       chunks = stream_chunks ''m'' info items info;
       names = [''{0}'', ''{1}'', ''{2}'', ''{3}'', ''{4}''];
       json = the \<circ> map_of (zip chunks names);
       parse = map_of (zip names chunks);
       text = wire_text (answer_payloads json chunks);
       x = run (chat_step id parse) chat_init [(env, SetInput '' q'')];
       y = run (chat_step id parse) x ((env, Generate None 1 ''1'') #
         on_net env (Response 200 (Some ''text/event-stream'') True # map Chunk [take 9 text, drop 9 text] @ [StreamEnd]))
   in map (\<lambda>m. (c_content m, c_status m)) (ui_messages (cb y)) = [(''q'', M_done), (''Hello'', M_done)]"
proof -
  let ?env = "\<lparr>env_status = JStr ''available'', env_model = JStr ''llama''\<rparr>"
  let ?info = "\<lparr>ri_id = ''a'', ri_object = ''chat.completion.chunk'', ri_model = ''llama'', ri_created = 2,
    ri_logprobs = JNull, ri_finish_reason = JNull, ri_matched_stop = JNull, ri_prompt_tokens = 5, ri_completion_tokens = 0\<rparr>"
  let ?items = "[(?info, Token ''Hel''), (?info, Failure (JObj [(''code'', JNum 500)])), (?info, Token ''lo'')]"
  let ?vs = "stream_chunks ''m'' ?info ?items ?info"
  let ?names = "[''{0}'', ''{1}'', ''{2}'', ''{3}'', ''{4}'']"
  let ?json = "the \<circ> map_of (zip ?vs ?names)"
  let ?parse = "map_of (zip ?names ?vs)"
  let ?text = "wire_text (answer_payloads ?json ?vs)"
  let ?x = "run (chat_step id ?parse) chat_init [(?env, SetInput '' q'')]"
  have n: "length ?vs = length ?names" by (simp add: stream_chunks_def)
  have d: "distinct ?vs"
    by (simp add: stream_chunks_def generate_stream_chunk_def generate_error_stream_chunk_def Let_def)
  have t: "trim '' q'' = ''q''" and p: "list_all payload_ok ?names" and dn: "distinct ?names"
    by code_simp+
  have x: "\<not> ui_crashed (cb ?x)" "\<not> busy (cb ?x)" "ui_messages (cb ?x) = []" "ui_input (cb ?x) = '' q''"
    by (simp_all add: chat_step_def chat_init_def chat_set_input_def busy_def)
  have 1: "env_status ?env = JStr ''available''" "truthy (env_model ?env)" by simp_all
  have 2: "trim (ui_input (cb ?x)) \<noteq> []" unfolding x t by simp
  have 3: "js_includes ''text/event-stream'' ''text/event-stream''" by code_simp
  have same: "list_all (same_request ''a'' ''llama'' 2) (?info # ?info # map fst ?items)" by (simp add: same_request_def)
  have 4: "\<forall>v \<in> set ?vs. prints ?json ?parse v" by (rule table_prints [OF n d dn p])
  have 5: "?parse ''[DONE]'' = None" unfolding map_of_zip_is_None [OF n [symmetric]] by simp
  have i: "\<forall>c. ascii c \<longrightarrow> id c = c" by simp
  have 6: "concat [take 9 ?text, drop 9 ?text] = ?text" by simp
  have at: "answer_text ''m'' ?items = ''Hello''" by (simp add: answer_text_def item_text_def, code_simp)
  then have 7: "answer_text ''m'' ?items \<noteq> []" by simp
  have a: "c_content (answer (JStr ''a'') ''llama'' (JNum 2) ''Hello'') = ''Hello''" by code_simp
  note shown = chat_round_trip [OF refl x(1,2) 1 2 3 same 4 5 i 6 7 refl, of 1 "''1''" ?env,
      THEN conjunct2, THEN conjunct2, THEN conjunct2, THEN conjunct2, THEN conjunct1]
  show ?thesis unfolding Let_def shown x t at using a by (simp add: user_message_def)
qed

end
