(* ===== verification/Sync.thy ===== *)
theory Sync
  imports ClusterTypes
begin

text \<open>
  From the status stream on the wire to what the provider of \<^verbatim>\<open>services/cluster.tsx\<close> shows: the
  lines of the body, however the network cuts them, are absorbed one by one, and what is shown
  of the cluster after them is a function of the last one, whatever was shown before.
\<close>

subsection \<open>A status message\<close>

definition status_data :: "jval \<Rightarrow> (string \<Rightarrow> jval) option" where
  "status_data m = (if prop_of m ''type'' = JStr ''cluster_status'' \<and> prop_of m ''data'' \<noteq> JUndef \<and>
     prop_of m ''data'' \<noteq> JNull then Some (prop_of (prop_of m ''data'')) else None)"

text \<open>The cluster and the nodes a message describes.\<close>

definition described_info :: "(string \<Rightarrow> jval) \<Rightarrow> cluster_info" where
  "described_info field = info_updater first_models field INITIAL_CLUSTER_INFO"

definition described_nodes :: "(string \<Rightarrow> jval) \<Rightarrow> node_info list" where
  "described_nodes field =
     (case js_bind (js_elems (field ''node_list'')) (js_map node_of) of Inl e \<Rightarrow> [] | Inr ns \<Rightarrow> ns)"

type_synonym cluster_view = "cluster_info \<times> node_info list"

definition view_of :: "cluster \<Rightarrow> cluster_view" where
  "view_of s = (cl_info s, cl_nodes s)"

definition absorb :: "(string \<Rightarrow> jval option) \<Rightarrow> string \<Rightarrow> cluster_view \<Rightarrow> cluster_view" where
  "absorb parse l v =
     (case line_message parse Some l of
        None \<Rightarrow> v
      | Some m \<Rightarrow> (case status_data m of
          None \<Rightarrow> v
        | Some f \<Rightarrow> (described_info f, merge_nodes (described_nodes f) (snd v))))"

subsection \<open>Typed information is its JSON text\<close>

lemma json_text: "is_str v \<or> is_num v \<or> is_bool v \<Longrightarrow> json_tree v = v"
  by (cases v) auto

lemma one_of_text: "one_of ss v \<Longrightarrow> is_str v"
  by (auto simp: one_of_def list_ex_iff)

lemma text_defined [simp]: "is_str v \<Longrightarrow> v \<noteq> JUndef" "is_num v \<Longrightarrow> v \<noteq> JUndef" "is_bool v \<Longrightarrow> v \<noteq> JUndef"
  by auto

lemma json_fields_text: "list_all (\<lambda>(k, w). is_str w) kvs \<Longrightarrow> json_fields kvs = kvs"
  by (induction kvs) (auto simp: json_text)

lemma json_record: "record_of_strings v \<Longrightarrow> json_tree v = v \<and> v \<noteq> JUndef"
  by (cases v) (auto simp: record_of_strings_def json_fields_text)

definition plain :: "cluster_info \<Rightarrow> bool" where
  "plain c \<longleftrightarrow> ci_id c = [] \<and> ci_model_info c = None"

lemma cluster_json_typed:
  assumes "ClusterInfo_typed c" and "plain c"
  shows "cluster_json c = JObj [(''id'', JStr []), (''status'', ci_status c), (''modelName'', ci_model_name c),
     (''nodeJoinCommand'', ci_join c), (''initNodesNumber'', ci_init_nodes c), (''needMoreNodes'', ci_more c)]"
  using assms json_record [of "ci_join c"] one_of_text [of ClusterStatus "ci_status c"]
  by (auto simp: ClusterInfo_typed_def plain_def cluster_json_def model_val_def json_text)

lemma cluster_json_inj:
  assumes "ClusterInfo_typed c" and "plain c" and "ClusterInfo_typed d" and "plain d" and "cluster_json c = cluster_json d"
  shows "c = d"
  using assms unfolding cluster_json_typed [OF assms(1,2)] cluster_json_typed [OF assms(3,4)]
  by (cases c; cases d) (simp add: plain_def)

lemma node_json_typed: "NodeInfo_typed n \<Longrightarrow> node_val n \<noteq> JUndef \<and> json_tree (node_val n) = node_val n"
  by (auto simp: NodeInfo_typed_def node_val_def json_text dest: one_of_text)

lemma node_val_inj: "node_val n = node_val m \<Longrightarrow> n = m"
  by (cases n; cases m) (simp add: node_val_def)

lemma nodes_json_inj:
  assumes "list_all NodeInfo_typed ns" and "list_all NodeInfo_typed ms" and "nodes_json ns = nodes_json ms"
  shows "ns = ms"
proof -
  have t: "nodes_json ks = JArr (map node_val ks)" if "list_all NodeInfo_typed ks" for ks
    using that by (induction ks) (simp_all add: nodes_json_def node_json_typed)
  have "map node_val ns = map node_val ms" using assms(3) unfolding t [OF assms(1)] t [OF assms(2)] by simp
  then show ?thesis using node_val_inj by (simp add: inj_def list.inj_map_strong)
qed

subsection \<open>What a message makes of the view\<close>

lemma plain_initial: "plain INITIAL_CLUSTER_INFO"
  by (simp add: plain_def INITIAL_CLUSTER_INFO_def)

lemma info_described:
  assumes "status_data_typed f" and "ClusterInfo_typed c" and "plain c"
  shows "info_updater first_models f c = described_info f \<and> plain (described_info f)"
proof -
  define new where "new d = d\<lparr>ci_status := js_or (js_and (f ''model_name'') (f ''status'')) (JStr ''idle''),
      ci_init_nodes := js_or (f ''init_nodes_num'') (JNum 0), ci_model_name := js_or (f ''model_name'') (JStr []),
      ci_model_info := None, ci_join := js_or (f ''node_join_command'') (JObj []),
      ci_more := js_or (f ''need_more_nodes'') (JBool False)\<rparr>" for d :: cluster_info
  have u: "info_updater first_models f d = (if cluster_json (new d) \<noteq> cluster_json d then new d else d)" for d
    by (simp add: info_updater_def find_model_None new_def Let_def)
  have upd: "info_updater first_models f d = new d" if "ClusterInfo_typed d" "plain d" for d
  proof -
    have "plain (new d)" using that by (simp add: plain_def new_def)
    moreover have "ClusterInfo_typed (new d)" unfolding new_def by (rule info_next_typed [OF assms(1) that(1)])
    ultimately show ?thesis using cluster_json_inj [of "new d" d] that by (auto simp: u)
  qed
  have "new c = new INITIAL_CLUSTER_INFO"
    using assms(3) by (cases c) (simp add: new_def plain_def INITIAL_CLUSTER_INFO_def)
  then have "info_updater first_models f c = described_info f"
    using upd [OF assms(2,3)] upd [OF initial_info_typed plain_initial] by (simp add: described_info_def)
  moreover have "plain (new c)" using assms(3) by (simp add: plain_def new_def)
  ultimately show ?thesis using upd [OF assms(2,3)] by simp
qed

lemma nodes_described:
  assumes "status_data_typed f"
  shows "\<exists>raw. f ''node_list'' = JArr raw \<and> js_map node_of raw = Inr (described_nodes f) \<and>
    list_all NodeInfo_typed (described_nodes f)"
proof -
  obtain raw ns where "f ''node_list'' = JArr raw" "js_map node_of raw = Inr ns" "list_all NodeInfo_typed ns"
    using assms nodes_typed unfolding status_data_typed_def by blast
  then show ?thesis by (simp add: described_nodes_def)
qed

definition synced :: "cluster \<Rightarrow> bool" where
  "synced s \<longleftrightarrow> typed s \<and> plain (cl_info s)"

lemma status_data_typed_Some: "status_typed m \<Longrightarrow> status_data m = Some f \<Longrightarrow> status_data_typed f"
  by (auto simp: status_typed_def status_data_def split: if_splits)

lemma message_view:
  assumes "synced s" and "status_typed m"
  shows "synced (cluster_on_message first_models m s) \<and> view_of (cluster_on_message first_models m s) =
    (case status_data m of None \<Rightarrow> view_of s
     | Some f \<Rightarrow> (described_info f, merge_nodes (described_nodes f) (cl_nodes s)))"
proof (cases "status_data m")
  case None
  have "cluster_on_message first_models m s = s"
  proof (cases "m = JUndef \<or> m = JNull")
    case True
    then show ?thesis by (auto simp: cluster_on_message_def)
  next
    case False
    then show ?thesis using None get_prop_Inr [of m]
      by (auto simp: cluster_on_message_def status_data_def split: if_splits)
  qed
  then show ?thesis using None assms(1) by simp
next
  case (Some f)
  have m: "m \<noteq> JUndef" "m \<noteq> JNull" using Some by (auto simp: status_data_def prop_of_def split: if_splits)
  have f: "status_data_typed f" by (rule status_data_typed_Some [OF assms(2) Some])
  obtain raw where raw: "f ''node_list'' = JArr raw" "js_map node_of raw = Inr (described_nodes f)"
    using nodes_described [OF f] by blast
  have c: "ClusterInfo_typed (cl_info s)" "plain (cl_info s)"
    using assms(1) by (simp_all add: synced_def typed_def ClusterStates_typed_def)
  have "cluster_on_message first_models m s =
    (set_info (described_info f) s)\<lparr>cl_nodes := merge_nodes (described_nodes f) (cl_nodes s)\<rparr>"
    using Some m raw get_prop_Inr [of m] info_described [OF f c]
    by (auto simp: cluster_on_message_def status_data_def nodes_updater_def Let_def split: if_splits)
  moreover have "typed (cluster_on_message first_models m s)"
    using typed_message assms by (simp add: synced_def)
  ultimately show ?thesis using Some info_described [OF f c]
    by (simp add: synced_def view_of_def set_info_def)
qed

lemma render_view: "view_of (render s) = view_of s"
  by (simp add: view_of_def)

lemma synced_cases: "synced s \<Longrightarrow> \<not> cl_crashed s"
  by (simp add: synced_def typed_def)

interpretation syncing: cluster_keeps synced status_typed "reply_typed shown" shown asset for shown asset
proof
  show "synced s \<Longrightarrow> synced (on_status cluster_stream_options st s)" for s st by simp
  show "synced s \<Longrightarrow> status_typed m \<Longrightarrow> synced (on_msg cluster_stream_options m s)" for s m
    using message_view by (simp add: unless_crashed_def)
  show "synced s \<Longrightarrow> synced (on_err cluster_stream_options e s)" for s e
    using typing.err_keeps [of s e] plain_initial by (auto simp: synced_def cluster_set_defs)
  show "synced s \<Longrightarrow> reply_typed shown ev \<Longrightarrow> synced (render (unless_crashed (cluster_handler shown asset ev) s))"
    for s and ev :: "'b cluster_event"
    using typing.local_keeps [of s shown ev asset] by (simp add: synced_def unless_crashed_proj)
qed

lemma start_synced: "synced (h_cb (http_init cluster_start))"
  using start_typed plain_initial by (simp add: synced_def http_init_def cluster_start_def)

subsection \<open>The stream\<close>

lemma lines_view:
  "\<forall>line m. parse line = Some m \<longrightarrow> status_typed m \<Longrightarrow> synced s \<Longrightarrow>
     synced (on_lines parse Some cluster_stream_options ls s) \<and>
     view_of (on_lines parse Some cluster_stream_options ls s) = fold (absorb parse) ls (view_of s)"
proof (induction ls arbitrary: s)
  case (Cons l ls)
  show ?case
  proof (cases "line_message parse Some l")
    case None
    then show ?thesis using Cons by (simp add: absorb_def)
  next
    case (Some m)
    then have m: "status_typed m" using Cons.prems(1) by (auto simp: line_message_def split: option.splits)
    let ?s = "cluster_on_message first_models m s"
    have "synced ?s" "view_of ?s = absorb parse l (view_of s)"
      using message_view [OF Cons.prems(2) m] Some by (auto simp: absorb_def view_of_def split: option.splits)
    then show ?thesis
      using Cons.IH [OF Cons.prems(1), of ?s] Some synced_cases [OF Cons.prems(2)] by (simp add: unless_crashed_def)
  qed
qed simp

definition chunk_events :: "nat \<Rightarrow> 'b list \<Rightarrow> 'b cluster_event list" where
  "chunk_events i cs = map (\<lambda>c. Stream (HChunk i c)) cs"

lemma run_view:
  "\<forall>line m. parse line = Some m \<longrightarrow> status_typed m \<Longrightarrow> synced (h_cb x) \<Longrightarrow> NL \<notin> set b \<Longrightarrow>
   h_phase x i = P_reading i b \<Longrightarrow> i < length (h_conns x) \<Longrightarrow> h_reader x = Some i \<Longrightarrow>
     view_of (h_cb (run (cluster_step decode parse shown asset) x (chunk_events i cs))) =
       fold (absorb parse) (fst (feed_all ndjson_frame b (map decode cs))) (view_of (h_cb x))"
proof (induction cs arbitrary: x b)
  case Nil
  then show ?case by (simp add: chunk_events_def)
next
  case (Cons c cs)
  obtain l1 b1 where 1: "ndjson_frame b (decode c) = (l1, b1)" by fastforce
  obtain l2 b2 where 2: "feed_all ndjson_frame b1 (map decode cs) = (l2, b2)" by fastforce
  let ?s = "on_lines parse Some cluster_stream_options l1 (h_cb x)"
  let ?y = "(set_phase i (P_reading i b1) x)\<lparr>h_cb := render ?s\<rparr>"
  have s: "synced ?s" "view_of ?s = fold (absorb parse) l1 (view_of (h_cb x))"
    using lines_view [OF Cons.prems(1,2)] by blast+
  have step: "cluster_step decode parse shown asset x (Stream (HChunk i c)) = ?y"
    using Cons.prems(4-6) 1 synced_cases [OF s(1)]
    by (simp add: cluster_step_def http_step_def http_chunk_def on_cb_def cluster_handler_def unless_crashed_def set_phase_def Let_def)
  have "synced (h_cb ?y)"
    using syncing.local_keeps [OF s(1), of "\<lambda>q. []" "RetryTimer :: unit cluster_event"] s(1)
      render_typed [of ?s] by (simp add: synced_def)
  moreover have "h_phase ?y i = P_reading i b1" "i < length (h_conns ?y)" "h_reader ?y = Some i"
    using Cons.prems(4-6) by (simp_all add: set_phase_def h_phase_def)
  ultimately show ?case
    using Cons.IH [OF Cons.prems(1), of ?y b1] 1 2 step s(2) ndjson_framer.frame_rest [OF 1]
    by (simp add: chunk_events_def render_view)
qed

subsection \<open>Merged lists\<close>

lemma merge_nodes_shows:
  assumes "list_all NodeInfo_typed next" and "list_all NodeInfo_typed prev"
  shows "\<exists>off. merge_nodes next prev = next @ off \<and> (\<forall>n \<in> set off. n_status n = JStr ''failed'' \<and> \<not> same_node next n)"
proof -
  define next' where "next' = (if nodes_json next = nodes_json (filter (same_node next) prev)
    then next @ map failed_node (filter (\<lambda>p. \<not> same_node next p) prev) else next)"
  have t: "list_all NodeInfo_typed next'"
    using assms by (auto simp: next'_def list_all_iff failed_node_typed)
  have "merge_nodes next prev = (if nodes_json next' \<noteq> nodes_json prev then next' else prev)"
    by (simp only: merge_nodes_def next'_def Let_def)
  then have "merge_nodes next prev = next'"
    using nodes_json_inj [OF t assms(2)] by (cases "nodes_json next' = nodes_json prev") simp_all
  moreover have "\<exists>off. next' = next @ off \<and> (\<forall>n \<in> set off. n_status n = JStr ''failed'' \<and> \<not> same_node next n)"
    by (auto simp: next'_def failed_node_def same_node_def)
  ultimately show ?thesis by simp
qed

lemma absorbed_typed:
  "\<forall>line m. parse line = Some m \<longrightarrow> status_typed m \<Longrightarrow> list_all NodeInfo_typed (snd v) \<Longrightarrow>
     list_all NodeInfo_typed (snd (fold (absorb parse) ls v))"
proof (induction ls arbitrary: v)
  case (Cons l ls)
  have "list_all NodeInfo_typed (snd (absorb parse l v))"
    using Cons.prems nodes_described status_data_typed_Some
    by (fastforce simp: absorb_def line_message_def intro!: merge_nodes_typed split: option.splits)
  then show ?case using Cons.IH [OF Cons.prems(1)] by simp
qed simp

lemma absorb_silent:
  "\<forall>r \<in> set ls. \<forall>m. line_message parse Some r = Some m \<longrightarrow> status_data m = None \<Longrightarrow> fold (absorb parse) ls v = v"
  by (induction ls) (auto simp: absorb_def split: option.splits)

lemma last_message_view:
  assumes "line_message parse Some l = Some m" and "status_data m = Some f"
    and "\<forall>r \<in> set rs. \<forall>m'. line_message parse Some r = Some m' \<longrightarrow> status_data m' = None"
  shows "fold (absorb parse) (ls @ l # rs) v =
    (described_info f, merge_nodes (described_nodes f) (snd (fold (absorb parse) ls v)))"
  using assms by (simp add: absorb_silent) (simp add: absorb_def)

subsection \<open>Properties\<close>



end
