(* ===== verification/Site.thy ===== *)
theory Site
  imports Mesh App
begin

text \<open>
  The applications of \<^verbatim>\<open>App.tsx\<close> at work, the scheduler's and the one of a node: the two
  providers, the router (\<^verbatim>\<open>router/main.tsx\<close> and \<^verbatim>\<open>router/chat.tsx\<close>), whose timers move between
  the pages, in the scheduler's as the cluster's status changes, and the page it shows, with the parts that keep a state or reach the providers: the number field,
  the selection of the model and the button of \<^verbatim>\<open>pages/setup.tsx\<close>, and the layout, the
  selection of the model and the conversation of \<^verbatim>\<open>pages/chat.tsx\<close>.
\<close>

subsection \<open>The state\<close>

text \<open>What the application finds around it: the decoder of the network, \<open>JSON.parse\<close>, the text of
  a number, the address of a model's logo, the router library's matching, the kind of build, and
  which of the two applications it is.\<close>

record 'b world =
  w_decode :: "'b \<Rightarrow> string"
  w_parse :: "string \<Rightarrow> jval option"
  w_shown :: "rat \<Rightarrow> string"
  w_logo :: "string \<Rightarrow> string"
  w_matches :: "string \<Rightarrow> string \<Rightarrow> bool"
  w_dev :: bool
  w_host :: host_type

text \<open>
  \<open>st_loaded\<close> are the pages whose code has arrived (\<open>lazy\<close>), \<open>st_field\<close> the number field (without
  a value when the setup page is not there), \<open>st_stale\<close> the promise chains of setup pages that have
  been left, \<open>st_select\<close> the selection of the chat page, \<open>st_drawer\<close> that page's layout.
\<close>

record site =
  st_mesh :: mesh
  st_router :: router
  st_loaded :: "string list"
  st_field :: number_input
  st_setup :: setup_state
  st_stale :: nat
  st_select :: model_select
  st_drawer :: "drawer option"

definition site_cluster :: "site \<Rightarrow> cluster" where
  "site_cluster s = h_cb (m_cluster (st_mesh s))"

definition main_paths :: "string list" where
  "main_paths = [PATH_SETUP, PATH_JOIN, PATH_CHAT, ''*'']"

lemma main_routes_paths: "map fst main_routes = main_paths"
  by (simp add: main_routes_def main_paths_def)

definition chat_paths :: "string list" where
  "chat_paths = [PATH_CHAT, ''*'']"

lemma chat_routes_paths: "map fst chat_routes = chat_paths"
  by (simp add: chat_routes_def chat_paths_def)

text \<open>The router of the application: its routes and its redirections.\<close>

definition routed :: "'b world \<Rightarrow> string \<Rightarrow> string option" where
  "routed w path = List.find (\<lambda>r. w_matches w r path)
     (case w_host w of Host_cluster \<Rightarrow> main_paths | Host_node \<Rightarrow> chat_paths)"

definition app_redirect :: "'b world \<Rightarrow> jval \<Rightarrow> string \<Rightarrow> string option" where
  "app_redirect w = (case w_host w of Host_cluster \<Rightarrow> main_redirect | Host_node \<Rightarrow> (\<lambda>st. chat_redirect))"

definition on_page :: "'b world \<Rightarrow> string \<Rightarrow> site \<Rightarrow> bool" where
  "on_page w page s \<longleftrightarrow> routed w (rt_path (st_router s)) = Some page \<and> page \<in> set (st_loaded s)"

definition site_mesh_step :: "'b world \<Rightarrow> mesh \<Rightarrow> 'b mesh_event \<Rightarrow> mesh" where
  "site_mesh_step w = mesh_step (w_decode w) (w_parse w) (w_shown w) (w_logo w)"

definition no_field :: number_input where
  "no_field = \<lparr>ni_value = None, ni_sent = []\<rparr>"

definition site_start :: "'b world \<Rightarrow> string \<Rightarrow> site" where
  "site_start w path =
     \<lparr>st_mesh = site_mesh_step w mesh_start (At_cluster (Mount (w_host w))),
      st_router = router_mount (app_redirect w) path (ci_status INITIAL_CLUSTER_INFO),
      st_loaded = [], st_field = no_field, st_setup = setup_start, st_stale = 0,
      st_select = snd (ms_start cluster_start), st_drawer = None\<rparr>"

subsection \<open>Events\<close>

text \<open>\<open>Scheduler_reply\<close> tells whether the chain it answers is one of a page that has been left.\<close>

datatype 'b site_event =
    Cluster_net "'b cluster_event"
  | Chat_net "'b sse_event"
  | Loaded string
  | Go string
  | Redirect
  | Number number_event
  | Network string
  | Model string
  | Press_continue
  | Scheduler_reply bool "jval js_result"
  | Chat_user "'b chat_event"
  | Drawer_user drawer_event

text \<open>What reaches the cluster's provider from outside: replies and timers, not its own actions.\<close>

definition outside :: "'b cluster_event \<Rightarrow> bool" where
  "outside e = (case e of
     ModelListReply r \<Rightarrow> True | RetryTimer \<Rightarrow> True
   | Stream f \<Rightarrow> (case f of Send opt \<Rightarrow> False | Abort \<Rightarrow> False | _ \<Rightarrow> True) | _ \<Rightarrow> False)"

definition is_net :: "'b chat_event \<Rightarrow> bool" where
  "is_net f = (case f of Net n \<Rightarrow> True | _ \<Rightarrow> False)"

definition is_status :: "drawer_event \<Rightarrow> bool" where
  "is_status e = (case e of ClusterStatus st m \<Rightarrow> True | _ \<Rightarrow> False)"

definition site_act :: "'b world \<Rightarrow> 'b mesh_event list \<Rightarrow> site \<Rightarrow> site" where
  "site_act w es s = s\<lparr>st_mesh := run (site_mesh_step w) (st_mesh s) es\<rparr>"

definition site_navigate :: "'b world \<Rightarrow> string \<Rightarrow> site \<Rightarrow> site" where
  "site_navigate w p s = s\<lparr>st_router := router_step (app_redirect w) (st_router s) (Visit p)\<rparr>"

text \<open>The setup page has called \<open>navigate\<close>.\<close>

definition site_leave :: "'b world \<Rightarrow> site \<Rightarrow> site" where
  "site_leave w s =
     (case su_path (st_setup s) of
        None \<Rightarrow> s
      | Some p \<Rightarrow> site_navigate w p (s\<lparr>st_setup := (st_setup s)\<lparr>su_path := None\<rparr>\<rparr>))"

definition stale_reply :: "'b world \<Rightarrow> jval js_result \<Rightarrow> site \<Rightarrow> site" where
  "stale_reply w r s =
     (if st_stale s = 0 then s
      else let s' = s\<lparr>st_stale := st_stale s - 1\<rparr> in
        (case init_scheduler (w_shown w) r of Inl e \<Rightarrow> s' | Inr d \<Rightarrow> site_navigate w PATH_JOIN s'))"

definition site_number :: "'b world \<Rightarrow> number_event \<Rightarrow> site \<Rightarrow> site" where
  "site_number w e s =
     (let f = number_step (w_shown w) (st_field s) e;
          new = drop (length (ni_sent (st_field s))) (ni_sent f)
      in site_act w (map (\<lambda>t. At_cluster (SetInitNodesNumber (js_number t))) new) (s\<lparr>st_field := f\<rparr>))"

definition site_network :: "'b world \<Rightarrow> string \<Rightarrow> site \<Rightarrow> site" where
  "site_network w v s =
     (if v = [] then s
      else site_act w [At_cluster (SetNetworkType (if v = ''local'' then Local else Remote))] s)"

text \<open>Both pages have a selection; the one of the chat page commits the choice, and a node's is read-only.\<close>

definition site_model :: "'b world \<Rightarrow> string \<Rightarrow> site \<Rightarrow> site" where
  "site_model w v s =
     (if on_page w PATH_SETUP s then site_act w [At_cluster (SetModelName v)] s
      else if on_page w PATH_CHAT s \<and> w_host w = Host_cluster
      then site_act w [At_cluster (SetModelName v)] (s\<lparr>st_select := (st_select s)\<lparr>ms_can := True\<rparr>\<rparr>)
      else s)"

text \<open>A button that shows that it is loading cannot be pressed.\<close>

definition site_continue :: "'b world \<Rightarrow> site \<Rightarrow> site" where
  "site_continue w s =
     (if su_loading (st_setup s) then s
      else site_leave w (s\<lparr>st_setup := setup_continue (w_dev w) (site_cluster s) (st_setup s)\<rparr>))"

definition site_handle :: "'b world \<Rightarrow> 'b site_event \<Rightarrow> site \<Rightarrow> site" where
  "site_handle w ev s =
     (case ev of
        Cluster_net e \<Rightarrow> if outside e then site_act w [At_cluster e] s else s
      | Chat_net n \<Rightarrow> site_act w [At_chat (Net n)] s
      | Loaded p \<Rightarrow> s\<lparr>st_loaded := p # st_loaded s\<rparr>
      | Go p \<Rightarrow> site_navigate w p s
      | Redirect \<Rightarrow> s\<lparr>st_router := router_step (app_redirect w) (st_router s) RedirectTimer\<rparr>
      | Number e \<Rightarrow> if on_page w PATH_SETUP s then site_number w e s else s
      | Network v \<Rightarrow> if on_page w PATH_SETUP s then site_network w v s else s
      | Model v \<Rightarrow> site_model w v s
      | Press_continue \<Rightarrow> if on_page w PATH_SETUP s then site_continue w s else s
      | Scheduler_reply stale r \<Rightarrow>
          if stale then stale_reply w r s
          else site_leave w (s\<lparr>st_setup := setup_reply (w_shown w) r (st_setup s)\<rparr>)
      | Chat_user f \<Rightarrow> if on_page w PATH_CHAT s \<and> \<not> is_net f then site_act w [At_chat f] s else s
      | Drawer_user e \<Rightarrow>
          if is_status e then s else s\<lparr>st_drawer := map_option (\<lambda>d. drawer_step (w_host w) d e) (st_drawer s)\<rparr>)"

subsection \<open>Rendering\<close>

definition settle_router :: "'b world \<Rightarrow> site \<Rightarrow> site" where
  "settle_router w s = s\<lparr>st_router := router_step (app_redirect w) (st_router s) (StatusIs (ci_status (mesh_info (st_mesh s))))\<rparr>"

text \<open>The setup page appears, stays or is left.\<close>

definition settle_setup :: "'b world \<Rightarrow> site \<Rightarrow> site" where
  "settle_setup w s =
     (if \<not> on_page w PATH_SETUP s then
        s\<lparr>st_field := no_field, st_stale := st_stale s + su_chains (st_setup s),
          st_setup := (st_setup s)\<lparr>su_chains := 0, su_loading := False\<rparr>\<rparr>
      else if ni_value (st_field s) = None then
        s\<lparr>st_field := \<lparr>ni_value = Some (number_text (w_shown w) (cl_init_nodes (site_cluster s))), ni_sent = []\<rparr>\<rparr>
      else s)"

text \<open>So does the chat page, with its layout and its selection.\<close>

definition settle_chat :: "'b world \<Rightarrow> site \<Rightarrow> site" where
  "settle_chat w s =
     (let cl = site_cluster s; status = ci_status (cl_info cl); needMore = ci_more (cl_info cl) in
      if \<not> on_page w PATH_CHAT s then s\<lparr>st_drawer := None\<rparr>
      else (case st_drawer s of
          None \<Rightarrow> s\<lparr>st_drawer := Some (drawer_mount (w_host w) status needMore),
                    st_select := (st_select s)\<lparr>ms_can := False, ms_seen := (False, cl_model_name cl)\<rparr>\<rparr>
        | Some d \<Rightarrow> s\<lparr>st_drawer := Some (drawer_render (w_host w) status needMore d),
                      st_select := ms_renders (w_dev w) cl (st_select s)\<rparr>))"

definition site_render :: "'b world \<Rightarrow> site \<Rightarrow> site" where
  "site_render w s = settle_chat w (settle_setup w (settle_router w s))"

definition site_step :: "'b world \<Rightarrow> site \<Rightarrow> 'b site_event \<Rightarrow> site" where
  "site_step w s ev =
     (if mesh_gone (st_mesh s) then s
      else let s' = site_handle w ev s in if mesh_gone (st_mesh s') then s' else site_render w s')"

text \<open>The configurations posted to the scheduler, by either page.\<close>

definition site_posted :: "site \<Rightarrow> api_request list" where
  "site_posted s = su_posted (st_setup s) @ concat (map (\<lambda>r. case r of Inl e \<Rightarrow> [] | Inr q \<Rightarrow> [q]) (ms_inits (st_select s)))"

lemmas site_actions = site_act_def site_navigate_def site_leave_def stale_reply_def site_number_def site_network_def
  site_model_def site_continue_def


interpretation app_router: redirection "app_redirect w" for w
proof (cases "w_host w")
  case Host_cluster
  then have "app_redirect w = main_redirect" by (simp add: app_redirect_def)
  then show "redirection (app_redirect w)" using main_router.redirection_axioms by simp
next
  case Host_node
  then have "app_redirect w = (\<lambda>st. chat_redirect)" by (simp add: app_redirect_def)
  then show "redirection (app_redirect w)" using chat_router.redirection_axioms by simp
qed

subsection \<open>What the page does to the providers\<close>

text \<open>
  An invariant of the composed providers is one of the application: whatever the pages do, they
  act on the providers through the actions these hand out.
\<close>

locale site_parts =
  fixes w :: "'b world"
    and P :: "mesh \<Rightarrow> bool"
    and ok :: "'b cluster_event \<Rightarrow> bool"
  assumes mesh_keeps: "P x \<Longrightarrow> \<forall>e. ev = At_cluster e \<longrightarrow> ok e \<Longrightarrow> P (site_mesh_step w x ev)"
    and user_ok: "ok (SetInitNodesNumber n)" "ok (SetNetworkType t)" "ok (SetModelName v)"
begin

definition event_ok :: "'b site_event \<Rightarrow> bool" where
  "event_ok ev \<longleftrightarrow> (\<forall>e. ev = Cluster_net e \<longrightarrow> ok e)"

lemma act_keeps: "P (st_mesh s) \<Longrightarrow> \<forall>e. At_cluster e \<in> set es \<longrightarrow> ok e \<Longrightarrow> P (st_mesh (site_act w es s))"
proof (induction es arbitrary: s)
  case (Cons ev es)
  have "P (st_mesh (site_act w [ev] s))" using Cons.prems by (simp add: site_act_def mesh_keeps)
  then show ?case using Cons.IH [of "site_act w [ev] s"] Cons.prems by (simp add: site_act_def)
qed (simp add: site_act_def)

end

lemma navigate_simps [simp]: "st_mesh (site_navigate w p s) = st_mesh s" "st_setup (site_navigate w p s) = st_setup s"
  "st_select (site_navigate w p s) = st_select s" "st_field (site_navigate w p s) = st_field s"
  "st_drawer (site_navigate w p s) = st_drawer s" "st_loaded (site_navigate w p s) = st_loaded s"
  "st_stale (site_navigate w p s) = st_stale s"
  by (simp_all add: site_navigate_def)

lemma act_simps [simp]: "st_router (site_act w es s) = st_router s" "st_setup (site_act w es s) = st_setup s"
  "st_select (site_act w es s) = st_select s" "st_field (site_act w es s) = st_field s"
  "st_drawer (site_act w es s) = st_drawer s" "st_loaded (site_act w es s) = st_loaded s"
  "st_mesh (site_act w [] s) = st_mesh s"
  by (simp_all add: site_act_def)

lemma leave_simps [simp]: "st_mesh (site_leave w s) = st_mesh s" "st_select (site_leave w s) = st_select s"
  "st_field (site_leave w s) = st_field s" "st_drawer (site_leave w s) = st_drawer s"
  "su_posted (st_setup (site_leave w s)) = su_posted (st_setup s)"
  by (simp_all add: site_leave_def split: option.splits)

lemma stale_simps [simp]: "st_mesh (stale_reply w r s) = st_mesh s" "st_select (stale_reply w r s) = st_select s"
  "st_field (stale_reply w r s) = st_field s" "st_drawer (stale_reply w r s) = st_drawer s"
  "st_setup (stale_reply w r s) = st_setup s"
  by (simp_all add: stale_reply_def Let_def split: sum.splits)

lemma settle_simps [simp]: "st_mesh (site_render w s) = st_mesh s" "st_loaded (site_render w s) = st_loaded s"
  "su_posted (st_setup (site_render w s)) = su_posted (st_setup s)" "st_router (site_render w s) = st_router (settle_router w s)"
  by (simp_all add: site_render_def settle_chat_def settle_setup_def settle_router_def Let_def split: option.splits)

text \<open>What an event makes the pages do with the providers.\<close>

definition site_acts :: "'b world \<Rightarrow> 'b site_event \<Rightarrow> site \<Rightarrow> 'b mesh_event list" where
  "site_acts w ev s =
     (case ev of
        Cluster_net e \<Rightarrow> if outside e then [At_cluster e] else []
      | Chat_net n \<Rightarrow> [At_chat (Net n)]
      | Number e \<Rightarrow> if on_page w PATH_SETUP s
          then map (\<lambda>t. At_cluster (SetInitNodesNumber (js_number t)))
            (drop (length (ni_sent (st_field s))) (ni_sent (number_step (w_shown w) (st_field s) e)))
          else []
      | Network v \<Rightarrow> if on_page w PATH_SETUP s \<and> v \<noteq> []
          then [At_cluster (SetNetworkType (if v = ''local'' then Local else Remote))] else []
      | Model v \<Rightarrow> if on_page w PATH_SETUP s \<or> (on_page w PATH_CHAT s \<and> w_host w = Host_cluster) then [At_cluster (SetModelName v)] else []
      | Chat_user f \<Rightarrow> if on_page w PATH_CHAT s \<and> \<not> is_net f then [At_chat f] else []
      | _ \<Rightarrow> [])"

lemma handle_mesh: "st_mesh (site_handle w ev s) = st_mesh (site_act w (site_acts w ev s) s)"
  by (cases ev) (simp_all add: site_handle_def site_acts_def site_number_def site_network_def site_model_def
      site_continue_def site_act_def Let_def)

lemma step_mesh:
  "st_mesh (site_step w s ev) = (if mesh_gone (st_mesh s) then st_mesh s else st_mesh (site_act w (site_acts w ev s) s))"
  by (simp add: site_step_def Let_def handle_mesh)

context site_parts
begin

lemma acts_ok: "event_ok ev \<Longrightarrow> At_cluster e \<in> set (site_acts w ev s) \<Longrightarrow> ok e"
  by (cases ev) (auto simp: site_acts_def event_ok_def user_ok split: if_splits)

lemma step_parts: "P (st_mesh s) \<Longrightarrow> event_ok ev \<Longrightarrow> P (st_mesh (site_step w s ev))"
  using acts_ok by (simp add: step_mesh act_keeps)

end

sublocale site_parts \<subseteq> site_kept: guarded_steps "site_step w" "\<lambda>s. P (st_mesh s)" event_ok
  by unfold_locales (rule step_parts)

definition site_event_typed :: "(rat \<Rightarrow> string) \<Rightarrow> 'b site_event \<Rightarrow> bool" where
  "site_event_typed shown ev \<longleftrightarrow> (\<forall>e. ev = Cluster_net e \<longrightarrow> reply_typed shown e)"

interpretation standing_site: site_parts w
    "\<lambda>x. server_ok (w_parse w) \<longrightarrow> typed (h_cb (m_cluster x)) \<and> chat_sim (m_chat x)" "reply_typed (w_shown w)" for w
proof
  show "server_ok (w_parse w) \<longrightarrow> typed (h_cb (m_cluster x)) \<and> chat_sim (m_chat x) \<Longrightarrow>
      \<forall>e. ev = At_cluster e \<longrightarrow> reply_typed (w_shown w) e \<Longrightarrow>
      server_ok (w_parse w) \<longrightarrow> typed (h_cb (m_cluster (site_mesh_step w x ev))) \<and> chat_sim (m_chat (site_mesh_step w x ev))"
    for x ev
    using typed_mesh.step_parts [of "w_parse w" x "w_shown w" ev "w_decode w" "w_logo w"]
    by (cases ev) (simp_all add: site_mesh_step_def typed_mesh.event_ok_def)
qed (simp_all add: reply_typed_def)

interpretation talking_site: site_parts w "\<lambda>x. parse_ok delta_ok (w_parse w) \<longrightarrow> chat_sim (m_chat x)" "\<lambda>e. True" for w
proof
  show "parse_ok delta_ok (w_parse w) \<longrightarrow> chat_sim (m_chat x) \<Longrightarrow> \<forall>e. ev = At_cluster e \<longrightarrow> True \<Longrightarrow>
      parse_ok delta_ok (w_parse w) \<longrightarrow> chat_sim (m_chat (site_mesh_step w x ev))" for x ev
    using talking_mesh.step_parts [of "w_parse w" x ev "w_decode w" "w_shown w" "w_logo w"]
    by (cases ev) (simp_all add: site_mesh_step_def talking_mesh.event_ok_def)
qed simp_all

lemma mounted_parts:
  "typed (h_cb (m_cluster (st_mesh (site_start w path)))) \<and> chat_sim (m_chat (st_mesh (site_start w path)))"
proof -
  have "reply_typed (w_shown w) (Mount (w_host w) :: 'a cluster_event)" by (simp add: reply_typed_def)
  moreover have "lines_ok status_typed (\<lambda>l. None) Some" by (simp add: lines_ok_def line_message_def)
  ultimately show ?thesis
    using typing.cluster_step_keeps [of "\<lambda>l. None" "w_shown w" "Mount (w_host w) :: 'a cluster_event"
        "m_cluster mesh_start" "w_decode w" "w_logo w"] start_parts
    by (simp add: site_start_def site_mesh_step_def mesh_step_def mesh_start_def cluster_step_def)
qed

lemma reachable_stands:
  assumes "server_ok (w_parse w)" and "list_all (site_event_typed (w_shown w)) es"
  shows "\<not> mesh_gone (st_mesh (run (site_step w) (site_start w path) es))"
proof -
  have "list_all (standing_site.event_ok w) es"
    using assms(2) by (simp add: site_event_typed_def standing_site.event_ok_def list_all_iff)
  then show ?thesis
    using standing_site.site_kept.run_guarded [of w "site_start w path" es] assms(1) mounted_parts [of w path]
    by (auto simp: mesh_gone_def typed_def chat_sim_def)
qed

lemma reachable_talks:
  assumes "parse_ok delta_ok (w_parse w)"
  shows "chat_sim (m_chat (st_mesh (run (site_step w) (site_start w path) es)))"
  using talking_site.site_kept.run_guarded [of w "site_start w path" es] assms mounted_parts [of w path]
  by (simp add: talking_site.event_ok_def list_all_iff)

subsection \<open>The number of nodes\<close>

definition sets_nodes :: "'b cluster_event \<Rightarrow> bool" where
  "sets_nodes e \<longleftrightarrow> (\<exists>n. e = SetInitNodesNumber n)"

lemma message_init_nodes [simp]: "cl_init_nodes (cluster_on_message ms m s) = cl_init_nodes s"
  by (simp add: cluster_on_message_def set_info_def Let_def split: sum.splits)

lemma handler_init_nodes:
  "\<not> sets_nodes ev \<Longrightarrow> cl_init_nodes (cluster_handler shown logo ev s) = cl_init_nodes s"
  by (auto simp: sets_nodes_def cluster_handler_def start_model_list_def model_list_reply_def model_list_retry_def
      split: cluster_event.splits sum.splits)

interpretation numbering: cluster_keeps "\<lambda>s. cl_init_nodes s = k" "\<lambda>m. True" "\<lambda>e. \<not> sets_nodes e" shown logo
  for k shown logo
  by unfold_locales (simp_all add: cluster_set_defs handler_init_nodes)

definition nodes_number :: "mesh \<Rightarrow> rat option" where
  "nodes_number x = cl_init_nodes (h_cb (m_cluster x))"

lemma mesh_number:
  assumes "\<forall>e. ev = At_cluster e \<longrightarrow> \<not> sets_nodes e"
  shows "nodes_number (site_mesh_step w x ev) = nodes_number x"
proof (cases ev)
  case (At_cluster e)
  then have "cl_init_nodes (h_cb (cluster_step (w_decode w) (w_parse w) (w_shown w) (w_logo w) (m_cluster x) e)) =
      cl_init_nodes (h_cb (m_cluster x))"
    using assms by (intro numbering.cluster_step_keeps) (simp_all add: lines_ok_def)
  then show ?thesis using At_cluster by (simp add: site_mesh_step_def mesh_step_def nodes_number_def)
qed (simp add: site_mesh_step_def mesh_step_def nodes_number_def)

lemma site_number_eq:
  assumes "ni_value (st_field s) = Some v" and "\<not> mesh_gone (st_mesh s)"
  shows "\<exists>t. number_step (w_shown w) (st_field s) e = \<lparr>ni_value = Some t, ni_sent = ni_sent (st_field s) @ [t]\<rparr> \<and>
    nodes_number (st_mesh (site_number w e s)) = js_number t"
proof -
  from number_step_sent [OF assms(1), of "w_shown w" e] obtain t where
    t: "number_step (w_shown w) (st_field s) e = \<lparr>ni_value = Some t, ni_sent = ni_sent (st_field s) @ [t]\<rparr>" ..
  have "nodes_number (st_mesh (site_number w e s)) = js_number t"
    using assms(2) t
    by (simp add: site_number_def site_act_def site_mesh_step_def mesh_step_def nodes_number_def cluster_step_def on_cb_def
      unless_crashed_def cluster_handler_def mesh_gone_def Let_def)
  with t show ?thesis by blast
qed

lemma handle_number:
  "\<forall>e. ev = Number e \<longrightarrow> \<not> on_page w PATH_SETUP s \<Longrightarrow> nodes_number (st_mesh (site_handle w ev s)) = nodes_number (st_mesh s)"
  unfolding handle_mesh
  by (cases ev) (auto simp: site_acts_def site_act_def outside_def sets_nodes_def intro!: mesh_number split: cluster_event.splits)

subsection \<open>The parts agree\<close>

text \<open>
  No part of the page lags behind the providers: the router has the cluster's status and has armed
  exactly the redirection it asks for, the field is there with the setup page and shows the
  configured number, and the layout of the chat page is there with it and has the cluster's status.
\<close>

definition in_step :: "'b world \<Rightarrow> site \<Rightarrow> bool" where
  "in_step w s \<longleftrightarrow>
     timer_ok (app_redirect w) (st_router s) \<and> rt_status (st_router s) = ci_status (mesh_info (st_mesh s)) \<and>
     number_ok (st_field s) \<and> (\<exists>n. 1 \<le> n \<and> nodes_number (st_mesh s) = Some (of_nat n)) \<and>
     ni_value (st_field s) = (if on_page w PATH_SETUP s then Some (number_text (w_shown w) (nodes_number (st_mesh s))) else None) \<and>
     (case st_drawer s of
        None \<Rightarrow> \<not> on_page w PATH_CHAT s
      | Some d \<Rightarrow> on_page w PATH_CHAT s \<and> dw_status d = ci_status (mesh_info (st_mesh s)) \<and>
          dw_more d = ci_more (mesh_info (st_mesh s)) \<and>
          ms_seen (st_select s) = (ms_can (st_select s), cl_model_name (site_cluster s)))"

text \<open>What the handler leaves of it before the page is rendered.\<close>

definition nearly :: "'b world \<Rightarrow> site \<Rightarrow> bool" where
  "nearly w s \<longleftrightarrow> timer_ok (app_redirect w) (st_router s) \<and> number_ok (st_field s) \<and>
     (\<exists>n. 1 \<le> n \<and> nodes_number (st_mesh s) = Some (of_nat n)) \<and>
     (ni_value (st_field s) = None \<or> ni_value (st_field s) = Some (number_text (w_shown w) (nodes_number (st_mesh s))))"

lemma drawer_has_status:
  "dw_status (drawer_mount host st m) = st" "dw_more (drawer_mount host st m) = m"
  "dw_status (drawer_render host st m d) = st" "dw_more (drawer_render host st m d) = m"
  by (simp_all add: drawer_mount_def drawer_render_def status_effects_def failed_effect_def rebalancing_effect_def
      waiting_effect_def need_more_effect_def Let_def)

lemma on_page_settle [simp]: "on_page w p (settle_router w s) = on_page w p s" "on_page w p (settle_setup w s) = on_page w p s"
  "on_page w p (settle_chat w s) = on_page w p s"
  by (simp_all add: on_page_def settle_router_def router_step_def router_render_def settle_setup_def settle_chat_def Let_def
      split: option.splits)

lemma settle_router_simps [simp]: "st_mesh (settle_router w s) = st_mesh s" "st_field (settle_router w s) = st_field s"
  "st_drawer (settle_router w s) = st_drawer s" "st_select (settle_router w s) = st_select s"
  "site_cluster (settle_router w s) = site_cluster s"
  by (simp_all add: settle_router_def site_cluster_def)

lemma settle_setup_simps [simp]: "st_mesh (settle_setup w s) = st_mesh s" "st_router (settle_setup w s) = st_router s"
  "st_drawer (settle_setup w s) = st_drawer s" "st_select (settle_setup w s) = st_select s"
  "site_cluster (settle_setup w s) = site_cluster s"
  by (simp_all add: settle_setup_def site_cluster_def)

lemma settle_chat_simps [simp]: "st_mesh (settle_chat w s) = st_mesh s" "st_router (settle_chat w s) = st_router s"
  "st_field (settle_chat w s) = st_field s" "site_cluster (settle_chat w s) = site_cluster s"
  by (simp_all add: settle_chat_def site_cluster_def Let_def split: option.splits)

lemma settled_router:
  "timer_ok (app_redirect w) (st_router s) \<Longrightarrow> timer_ok (app_redirect w) (st_router (settle_router w s)) \<and>
     rt_status (st_router (settle_router w s)) = ci_status (mesh_info (st_mesh s))"
  using app_router.timer_ok_step [of w "st_router s"]
  by (simp add: settle_router_def) (simp add: router_step_def router_render_def)

lemma settled_field:
  assumes "nearly w s"
  shows "number_ok (st_field (settle_setup w s)) \<and> ni_value (st_field (settle_setup w s)) =
    (if on_page w PATH_SETUP s then Some (number_text (w_shown w) (nodes_number (st_mesh s))) else None)"
  using assms by (auto simp: nearly_def settle_setup_def no_field_def number_ok_def positive_text_def number_text_def
      nodes_number_def site_cluster_def)

lemma settled_drawer:
  "case st_drawer (settle_chat w s) of
     None \<Rightarrow> \<not> on_page w PATH_CHAT s
   | Some d \<Rightarrow> on_page w PATH_CHAT s \<and> dw_status d = ci_status (mesh_info (st_mesh s)) \<and>
       dw_more d = ci_more (mesh_info (st_mesh s)) \<and>
       ms_seen (st_select (settle_chat w s)) = (ms_can (st_select (settle_chat w s)), cl_model_name (site_cluster s))"
  by (auto simp: settle_chat_def drawer_has_status site_cluster_def mesh_info_def ms_renders_cases Let_def split: option.split)

lemma settle_in_step:
  assumes "nearly w s"
  shows "in_step w (site_render w s)"
proof -
  have "timer_ok (app_redirect w) (st_router s)" "\<exists>n. 1 \<le> n \<and> nodes_number (st_mesh s) = Some (of_nat n)"
    using assms by (simp_all add: nearly_def)
  moreover have "nearly w (settle_router w s)"
    using assms settled_router [of w s] by (simp add: nearly_def)
  ultimately show ?thesis
    using settled_router [of w s] settled_field [of w "settle_router w s"]
      settled_drawer [of w "settle_setup w (settle_router w s)"]
    by (simp add: site_render_def in_step_def split: option.splits)
qed

lemma navigate_timer: "timer_ok (app_redirect w) (st_router s) \<Longrightarrow> timer_ok (app_redirect w) (st_router (site_navigate w p s))"
  by (simp add: site_navigate_def app_router.timer_ok_step)

lemma leave_timer: "timer_ok (app_redirect w) (st_router s) \<Longrightarrow> timer_ok (app_redirect w) (st_router (site_leave w s))"
  by (auto simp: site_leave_def intro!: navigate_timer split: option.splits)

lemma handle_timer:
  "timer_ok (app_redirect w) (st_router s) \<Longrightarrow> timer_ok (app_redirect w) (st_router (site_handle w ev s))"
  by (cases ev) (auto simp: site_handle_def site_number_def site_network_def site_model_def site_continue_def
      stale_reply_def Let_def app_router.timer_ok_step intro: navigate_timer leave_timer split: sum.splits)

lemma handle_field:
  "\<forall>e. ev = Number e \<longrightarrow> \<not> on_page w PATH_SETUP s \<Longrightarrow> st_field (site_handle w ev s) = st_field s"
  by (cases ev) (auto simp: site_handle_def site_network_def site_model_def site_continue_def)

lemma handle_nearly:
  assumes "in_step w s" and "\<not> mesh_gone (st_mesh s)"
  shows "nearly w (site_handle w ev s)"
proof -
  have t: "timer_ok (app_redirect w) (st_router (site_handle w ev s))"
    using assms(1) by (intro handle_timer) (simp add: in_step_def)
  show ?thesis
  proof (cases "\<exists>e. ev = Number e \<and> on_page w PATH_SETUP s")
    case False
    then have "st_field (site_handle w ev s) = st_field s"
        "nodes_number (st_mesh (site_handle w ev s)) = nodes_number (st_mesh s)"
      by (auto intro!: handle_field handle_number)
    then show ?thesis using assms(1) t by (simp add: nearly_def in_step_def)
  next
    case True
    then obtain e where e: "ev = Number e" "on_page w PATH_SETUP s" by blast
    obtain v where "ni_value (st_field s) = Some v" using assms(1) e(2) by (simp add: in_step_def)
    from site_number_eq [OF this assms(2), of w e] obtain u where
      u: "number_step (w_shown w) (st_field s) e = \<lparr>ni_value = Some u, ni_sent = ni_sent (st_field s) @ [u]\<rparr>"
        "nodes_number (st_mesh (site_number w e s)) = js_number u" by blast
    have ok: "number_ok (number_step (w_shown w) (st_field s) e)"
      using assms(1) by (simp add: in_step_def number_ok_step)
    then have "positive_text u" unfolding u(1) by (simp add: number_ok_def)
    then obtain n where n: "1 \<le> n" "u = show_nat n" by (auto simp: positive_text_def)
    have "st_field (site_number w e s) = number_step (w_shown w) (st_field s) e"
      by (simp add: site_number_def Let_def)
    then show ?thesis
      using e t ok u n by (auto simp: nearly_def site_handle_def number_text_def)
  qed
qed

lemma step_in_step: "(\<not> mesh_gone (st_mesh s) \<longrightarrow> in_step w s) \<Longrightarrow>
    \<not> mesh_gone (st_mesh (site_step w s ev)) \<longrightarrow> in_step w (site_step w s ev)"
  by (auto simp: site_step_def Let_def intro: settle_in_step handle_nearly)

interpretation together: invariant_steps "site_step w" "\<lambda>s. \<not> mesh_gone (st_mesh s) \<longrightarrow> in_step w s" for w
  by unfold_locales (rule step_in_step)

lemma start_number: "nodes_number (st_mesh (site_start w path)) = Some 1"
proof -
  have "nodes_number mesh_start = Some 1"
    by (simp add: nodes_number_def mesh_start_def http_init_def cluster_start_def)
  then show ?thesis
    using mesh_number [of "At_cluster (Mount (w_host w))" w mesh_start] by (simp add: site_start_def sets_nodes_def)
qed

lemma start_in_step: "in_step w (site_start w path)"
proof -
  have "ci_status (mesh_info (st_mesh (site_start w path))) = ci_status INITIAL_CLUSTER_INFO"
    by (simp add: site_start_def site_mesh_step_def mesh_step_def mesh_start_def mesh_gone_def mesh_info_def cluster_step_def
      on_cb_def unless_crashed_def http_init_def cluster_start_def http_send_def on_status_change_def Let_def)
  moreover have "\<not> on_page w p (site_start w path)" for p by (simp add: on_page_def site_start_def)
  ultimately show ?thesis
    using start_number [of w path] timer_ok_mount
    by (simp add: in_step_def site_start_def router_mount_def no_field_def number_ok_def)
qed

subsection \<open>Requests\<close>

lemma cluster_acts_chat:
  "\<forall>a \<in> set es. \<exists>e. a = At_cluster e \<Longrightarrow> m_chat (run (site_mesh_step w) x es) = m_chat x"
proof (induction es arbitrary: x)
  case (Cons a es)
  then obtain e where "a = At_cluster e" by auto
  then have "m_chat (site_mesh_step w x a) = m_chat x" by (simp add: site_mesh_step_def mesh_step_def)
  then show ?case using Cons by simp
qed simp

lemma net_posts_nothing: "posted (m_chat (site_mesh_step w x (At_chat (Net n)))) = posted (m_chat x)"
  by (simp add: site_mesh_step_def mesh_step_def chat_step_def)

lemma acts_cases:
  obtains (cluster) "\<forall>a \<in> set (site_acts w ev s). \<exists>e. a = At_cluster e"
  | (net) n where "site_acts w ev s = [At_chat (Net n)]"
  | (user) f where "ev = Chat_user f" "on_page w PATH_CHAT s" "site_acts w ev s = [At_chat f]"
proof -
  have "(\<forall>a \<in> set (site_acts w ev s). \<exists>e. a = At_cluster e) \<or> (\<exists>n. site_acts w ev s = [At_chat (Net n)]) \<or>
      (\<exists>f. ev = Chat_user f \<and> on_page w PATH_CHAT s \<and> site_acts w ev s = [At_chat f])"
    by (cases ev) (auto simp: site_acts_def)
  then show thesis using cluster net user by blast
qed

lemma request_step:
  assumes "chat_sim (m_chat (st_mesh (site_step w s ev)))"
    and "body \<in> set (posted (m_chat (st_mesh (site_step w s ev))))" and "body \<notin> set (posted (m_chat (st_mesh s)))"
  shows "\<exists>f. ev = Chat_user f \<and> on_page w PATH_CHAT s \<and> request_for (mesh_info (st_mesh s)) body"
proof -
  have m: "st_mesh (site_step w s ev) = run (site_mesh_step w) (st_mesh s) (site_acts w ev s)"
    using assms(2,3) by (simp add: step_mesh site_act_def split: if_splits)
  show ?thesis
  proof (cases w ev s rule: acts_cases)
    case cluster
    then show ?thesis using assms(2,3) by (simp add: m cluster_acts_chat)
  next
    case (net n)
    then show ?thesis using assms(2,3) by (simp add: m net_posts_nothing)
  next
    case (user f)
    then show ?thesis
      using mesh_step_posts [of "w_decode w" "w_parse w" "w_shown w" "w_logo w" "st_mesh s" "At_chat f" body] assms
      unfolding m user(3) by (simp add: user site_mesh_step_def)
  qed
qed

subsection \<open>Configurations\<close>

lemma handle_posted:
  "su_posted (st_setup (site_handle w ev s)) = su_posted (st_setup s) \<or>
   (ev = Press_continue \<and> on_page w PATH_SETUP s \<and> startable (site_cluster s) \<and>
    (\<exists>q. cluster_init (w_dev w) (site_cluster s) = Inr q \<and>
       su_posted (st_setup (site_handle w ev s)) = su_posted (st_setup s) @ [q]))"
  by (cases ev) (auto simp: site_handle_def site_network_def site_model_def site_number_def site_continue_def
      setup_reply_def setup_continue_def startable_def Let_def split: sum.split)

lemma handle_inits: "ms_inits (st_select (site_handle w ev s)) = ms_inits (st_select s)"
  by (cases ev) (simp_all add: site_handle_def site_network_def site_model_def site_number_def site_continue_def Let_def)

lemma settle_inits:
  "ms_inits (st_select (site_render w s)) = ms_inits (st_select s) \<or>
   (ms_can (st_select s) \<and> on_page w PATH_CHAT s \<and> \<not> strict_eq (cl_model_name (site_cluster s)) (ci_model_name (cl_info (site_cluster s))) \<and>
    ms_inits (st_select (site_render w s)) = ms_inits (st_select s) @ [cluster_init (w_dev w) (site_cluster s)])"
  by (auto simp: site_render_def settle_chat_def ms_renders_cases Let_def split: option.split)

lemma settle_page [simp]: "on_page w p (site_render w s) = on_page w p s" "site_cluster (site_render w s) = site_cluster s"
  by (simp_all add: site_render_def site_cluster_def)

text \<open>A node has no setup page and its selection never commits.\<close>

lemma setup_host: "on_page w PATH_SETUP s \<Longrightarrow> w_host w = Host_cluster"
  by (auto simp: on_page_def routed_def find_Some_iff chat_paths_def path_defs nth_Cons' split: host_type.splits if_splits)

lemma handle_select: "w_host w = Host_node \<Longrightarrow> st_select (site_handle w ev s) = st_select s"
  by (cases ev) (simp_all add: site_handle_def site_network_def site_model_def site_number_def site_continue_def Let_def)

lemma select_step:
  "w_host w = Host_node \<longrightarrow> \<not> ms_can (st_select s) \<Longrightarrow> w_host w = Host_node \<longrightarrow> \<not> ms_can (st_select (site_step w s ev))"
  using handle_select [of w ev s]
  by (auto simp: site_step_def site_render_def settle_chat_def ms_renders_cases Let_def split: option.split)

interpretation read_only: invariant_steps "site_step w" "\<lambda>s. w_host w = Host_node \<longrightarrow> \<not> ms_can (st_select s)" for w
  by unfold_locales (rule select_step)

lemma configuration_step:
  assumes "q \<in> set (site_posted (site_step w s ev))" and "q \<notin> set (site_posted s)"
    and "w_host w = Host_node \<longrightarrow> \<not> ms_can (st_select s)"
  shows "w_host w = Host_cluster \<and>
    ((ev = Press_continue \<and> on_page w PATH_SETUP s \<and> startable (site_cluster s) \<and> \<not> mesh_gone (st_mesh s) \<and>
      cluster_init (w_dev w) (site_cluster s) = Inr q) \<or>
     (on_page w PATH_CHAT (site_step w s ev) \<and> \<not> mesh_gone (st_mesh (site_step w s ev)) \<and>
      (let cl = site_cluster (site_step w s ev) in
       \<not> strict_eq (cl_model_name cl) (ci_model_name (cl_info cl)) \<and> cluster_init (w_dev w) cl = Inr q)))"
proof -
  let ?h = "site_handle w ev s"
  have live: "\<not> mesh_gone (st_mesh s)" using assms by (auto simp: site_step_def)
  have host: "ms_can (st_select ?h) \<Longrightarrow> w_host w = Host_cluster"
    using assms(3) handle_select [of w ev s] by (cases "w_host w") simp_all
  show ?thesis
  proof (cases "mesh_gone (st_mesh ?h)")
    case True
    then have "site_step w s ev = ?h" using live by (simp add: site_step_def)
    then show ?thesis using assms(1,2) handle_posted [of w ev s] live setup_host by (auto simp: site_posted_def handle_inits)
  next
    case False
    then have "site_step w s ev = site_render w ?h" using live by (simp add: site_step_def)
    then show ?thesis
      using assms(1,2) handle_posted [of w ev s] live settle_inits [of w ?h] False host setup_host [of w s]
      by (auto simp: site_posted_def handle_inits Let_def split: sum.splits)
  qed
qed

lemma init_configuration:
  assumes "cluster_init dev cl = Inr q" and "cl_init_nodes cl = Some (of_nat n)"
  shows "truthy (cl_model_name cl) \<and> q = \<lparr>r_url = API_BASE_URL dev @ ''/scheduler/init'', r_method = POST,
    r_body = JObj [(''model_name'', json_tree (cl_model_name cl)), (''init_nodes_num'', JNum (of_nat n)),
      (''is_local_network'', JBool (cl_network cl = Local))]\<rparr>"
  using assms by (auto simp: cluster_init_def init_scheduler_request_def json_number_def split: if_splits)

subsection \<open>Redirections\<close>

definition page_fits :: "'b world \<Rightarrow> jval \<Rightarrow> string \<Rightarrow> bool" where
  "page_fits w status path = (case w_host w of
      Host_cluster \<Rightarrow> path \<noteq> ''/'' \<and> (status = JStr ''available'' \<longrightarrow> starts_with PATH_CHAT path) \<and>
        (status = JStr ''idle'' \<longrightarrow> \<not> starts_with PATH_CHAT path)
    | Host_node \<Rightarrow> starts_with PATH_CHAT path)"

lemma no_redirect_fits: "app_redirect w status path = None \<Longrightarrow> page_fits w status path"
  by (auto simp: page_fits_def app_redirect_def main_redirect_def chat_redirect_def split: if_splits host_type.splits)

lemma redirect_step:
  assumes "in_step w z" and "\<not> mesh_gone (st_mesh z)"
  shows "st_mesh (site_step w z Redirect) = st_mesh z \<and>
    st_router (site_step w z Redirect) = router_step (app_redirect w) (st_router z) RedirectTimer"
  using assms by (simp add: site_step_def site_handle_def settle_router_def in_step_def Let_def)
    (simp add: router_step_def [of _ _ "StatusIs _"] router_render_def)

subsection \<open>The setup page\<close>

lemma leave_path: "su_path (st_setup (site_leave w s)) = None"
  by (simp add: site_leave_def split: option.splits)

lemma settle_path [simp]: "su_path (st_setup (site_render w s)) = su_path (st_setup s)"
  by (simp add: site_render_def settle_chat_def settle_setup_def settle_router_def Let_def split: option.splits)

lemma path_step: "su_path (st_setup s) = None \<Longrightarrow> su_path (st_setup (site_step w s ev)) = None"
proof -
  assume "su_path (st_setup s) = None"
  then have "su_path (st_setup (site_handle w ev s)) = None"
    by (cases ev) (auto simp: site_handle_def site_network_def site_model_def site_number_def site_continue_def leave_path Let_def)
  then show ?thesis using \<open>su_path (st_setup s) = None\<close> by (simp add: site_step_def Let_def)
qed

interpretation leaving: invariant_steps "site_step w" "\<lambda>s. su_path (st_setup s) = None" for w
  by unfold_locales (rule path_step)

text \<open>A page on which only the setup state has changed is already rendered.\<close>

lemma settled_setup:
  assumes "in_step w s" and "on_page w PATH_SETUP s"
  shows "site_render w (s\<lparr>st_setup := u\<rparr>) = s\<lparr>st_setup := u\<rparr>"
proof -
  let ?s = "s\<lparr>st_setup := u\<rparr>"
  have p: "on_page w p ?s = on_page w p s" for p by (simp add: on_page_def)
  have "\<not> on_page w PATH_CHAT s" using assms(2) by (simp add: on_page_def path_defs)
  then have d: "st_drawer s = None" using assms(1) by (simp add: in_step_def split: option.splits)
  have r: "settle_router w ?s = ?s"
    using assms(1) by (simp add: settle_router_def router_step_def router_render_def in_step_def)
  have "settle_setup w ?s = ?s" using assms by (auto simp: settle_setup_def p in_step_def)
  then show ?thesis using r d \<open>\<not> on_page w PATH_CHAT s\<close> by (simp add: site_render_def settle_chat_def p Let_def)
qed

lemma settled_loading: "\<not> su_loading (st_setup s) \<Longrightarrow> \<not> su_loading (st_setup (site_render w s))"
  by (simp add: site_render_def settle_chat_def settle_setup_def settle_router_def Let_def split: option.splits)

lemma start_possible:
  assumes "in_step w s" and "truthy (cl_model_name (site_cluster s))"
  obtains q where "cluster_init dev (site_cluster s) = Inr q"
  using assms by (auto simp: in_step_def nodes_number_def site_cluster_def cluster_init_def)

lemma navigate_path: "rt_path (st_router (site_navigate w p s)) = p"
  by (simp add: site_navigate_def router_step_def router_render_def)

lemma settle_path_kept [simp]: "rt_path (st_router (settle_router w s)) = rt_path (st_router s)"
  by (simp add: settle_router_def router_step_def router_render_def)

subsection \<open>Properties\<close>

text \<open>A server whose cluster is idle at first and available later, and a user who configures and asks it.\<close>

definition example_world :: "string world" where
  "example_world = \<lparr>w_decode = id,
     w_parse = (\<lambda>l. Some (if l = ''1'' then status_message [(''status'', JStr ''idle''), (''model_name'', JStr ''m''), (''node_list'', JArr [])]
       else nodes_message [''a'', ''b''])),
     w_shown = (\<lambda>q. []), w_logo = id, w_matches = (\<lambda>p q. p = q \<or> p = ''*''), w_dev = False, w_host = Host_cluster\<rparr>"

definition configuring :: "string site_event list" where
  "configuring = [Loaded PATH_SETUP, Loaded PATH_CHAT, Redirect,
     Cluster_net (Stream (HResponse 0 200 (Some ''application/x-ndjson'') True)),
     Cluster_net (Stream (HChunk 0 (''1'' @ [NL]))), Number Plus, Number Plus, Model ''q'']"

definition serving :: "string site_event list" where
  "serving = configuring @ [Press_continue, Scheduler_reply False (Inr (JObj [(''type'', JStr ''scheduler_init''), (''data'', JNull)])),
     Cluster_net (Stream (HChunk 0 (''2'' @ [NL]))), Redirect, Chat_user (SetInput ''q''), Chat_user (Generate None 1 ''1'')]"

lemma example_ok: "server_ok (w_parse example_world)"
proof -
  have 1: "status_typed (nodes_message [''a'', ''b''])" "status_typed (status_message
      [(''status'', JStr ''idle''), (''model_name'', JStr ''m''), (''node_list'', JArr [])])"
    using nodes_message_typed
    by (simp_all add: status_typed_def status_message_def prop_of_def obj_get_def status_data_typed_def given_def
      one_of_def ClusterStatus_def)
  have 2: "delta_ok (walk (nodes_message [''a'', ''b'']))" "delta_ok (JStr t)" "delta_ok (walk (status_message
      [(''status'', JStr ''idle''), (''model_name'', JStr ''m''), (''node_list'', JArr [])]))" for t
    by (simp_all add: nodes_message_def status_message_def node_json_def delta_ok_def prop_of_def obj_get_def)
  show ?thesis using 1 2
    by (auto simp: server_ok_def parse_ok_def lines_ok_def line_message_def example_world_def split: if_splits option.splits)
qed

lemma example_typed: "list_all (site_event_typed (w_shown example_world)) configuring"
  "list_all (site_event_typed (w_shown example_world)) serving"
  by (simp_all add: configuring_def serving_def site_event_typed_def reply_typed_def)



text \<open>
  C9 (site_in_step): while the server keeps to its formats, the page never lags behind its
  providers: the router has the cluster's status and has armed exactly the redirection that status
  asks for, the number field is there with the setup page and shows the configured number of
  nodes, which is a whole number of at least one, and the layout of the chat page is there with that
  page and has the cluster's status and its need of nodes.
\<close>

theorem site_in_step:
  assumes "server_ok (w_parse w)" and "list_all (site_event_typed (w_shown w)) es"
    and "x = run (site_step w) (site_start w path) es"
  shows "\<not> mesh_gone (st_mesh x) \<and> rt_status (st_router x) = ci_status (mesh_info (st_mesh x)) \<and>
    rt_timer (st_router x) = app_redirect w (rt_status (st_router x)) (rt_path (st_router x)) \<and>
    (\<exists>n. 1 \<le> n \<and> cl_init_nodes (site_cluster x) = Some (of_nat n) \<and>
       ni_value (st_field x) = (if on_page w PATH_SETUP x then Some (show_nat n) else None)) \<and>
    (case st_drawer x of
       None \<Rightarrow> \<not> on_page w PATH_CHAT x
     | Some d \<Rightarrow> on_page w PATH_CHAT x \<and> dw_status d = ci_status (mesh_info (st_mesh x)) \<and>
         dw_more d = ci_more (mesh_info (st_mesh x)))"
proof -
  have live: "\<not> mesh_gone (st_mesh x)" using reachable_stands [OF assms(1,2)] assms(3) by simp
  then have "in_step w x"
    using together.run_inv [of "site_start w path" w es] start_in_step assms(3) by blast
  with live show ?thesis
    by (auto simp: in_step_def timer_ok_def nodes_number_def site_cluster_def number_text_def split: option.splits)
qed

theorem site_in_step_witness:
  "let x = run (site_step example_world) (site_start example_world ''/'') configuring
   in on_page example_world PATH_SETUP x \<and> ni_value (st_field x) = Some ''3''"
proof -
  let ?x = "run (site_step example_world) (site_start example_world ''/'') configuring"
  have "on_page example_world PATH_SETUP ?x" "cl_init_nodes (site_cluster ?x) = Some (of_nat 3)" "show_nat 3 = ''3''"
    by code_simp+
  then show ?thesis
    using site_in_step [OF example_ok example_typed(1) refl, of "''/''"] unfolding Let_def by (metis of_nat_eq_iff option.inject)
qed

text \<open>
  C1 (site_requests): every request the application ever posts to the completions endpoint was
  posted by the user on the chat page, while the cluster reported itself available; it names the
  model the cluster reported at that moment, asks for a stream, and carries messages of the user
  and answers that follow one, ending with one of the user's.
\<close>

theorem site_requests:
  assumes "parse_ok delta_ok (w_parse w)" and "x = run (site_step w) (site_start w path) es"
    and "body \<in> set (posted (m_chat (st_mesh x)))"
  shows "\<exists>pre f post ms. es = pre @ Chat_user f # post \<and>
    (let y = run (site_step w) (site_start w path) pre; c = mesh_info (st_mesh y) in
      on_page w PATH_CHAT y \<and> ci_status c = JStr ''available'' \<and> truthy (ci_model_name c) \<and>
      prop_of body ''model'' = ci_model_name c \<and> prop_of body ''stream'' = JBool True \<and>
      prop_of body ''messages'' = JArr (map request_message ms) \<and> alternates ms \<and> ms \<noteq> [] \<and>
      c_role (last ms) = JStr ''user'')"
proof -
  have "body \<notin> set (posted (m_chat (st_mesh (site_start w path))))"
    by (simp add: site_start_def site_mesh_step_def mesh_step_def mesh_start_def chat_init_def)
  from run_origin [of "\<lambda>x. body \<in> set (posted (m_chat (st_mesh x)))", OF assms(3) [unfolded assms(2)] this]
  obtain pre ev post where o: "es = pre @ ev # post"
    "body \<notin> set (posted (m_chat (st_mesh (run (site_step w) (site_start w path) pre))))"
    "body \<in> set (posted (m_chat (st_mesh (site_step w (run (site_step w) (site_start w path) pre) ev))))" by blast
  have "chat_sim (m_chat (st_mesh (site_step w (run (site_step w) (site_start w path) pre) ev)))"
    using reachable_talks [OF assms(1), of path "pre @ [ev]"] by simp
  from request_step [OF this o(3,2)] obtain f where f: "ev = Chat_user f"
    "on_page w PATH_CHAT (run (site_step w) (site_start w path) pre)"
    "request_for (mesh_info (st_mesh (run (site_step w) (site_start w path) pre))) body" by blast
  from f(3) obtain ms where "body = sse_body (ci_model_name (mesh_info (st_mesh (run (site_step w) (site_start w path) pre))))
      (map request_message ms)" "alternates ms \<and> ms \<noteq> [] \<and> c_role (last ms) = JStr ''user''"
    unfolding request_for_def by blast
  with o(1) f show ?thesis
    by (intro exI [of _ pre] exI [of _ f] exI [of _ post] exI [of _ ms])
      (simp add: request_for_def sse_body_def obj_get_def Let_def)
qed

theorem site_requests_witness:
  "let start = site_start example_world ''/'' in
    \<exists>body pre f post. body \<in> set (posted (m_chat (st_mesh (run (site_step example_world) start serving)))) \<and>
      serving = pre @ Chat_user f # post \<and> on_page example_world PATH_CHAT (run (site_step example_world) start pre)"
proof -
  have ok: "parse_ok delta_ok (w_parse example_world)" using example_ok by (simp add: server_ok_def)
  have "length (posted (m_chat (st_mesh (run (site_step example_world) (site_start example_world ''/'') serving)))) = 1"
    by code_simp
  then obtain body where b:
    "body \<in> set (posted (m_chat (st_mesh (run (site_step example_world) (site_start example_world ''/'') serving))))"
    by (auto simp: length_Suc_conv)
  show ?thesis using site_requests [OF ok refl b] b unfolding Let_def by blast
qed

text \<open>
  C4 (site_configurations): only the scheduler's application posts configurations, not the one of a
  node, and every configuration it ever posts to the scheduler names a model and asks for a whole number of at least one node, and was posted in one of two ways: by the
  button of the setup page, while the cluster was idle or had failed, with what the provider held
  then; or by the selection of the chat page, for a model that is not the one the cluster runs.
\<close>

theorem site_configurations:
  assumes "q \<in> set (site_posted (run (site_step w) (site_start w path) es))"
  shows "w_host w = Host_cluster \<and> (\<exists>pre ev post cl n. es = pre @ ev # post \<and> (1::nat) \<le> n \<and> truthy (cl_model_name cl) \<and>
    q = \<lparr>r_url = API_BASE_URL (w_dev w) @ ''/scheduler/init'', r_method = POST,
      r_body = JObj [(''model_name'', json_tree (cl_model_name cl)), (''init_nodes_num'', JNum (of_nat n)),
        (''is_local_network'', JBool (cl_network cl = Local))]\<rparr> \<and>
    (let y = run (site_step w) (site_start w path) pre; z = site_step w y ev in
      (ev = Press_continue \<and> on_page w PATH_SETUP y \<and> cl = site_cluster y \<and>
        (ci_status (cl_info cl) = JStr ''idle'' \<or> ci_status (cl_info cl) = JStr ''failed'')) \<or>
      (on_page w PATH_CHAT z \<and> cl = site_cluster z \<and>
        \<not> strict_eq (cl_model_name cl) (ci_model_name (cl_info cl)))))"
proof -
  let ?run = "run (site_step w) (site_start w path)"
  have "q \<notin> set (site_posted (site_start w path))"
    by (simp add: site_posted_def site_start_def setup_start_def ms_start_def)
  from run_origin [of "\<lambda>x. q \<in> set (site_posted x)", OF assms this] obtain pre ev post where
    o: "es = pre @ ev # post" "q \<notin> set (site_posted (?run pre))" "q \<in> set (site_posted (site_step w (?run pre) ev))"
    by blast
  have number: "\<exists>n. 1 \<le> n \<and> cl_init_nodes (site_cluster (?run fs)) = Some (of_nat n)"
    if "\<not> mesh_gone (st_mesh (?run fs))" for fs
    using together.run_inv [of "site_start w path" w fs] start_in_step that
    by (auto simp: in_step_def nodes_number_def site_cluster_def)
  have "w_host w = Host_node \<longrightarrow> \<not> ms_can (st_select (?run pre))"
    using read_only.run_inv [of w "site_start w path" pre] by (simp add: site_start_def ms_start_def)
  note c = configuration_step [OF o(3,2) this]
  show ?thesis using conjunct2 [OF c]
  proof
    assume a: "ev = Press_continue \<and> on_page w PATH_SETUP (?run pre) \<and> startable (site_cluster (?run pre)) \<and>
      \<not> mesh_gone (st_mesh (?run pre)) \<and> cluster_init (w_dev w) (site_cluster (?run pre)) = Inr q"
    then obtain n where "1 \<le> n" "cl_init_nodes (site_cluster (?run pre)) = Some (of_nat n)" using number by blast
    with a o(1) init_configuration [of "w_dev w" "site_cluster (?run pre)" q n] show ?thesis
      by (intro conjI [OF conjunct1 [OF c]] exI [of _ pre] exI [of _ ev] exI [of _ post] exI [of _ "site_cluster (?run pre)"] exI [of _ n])
        (simp add: startable_def)
  next
    let ?z = "site_step w (?run pre) ev"
    assume a: "on_page w PATH_CHAT ?z \<and> \<not> mesh_gone (st_mesh ?z) \<and> (let cl = site_cluster ?z in
      \<not> strict_eq (cl_model_name cl) (ci_model_name (cl_info cl)) \<and> cluster_init (w_dev w) cl = Inr q)"
    then obtain n where "1 \<le> n" "cl_init_nodes (site_cluster ?z) = Some (of_nat n)" using number [of "pre @ [ev]"] by auto
    with a o(1) init_configuration [of "w_dev w" "site_cluster ?z" q n] show ?thesis
      by (intro conjI [OF conjunct1 [OF c]] exI [of _ pre] exI [of _ ev] exI [of _ post] exI [of _ "site_cluster ?z"] exI [of _ n])
        (simp add: Let_def)
  qed
qed

theorem site_configurations_witness:
  "\<exists>q pre ev post. q \<in> set (site_posted (run (site_step example_world) (site_start example_world ''/'') serving)) \<and>
    serving = pre @ ev # post \<and> r_url q = ''/scheduler/init'' \<and> r_method q = POST"
proof -
  have "length (site_posted (run (site_step example_world) (site_start example_world ''/'') serving)) = 1"
    by code_simp
  then obtain q where q: "q \<in> set (site_posted (run (site_step example_world) (site_start example_world ''/'') serving))"
    by (auto simp: length_Suc_conv)
  have "w_dev example_world = False" by (simp add: example_world_def)
  with q site_configurations [OF q] show ?thesis by (fastforce simp: API_BASE_URL_def)
qed

text \<open>
  C8 (site_starts_cluster): with a server whose status messages and replies to the model list keep their formats, pressing the button of the setup page in any reachable state, while the
  cluster is idle or has failed, a model is configured and no earlier press is pending, posts exactly
  the configuration on the page, once, however often it is pressed before the reply. When the reply is a JSON message whose type is \<open>scheduler_init\<close>
  the application goes on to the join page; when it is anything else, or the request fails, it stays on the setup
  page. Either way the button can be pressed again. Only the type is looked at: the repository's server gives its
  refusals that type too, with an error, and the application goes on to the join page after a refusal as
  after an acceptance.
\<close>

theorem site_starts_cluster:
  assumes "server_ok (w_parse w)" and "list_all (site_event_typed (w_shown w)) es"
    and "x = run (site_step w) (site_start w path) es"
    and "on_page w PATH_SETUP x" and "startable (site_cluster x)" and "truthy (cl_model_name (site_cluster x))"
    and "\<not> su_loading (st_setup x)"
    and "y = run (site_step w) x [Press_continue, Press_continue, Scheduler_reply False r]"
  shows "(\<exists>q. cluster_init (w_dev w) (site_cluster x) = Inr q \<and> su_posted (st_setup y) = su_posted (st_setup x) @ [q]) \<and>
    st_mesh y = st_mesh x \<and> \<not> su_loading (st_setup y) \<and>
    rt_path (st_router y) =
      (if \<exists>m. r = Inr m \<and> get_prop m ''type'' = Inr (JStr ''scheduler_init'') then PATH_JOIN else rt_path (st_router x)) \<and>
    (r \<in> {Inr (scheduler_accepts model n local), Inr (scheduler_refuses error)} \<longrightarrow> rt_path (st_router y) = PATH_JOIN)"
proof -
  let ?t = "st_setup x"
  have live: "\<not> mesh_gone (st_mesh x)" using reachable_stands [OF assms(1,2)] assms(3) by simp
  then have s: "in_step w x"
    using together.run_inv [of "site_start w path" w es] start_in_step assms(3) by blast
  have path: "su_path ?t = None"
    using leaving.run_inv [of "site_start w path" w es] assms(3) by (simp add: site_start_def setup_start_def)
  obtain q where q: "cluster_init (w_dev w) (site_cluster x) = Inr q" using start_possible [OF s assms(6)] .
  let ?u = "?t\<lparr>su_loading := True, su_chains := su_chains ?t + 1, su_posted := su_posted ?t @ [q]\<rparr>"
  let ?h = "x\<lparr>st_setup := ?u\<rparr>"
  have h: "on_page w PATH_SETUP ?h" using assms(4) by (simp add: on_page_def)
  have 1: "site_step w x Press_continue = ?h"
    using settled_setup [OF s assms(4)] live assms(4,5,7) q path
    by (simp add: site_step_def site_handle_def site_continue_def setup_continue_def startable_def site_leave_def)
  have 2: "site_step w ?h Press_continue = ?h"
    using settled_setup [OF s assms(4)] live h by (simp add: site_step_def site_handle_def site_continue_def)
  define v where "v = ?t\<lparr>su_posted := su_posted ?t @ [q], su_loading := False, su_path := None\<rparr>"
  have y: "y = site_step w ?h (Scheduler_reply False r)" using assms(8) 1 2 by simp
  have "setup_reply (w_shown w) r ?u =
      (case init_scheduler (w_shown w) r of Inl e \<Rightarrow> v | Inr d \<Rightarrow> v\<lparr>su_path := Some PATH_JOIN\<rparr>)"
    using path by (cases "init_scheduler (w_shown w) r"; cases "st_setup x") (simp_all add: setup_reply_def v_def Let_def)
  then have "y = site_render w (case init_scheduler (w_shown w) r of
      Inl e \<Rightarrow> x\<lparr>st_setup := v\<rparr> | Inr d \<Rightarrow> site_navigate w PATH_JOIN (x\<lparr>st_setup := v\<rparr>))"
    using live path unfolding y
    by (cases "init_scheduler (w_shown w) r") (simp_all add: site_step_def site_handle_def site_leave_def v_def)
  then have goes: "rt_path (st_router y) = (case init_scheduler (w_shown w) r of Inl e \<Rightarrow> rt_path (st_router x) | Inr d \<Rightarrow> PATH_JOIN)"
    and rest: "su_posted (st_setup y) = su_posted ?t @ [q]" "st_mesh y = st_mesh x" "\<not> su_loading (st_setup y)"
    by (cases "init_scheduler (w_shown w) r"; simp add: settled_loading v_def navigate_path)+
  have path: "rt_path (st_router y) =
      (if \<exists>m. r = Inr m \<and> get_prop m ''type'' = Inr (JStr ''scheduler_init'') then PATH_JOIN else rt_path (st_router x))"
    unfolding goes expect_type_is_Inr [of "w_shown w" "''scheduler_init''" r, symmetric]
    by (cases "init_scheduler (w_shown w) r") (simp_all add: init_scheduler_def)
  have "rt_path (st_router y) = PATH_JOIN" if "r \<in> {Inr (scheduler_accepts model n local), Inr (scheduler_refuses error)}"
    using that unfolding path by (auto simp: scheduler_accepts_def scheduler_refuses_def obj_get_def)
  then show ?thesis using q rest path by blast
qed

theorem site_starts_cluster_witness:
  "let x = run (site_step example_world) (site_start example_world ''/'') configuring;
       y = run (site_step example_world) x [Press_continue, Press_continue, Scheduler_reply False
         (Inr (scheduler_refuses ''no such model''))]
   in length (su_posted (st_setup y)) = Suc (length (su_posted (st_setup x))) \<and> rt_path (st_router y) = PATH_JOIN"
proof -
  let ?x = "run (site_step example_world) (site_start example_world ''/'') configuring"
  let ?r = "Inr (scheduler_refuses ''no such model'')"
  have 1: "on_page example_world PATH_SETUP ?x" "startable (site_cluster ?x)" "truthy (cl_model_name (site_cluster ?x))"
    "\<not> su_loading (st_setup ?x)" by code_simp+
  note started = site_starts_cluster [OF example_ok example_typed(1) refl 1 refl, of ?r _ _ _ "''no such model''"]
  show ?thesis
    unfolding Let_def using conjunct1 [OF started] mp [OF conjunct2 [OF conjunct2 [OF conjunct2 [OF conjunct2 [OF started]]]]]
    by (elim exE conjE) (simp del: run.simps)
qed

end
