(* ===== verification/Timed.thy ===== *)
theory Timed
  imports Site
begin

text \<open>
  The applications in time. Two timers of a page compete: the router's redirection, 300 ms after the
  render that arms it, and the dialog of a lost scheduler in \<^verbatim>\<open>components/common/drawer-layout.tsx\<close>,
  a second after the status turns to \<open>idle\<close>. Time passes in milliseconds, by any amount between two
  events; a timer fires when it is due, and of two that are due the one with the earlier deadline.
  All other events keep the freedom they have in \<^verbatim>\<open>Site\<close>.
\<close>

subsection \<open>Deadlines\<close>

definition idle_delay :: nat where "idle_delay = 1000"

record timed =
  tm_site :: site
  tm_now :: nat
  tm_redirect :: "nat option"
  tm_idle :: "nat option"

definition armed :: "site \<Rightarrow> bool" where
  "armed s \<longleftrightarrow> (case st_drawer s of None \<Rightarrow> False | Some d \<Rightarrow> dw_timer d)"

text \<open>
  The effect of the router runs again, and its timer starts anew, when the path has changed, in the
  scheduler's application also when the status has.
\<close>

definition redirect_due :: "'b world \<Rightarrow> router \<Rightarrow> router \<Rightarrow> nat \<Rightarrow> nat option \<Rightarrow> nat option" where
  "redirect_due w r r' now due =
     (if rt_timer r' = None then None
      else if rt_path r' = rt_path r \<and> (w_host w = Host_node \<or> rt_status r' = rt_status r) then due
      else Some (now + redirect_delay))"

definition idle_due :: "site \<Rightarrow> site \<Rightarrow> nat \<Rightarrow> nat option \<Rightarrow> nat option" where
  "idle_due s s' now due =
     (if \<not> armed s' then None else if armed s then due else Some (now + idle_delay))"

definition timed_start :: "'b world \<Rightarrow> string \<Rightarrow> timed" where
  "timed_start w path =
     (let s = site_start w path in
      \<lparr>tm_site = s, tm_now = 0, tm_redirect = map_option (\<lambda>p. redirect_delay) (rt_timer (st_router s)), tm_idle = None\<rparr>)"

definition timed_do :: "'b world \<Rightarrow> 'b site_event \<Rightarrow> timed \<Rightarrow> timed" where
  "timed_do w ev x =
     (let s = tm_site x; s' = site_step w s ev in
      x\<lparr>tm_site := s', tm_redirect := redirect_due w (st_router s) (st_router s') (tm_now x) (tm_redirect x),
        tm_idle := idle_due s s' (tm_now x) (tm_idle x)\<rparr>)"

text \<open>Whether a timer fires next, beside the other one.\<close>

definition fires :: "nat option \<Rightarrow> nat option \<Rightarrow> nat \<Rightarrow> bool" where
  "fires due other now =
     (case due of
        None \<Rightarrow> False
      | Some t \<Rightarrow> t \<le> now \<and> (case other of None \<Rightarrow> True | Some u \<Rightarrow> t \<le> u))"

datatype 'b timed_event = Elapse nat | Does "'b site_event"

definition blocked :: "'b site_event \<Rightarrow> timed \<Rightarrow> bool" where
  "blocked ev x =
     (case ev of
        Redirect \<Rightarrow> \<not> fires (tm_redirect x) (tm_idle x) (tm_now x)
      | Drawer_user e \<Rightarrow> (case e of IdleTimer \<Rightarrow> \<not> fires (tm_idle x) (tm_redirect x) (tm_now x) | _ \<Rightarrow> False)
      | _ \<Rightarrow> False)"

definition timed_step :: "'b world \<Rightarrow> timed \<Rightarrow> 'b timed_event \<Rightarrow> timed" where
  "timed_step w x ev =
     (case ev of
        Elapse d \<Rightarrow> x\<lparr>tm_now := tm_now x + d\<rparr>
      | Does e \<Rightarrow> if blocked e x then x else timed_do w e x)"

subsection \<open>Invariants of the application are invariants in time\<close>

definition does_ok :: "('b site_event \<Rightarrow> bool) \<Rightarrow> 'b timed_event \<Rightarrow> bool" where
  "does_ok ok ev \<longleftrightarrow> (\<forall>e. ev = Does e \<longrightarrow> ok e)"

lemma timed_site:
  "tm_site (timed_step w x ev) = tm_site x \<or> (\<exists>e. ev = Does e \<and> tm_site (timed_step w x ev) = site_step w (tm_site x) e)"
  by (cases ev) (simp_all add: timed_step_def timed_do_def Let_def)

locale timed_parts = guarded_steps "site_step w" Q ok for w :: "'b world" and Q :: "site \<Rightarrow> bool" and ok :: "'b site_event \<Rightarrow> bool"
begin

lemma timed_inv: "Q (tm_site x) \<Longrightarrow> does_ok ok ev \<Longrightarrow> Q (tm_site (timed_step w x ev))"
  using timed_site [of w x ev] guarded_inv by (auto simp: does_ok_def)

end

sublocale timed_parts \<subseteq> timed_kept: guarded_steps "timed_step w" "\<lambda>x. Q (tm_site x)" "does_ok ok"
  by unfold_locales (rule timed_inv)

interpretation timed_standing: timed_parts w
    "\<lambda>s. server_ok (w_parse w) \<longrightarrow> typed (h_cb (m_cluster (st_mesh s))) \<and> chat_sim (m_chat (st_mesh s))"
    "standing_site.event_ok w" for w
  by (intro timed_parts.intro standing_site.site_kept.guarded_steps_axioms)

subsection \<open>Where a page is\<close>

text \<open>The library may match a route for several paths; \<open>plain\<close> are those that do not lead to the
  chat page under another name.\<close>

definition plain_path :: "'b world \<Rightarrow> string \<Rightarrow> bool" where
  "plain_path w p \<longleftrightarrow> (routed w p = Some PATH_CHAT \<longrightarrow> p = PATH_CHAT)"

definition plain_visit :: "'b world \<Rightarrow> 'b site_event \<Rightarrow> bool" where
  "plain_visit w ev = (case ev of Go p \<Rightarrow> plain_path w p | _ \<Rightarrow> True)"

definition plain_pages :: "'b world \<Rightarrow> bool" where
  "plain_pages w \<longleftrightarrow> plain_path w PATH_SETUP \<and> plain_path w PATH_JOIN"

definition tidy :: "'b world \<Rightarrow> site \<Rightarrow> bool" where
  "tidy w s \<longleftrightarrow> su_path (st_setup s) = None \<and> timer_ok (app_redirect w) (st_router s) \<and>
     plain_path w (rt_path (st_router s)) \<and> (case st_drawer s of None \<Rightarrow> True | Some d \<Rightarrow> drawer_ok d)"

lemma redirect_target:
  assumes "plain_pages w" and "app_redirect w st p = Some q"
  shows "plain_path w q"
proof -
  have "q = PATH_SETUP \<or> q = PATH_CHAT"
    using assms(2) by (auto simp: app_redirect_def main_redirect_def chat_redirect_def split: host_type.splits if_splits)
  then show ?thesis using assms(1) by (auto simp: plain_pages_def plain_path_def)
qed

lemma router_path:
  "rt_path (router_step f r (Visit p)) = p" "rt_path (router_step f r (StatusIs st)) = rt_path r"
  "rt_path (router_step f r RedirectTimer) = (case rt_timer r of None \<Rightarrow> rt_path r | Some p \<Rightarrow> p)"
  by (simp_all add: router_step_def router_render_def split: option.splits)

lemma render_drawer_ok: "drawer_ok d \<Longrightarrow> drawer_ok (drawer_render host st m d)"
  using drawer_ok_step [of d host "ClusterStatus st m"] by (simp add: drawer_step_def)

lemma leave_plain:
  assumes "plain_pages w" and "plain_path w (rt_path (st_router s))" and "\<forall>p. su_path (st_setup s) = Some p \<longrightarrow> p = PATH_JOIN"
  shows "plain_path w (rt_path (st_router (site_leave w s)))"
  using assms by (auto simp: site_leave_def navigate_path plain_pages_def split: option.splits)

lemma handle_plain:
  assumes "tidy w s" and "plain_pages w" and "plain_visit w ev"
  shows "plain_path w (rt_path (st_router (site_handle w ev s)))"
proof (cases ev)
  case Redirect
  have "timer_ok (app_redirect w) (st_router s)" using assms(1) by (simp add: tidy_def)
  then have "rt_timer (st_router s) = Some p \<Longrightarrow> plain_path w p" for p
    using redirect_target [OF assms(2)] by (simp add: timer_ok_def)
  then show ?thesis using assms(1) Redirect
    by (auto simp: site_handle_def tidy_def router_path split: option.splits)
next
  case Press_continue
  have "\<forall>p. su_path (setup_continue (w_dev w) (site_cluster s) (st_setup s)) = Some p \<longrightarrow> p = PATH_JOIN"
    using assms(1) by (simp add: setup_continue_def tidy_def split: sum.split)
  then show ?thesis using assms(1,2) Press_continue
    by (auto simp: site_handle_def site_continue_def tidy_def intro!: leave_plain)
next
  case (Scheduler_reply stale r)
  have "\<forall>p. su_path (setup_reply (w_shown w) r (st_setup s)) = Some p \<longrightarrow> p = PATH_JOIN"
    using assms(1) by (simp add: setup_reply_def tidy_def Let_def split: sum.split)
  then show ?thesis using assms(1,2) Scheduler_reply
    by (auto simp: site_handle_def stale_reply_def tidy_def navigate_path plain_pages_def Let_def
      intro!: leave_plain split: sum.split)
qed (use assms in \<open>simp_all add: site_handle_def site_network_def site_model_def site_number_def tidy_def
  plain_visit_def navigate_path Let_def\<close>)

lemma tidy_step:
  assumes "tidy w s" and "plain_pages w" and "plain_visit w ev"
  shows "tidy w (site_step w s ev)"
proof -
  let ?h = "site_handle w ev s"
  have t: "timer_ok (app_redirect w) (st_router ?h)" "plain_path w (rt_path (st_router ?h))"
    using assms handle_timer [of w s ev] handle_plain [of w s ev] by (simp_all add: tidy_def)
  have d: "case st_drawer ?h of None \<Rightarrow> True | Some d \<Rightarrow> drawer_ok d"
    using assms(1) by (cases ev) (auto simp: site_handle_def site_network_def site_model_def site_number_def
        site_continue_def tidy_def drawer_ok_step Let_def split: option.splits)
  have r: "case st_drawer (site_render w ?h) of None \<Rightarrow> True | Some d \<Rightarrow> drawer_ok d"
    using d by (auto simp: site_render_def settle_chat_def render_drawer_ok drawer_ok_mount Let_def split: option.splits)
  have "su_path (st_setup (site_step w s ev)) = None" using assms(1) by (intro path_step) (simp add: tidy_def)
  then show ?thesis
    using t d r assms(1) settled_router [OF t(1)] by (simp add: tidy_def site_step_def Let_def)
qed

interpretation tidying: timed_parts w "\<lambda>s. plain_pages w \<longrightarrow> tidy w s" "plain_visit w" for w
  by unfold_locales (simp add: tidy_step)

interpretation timed_together: timed_parts w "\<lambda>s. \<not> mesh_gone (st_mesh s) \<longrightarrow> in_step w s" "\<lambda>e. True" for w
  by (intro timed_parts.intro together.guarded_steps_axioms)

subsection \<open>The two deadlines\<close>

text \<open>
  What the deadlines of a page that stands say: each is there exactly with its timer and not too far
  ahead, and while the dialog's runs, an earlier one of the router runs in the scheduler's
  application, and none in a node's.
\<close>

definition times_ok :: "'b world \<Rightarrow> timed \<Rightarrow> bool" where
  "times_ok w x \<longleftrightarrow>
     (tm_redirect x = None \<longleftrightarrow> rt_timer (st_router (tm_site x)) = None) \<and>
     (\<forall>t. tm_redirect x = Some t \<longrightarrow> t \<le> tm_now x + redirect_delay) \<and>
     (tm_idle x = None \<longleftrightarrow> \<not> armed (tm_site x)) \<and>
     (\<forall>d. tm_idle x = Some d \<longrightarrow> d \<le> tm_now x + idle_delay \<and>
        (case w_host w of Host_cluster \<Rightarrow> (\<exists>t. tm_redirect x = Some t \<and> t < d) | Host_node \<Rightarrow> tm_redirect x = None))"

text \<open>The page has an armed dialog only when it is the chat page of an idle cluster.\<close>

lemma armed_page:
  assumes "in_step w s" and "tidy w s" and "armed s"
  shows "on_page w PATH_CHAT s" and "rt_path (st_router s) = PATH_CHAT" and "rt_status (st_router s) = JStr ''idle''"
    and "rt_timer (st_router s) = (case w_host w of Host_cluster \<Rightarrow> Some PATH_SETUP | Host_node \<Rightarrow> None)"
proof -
  obtain d where d: "st_drawer s = Some d" "dw_timer d" using assms(3) by (auto simp: armed_def split: option.splits)
  with assms(1) show page: "on_page w PATH_CHAT s" by (simp add: in_step_def)
  with assms(2) show path: "rt_path (st_router s) = PATH_CHAT" by (simp add: tidy_def plain_path_def on_page_def)
  have "dw_status d = JStr ''idle''" using assms(2) d by (simp add: tidy_def drawer_ok_def)
  with assms(1) d(1) show status: "rt_status (st_router s) = JStr ''idle''" by (simp add: in_step_def)
  have "starts_with PATH_CHAT PATH_CHAT" by code_simp
  then show "rt_timer (st_router s) = (case w_host w of Host_cluster \<Rightarrow> Some PATH_SETUP | Host_node \<Rightarrow> None)"
    using assms(1) path status
    by (simp add: in_step_def timer_ok_def app_redirect_def main_redirect_def chat_redirect_def path_defs split: host_type.split)
qed

lemma node_redirect: "w_host w = Host_node \<Longrightarrow> app_redirect w st p = chat_redirect p"
  by (simp add: app_redirect_def)

lemma timed_do_simps [simp]: "tm_site (timed_do w ev x) = site_step w (tm_site x) ev" "tm_now (timed_do w ev x) = tm_now x"
  "tm_redirect (timed_do w ev x) = redirect_due w (st_router (tm_site x)) (st_router (site_step w (tm_site x) ev)) (tm_now x) (tm_redirect x)"
  "tm_idle (timed_do w ev x) = idle_due (tm_site x) (site_step w (tm_site x) ev) (tm_now x) (tm_idle x)"
  by (simp_all add: timed_do_def Let_def)

lemma times_do:
  assumes "times_ok w x" and "in_step w (tm_site x)" and "tidy w (tm_site x)"
    and "in_step w (site_step w (tm_site x) ev)" and "tidy w (site_step w (tm_site x) ev)"
  shows "times_ok w (timed_do w ev x)"
proof -
  let ?s = "tm_site x" and ?s' = "site_step w (tm_site x) ev"
  have delay: "redirect_delay < idle_delay" by (simp add: redirect_delay_def idle_delay_def)
  have kept: "rt_timer (st_router ?s') = rt_timer (st_router ?s)"
    if "rt_path (st_router ?s') = rt_path (st_router ?s)" "w_host w = Host_node \<or> rt_status (st_router ?s') = rt_status (st_router ?s)"
    using that assms(2,4) by (auto simp: in_step_def timer_ok_def node_redirect)
  have r: "tm_redirect (timed_do w ev x) = None \<longleftrightarrow> rt_timer (st_router ?s') = None"
    using assms(1) kept by (auto simp: times_ok_def redirect_due_def)
  have t: "\<forall>t. tm_redirect (timed_do w ev x) = Some t \<longrightarrow> t \<le> tm_now x + redirect_delay"
    using assms(1) by (auto simp: times_ok_def redirect_due_def)
  have i: "tm_idle (timed_do w ev x) = None \<longleftrightarrow> \<not> armed ?s'"
    using assms(1) by (auto simp: times_ok_def idle_due_def)
  have d: "d \<le> tm_now x + idle_delay \<and> (case w_host w of
      Host_cluster \<Rightarrow> (\<exists>t. tm_redirect (timed_do w ev x) = Some t \<and> t < d)
    | Host_node \<Rightarrow> tm_redirect (timed_do w ev x) = None)" if "tm_idle (timed_do w ev x) = Some d" for d
  proof -
    have a': "armed ?s'" using i that by fastforce
    note p' = armed_page [OF assms(4,5) a']
    show ?thesis
    proof (cases "armed ?s")
      case True
      note p = armed_page [OF assms(2,3) True]
      have "tm_idle x = Some d" using that True a' by (simp add: idle_due_def)
      then show ?thesis using assms(1) p p' by (auto simp: times_ok_def redirect_due_def split: host_type.splits)
    next
      case False
      then have "d = tm_now x + idle_delay" using that a' by (simp add: idle_due_def)
      then show ?thesis using r t p'(4) delay by (cases "w_host w") force+
    qed
  qed
  show ?thesis using r t i d by (simp add: times_ok_def)
qed

lemma times_elapse: "times_ok w x \<Longrightarrow> times_ok w (x\<lparr>tm_now := tm_now x + d\<rparr>)"
  by (auto simp: times_ok_def split: host_type.splits)

definition punctual :: "'b world \<Rightarrow> timed \<Rightarrow> bool" where
  "punctual w x \<longleftrightarrow> tidy w (tm_site x) \<and> (\<not> mesh_gone (st_mesh (tm_site x)) \<longrightarrow> in_step w (tm_site x) \<and> times_ok w x)"

lemma punctual_step:
  assumes "plain_pages w" and "punctual w x" and "does_ok (plain_visit w) ev"
  shows "punctual w (timed_step w x ev)"
proof -
  let ?y = "timed_step w x ev"
  have tidy: "tidy w (tm_site ?y)"
    using tidying.timed_inv [of w x ev] assms by (simp add: punctual_def)
  have step: "\<not> mesh_gone (st_mesh (tm_site ?y)) \<Longrightarrow> in_step w (tm_site ?y) \<and> times_ok w ?y"
  proof -
    assume live: "\<not> mesh_gone (st_mesh (tm_site ?y))"
    have "does_ok (\<lambda>e. True) ev" by (simp add: does_ok_def)
    then have s: "in_step w (tm_site ?y)"
      using timed_together.timed_inv [of x w ev] assms(2) live by (simp add: punctual_def)
    have "\<not> mesh_gone (st_mesh (tm_site x))"
    proof
      assume "mesh_gone (st_mesh (tm_site x))"
      then have "st_mesh (tm_site ?y) = st_mesh (tm_site x)" using timed_site [of w x ev] by (auto simp: step_mesh)
      then show False using live \<open>mesh_gone (st_mesh (tm_site x))\<close> by simp
    qed
    then have x: "in_step w (tm_site x)" "times_ok w x" "tidy w (tm_site x)" using assms(2) by (simp_all add: punctual_def)
    have "times_ok w ?y"
    proof (cases ev)
      case (Elapse d)
      then show ?thesis using times_elapse [OF x(2)] by (simp add: timed_step_def)
    next
      case (Does e)
      then show ?thesis using s tidy x times_do [OF x(2,1,3), of e] by (auto simp: timed_step_def split: if_splits)
    qed
    with s show ?thesis by simp
  qed
  show ?thesis using tidy step by (simp add: punctual_def)
qed

interpretation keeping_time: guarded_steps "timed_step w" "\<lambda>x. plain_pages w \<longrightarrow> punctual w x" "does_ok (plain_visit w)" for w
  by unfold_locales (simp add: punctual_step)

lemma start_punctual:
  assumes "plain_path w path"
  shows "punctual w (timed_start w path)"
proof -
  have "in_step w (site_start w path)" by (rule start_in_step)
  moreover have "tidy w (site_start w path)"
    using assms timer_ok_mount by (simp add: tidy_def site_start_def setup_start_def router_mount_def)
  moreover have "st_drawer (site_start w path) = None" by (simp add: site_start_def)
  ultimately show ?thesis
    by (auto simp: punctual_def timed_start_def times_ok_def armed_def Let_def)
qed

definition timed_event_typed :: "(rat \<Rightarrow> string) \<Rightarrow> 'b timed_event \<Rightarrow> bool" where
  "timed_event_typed shown ev \<longleftrightarrow> (\<forall>e. ev = Does e \<longrightarrow> site_event_typed shown e)"

lemma reachable_punctual:
  assumes "server_ok (w_parse w)" and "list_all (timed_event_typed (w_shown w)) es"
    and "plain_pages w" and "plain_path w path" and "list_all (does_ok (plain_visit w)) es"
  shows "punctual w (run (timed_step w) (timed_start w path) es) \<and>
    \<not> mesh_gone (st_mesh (tm_site (run (timed_step w) (timed_start w path) es)))"
proof -
  have "list_all (does_ok (standing_site.event_ok w)) es"
    using assms(2) by (auto simp: list_all_iff does_ok_def timed_event_typed_def site_event_typed_def standing_site.event_ok_def)
  then have "typed (h_cb (m_cluster (st_mesh (tm_site (run (timed_step w) (timed_start w path) es))))) \<and>
      chat_sim (m_chat (st_mesh (tm_site (run (timed_step w) (timed_start w path) es))))"
    using timed_standing.timed_kept.run_guarded [of w "timed_start w path" es] assms(1) mounted_parts [of w path]
    by (simp add: timed_start_def Let_def)
  moreover have "punctual w (run (timed_step w) (timed_start w path) es)"
    using keeping_time.run_guarded [of w "timed_start w path" es] start_punctual assms(3-5) by blast
  ultimately show ?thesis by (auto simp: mesh_gone_def typed_def chat_sim_def)
qed

text \<open>In 300 ms the router's timer is due, and nothing is before it.\<close>

lemma due_redirect:
  assumes "punctual w x" and "\<not> mesh_gone (st_mesh (tm_site x))" and "plain_pages w"
  defines "y \<equiv> run (timed_step w) x [Elapse redirect_delay, Does Redirect]"
  shows "st_mesh (tm_site y) = st_mesh (tm_site x) \<and>
    st_router (tm_site y) = router_step (app_redirect w) (st_router (tm_site x)) RedirectTimer \<and>
    tm_now y = tm_now x + redirect_delay \<and> punctual w y"
proof -
  let ?e = "timed_step w x (Elapse redirect_delay)"
  have e: "tm_site ?e = tm_site x" "tm_redirect ?e = tm_redirect x" "tm_idle ?e = tm_idle x" "tm_now ?e = tm_now x + redirect_delay"
    by (simp_all add: timed_step_def)
  have y: "y = timed_step w ?e (Does Redirect)" by (simp add: y_def)
  have k: "punctual w ?e" "punctual w y"
    using punctual_step [OF assms(3,1), of "Elapse redirect_delay"] punctual_step [OF assms(3), of ?e "Does Redirect"]
    by (simp_all add: does_ok_def plain_visit_def y)
  have x: "in_step w (tm_site x)" "times_ok w x" using assms(1,2) by (simp_all add: punctual_def)
  show ?thesis
  proof (cases "tm_redirect x")
    case None
    then have "blocked (Redirect :: 'a site_event) ?e" by (simp add: blocked_def fires_def e)
    then have "y = ?e" by (simp add: y timed_step_def [of w ?e])
    moreover have "rt_timer (st_router (tm_site x)) = None" using x(2) None by (simp add: times_ok_def)
    ultimately show ?thesis using k e by (simp add: app_router.idle_timer)
  next
    case (Some t)
    have "\<not> blocked (Redirect :: 'a site_event) ?e"
      using x(2) Some by (cases "w_host w") (auto simp: times_ok_def blocked_def fires_def e split: option.splits)
    then have "y = timed_do w Redirect ?e" by (simp add: y timed_step_def [of w ?e])
    then show ?thesis using redirect_step [OF x(1) assms(2)] k e by simp
  qed
qed

lemma idle_dialog_opens:
  assumes "in_step w s" and "\<not> mesh_gone (st_mesh s)" and "st_drawer s = Some d" and "dw_timer d"
  shows "\<exists>d'. st_drawer (site_step w s (Drawer_user IdleTimer)) = Some d' \<and> d_open (dw_failed d')"
proof -
  let ?h = "site_handle w (Drawer_user IdleTimer) s"
  let ?d = "d\<lparr>dw_timer := False, dw_failed := dialog_open (dw_failed d)\<rparr>"
  have h: "?h = s\<lparr>st_drawer := Some ?d\<rparr>"
    using assms(3,4) by (simp add: site_handle_def is_status_def drawer_step_def)
  have "on_page w PATH_CHAT s" "dw_status d = ci_status (cl_info (site_cluster s))" "dw_more d = ci_more (cl_info (site_cluster s))"
    using assms(1,3) by (simp_all add: in_step_def mesh_info_def site_cluster_def)
  moreover have "on_page w p (s\<lparr>st_drawer := Some ?d\<rparr>) = on_page w p s" for p by (simp add: on_page_def)
  ultimately show ?thesis
    using assms(2) by (simp add: site_step_def h site_render_def settle_chat_def site_cluster_def drawer_render_def
      dialog_open_def Let_def) 
qed

subsection \<open>Properties\<close>

text \<open>An application whose cluster turns out to be idle while the chat page is shown.\<close>

definition idling :: "string timed_event list" where
  "idling = [Does (Loaded PATH_CHAT), Does (Go PATH_CHAT),
     Does (Cluster_net (Stream (HResponse 0 200 (Some ''application/x-ndjson'') True))),
     Elapse 70, Does (Cluster_net (Stream (HChunk 0 (''1'' @ [NL]))))]"

abbreviation node_world :: "string world" where
  "node_world \<equiv> example_world\<lparr>w_host := Host_node\<rparr>"

lemma idling_ok:
  assumes "w = example_world \<or> w = node_world"
  shows "server_ok (w_parse w)" and "list_all (timed_event_typed (w_shown w)) idling" and "plain_pages w"
    and "plain_path w PATH_CHAT" and "list_all (does_ok (plain_visit w)) idling"
proof -
  show "server_ok (w_parse w)" using assms example_ok by auto
  show "list_all (timed_event_typed (w_shown w)) idling"
    by (simp add: idling_def timed_event_typed_def site_event_typed_def reply_typed_def)
  have m: "w_matches w = (\<lambda>p q. p = q \<or> p = ''*'')" using assms by (auto simp: example_world_def)
  show "plain_pages w" "plain_path w PATH_CHAT"
    by (simp_all add: plain_pages_def plain_path_def routed_def m main_paths_def chat_paths_def path_defs split: host_type.split)
  then show "list_all (does_ok (plain_visit w)) idling"
    by (simp add: idling_def does_ok_def plain_visit_def)
qed





end
