(* ===== verification/Spec2Isabelle.thy ===== *)
theory Spec2Isabelle
  imports HttpStream ModelSelect Theme ClusterTypes Conversation Mesh DevProxy Wire Sync Site Timed
begin

text \<open>
  The web front end of the inference mesh (\<^verbatim>\<open>src/src/frontend/src\<close>), modelled and verified.

  The program. Two React applications share their components (\<^verbatim>\<open>App.tsx\<close>): the one of
  the cluster's scheduler and the one of a node. \<^verbatim>\<open>ClusterProvider\<close> polls the model list,
  receives the status of the cluster and its nodes over a newline-delimited JSON stream that
  reconnects by itself, keeps the user's configuration and starts the scheduler with it.
  \<^verbatim>\<open>ChatProvider\<close> keeps a conversation, posts it to the completion endpoint and turns the
  server-sent events of the answer into messages, whose text is parsed by the conventions of
  the model. The pages and inputs render these two states and call their actions; the router
  follows the status of the cluster.

  The theories, in the order of their dependencies.

  \<^item> \<open>Prelude\<close>: \<open>run\<close>, which folds a step function over events, and the locales
    \<open>invariant_steps\<close> and \<open>guarded_steps\<close>, the contract of a component whose steps keep an
    invariant (while the events are good). Every stateful component interprets one of them.
  \<^item> \<open>JsString\<close>, \<open>JsValue\<close>, \<open>JsNumber\<close>: the built-ins of the language that the code uses:
    string methods, values with truthiness, \<open>===\<close> and property reads that raise,
    \<open>JSON.stringify\<close> as far as it is compared, \<open>parseInt\<close> and \<open>Number\<close>.
  \<^item> \<open>Framing\<close>: the locale \<open>line_framer\<close>, the contract of a buffer that cuts a stream into
    lines; its laws give independence of the chunking. Both stream clients interpret it.
  \<^item> \<open>ChatHelper\<close> (\<^verbatim>\<open>services/chat-helper.tsx\<close>): the parsers of harmony channels and think
    tags. The specification is a document type with its printed text; the parsers recover the
    document. Both loops are proved terminating by the length of the rest.
  \<^item> \<open>Sse\<close> (\<^verbatim>\<open>createSSE\<close> of \<^verbatim>\<open>services/chat.tsx\<close>): the client of the event stream over
    the callbacks of its user; the locales \<open>sse_live\<close>, \<open>sse_session\<close>, \<open>sse_keeps\<close> and
    \<open>sse_settles\<close> state what callbacks must do for a property of their state to hold in every
    state of the client, or while a request is open.
  \<^item> \<open>Chat\<close> (\<^verbatim>\<open>ChatProvider\<close>): the conversation, with interpretations of those locales.
  \<^item> \<open>HttpStream\<close> (\<^verbatim>\<open>services/http-stream.ts\<close>): the reconnecting client: its shared
    variables once, every request's promise chain in a list. The locale \<open>http_keeps\<close> is its
    contract with a user.
  \<^item> \<open>Api\<close>, \<open>Cluster\<close> (\<^verbatim>\<open>services/api.ts\<close>, \<^verbatim>\<open>services/cluster.tsx\<close>): the requests and
    the provider over that client. \<open>cluster_keeps\<close> extends \<open>http_keeps\<close> by the provider's own
    handlers and the render that follows each of them; it is interpreted for five invariants.
  \<^item> \<open>ClusterTypes\<close>: the interfaces \<^verbatim>\<open>services/cluster.tsx\<close> declares, as predicates on the
    state, and on what the server sends; the last of those invariants is that they hold.
  \<^item> \<open>Conversation\<close>: the abstract specification of the chat provider, a history of turns and one
    growing answer, and the simulation: one lemma per kind of event (\<open>sim_send\<close>, \<open>sim_stop\<close>,
    \<open>sim_clear\<close>, \<open>sim_net\<close>, \<open>sim_generate\<close>), where the network's rests on \<open>sse_session\<close>
    interpreted with "the answer only grows".
  \<^item> \<open>Ui\<close>: rendered elements as trees with the events they dispatch, so that views are
    functions and statements about buttons and texts are statements about trees.
  \<^item> \<open>NumberInput\<close>, \<open>JoinCommand\<close>, \<open>ModelSelect\<close>, \<open>NodeList\<close>, \<open>ChatMessages\<close>, \<open>ChatInput\<close>,
    \<open>Markdown\<close> (\<^verbatim>\<open>components/inputs\<close>), \<open>Dialog\<close> and \<open>Notification\<close>
    (\<^verbatim>\<open>components/mui\<close>), \<open>Drawer\<close> (\<^verbatim>\<open>components/common/drawer-layout.tsx\<close>), \<open>Router\<close>
    (\<^verbatim>\<open>router\<close>; the locale \<open>redirection\<close> is a rule of redirections that settles),
    \<open>Pages\<close> (\<^verbatim>\<open>pages\<close>) and \<open>App\<close>: each the state machine of its handlers and effects, its
    view and its style sheets.
  \<^item> \<open>Style\<close> (style sheets with variants, and when all they say is defined), \<open>Tokens\<close>
    (\<^verbatim>\<open>themes/palette.ts\<close>, \<^verbatim>\<open>typography.ts\<close>, \<^verbatim>\<open>shadows.ts\<close>, \<^verbatim>\<open>components/constants.ts\<close>),
    \<open>ButtonTheme\<close>, \<open>FormTheme\<close>, \<open>DataTheme\<close>, \<open>FeedbackTheme\<close> (\<^verbatim>\<open>themes/components\<close>),
    \<open>Snackbar\<close> (\<^verbatim>\<open>feedback/notistack.tsx\<close>), \<open>TitleIcon\<close> (\<^verbatim>\<open>components/mui/title-icon\<close>) and
    \<open>Theme\<close> (\<^verbatim>\<open>themes/index.tsx\<close>, \<^verbatim>\<open>css.tsx\<close>, the index files, the entry points
    \<^verbatim>\<open>main.tsx\<close> and \<^verbatim>\<open>chat.tsx\<close>, \<^verbatim>\<open>components/brand\<close>): the look. A component's styles are a
    function of the theme, and of the theme only what the library documents is assumed
    (\<open>made_from\<close>): that it contains the options it was made from.
  \<^item> \<open>Mesh\<close>: the cluster provider and the chat provider inside it as one state with interleaved
    events. The locale \<open>mesh_parts\<close> gives invariants of the whole from invariants of the parts.
  \<^item> \<open>Wire\<close>: the event stream the repository's inference server sends for an answer
    (\<open>stream_chunks\<close>, after \<^verbatim>\<open>parallax/server/http_server.py\<close>: the role in the first chunk only, \<open>null\<close>
    where there is nothing to say, errors in between), and that the
    chat shows that answer when its bytes arrive in any chunks; from \<open>Sse\<close>'s independence of the
    chunking, \<open>reads_as\<close> (every such chunk is to the page a piece of the assistant's text) and \<open>Chat\<close>'s independence of the deltas.
  \<^item> \<open>Sync\<close>: what the cluster's provider shows as a function of the lines of the status stream
    (\<open>absorb\<close>), whose value is decided by the last message; comparing JSON texts, as the code
    does, is comparing values, because typed values are their own JSON trees.
  \<^item> \<open>Site\<close>: the running application, the scheduler's or a node's (\<^verbatim>\<open>App.tsx\<close>, \<^verbatim>\<open>router\<close> and the
    pages), as one state: \<open>Mesh\<close>, the router with its timer, the pages whose code has arrived, the
    number field and promise chains of the setup page, the layout and selection of the chat page.
    An event reaches a part only while its page is shown; after it the router and the shown page
    render with the new state (\<open>site_render\<close>), mounting and unmounting what the path asks for. The
    locale \<open>site_parts\<close> gives invariants of the application from invariants of \<open>Mesh\<close>.
  \<^item> \<open>Timed\<close>: \<open>Site\<close> with a clock and the deadlines of its two competing timers, the router's and the
    idle dialog's: time passes freely, a timer fires when it is due and no earlier one waits. The
    locale \<open>timed_parts\<close> carries invariants over; \<open>times_ok\<close> relates the two deadlines.
  \<^item> \<open>DevProxy\<close> (\<^verbatim>\<open>vite.config.ts\<close>): the pages of the build and the development proxy.

  Conventions. A \<open>char\<close> is a code unit of the Latin-1 range, a number a rational. What the
  browser and the libraries provide is a parameter: the text decoder \<open>decode\<close>, \<open>JSON.parse\<close>
  (\<open>parse\<close>, where \<open>None\<close> is an exception), the text \<open>shown\<close> of a number that is not an integer,
  image URLs \<open>asset\<close>, the theme, route matching. A handler is atomic and reads the state of the
  last render; timers, replies and chunks are events, in any order. An exception in a state
  updater crashes the page, one in a callback goes where the code catches it. Nothing in the
  models runs on fuel: loops over the network are steps, the others structural or proved
  terminating.

  What the theorems show. Safety and invariants over all reachable states: the conversation
  and the provider do not crash on well formed data, the status shown is the request's, the
  reconnecting client never goes silent, the router settles, the user's choices stay. Functional
  behaviour: parsers, framing, the merge of the node list, regeneration, views. And behaviours
  the code hardly means: a stop that ends in an error, a refusal of the scheduler that is taken as
  its consent, a scroll that is not noticed, a selection that stays armed, events delivered twice, two
  reconnections for one timeout, a cluster whose model is never known, display formulas that
  become inline ones, HTML that is not sanitised, a dialog that \<open>null\<close> keeps open, a zero
  that is shown, a default colour that is never drawn, a dialog whose page is always left before its
  timer ends. Of the composition: every request for a
  completion was made on the chat page and names the model of a cluster that was available then,
  every configuration of the scheduler names a model and at least one node, the application comes
  to rest on a page that fits the cluster, no part of a page lags behind the providers, and a page
  whose server keeps its formats does not crash, whatever the order of events. From end to end: an
  answer is shown as the repository's server wrote it, and of the cluster what the last status message says. Of the refinement: the
  chat does to the conversation what its events are for and nothing else. Of the look: no component style
  of the theme and no \<open>styled\<close> component reads a value the theme does not define.

  Bounds of the models of the look. Sizes are rationals, where the code computes with doubles and
  prints the result; their text is \<open>shown\<close>. A style sheet is a list of rules, where a later rule
  for the same property counts; merging the sheets, choosing variants and naming classes is the
  style library's.

  Not modelled: logging, the contexts' plumbing apart from \<open>App\<close>, the clearing of the timers of the
  copy buttons and of the scrolling when their component unmounts, types and constants nothing refers to (\<^verbatim>\<open>apis\<close>,
  \<^verbatim>\<open>services/http-common.ts\<close>), the rules of the linter, the generated output of the build
  (\<^verbatim>\<open>dist\<close>), and the Python services of the repository except for two of their formats: the stream
  of an answer (\<open>Wire\<close>) and the replies to a configuration (\<open>Api\<close>). Only the two timers of \<open>Timed\<close> have times, all
  others fire at any moment after they are armed; in \<open>Site\<close> the dialogs' forms, the scrolling of the messages and the keys of the input are those of
  their own theories and have no events.
\<close>

end
